(* ===== verification/Prelude.thy ===== *)
theory Prelude
  imports Complex_Main "HOL-Library.List_Lexorder"
begin

text \<open>
  What every component shares: JavaScript strings, the optional fields of a request
  body, SQL tables as lists of rows, and the lemma collections the proofs draw on.

  A JavaScript string is a sequence of UTF-16 code units, here a list of natural
  numbers; \<open>js ''abc''\<close> is the string literal \<open>'abc'\<close>. List order on code units
  is the comparison SQLite makes on TEXT columns for the ASCII timestamps and names the
  program compares.

  A SQL table is the list of its rows in insertion order. \<open>update_where\<close>,
  \<open>delete_where\<close> and \<open>upsert_by\<close> are the effects of \<open>UPDATE ... WHERE\<close>,
  \<open>DELETE ... WHERE\<close> and \<open>INSERT ... ON CONFLICT(key) DO UPDATE\<close>.
\<close>

named_theorems table_simps \<open>how reading a table commutes with writing it\<close>
named_theorems keeps \<open>invariants kept by the operations of a component\<close>

section \<open>Strings\<close>

type_synonym js_string = "nat list"

definition js :: "string \<Rightarrow> js_string" where
  "js s = map of_char s"

lemma js_Nil [simp]: "js [] = []"
  by (simp add: js_def)

lemma js_eq_iff [simp]: "js s = js t \<longleftrightarrow> s = t"
  by (simp add: js_def inj_map_eq_map inj_def)

lemma js_eq_Nil_iff [simp]: "js s = [] \<longleftrightarrow> s = []" "[] = js s \<longleftrightarrow> s = []"
  by (auto simp add: js_def)

lemma length_js [simp]: "length (js s) = length s"
  by (simp add: js_def)

text \<open>White space and line terminators of ECMAScript: what \<open>trim\<close> strips and
  \<open>\s\<close> matches in a regular expression.\<close>

definition js_space :: "nat \<Rightarrow> bool" where
  "js_space c \<longleftrightarrow> c \<in> {9, 10, 11, 12, 13, 32, 160, 5760, 8232, 8233, 8239, 8287, 12288, 65279}
     \<or> 8192 \<le> c \<and> c \<le> 8202"

definition trim :: "js_string \<Rightarrow> js_string" where
  "trim s = rev (dropWhile js_space (rev (dropWhile js_space s)))"

text \<open>\<open>toLowerCase\<close> on the Latin-1 letters; other code units are left as they are.\<close>

definition lower_unit :: "nat \<Rightarrow> nat" where
  "lower_unit c =
     (if 65 \<le> c \<and> c \<le> 90 \<or> 192 \<le> c \<and> c \<le> 222 \<and> c \<noteq> 215 then c + 32 else c)"

definition toLowerCase :: "js_string \<Rightarrow> js_string" where
  "toLowerCase s = map lower_unit s"

text \<open>\<open>toUpperCase\<close> on ASCII text, as the names of HTTP methods are.\<close>

definition upper_unit :: "nat \<Rightarrow> nat" where
  "upper_unit c = (if 97 \<le> c \<and> c \<le> 122 then c - 32 else c)"

definition toUpperCase :: "js_string \<Rightarrow> js_string" where
  "toUpperCase s = map upper_unit s"

definition startsWith :: "js_string \<Rightarrow> js_string \<Rightarrow> bool" where
  "startsWith s p \<longleftrightarrow> take (length p) s = p"

text \<open>\<open>String(n)\<close> for an integer: decimal digits with a leading minus.\<close>

fun digits :: "nat \<Rightarrow> js_string" where
  "digits n = (if n < 10 then [48 + n] else digits (n div 10) @ [48 + n mod 10])"

declare digits.simps [simp del]

definition int_text :: "int \<Rightarrow> js_string" where
  "int_text i = (if i < 0 then 45 # digits (nat (- i)) else digits (nat i))"

text \<open>\<open>Array.prototype.join\<close>.\<close>

fun join :: "js_string \<Rightarrow> js_string list \<Rightarrow> js_string" where
  "join sep [] = []"
| "join sep [x] = x"
| "join sep (x # y # zs) = x @ sep @ join sep (y # zs)"

text \<open>No byte-order mark in front.\<close>

definition no_bom :: "js_string \<Rightarrow> bool" where
  "no_bom s \<longleftrightarrow> s = [] \<or> hd s \<noteq> 65279"

lemma startsWith_append: "startsWith s p \<longleftrightarrow> (\<exists>r. s = p @ r)"
  unfolding startsWith_def by (metis append_eq_conv_conj append_take_drop_id)

lemma trim_Nil [simp]: "trim [] = []"
  by (simp add: trim_def)

lemma lower_unit_idem [simp]: "lower_unit (lower_unit c) = lower_unit c"
  by (auto simp add: lower_unit_def)

lemma toLowerCase_idem [simp]: "toLowerCase (toLowerCase s) = toLowerCase s"
  by (simp add: toLowerCase_def)

lemma digits_nonempty [simp]: "digits n \<noteq> []"
  by (subst digits.simps) simp

lemma digits_range: "\<forall>c \<in> set (digits n). 48 \<le> c \<and> c \<le> 57"
proof (induction n rule: digits.induct)
  case (1 n)
  show ?case
  proof (cases "n < 10")
    case True
    then show ?thesis by (subst digits.simps) simp
  next
    case False
    then have "n mod 10 < 10" by simp
    with False "1.IH" show ?thesis by (subst digits.simps) auto
  qed
qed

section \<open>Optional fields\<close>

text \<open>
  \<open>field?: T | null\<close> of a request body is absent (\<open>undefined\<close>), null or a value; SQL
  columns and \<open>T | null\<close> fields are \<open>option\<close>. \<open>or_null\<close> is \<open>x ?? null\<close>,
  \<open>coalesce\<close> is \<open>COALESCE\<close> and also \<open>??\<close> between nullable values.
\<close>

datatype 'a field = Absent | Null | Given 'a

fun or_null :: "'a field \<Rightarrow> 'a option" where
  "or_null Absent = None"
| "or_null Null = None"
| "or_null (Given x) = Some x"

fun coalesce :: "'a option \<Rightarrow> 'a option \<Rightarrow> 'a option" where
  "coalesce None y = y"
| "coalesce (Some x) y = Some x"

fun default_to :: "'a option \<Rightarrow> 'a \<Rightarrow> 'a" where
  "default_to None d = d"
| "default_to (Some x) d = x"

text \<open>A string is truthy when it is present and not empty.\<close>

fun truthy :: "js_string option \<Rightarrow> bool" where
  "truthy None = False"
| "truthy (Some s) = (s \<noteq> [])"

text \<open>A field that should hold an array: missing, some other value, or an array.\<close>

datatype 'a array_field = Missing | Not_array | Items "'a list"

lemma coalesce_None_right [simp]: "coalesce x None = x"
  by (cases x) simp_all

lemma coalesce_eq_None_iff [simp]: "coalesce x y = None \<longleftrightarrow> x = None \<and> y = None"
  by (cases x) simp_all

lemma truthy_iff: "truthy x \<longleftrightarrow> (\<exists>s. x = Some s \<and> s \<noteq> [])"
  by (cases x) simp_all

section \<open>Tables\<close>

definition update_where :: "('r \<Rightarrow> bool) \<Rightarrow> ('r \<Rightarrow> 'r) \<Rightarrow> 'r list \<Rightarrow> 'r list" where
  "update_where p f t = map (\<lambda>r. if p r then f r else r) t"

definition delete_where :: "('r \<Rightarrow> bool) \<Rightarrow> 'r list \<Rightarrow> 'r list" where
  "delete_where p t = filter (\<lambda>r. \<not> p r) t"

definition upsert_by :: "('r \<Rightarrow> 'k) \<Rightarrow> ('r \<Rightarrow> 'r) \<Rightarrow> 'r \<Rightarrow> 'r list \<Rightarrow> 'r list" where
  "upsert_by key f r t =
     (if key r \<in> set (map key t) then update_where (\<lambda>x. key x = key r) f t else t @ [r])"

definition lookup_by :: "('r \<Rightarrow> 'k) \<Rightarrow> 'k \<Rightarrow> 'r list \<Rightarrow> 'r option" where
  "lookup_by key k t = find (\<lambda>r. key r = k) t"

definition unique_by :: "('r \<Rightarrow> 'k) \<Rightarrow> 'r list \<Rightarrow> bool" where
  "unique_by key t \<longleftrightarrow> distinct (map key t)"

lemma length_update_where [table_simps]: "length (update_where p f t) = length t"
  by (simp add: update_where_def)

lemma map_update_where [table_simps]:
  "(\<And>r. p r \<Longrightarrow> g (f r) = g r) \<Longrightarrow> map g (update_where p f t) = map g t"
  by (simp add: update_where_def)

lemma lookup_by_Some:
  "lookup_by key k t = Some r \<Longrightarrow> r \<in> set t \<and> key r = k"
  by (auto simp add: lookup_by_def find_Some_iff)

lemma lookup_by_None: "lookup_by key k t = None \<longleftrightarrow> k \<notin> key ` set t"
  by (auto simp add: lookup_by_def find_None_iff)

lemma lookup_by_unique:
  "unique_by key t \<Longrightarrow> r \<in> set t \<Longrightarrow> lookup_by key (key r) t = Some r"
  by (induction t) (auto simp add: lookup_by_def unique_by_def)

lemma lookup_by_update [table_simps]:
  "(\<And>r. p r \<Longrightarrow> key (f r) = key r) \<Longrightarrow>
   lookup_by key k (update_where p f t) =
     map_option (\<lambda>r. if p r then f r else r) (lookup_by key k t)"
  by (induction t) (auto simp add: lookup_by_def update_where_def)

lemma lookup_by_delete_same [table_simps]:
  "lookup_by key k (delete_where (\<lambda>r. key r = k) t) = None"
  by (auto simp add: lookup_by_None delete_where_def)

lemma lookup_by_delete_other [table_simps]:
  "k \<noteq> k' \<Longrightarrow> lookup_by key k (delete_where (\<lambda>r. key r = k') t) = lookup_by key k t"
  by (induction t) (auto simp add: lookup_by_def delete_where_def)

lemma lookup_by_append [table_simps]:
  "lookup_by key k (t @ u) =
     (case lookup_by key k t of None \<Rightarrow> lookup_by key k u | Some r \<Rightarrow> Some r)"
  by (induction t) (auto simp add: lookup_by_def)

lemma lookup_by_single [table_simps]:
  "lookup_by key k [r] = (if key r = k then Some r else None)"
  by (simp add: lookup_by_def)

lemma lookup_by_update_key:
  assumes "\<And>x. key x = k' \<Longrightarrow> key (f x) = k'"
  shows "lookup_by key k (update_where (\<lambda>x. key x = k') f t) =
    map_option (\<lambda>x. if key x = k' then f x else x) (lookup_by key k t)"
proof (rule lookup_by_update)
  fix x
  assume "key x = k'"
  with assms [of x] show "key (f x) = key x" by simp
qed

lemma lookup_by_update_other:
  assumes "\<And>x. key x = k' \<Longrightarrow> key (f x) = k'" and "k \<noteq> k'"
  shows "lookup_by key k (update_where (\<lambda>x. key x = k') f t) = lookup_by key k t"
  using assms(2)
  by (cases "lookup_by key k t")
    (auto simp add: lookup_by_update_key [where key = key and k' = k' and f = f, OF assms(1)] dest: lookup_by_Some)

lemma lookup_by_update_same:
  assumes "\<And>x. key x = k \<Longrightarrow> key (f x) = k"
  shows "lookup_by key k (update_where (\<lambda>x. key x = k) f t) =
    map_option f (lookup_by key k t)"
  by (cases "lookup_by key k t")
    (auto simp add: lookup_by_update_key [where key = key and k' = k and f = f, OF assms] dest: lookup_by_Some)

lemma lookup_by_upsert_same:
  assumes "\<And>x. key x = key r \<Longrightarrow> key (f x) = key r"
  shows "lookup_by key (key r) (upsert_by key f r t) =
    (case lookup_by key (key r) t of None \<Rightarrow> Some r | Some x \<Rightarrow> Some (f x))"
proof (cases "key r \<in> set (map key t)")
  case True
  then have "lookup_by key (key r) t \<noteq> None" by (simp add: lookup_by_None)
  with True show ?thesis
    by (auto simp add: upsert_by_def lookup_by_update_same [where key = key and f = f and k = "key r", OF assms])
next
  case False
  then have "lookup_by key (key r) t = None" by (simp add: lookup_by_None)
  with False show ?thesis by (simp add: upsert_by_def table_simps)
qed

lemma lookup_by_upsert_other:
  assumes "k \<noteq> key r" and "\<And>x. key x = key r \<Longrightarrow> key (f x) = key r"
  shows "lookup_by key k (upsert_by key f r t) = lookup_by key k t"
  using assms(1)
  by (cases "lookup_by key k t")
    (simp_all add: upsert_by_def table_simps lookup_by_update_other [where key = key and f = f and k' = "key r", OF assms(2)])

lemma unique_by_Nil [simp]: "unique_by key []"
  by (simp add: unique_by_def)

lemma unique_by_update [keeps]:
  "(\<And>r. p r \<Longrightarrow> key (f r) = key r) \<Longrightarrow> unique_by key t \<Longrightarrow>
   unique_by key (update_where p f t)"
  by (simp add: unique_by_def table_simps)

lemma unique_by_delete [keeps]: "unique_by key t \<Longrightarrow> unique_by key (delete_where p t)"
  by (simp add: unique_by_def delete_where_def distinct_map_filter)

lemma unique_by_snoc:
  "unique_by key (t @ [r]) \<longleftrightarrow> unique_by key t \<and> key r \<notin> key ` set t"
  by (auto simp add: unique_by_def)

lemma unique_by_update_key:
  assumes "\<And>x. key x = k \<Longrightarrow> key (f x) = k"
  shows "unique_by key t \<Longrightarrow> unique_by key (update_where (\<lambda>x. key x = k) f t)"
proof (rule unique_by_update)
  fix x
  assume "key x = k"
  with assms [of x] show "key (f x) = key x" by simp
qed

lemma unique_by_upsert [keeps]:
  assumes "\<And>x. key x = key r \<Longrightarrow> key (f x) = key r" and "unique_by key t"
  shows "unique_by key (upsert_by key f r t)"
proof (cases "key r \<in> set (map key t)")
  case True
  then show ?thesis
    unfolding upsert_by_def using unique_by_update_key [OF assms] by (simp only: if_True)
next
  case False
  with assms(2) show ?thesis by (simp add: upsert_by_def unique_by_snoc)
qed

lemma set_delete_where [simp]: "set (delete_where p t) = {r \<in> set t. \<not> p r}"
  by (auto simp add: delete_where_def)

lemma set_update_where [simp]:
  "set (update_where p f t) = (\<lambda>r. if p r then f r else r) ` set t"
  by (simp add: update_where_def)

end
