(* ===== verification/Errors.thy ===== *)
theory Errors
  imports Prelude
begin

text \<open>
  The error envelope of the Worker (\<open>worker/src/lib/errors.ts\<close>) and the global handler
  that turns whatever a request throws into a response (\<open>worker/src/index.ts\<close>).

  \<open>exn\<close> is what a handler can throw: an \<open>ApiError\<close>, the \<open>SyntaxError\<close> of a body that
  is no JSON, or any other error (a D1 constraint violation, a \<open>TypeError\<close>) with its
  message.
\<close>

datatype error_code =
    Unauthorized | Forbidden | Csrf_code | Rate_limited | Budget_exhausted | Not_found
  | Validation | Graph_error | Token_error | Conflict | Internal

definition code_text :: "error_code \<Rightarrow> js_string" where
  "code_text c = js (case c of
       Unauthorized \<Rightarrow> ''unauthorized''
     | Forbidden \<Rightarrow> ''forbidden''
     | Csrf_code \<Rightarrow> ''csrf''
     | Rate_limited \<Rightarrow> ''rate_limited''
     | Budget_exhausted \<Rightarrow> ''budget_exhausted''
     | Not_found \<Rightarrow> ''not_found''
     | Validation \<Rightarrow> ''validation''
     | Graph_error \<Rightarrow> ''graph_error''
     | Token_error \<Rightarrow> ''token_error''
     | Conflict \<Rightarrow> ''conflict''
     | Internal \<Rightarrow> ''internal'')"

fun status_by_code :: "error_code \<Rightarrow> nat" where
  "status_by_code Unauthorized = 401"
| "status_by_code Forbidden = 403"
| "status_by_code Csrf_code = 403"
| "status_by_code Rate_limited = 429"
| "status_by_code Budget_exhausted = 429"
| "status_by_code Not_found = 404"
| "status_by_code Validation = 400"
| "status_by_code Graph_error = 502"
| "status_by_code Token_error = 502"
| "status_by_code Conflict = 409"
| "status_by_code Internal = 500"

record api_error =
  ae_code :: error_code
  ae_message :: js_string
  ae_detail :: "js_string option"

record envelope =
  env_code :: error_code
  env_message :: js_string
  env_detail :: "js_string option"

text \<open>\<open>...(this.detail ? { detail } : {})\<close>: an empty detail is left out.\<close>

definition to_envelope :: "api_error \<Rightarrow> envelope" where
  "to_envelope e =
     \<lparr>env_code = ae_code e, env_message = ae_message e,
      env_detail = (if truthy (ae_detail e) then ae_detail e else None)\<rparr>"

datatype exn = Api_error api_error | Syntax_error | Other_error js_string

definition throw_api :: "error_code \<Rightarrow> string \<Rightarrow> js_string option \<Rightarrow> exn" where
  "throw_api c m d = Api_error \<lparr>ae_code = c, ae_message = js m, ae_detail = d\<rparr>"

definition throw_text :: "error_code \<Rightarrow> js_string \<Rightarrow> exn" where
  "throw_text c m = Api_error \<lparr>ae_code = c, ae_message = m, ae_detail = None\<rparr>"

abbreviation err :: "error_code \<Rightarrow> string \<Rightarrow> exn" where
  "err c m \<equiv> throw_api c m None"

text \<open>\<open>e.message\<close> of a caught error.\<close>

fun exn_message :: "exn \<Rightarrow> js_string" where
  "exn_message (Api_error e) = ae_message e"
| "exn_message Syntax_error = js ''SyntaxError''"
| "exn_message (Other_error m) = m"

text \<open>\<open>app.onError\<close>: the response of a thrown error, its HTTP status and envelope.\<close>

fun on_error :: "exn \<Rightarrow> nat \<times> envelope" where
  "on_error (Api_error e) = (status_by_code (ae_code e), to_envelope e)"
| "on_error Syntax_error =
     (400, \<lparr>env_code = Validation, env_message = js ''Malformed request body'', env_detail = None\<rparr>)"
| "on_error (Other_error m) =
     (500, \<lparr>env_code = Internal, env_message = js ''Internal server error'', env_detail = None\<rparr>)"

definition statuses :: "nat list" where
  "statuses = [400, 401, 403, 404, 409, 429, 500, 502]"

lemma status_by_code_range: "status_by_code c \<in> set statuses"
  by (cases c) (simp_all add: statuses_def)

lemma code_text_inj: "code_text c = code_text d \<longleftrightarrow> c = d"
  by (cases c; cases d) (simp_all add: code_text_def)

text \<open>
  Every thrown error becomes a response whose status is one of the eight the
  contract knows, whose status agrees with the envelope's code, and an error that is no
  \<open>ApiError\<close> never shows its own message: the response of an unexpected error is the
  same whatever its message was.
\<close>

theorem on_error_total_and_opaque:
  "fst (on_error x) \<in> set statuses
   \<and> fst (on_error x) = status_by_code (env_code (snd (on_error x)))
   \<and> on_error (Other_error m) = on_error (Other_error m')"
proof (cases x)
  case (Api_error e)
  then show ?thesis by (simp add: status_by_code_range to_envelope_def)
qed (simp_all add: statuses_def)

end
