(* ===== verification/JsValue.thy ===== *)
theory JsValue
  imports Prelude
begin

text \<open>
  Dynamic JavaScript values and the conversions the Worker applies to them: a parsed
  JSON body is a \<open>js_value\<close>, \<open>to_number\<close> is \<open>Number(x)\<close> and \<open>parse_number\<close> its
  string case (StringNumericLiteral of ECMAScript, section 7.1.4.1). Numbers are exact
  rationals with NaN and the infinities; rounding to a double and the sign of zero are
  not modelled, so a comparison here is the comparison of the literals as written.
\<close>

datatype number = NaN | Infinity | Neg_Infinity | Fin rat

datatype js_value =
    Undefined
  | JNull
  | JBool bool
  | JNum number
  | JStr js_string
  | JArr "js_value list"
  | JObj "(js_string \<times> js_value) list"

definition isFinite :: "number \<Rightarrow> bool" where
  "isFinite n = (case n of Fin q \<Rightarrow> True | _ \<Rightarrow> False)"

text \<open>\<open>key in body\<close> and \<open>body[key]\<close> on an object.\<close>

fun has_key :: "js_value \<Rightarrow> js_string \<Rightarrow> bool" where
  "has_key (JObj ps) k = (k \<in> set (map fst ps))"
| "has_key v k = False"

fun get_key :: "js_value \<Rightarrow> js_string \<Rightarrow> js_value" where
  "get_key (JObj ps) k = (case map_of ps k of None \<Rightarrow> Undefined | Some v \<Rightarrow> v)"
| "get_key v k = Undefined"

section \<open>Number of a string\<close>

definition digit_value :: "nat \<Rightarrow> nat \<Rightarrow> nat option" where
  "digit_value base c =
     (let d = (if 48 \<le> c \<and> c \<le> 57 then c - 48
               else if 97 \<le> c \<and> c \<le> 102 then c - 87
               else if 65 \<le> c \<and> c \<le> 70 then c - 55
               else 99)
      in if d < base then Some d else None)"

text \<open>The longest prefix of digits: its value, its length and the rest.\<close>

fun take_digits :: "nat \<Rightarrow> nat \<Rightarrow> nat \<Rightarrow> js_string \<Rightarrow> nat \<times> nat \<times> js_string" where
  "take_digits base v n [] = (v, n, [])"
| "take_digits base v n (c # cs) =
     (case digit_value base c of
        None \<Rightarrow> (v, n, c # cs)
      | Some d \<Rightarrow> take_digits base (v * base + d) (Suc n) cs)"

definition scale10 :: "int \<Rightarrow> rat" where
  "scale10 e = (if 0 \<le> e then 10 ^ nat e else 1 / 10 ^ nat (- e))"

definition exponent :: "js_string \<Rightarrow> int option" where
  "exponent s =
     (case s of
        [] \<Rightarrow> Some 0
      | c # cs \<Rightarrow>
          if c \<noteq> 101 \<and> c \<noteq> 69 then None
          else
            (let (neg, ds) = (case cs of
                  x # r \<Rightarrow> if x = 45 then (True, r) else if x = 43 then (False, r) else (False, cs)
                | [] \<Rightarrow> (False, []));
                 (v, n, rest) = take_digits 10 0 0 ds
             in if n = 0 \<or> rest \<noteq> [] then None else Some (if neg then - int v else int v)))"

definition unsigned_decimal :: "js_string \<Rightarrow> number" where
  "unsigned_decimal s =
     (if s = js ''Infinity'' then Infinity
      else
        (let (i, ni, r) = take_digits 10 0 0 s;
             (f, nf, r') = (case r of
                 c # cs \<Rightarrow> if c = 46 then take_digits 10 0 0 cs else (0, 0, r)
               | [] \<Rightarrow> (0, 0, []))
         in if ni + nf = 0 then NaN
            else (case exponent r' of
                    None \<Rightarrow> NaN
                  | Some e \<Rightarrow> Fin ((of_nat i + of_nat f / 10 ^ nf) * scale10 e))))"

fun negate :: "number \<Rightarrow> number" where
  "negate NaN = NaN"
| "negate Infinity = Neg_Infinity"
| "negate Neg_Infinity = Infinity"
| "negate (Fin q) = Fin (- q)"

definition whole_digits :: "nat \<Rightarrow> js_string \<Rightarrow> number" where
  "whole_digits base s =
     (let (v, n, rest) = take_digits base 0 0 s
      in if n = 0 \<or> rest \<noteq> [] then NaN else Fin (of_nat v))"

definition parse_number :: "js_string \<Rightarrow> number" where
  "parse_number text =
     (let s = trim text in
      case s of
        [] \<Rightarrow> Fin 0
      | c # cs \<Rightarrow>
          if c = 45 then negate (unsigned_decimal cs)
          else if c = 43 then unsigned_decimal cs
          else
            (case cs of
               x # r \<Rightarrow>
                 if c = 48 \<and> (x = 120 \<or> x = 88) then whole_digits 16 r
                 else if c = 48 \<and> (x = 111 \<or> x = 79) then whole_digits 8 r
                 else if c = 48 \<and> (x = 98 \<or> x = 66) then whole_digits 2 r
                 else unsigned_decimal s
             | [] \<Rightarrow> unsigned_decimal s))"

text \<open>
  \<open>Number(x)\<close>. An array is first joined to text: the empty array is \<open>''\<close>, a singleton
  is its element's text, and more elements give text with a comma, which no number has.
\<close>

fun to_number :: "js_value \<Rightarrow> number" where
  "to_number Undefined = NaN"
| "to_number JNull = Fin 0"
| "to_number (JBool b) = Fin (if b then 1 else 0)"
| "to_number (JNum n) = n"
| "to_number (JStr s) = parse_number s"
| "to_number (JArr []) = Fin 0"
| "to_number (JArr [x]) =
     (case x of
        Undefined \<Rightarrow> Fin 0
      | JBool b \<Rightarrow> NaN
      | JObj ps \<Rightarrow> NaN
      | _ \<Rightarrow> to_number x)"
| "to_number (JArr (x # y # zs)) = NaN"
| "to_number (JObj ps) = NaN"

lemmas number_eval =
  parse_number_def unsigned_decimal_def exponent_def whole_digits_def scale10_def
  digit_value_def trim_def js_space_def js_def Let_def

lemma parse_number_examples:
  "parse_number (js ''28800'') = Fin 28800" "parse_number (js '' 30 '') = Fin 30"
  "parse_number (js ''0.85'') = Fin (85 / 100)" "parse_number (js '''') = Fin 0"
  "parse_number (js ''1e3'') = Fin 1000" "parse_number (js ''30s'') = NaN"
  by (simp_all add: number_eval)

end
