(* ===== verification/Contracts.thy ===== *)
theory Contracts
  imports JsValue "HOL-Library.Product_Lexorder"
begin

text \<open>
  The wire contract (\<open>shared/contracts.ts\<close>): its enums as datatypes, its interfaces as
  records. Instants are milliseconds since the epoch: a stored ISO text denotes the
  instant it names. A job's status column is free text (the schema has no CHECK on it),
  so \<open>job_status\<close> has one more constructor for a text the contract does not list.
\<close>

type_synonym instant = int

section \<open>Enums\<close>

datatype tenant_role = Source | Destination

datatype workload = Exchange | Onedrive

definition WORKLOADS :: "workload list" where
  "WORKLOADS = [Exchange, Onedrive]"

datatype job_status =
    Queued | Provisioning | Running | Backing_off | Delta_pending | Delta_running
  | Completed | Cancelled | Paused
  | Auth_expired | Permission_revoked | Quota_exceeded | Failed
  | Other_status js_string

definition TERMINAL_STATUSES :: "job_status list" where
  "TERMINAL_STATUSES =
     [Completed, Cancelled, Auth_expired, Permission_revoked, Quota_exceeded, Failed]"

datatype item_status = Item_skipped | Item_failed

datatype mapping_status = Unmapped | Mapped | Auto_create | Provisioned | Invalid

datatype pass_kind = Full | Delta

datatype audit_action =
    Sign_in | Sign_out | Tenant_connect | Tenant_disconnect | Tenant_test | Secret_rotate
  | User_select | Csv_import | Mapping_change | Provision | Password_csv_download
  | Job_start | Job_cancel | Job_retry | Config_change | Audit_export

section \<open>The texts of the enums\<close>

fun role_text :: "tenant_role \<Rightarrow> js_string" where
  "role_text Source = js ''source''"
| "role_text Destination = js ''destination''"

fun workload_text :: "workload \<Rightarrow> js_string" where
  "workload_text Exchange = js ''exchange''"
| "workload_text Onedrive = js ''onedrive''"

fun status_text :: "job_status \<Rightarrow> js_string" where
  "status_text Queued = js ''queued''"
| "status_text Provisioning = js ''provisioning''"
| "status_text Running = js ''running''"
| "status_text Backing_off = js ''backing_off''"
| "status_text Delta_pending = js ''delta_pending''"
| "status_text Delta_running = js ''delta_running''"
| "status_text Completed = js ''completed''"
| "status_text Cancelled = js ''cancelled''"
| "status_text Paused = js ''paused''"
| "status_text Auth_expired = js ''auth_expired''"
| "status_text Permission_revoked = js ''permission_revoked''"
| "status_text Quota_exceeded = js ''quota_exceeded''"
| "status_text Failed = js ''failed''"
| "status_text (Other_status t) = t"

definition listed_statuses :: "job_status list" where
  "listed_statuses =
     [Queued, Provisioning, Running, Backing_off, Delta_pending, Delta_running, Completed,
      Cancelled, Paused, Auth_expired, Permission_revoked, Quota_exceeded, Failed]"

definition status_of_text :: "js_string \<Rightarrow> job_status" where
  "status_of_text t =
     (case find (\<lambda>s. status_text s = t) listed_statuses of
        Some s \<Rightarrow> s
      | None \<Rightarrow> Other_status t)"

fun mapping_text :: "mapping_status \<Rightarrow> js_string" where
  "mapping_text Unmapped = js ''unmapped''"
| "mapping_text Mapped = js ''mapped''"
| "mapping_text Auto_create = js ''auto_create''"
| "mapping_text Provisioned = js ''provisioned''"
| "mapping_text Invalid = js ''invalid''"

fun action_text :: "audit_action \<Rightarrow> js_string" where
  "action_text Sign_in = js ''sign_in''"
| "action_text Sign_out = js ''sign_out''"
| "action_text Tenant_connect = js ''tenant_connect''"
| "action_text Tenant_disconnect = js ''tenant_disconnect''"
| "action_text Tenant_test = js ''tenant_test''"
| "action_text Secret_rotate = js ''secret_rotate''"
| "action_text User_select = js ''user_select''"
| "action_text Csv_import = js ''csv_import''"
| "action_text Mapping_change = js ''mapping_change''"
| "action_text Provision = js ''provision''"
| "action_text Password_csv_download = js ''password_csv_download''"
| "action_text Job_start = js ''job_start''"
| "action_text Job_cancel = js ''job_cancel''"
| "action_text Job_retry = js ''job_retry''"
| "action_text Config_change = js ''config_change''"
| "action_text Audit_export = js ''audit_export''"

lemma status_of_text_text:
  "s \<in> set listed_statuses \<Longrightarrow> status_of_text (status_text s) = s"
  by (cases s) (simp_all add: listed_statuses_def status_of_text_def)

lemma status_text_of_text [simp]: "status_text (status_of_text t) = t"
  by (auto simp add: status_of_text_def find_Some_iff split: option.splits)

text \<open>Text order, as \<open>ORDER BY role\<close> and \<open>ORDER BY workload\<close> sort.\<close>

instantiation tenant_role :: linorder
begin

definition less_eq_tenant_role :: "tenant_role \<Rightarrow> tenant_role \<Rightarrow> bool" where
  "a \<le> b \<longleftrightarrow> role_text a \<le> role_text b"

definition less_tenant_role :: "tenant_role \<Rightarrow> tenant_role \<Rightarrow> bool" where
  "a < b \<longleftrightarrow> role_text a < role_text b"

instance
proof
  fix a b :: tenant_role
  show "a < b \<longleftrightarrow> a \<le> b \<and> \<not> b \<le> a"
    by (auto simp add: less_eq_tenant_role_def less_tenant_role_def)
  assume "a \<le> b" and "b \<le> a"
  then show "a = b"
    by (cases a; cases b) (auto simp add: less_eq_tenant_role_def)
qed (auto simp add: less_eq_tenant_role_def less_tenant_role_def)

end

instantiation workload :: linorder
begin

definition less_eq_workload :: "workload \<Rightarrow> workload \<Rightarrow> bool" where
  "a \<le> b \<longleftrightarrow> workload_text a \<le> workload_text b"

definition less_workload :: "workload \<Rightarrow> workload \<Rightarrow> bool" where
  "a < b \<longleftrightarrow> workload_text a < workload_text b"

instance
proof
  fix a b :: workload
  show "a < b \<longleftrightarrow> a \<le> b \<and> \<not> b \<le> a"
    by (auto simp add: less_eq_workload_def less_workload_def)
  assume "a \<le> b" and "b \<le> a"
  then show "a = b"
    by (cases a; cases b) (auto simp add: less_eq_workload_def)
qed (auto simp add: less_eq_workload_def less_workload_def)

end

section \<open>Core records\<close>

record migration_user =
  mu_id :: js_string
  source_email :: js_string
  target_email :: "js_string option"
  target_upn :: "js_string option"
  migrate_exchange :: bool
  migrate_onedrive :: bool
  auto_create_target :: bool
  include_archive :: bool
  mapping_status :: mapping_status
  mu_created_at :: instant

record job =
  job_id :: js_string
  job_user :: js_string
  job_source_email :: js_string
  job_target_upn :: js_string
  job_workload :: workload
  job_status :: job_status
  job_phase_text :: "js_string option"
  job_progress_current :: int
  job_progress_total :: "int option"
  job_bytes_done :: int
  job_bytes_total :: "int option"
  job_delta_token :: "js_string option"
  job_checkpoint :: "js_value option"
  job_attempts :: int
  job_error_class :: "js_string option"
  job_error_detail :: "js_string option"
  job_created_at :: instant
  job_updated_at :: instant
  job_started_at :: "instant option"
  job_completed_at :: "instant option"

record job_item =
  item_row_id :: js_string
  item_job :: js_string
  item_id :: js_string
  item_folder :: "js_string option"
  item_status :: item_status
  item_error_class :: js_string
  item_error_detail :: js_string
  item_created_at :: instant

record dispatch_message =
  msg_job :: js_string
  msg_user :: js_string
  msg_workload :: workload
  msg_source_email :: js_string
  msg_target_upn :: js_string
  msg_include_archive :: bool
  msg_pass :: pass_kind
  msg_seq :: int

section \<open>Bodies of the VM plane\<close>

record vm_token_request =
  tr_role :: "js_string option"
  tr_scope :: "js_string option"

record vm_token_response =
  ts_access_token :: js_string
  ts_expires_at :: instant
  ts_tenant :: js_string

record progress_update =
  pu_status :: "js_string option"
  pu_phase_text :: "js_string field"
  pu_progress_current :: "int field"
  pu_progress_total :: "int field"
  pu_bytes_done :: "int field"
  pu_bytes_total :: "int field"
  pu_delta_token :: "js_string field"

record checkpoint_update =
  cu_checkpoint :: js_value
  cu_progress_current :: "int field"
  cu_bytes_done :: "int field"

record status_update =
  su_status :: "js_string option"
  su_error_class :: "js_string field"
  su_error_detail :: "js_string field"

record item_log =
  il_item :: js_string
  il_folder :: "js_string field"
  il_status :: item_status
  il_error_class :: js_string
  il_error_detail :: js_string

section \<open>Configuration, summaries and the audit entry\<close>

record engine_config =
  min_poll_interval_sec :: rat
  per_mailbox_concurrency :: rat
  per_tenant_concurrency :: rat
  exchange_export_batch_size :: rat
  onedrive_upload_session_threshold_bytes :: rat
  item_max_retries :: rat
  paused :: bool

record free_tier_budget =
  fb_day :: js_string
  fb_workers :: "int \<times> rat"
  fb_d1_writes :: "int \<times> rat"
  fb_queue_ops :: "int \<times> rat"
  fb_degraded :: bool

record workload_report =
  wr_workload :: workload
  wr_status :: job_status
  wr_succeeded :: int
  wr_skipped :: int
  wr_failed :: int
  wr_bytes :: int
  wr_duration_sec :: "int option"
  wr_delta_passes :: int

record per_user_report =
  pr_user :: js_string
  pr_source_email :: js_string
  pr_target_upn :: js_string
  pr_workloads :: "workload_report list"

record audit_entry =
  au_id :: js_string
  au_actor :: js_string
  au_action :: js_string
  au_target :: "js_string option"
  au_detail :: "js_string option"
  au_created_at :: js_string

end
