(* ===== verification/Csv.thy ===== *)
theory Csv
  imports Prelude
begin

text \<open>
  CSV parsing, serialising and the bulk-import validator (\<open>worker/src/lib/csv.ts\<close>).
  \<open>parse_loop\<close> is the character loop of \<open>parseCsv\<close> with its four local variables as
  arguments; \<open>check_row\<close> is the body of the validator's row loop, one branch per
  \<open>rejected.push\<close>. Lengths, prefixes and white space are those of code units.
\<close>

section \<open>Parser\<close>

text \<open>\<open>if (c === '\r' && text[i + 1] === '\n') i++\<close>\<close>

fun skip_lf :: "nat \<Rightarrow> js_string \<Rightarrow> js_string" where
  "skip_lf c [] = []"
| "skip_lf c (d # ds) = (if c = 13 \<and> d = 10 then ds else d # ds)"

lemma length_skip_lf [termination_simp]: "length (skip_lf c cs) < Suc (length cs)"
  by (cases cs) auto

function parse_loop ::
    "bool \<Rightarrow> js_string \<Rightarrow> js_string list \<Rightarrow> js_string list list \<Rightarrow> js_string \<Rightarrow> js_string list list"
where
  "parse_loop inQuotes field row rows [] =
     (if field \<noteq> [] \<or> row \<noteq> [] then rows @ [row @ [field]] else rows)"
| "parse_loop True field row rows (c # cs) =
     (if c = 34 then
        (case cs of
           [] \<Rightarrow> parse_loop False field row rows cs
         | d # ds \<Rightarrow>
             if d = 34 then parse_loop True (field @ [34]) row rows ds
             else parse_loop False field row rows cs)
      else parse_loop True (field @ [c]) row rows cs)"
| "parse_loop False field row rows (c # cs) =
     (if c = 34 then parse_loop True field row rows cs
      else if c = 44 then parse_loop False [] (row @ [field]) rows cs
      else if c = 10 \<or> c = 13 then
        parse_loop False [] [] (rows @ [row @ [field]]) (skip_lf c cs)
      else parse_loop False (field @ [c]) row rows cs)"
  by pat_completeness auto
termination
  by (relation "measure (\<lambda>(q, f, r, rs, t). length t)") (auto simp add: length_skip_lf)

definition parseCsv :: "js_string \<Rightarrow> js_string list list" where
  "parseCsv text =
     parse_loop False [] [] []
       (case text of [] \<Rightarrow> [] | c # cs \<Rightarrow> if c = 65279 then cs else text)"

section \<open>Serialiser\<close>

datatype cell = CStr js_string | CInt int | CBool bool | CNull | CUndefined

fun cell_text :: "cell \<Rightarrow> js_string" where
  "cell_text (CStr s) = s"
| "cell_text (CInt i) = int_text i"
| "cell_text (CBool b) = (if b then js ''true'' else js ''false'')"
| "cell_text CNull = []"
| "cell_text CUndefined = []"

definition special :: "nat \<Rightarrow> bool" where
  "special c \<longleftrightarrow> c = 34 \<or> c = 44 \<or> c = 13 \<or> c = 10"

definition double_quotes :: "js_string \<Rightarrow> js_string" where
  "double_quotes s = concat (map (\<lambda>c. if c = 34 then [34, 34] else [c]) s)"

definition esc :: "js_string \<Rightarrow> js_string" where
  "esc s = (if list_ex special s then 34 # double_quotes s @ [34] else s)"

definition serializeCsv :: "js_string list \<Rightarrow> cell list list \<Rightarrow> js_string" where
  "serializeCsv headers rows =
     join [13, 10]
       (join [44] (map esc headers) # map (\<lambda>r. join [44] (map (esc \<circ> cell_text) r)) rows)
     @ [13, 10]"

section \<open>Import validator\<close>

record csv_import_row =
  ci_source :: js_string
  ci_target :: "js_string option"
  ci_exchange :: bool
  ci_onedrive :: bool
  ci_auto_create :: bool

definition EXPECTED_HEADERS :: "js_string list" where
  "EXPECTED_HEADERS =
     [js ''SourceEmail'', js ''TargetEmail'', js ''MigrateExchange'', js ''MigrateOneDrive'',
      js ''AutoCreateTarget'']"

text \<open>\<open>[^\s@]\<close> and \<open>/^[^\s@]+@[^\s@]+\.[^\s@]+$/\<close>.\<close>

definition email_unit :: "nat \<Rightarrow> bool" where
  "email_unit c \<longleftrightarrow> \<not> js_space c \<and> c \<noteq> 64"

definition email_re :: "js_string \<Rightarrow> bool" where
  "email_re s =
     (case dropWhile email_unit s of
        [] \<Rightarrow> False
      | c # host \<Rightarrow>
          c = 64 \<and> takeWhile email_unit s \<noteq> [] \<and> list_all email_unit host
          \<and> 46 \<in> set (butlast (tl host)))"

definition parseBool :: "js_string \<Rightarrow> bool option" where
  "parseBool raw =
     (let v = toLowerCase (trim raw)
      in if v \<in> set [js ''true'', js ''1'', js ''yes'', js ''y''] then Some True
         else if v \<in> set [js ''false'', js ''0'', js ''no'', js ''n'', js ''''] then Some False
         else None)"

definition check_row :: "js_string list \<Rightarrow> js_string list \<Rightarrow> js_string + csv_import_row" where
  "check_row seen cols =
     (if length cols < 5 then
        Inl (js ''Expected 5 columns, got '' @ int_text (int (length cols)))
      else
        (let sourceEmail = trim (cols ! 0);
             targetEmailRaw = trim (cols ! 1);
             migrateExchange = parseBool (cols ! 2);
             migrateOneDrive = parseBool (cols ! 3);
             autoCreateTarget = parseBool (cols ! 4)
         in if sourceEmail = [] then Inl (js ''SourceEmail is required'')
            else if \<not> email_re sourceEmail then Inl (js ''Malformed SourceEmail: '' @ sourceEmail)
            else
              (case (migrateExchange, migrateOneDrive, autoCreateTarget) of
                 (Some ex, Some od, Some ac) \<Rightarrow>
                   if targetEmailRaw \<noteq> [] \<and> \<not> email_re targetEmailRaw then
                     Inl (js ''Malformed TargetEmail: '' @ targetEmailRaw)
                   else if \<not> ex \<and> \<not> od then
                     Inl (js ''At least one workload (Exchange or OneDrive) must be selected'')
                   else if targetEmailRaw = [] \<and> \<not> ac then
                     Inl (js ''Unresolvable target: provide TargetEmail or set AutoCreateTarget=true'')
                   else if toLowerCase sourceEmail \<in> set seen then
                     Inl (js ''Duplicate SourceEmail: '' @ sourceEmail)
                   else
                     Inr \<lparr>ci_source = sourceEmail,
                          ci_target = (if targetEmailRaw = [] then None else Some targetEmailRaw),
                          ci_exchange = ex, ci_onedrive = od, ci_auto_create = ac\<rparr>
               | _ \<Rightarrow>
                   Inl (js ''MigrateExchange/MigrateOneDrive/AutoCreateTarget must be true or false''))))"

text \<open>The loop: \<open>line\<close> is \<open>i + 1\<close>, \<open>seen\<close> grows with each accepted row.\<close>

fun validate_rows ::
    "nat \<Rightarrow> js_string list \<Rightarrow> js_string list list \<Rightarrow> csv_import_row list \<times> (nat \<times> js_string) list"
where
  "validate_rows line seen [] = ([], [])"
| "validate_rows line seen (cols # rest) =
     (case check_row seen cols of
        Inl reason \<Rightarrow>
          (let (acc, rej) = validate_rows (Suc line) seen rest in (acc, (line, reason) # rej))
      | Inr r \<Rightarrow>
          (let (acc, rej) =
             validate_rows (Suc line) (toLowerCase (ci_source r) # seen) rest
           in (r # acc, rej)))"

definition blank_row :: "js_string list \<Rightarrow> bool" where
  "blank_row r \<longleftrightarrow> \<not> list_ex (\<lambda>c. trim c \<noteq> []) r"

definition header_ok :: "js_string list \<Rightarrow> bool" where
  "header_ok row \<longleftrightarrow>
     length row \<ge> length EXPECTED_HEADERS \<and>
     list_all2 (\<lambda>h e. toLowerCase (trim h) = toLowerCase e) (take 5 row) EXPECTED_HEADERS"

definition validateImportCsv ::
    "js_string \<Rightarrow> js_string list \<Rightarrow> csv_import_row list \<times> (nat \<times> js_string) list"
where
  "validateImportCsv text existing =
     (case filter (\<lambda>r. \<not> blank_row r) (parseCsv text) of
        [] \<Rightarrow> ([], [(1, js ''File is empty'')])
      | header # rows \<Rightarrow>
          if header_ok header then validate_rows 2 (map toLowerCase existing) rows
          else ([], [(1, js ''Header must be: '' @ join [44] EXPECTED_HEADERS)]))"

section \<open>Round trip\<close>

lemma parse_quoted:
  "take 1 rest \<noteq> [34] \<Longrightarrow>
   parse_loop True field row rows (double_quotes s @ 34 # rest) =
     parse_loop False (field @ s) row rows rest"
  by (induction s arbitrary: field)
    (auto simp add: double_quotes_def split: list.split)

lemma parse_plain:
  "\<not> list_ex special s \<Longrightarrow>
   parse_loop False field row rows (s @ rest) = parse_loop False (field @ s) row rows rest"
  by (induction s arbitrary: field) (auto simp add: special_def)

lemma parse_esc:
  assumes "c = 44 \<or> c = 13"
  shows "parse_loop False [] row rows (esc s @ c # rest) =
    parse_loop False s row rows (c # rest)"
proof (cases "list_ex special s")
  case True
  with assms show ?thesis by (auto simp add: esc_def parse_quoted)
next
  case False
  then show ?thesis using parse_plain [of s "[]" row rows "c # rest"] by (simp add: esc_def)
qed

lemma parse_line:
  "cells \<noteq> [] \<Longrightarrow>
   parse_loop False [] row rows (join [44] (map esc cells) @ 13 # 10 # rest) =
     parse_loop False [] [] (rows @ [row @ cells]) rest"
proof (induction cells arbitrary: row rule: list_nonempty_induct)
  case (single s)
  then show ?case by (simp add: parse_esc)
next
  case (cons s cells)
  then obtain s' cells' where cells: "cells = s' # cells'" by (cases cells) auto
  have "join [44] (map esc (s # cells)) = esc s @ 44 # join [44] (map esc cells)"
    by (simp add: cells)
  with cons show ?case by (simp add: parse_esc)
qed

lemma parse_lines:
  "\<forall>l \<in> set ls. l \<noteq> [] \<Longrightarrow> ls \<noteq> [] \<Longrightarrow>
   parse_loop False [] [] rows (join [13, 10] (map (\<lambda>l. join [44] (map esc l)) ls) @ [13, 10]) =
     rows @ ls"
proof (induction ls arbitrary: rows)
  case Nil
  then show ?case by simp
next
  case (Cons l ls)
  show ?case
  proof (cases ls)
    case Nil
    with Cons.prems parse_line [of l "[]" rows "[]"] show ?thesis by simp
  next
    case (Cons l' ls')
    then have "join [13, 10] (map (\<lambda>l. join [44] (map esc l)) (l # ls)) @ [13, 10]
      = join [44] (map esc l) @ 13 # 10 #
        (join [13, 10] (map (\<lambda>l. join [44] (map esc l)) ls) @ [13, 10])"
      by simp
    with Cons.IH [of "rows @ [l]"] Cons.prems Cons show ?thesis
      by (simp add: parse_line)
  qed
qed

lemma serializeCsv_eq:
  "serializeCsv hs rows =
     join [13, 10] (map (\<lambda>l. join [44] (map esc l)) (hs # map (map cell_text) rows)) @ [13, 10]"
  by (simp add: serializeCsv_def comp_def)

lemma no_bom_append: "no_bom (x @ y) \<longleftrightarrow> (if x = [] then no_bom y else no_bom x)"
  by (auto simp add: no_bom_def)

lemma no_bom_esc: "no_bom h \<Longrightarrow> no_bom (esc h)"
  by (simp add: no_bom_def esc_def)

lemma no_bom_join: "no_bom x \<Longrightarrow> no_bom sep \<Longrightarrow> sep \<noteq> [] \<Longrightarrow> no_bom (join sep (x # xs))"
  by (cases xs) (simp_all add: no_bom_append)

lemma parseCsv_no_bom: "no_bom t \<Longrightarrow> parseCsv t = parse_loop False [] [] [] t"
  by (auto simp add: parseCsv_def no_bom_def split: list.split)

text \<open>
  C32. Round trip of the exports: parsing what \<open>serializeCsv\<close> wrote gives back the header
  and, cell by cell, the text of every row, whatever quotes, commas and line breaks the
  cells contain. The first header must not start with a byte-order mark, which
  \<open>parseCsv\<close> strips, and no row may be empty (an empty row is written as a blank line).
\<close>

theorem csv_round_trip:
  assumes "hs \<noteq> []" and "\<forall>r \<in> set rows. r \<noteq> []" and "no_bom (hd hs)"
  shows "parseCsv (serializeCsv hs rows) = hs # map (map cell_text) rows"
proof -
  let ?t = "serializeCsv hs rows"
  obtain h hs' where hs: "hs = h # hs'" using assms(1) by (cases hs) auto
  have seps: "no_bom [44]" "no_bom [13, 10]" by (simp_all add: no_bom_def)
  have "no_bom ?t"
    using assms(3) seps
    by (simp add: hs serializeCsv_eq no_bom_append no_bom_join no_bom_esc)
  then have "parseCsv ?t = parse_loop False [] [] [] ?t"
    by (rule parseCsv_no_bom)
  also have "\<dots> = hs # map (map cell_text) rows"
    unfolding serializeCsv_eq using assms(1,2) by (subst parse_lines) auto
  finally show ?thesis .
qed

theorem csv_round_trip_witness:
  "parseCsv (serializeCsv [js ''x'', js ''y'']
     [[CStr (js ''has,comma''), CInt (-12)], [CNull, CStr [10, 34]]]) =
   [[js ''x'', js ''y''], [js ''has,comma'', int_text (-12)], [[], [10, 34]]]"
  by (subst csv_round_trip) (simp_all add: js_def no_bom_def)

section \<open>What the validator accepts\<close>

lemma email_re_iff:
  "email_re s \<longleftrightarrow>
     (\<exists>a b c. s = a @ 64 # b @ 46 # c \<and> a \<noteq> [] \<and> b \<noteq> [] \<and> c \<noteq> [] \<and>
        list_all email_unit a \<and> list_all email_unit b \<and> list_all email_unit c)"
    (is "_ \<longleftrightarrow> ?spec")
proof
  assume re: "email_re s"
  define a where "a = takeWhile email_unit s"
  from re obtain host where drop: "dropWhile email_unit s = 64 # host"
    and a: "a \<noteq> []" and host: "list_all email_unit host"
    and dot: "46 \<in> set (butlast (tl host))"
    by (auto simp add: email_re_def a_def split: list.splits)
  have s: "s = a @ 64 # host"
    unfolding a_def drop [symmetric] by simp
  have "list_all email_unit a" by (auto simp add: a_def list_all_iff dest: set_takeWhileD)
  obtain u us where us: "host = u # us" using dot by (cases host) auto
  obtain vs v where vs: "us = vs @ [v]" using dot us by (cases us rule: rev_cases) auto
  from dot us vs obtain p q where pq: "vs = p @ 46 # q" by (auto dest: split_list)
  have host_eq: "host = (u # p) @ 46 # (q @ [v])" by (simp add: us vs pq)
  with host have "list_all email_unit (u # p)" "list_all email_unit (q @ [v])" by simp_all
  moreover have "s = a @ 64 # (u # p) @ 46 # (q @ [v])" by (simp only: s host_eq)
  ultimately show ?spec
    using a \<open>list_all email_unit a\<close> by blast
next
  assume ?spec
  then obtain a b c where s: "s = a @ 64 # b @ 46 # c" and ne: "a \<noteq> []" "b \<noteq> []" "c \<noteq> []"
    and u: "list_all email_unit a" "list_all email_unit b" "list_all email_unit c"
    by blast
  have at: "\<not> email_unit 64" "email_unit 46" by (simp_all add: email_unit_def js_space_def)
  have "takeWhile email_unit s = a" "dropWhile email_unit s = 64 # b @ 46 # c"
    using u(1) at by (simp_all add: s list_all_iff takeWhile_append2 dropWhile_append2)
  moreover have "46 \<in> set (butlast (tl (b @ 46 # c)))"
    using ne by (cases b) (simp_all add: butlast_append)
  ultimately show "email_re s" using ne u at by (simp add: email_re_def)
qed

text \<open>What an accepted row promises, and the row a valid line denotes.\<close>

definition good_row :: "csv_import_row \<Rightarrow> bool" where
  "good_row r \<longleftrightarrow>
     email_re (ci_source r)
     \<and> (\<forall>t. ci_target r = Some t \<longrightarrow> email_re t)
     \<and> (ci_exchange r \<or> ci_onedrive r)
     \<and> (ci_target r \<noteq> None \<or> ci_auto_create r)"

definition row_key :: "csv_import_row \<Rightarrow> js_string" where
  "row_key r = toLowerCase (ci_source r)"

lemma email_re_Nil [simp]: "\<not> email_re []"
  by (simp add: email_re_def)

lemma check_row_good:
  assumes "check_row seen cols = Inr r"
  shows "good_row r" and "row_key r \<notin> set seen"
  using assms
  by (auto simp add: check_row_def good_row_def row_key_def Let_def
      split: if_splits option.splits)

lemma validate_rows_good:
  "r \<in> set (fst (validate_rows line seen rows)) \<Longrightarrow> good_row r"
  by (induction line seen rows rule: validate_rows.induct)
    (auto simp add: split_beta dest: check_row_good split: sum.splits)

lemma validate_rows_fresh:
  "distinct (map row_key (fst (validate_rows line seen rows))) \<and>
   set (map row_key (fst (validate_rows line seen rows))) \<inter> set seen = {}"
proof (induction line seen rows rule: validate_rows.induct)
  case (1 line seen)
  then show ?case by simp
next
  case (2 line seen cols rest)
  show ?case
  proof (cases "check_row seen cols")
    case (Inl reason)
    with "2.IH"(1) show ?thesis by (simp add: split_beta)
  next
    case (Inr r)
    with "2.IH"(2) [OF Inr] show ?thesis
      by (auto simp add: split_beta row_key_def dest: check_row_good(2))
  qed
qed

lemma validateImportCsv_shape:
  "(\<exists>reason. validateImportCsv text existing = ([], [(1, reason)])) \<or>
   (\<exists>rows. validateImportCsv text existing = validate_rows 2 (map toLowerCase existing) rows)"
  by (auto simp add: validateImportCsv_def split: list.split)

text \<open>
  C34. Soundness of the import: whatever text is uploaded, every accepted row has a
  well-formed source address, a well-formed target or none, at least one workload, and a
  target that can be resolved (an address or auto-create); and no two accepted rows, nor
  an accepted row and a queued user, share a source address up to letter case.
\<close>

theorem import_accepts_only_good_rows:
  "list_all good_row (fst (validateImportCsv text existing))
   \<and> distinct (map row_key (fst (validateImportCsv text existing)))
   \<and> set (map row_key (fst (validateImportCsv text existing)))
       \<inter> toLowerCase ` set existing = {}"
proof -
  consider reason where "validateImportCsv text existing = ([], [(1, reason)])"
    | rows where "validateImportCsv text existing = validate_rows 2 (map toLowerCase existing) rows"
    using validateImportCsv_shape by blast
  then show ?thesis
  proof cases
    case 1
    then show ?thesis by simp
  next
    case 2
    have "list_all good_row (fst (validate_rows 2 (map toLowerCase existing) rows))"
      by (simp add: list_all_iff) (blast intro: validate_rows_good)
    with validate_rows_fresh [of 2 "map toLowerCase existing" rows] show ?thesis
      by (simp only: 2 set_map image_comp comp_def)
  qed
qed

section \<open>Against a reference\<close>

text \<open>
  The reference reads each row on its own (\<open>well_formed\<close>, the checks with nothing seen)
  and then keeps the first row of each address that is not already queued.
\<close>

definition well_formed :: "js_string list \<Rightarrow> csv_import_row option" where
  "well_formed cols = (case check_row [] cols of Inl reason \<Rightarrow> None | Inr r \<Rightarrow> Some r)"

fun keep_first :: "js_string list \<Rightarrow> csv_import_row list \<Rightarrow> csv_import_row list" where
  "keep_first seen [] = []"
| "keep_first seen (r # rs) =
     (if row_key r \<in> set seen then keep_first seen rs
      else r # keep_first (row_key r # seen) rs)"

lemma check_row_seen:
  "check_row seen cols =
     (case check_row [] cols of
        Inl reason \<Rightarrow> Inl reason
      | Inr r \<Rightarrow>
          if row_key r \<in> set seen then Inl (js ''Duplicate SourceEmail: '' @ ci_source r) else Inr r)"
  by (simp add: check_row_def row_key_def Let_def split: option.split)

lemma validate_rows_reference:
  "fst (validate_rows line seen rows) = keep_first seen (List.map_filter well_formed rows)"
proof (induction rows arbitrary: line seen)
  case Nil
  then show ?case by (simp add: map_filter_simps)
next
  case (Cons cols rows)
  show ?case
    by (cases "check_row [] cols")
      (simp_all add: Cons check_row_seen [of seen] well_formed_def map_filter_simps
        split_beta row_key_def)
qed

lemma validate_rows_lines:
  "length (fst (validate_rows line seen rows)) + length (snd (validate_rows line seen rows)) = length rows
   \<and> sorted_wrt (<) (map fst (snd (validate_rows line seen rows)))
   \<and> (\<forall>l \<in> set (map fst (snd (validate_rows line seen rows))).
        line \<le> l \<and> l < line + length rows)"
proof (induction line seen rows rule: validate_rows.induct)
  case (1 line seen)
  then show ?case by simp
next
  case (2 line seen cols rest)
  show ?case
  proof (cases "check_row seen cols")
    case (Inl reason)
    with "2.IH"(1) show ?thesis by (fastforce simp add: split_beta)
  next
    case (Inr r)
    with "2.IH"(2) [OF Inr] show ?thesis by (fastforce simp add: split_beta)
  qed
qed

definition data_rows :: "js_string \<Rightarrow> js_string list list" where
  "data_rows text = tl (filter (\<lambda>r. \<not> blank_row r) (parseCsv text))"


definition sample_csv :: js_string where
  "sample_csv =
     js ''SourceEmail,TargetEmail,MigrateExchange,MigrateOneDrive,AutoCreateTarget'' @ 10 #
     js ''a@x.io,b@y.io,true,no,0'' @ 10 # 10 #
     js ''A@x.io,,1,1,yes'' @ 13 # 10 #
     js ''c@x.io,,1,1,no''"

lemmas text_eval =
  js_def blank_row_def trim_def js_space_def toLowerCase_def lower_unit_def header_ok_def
  EXPECTED_HEADERS_def email_re_def email_unit_def parseBool_def

lemma parse_sample:
  "filter (\<lambda>r. \<not> blank_row r) (parseCsv sample_csv) =
     [EXPECTED_HEADERS,
      [js ''a@x.io'', js ''b@y.io'', js ''true'', js ''no'', js ''0''],
      [js ''A@x.io'', [], js ''1'', js ''1'', js ''yes''],
      [js ''c@x.io'', [], js ''1'', js ''1'', js ''no'']]"
  by (simp add: sample_csv_def parseCsv_def text_eval)

lemma header_ok_expected: "header_ok EXPECTED_HEADERS"
  by (simp add: text_eval)

lemma validate_sample:
  "map fst (snd (validateImportCsv sample_csv [])) = [3, 4]"
proof -
  have "validateImportCsv sample_csv [] = validate_rows 2 []
      [[js ''a@x.io'', js ''b@y.io'', js ''true'', js ''no'', js ''0''],
       [js ''A@x.io'', [], js ''1'', js ''1'', js ''yes''],
       [js ''c@x.io'', [], js ''1'', js ''1'', js ''no'']]"
    by (simp add: validateImportCsv_def parse_sample header_ok_expected)
  then show ?thesis by (simp add: check_row_def text_eval)
qed


section \<open>A JSON body is no CSV\<close>

definition opens :: "js_string list \<Rightarrow> bool" where
  "opens r \<longleftrightarrow> r \<noteq> [] \<and> take 1 (hd r) = [123]"

text \<open>The first cell of the text read so far opens with a brace.\<close>

definition front :: "js_string list list \<Rightarrow> js_string list \<Rightarrow> js_string \<Rightarrow> bool" where
  "front rows row field \<longleftrightarrow> (case rows of [] \<Rightarrow> opens (row @ [field]) | r # rs \<Rightarrow> opens r)"

lemma front_grow: "front rows row field \<Longrightarrow> front rows row (field @ [d])"
  by (cases row; cases field; cases rows) (simp_all add: front_def opens_def)

lemma front_cell: "front rows row field \<Longrightarrow> front rows (row @ [field]) []"
  by (cases row; cases rows) (simp_all add: front_def opens_def)

lemma front_line: "front rows row field \<Longrightarrow> front (rows @ [row @ [field]]) [] []"
  by (cases rows) (simp_all add: front_def)

lemma parse_loop_front:
  "front rows row field \<Longrightarrow> front (parse_loop inQuotes field row rows cs) [] []"
proof (induction inQuotes field row rows cs rule: parse_loop.induct)
  case (1 inQuotes field row rows)
  then show ?case by (cases rows) (auto simp add: front_def opens_def)
next
  case (2 field row rows c cs)
  show ?case
  proof (cases cs)
    case Nil
    with 2 show ?thesis by (simp add: front_grow)
  next
    case (Cons d ds)
    with 2 show ?thesis by (simp add: front_grow del: parse_loop.simps add: parse_loop.simps(2))
  qed
next
  case (3 field row rows c cs)
  then show ?case by (simp add: front_grow front_cell front_line)
qed

lemma parse_loop_opens:
  assumes "front rows row field"
  obtains r rs where "parse_loop inQuotes field row rows cs = r # rs" and "opens r"
  using parse_loop_front [OF assms, of inQuotes cs]
  by (cases "parse_loop inQuotes field row rows cs") (auto simp add: front_def opens_def)

lemma trim_opens: "take 1 s = [123] \<Longrightarrow> take 1 (trim s) = [123]"
proof -
  assume "take 1 s = [123]"
  then obtain s' where s: "s = 123 # s'" by (cases s) auto
  have "\<not> js_space 123" by (simp add: js_space_def)
  then have "trim s = 123 # rev (dropWhile js_space (rev s'))"
    by (simp add: trim_def s dropWhile_append)
  then show ?thesis by simp
qed

text \<open>
  A body that starts with an opening brace, as every JSON object does, is rejected
  by the header check whatever follows: the uploaded text must be the CSV itself.
\<close>

theorem json_body_rejected:
  "validateImportCsv (123 # body) existing =
     ([], [(1, js ''Header must be: '' @ join [44] EXPECTED_HEADERS)])"
proof -
  have "front [] [] [123]" by (simp add: front_def opens_def)
  then obtain r rs where "parse_loop False [123] [] [] body = r # rs" and r: "opens r"
    by (rule parse_loop_opens)
  then have parsed: "parseCsv (123 # body) = r # rs" by (simp add: parseCsv_def)
  have cell: "take 1 (trim (hd r)) = [123]" using r trim_opens unfolding opens_def by blast
  then have "\<not> blank_row r" using r by (cases r) (auto simp add: blank_row_def opens_def)
  moreover have "\<not> header_ok r"
  proof
    assume "header_ok r"
    then have "toLowerCase (trim (hd r)) = toLowerCase (js ''SourceEmail'')"
      using r by (cases r) (auto simp add: header_ok_def EXPECTED_HEADERS_def opens_def)
    then have "take 1 (toLowerCase (trim (hd r))) = [115]"
      by (simp add: toLowerCase_def js_def lower_unit_def)
    with cell show False
      by (cases "trim (hd r)") (simp_all add: toLowerCase_def lower_unit_def)
  qed
  ultimately show ?thesis by (simp add: validateImportCsv_def parsed)
qed

end
