(* ===== verification/Codec.thy ===== *)
theory Codec
  imports Prelude "HOL-Library.Word"
begin

text \<open>
  Bytes and text: base64 (\<open>btoa\<close>, \<open>atob\<close> and the helpers of \<open>worker/src/lib/ids.ts\<close>,
  \<open>worker/src/lib/crypto.ts\<close> and \<open>worker/src/lib/jwt.ts\<close> built on them), hex, and the UTF-8
  \<open>TextEncoder\<close> and \<open>TextDecoder\<close>. A byte is an \<open>8 word\<close>, a binary string a list of code
  units; \<open>btoa\<close> and \<open>atob\<close> return \<open>None\<close> where they throw. The locale \<open>codec\<close> is the
  contract the encoders share.
\<close>

type_synonym byte = "8 word"

locale codec =
  fixes enc :: "'a \<Rightarrow> 'b"
    and dec :: "'b \<Rightarrow> 'a option"
    and ok :: "'a \<Rightarrow> bool"
  assumes decode_encode: "ok x \<Longrightarrow> dec (enc x) = Some x"
begin

lemma encode_eq_iff: "ok x \<Longrightarrow> ok y \<Longrightarrow> enc x = enc y \<longleftrightarrow> x = y"
  by (metis decode_encode option.inject)

lemma encode_inj_on: "inj_on enc {x. ok x}"
  by (simp add: inj_on_def encode_eq_iff)

end

lemma unat_byte [simp]: "unat (b :: byte) < 256"
  using unsigned_less [of b] by simp

section \<open>Base64\<close>

definition b64_char :: "nat \<Rightarrow> nat" where
  "b64_char v =
     (if v < 26 then 65 + v
      else if v < 52 then 71 + v
      else if v < 62 then v - 4
      else if v = 62 then 43 else 47)"

definition b64_value :: "nat \<Rightarrow> nat option" where
  "b64_value c =
     (if 65 \<le> c \<and> c \<le> 90 then Some (c - 65)
      else if 97 \<le> c \<and> c \<le> 122 then Some (c - 71)
      else if 48 \<le> c \<and> c \<le> 57 then Some (c + 4)
      else if c = 43 then Some 62
      else if c = 47 then Some 63
      else None)"

fun b64_groups :: "nat list \<Rightarrow> js_string" where
  "b64_groups [] = []"
| "b64_groups [a] = [b64_char (a div 4), b64_char (a mod 4 * 16), 61, 61]"
| "b64_groups [a, b] =
     [b64_char (a div 4), b64_char (a mod 4 * 16 + b div 16), b64_char (b mod 16 * 4), 61]"
| "b64_groups (a # b # c # r) =
     b64_char (a div 4) # b64_char (a mod 4 * 16 + b div 16)
     # b64_char (b mod 16 * 4 + c div 64) # b64_char (c mod 64) # b64_groups r"

definition btoa :: "js_string \<Rightarrow> js_string option" where
  "btoa s = (if list_all (\<lambda>c. c < 256) s then Some (b64_groups s) else None)"

fun b64_bytes :: "nat list \<Rightarrow> nat list" where
  "b64_bytes (x # y # z # w # r) =
     (x * 4 + y div 16) # (y mod 16 * 16 + z div 4) # (z mod 4 * 64 + w) # b64_bytes r"
| "b64_bytes [x, y, z] = [x * 4 + y div 16, y mod 16 * 16 + z div 4]"
| "b64_bytes [x, y] = [x * 4 + y div 16]"
| "b64_bytes _ = []"

fun values64 :: "js_string \<Rightarrow> nat list option" where
  "values64 [] = Some []"
| "values64 (c # cs) =
     (case (b64_value c, values64 cs) of (Some v, Some vs) \<Rightarrow> Some (v # vs) | _ \<Rightarrow> None)"

text \<open>Forgiving-base64 decode: white space and one or two final \<open>=\<close> are dropped, a
  remainder of one character or any other character is an error.\<close>

definition unpad :: "js_string \<Rightarrow> js_string" where
  "unpad s =
     (if length s mod 4 = 0 \<and> s \<noteq> [] \<and> last s = 61 then
        (if length s \<ge> 2 \<and> last (butlast s) = 61 then butlast (butlast s) else butlast s)
      else s)"

definition ascii_space :: "nat \<Rightarrow> bool" where
  "ascii_space c \<longleftrightarrow> c \<in> {9, 10, 12, 13, 32}"

definition atob :: "js_string \<Rightarrow> js_string option" where
  "atob s =
     (let t = unpad (filter (\<lambda>c. \<not> ascii_space c) s)
      in if length t mod 4 = 1 then None else map_option b64_bytes (values64 t))"

definition bytesToB64 :: "byte list \<Rightarrow> js_string" where
  "bytesToB64 bytes = the (btoa (map unat bytes))"

definition b64ToBytes :: "js_string \<Rightarrow> byte list option" where
  "b64ToBytes b64 = map_option (map of_nat) (atob b64)"

lemma b64_value_char [simp]: "v < 64 \<Longrightarrow> b64_value (b64_char v) = Some v"
  by (auto simp add: b64_char_def b64_value_def)

definition plain64 :: "nat \<Rightarrow> bool" where
  "plain64 c \<longleftrightarrow> c \<notin> {9, 10, 12, 13, 32, 61, 45, 95}"

lemma plain64_char [simp]: "v < 64 \<Longrightarrow> plain64 (b64_char v)"
  by (auto simp add: b64_char_def plain64_def)

text \<open>The text of a group sequence: plain characters, then the padding.\<close>

definition pad_for :: "nat \<Rightarrow> js_string" where
  "pad_for n = (if n mod 3 = 1 then [61, 61] else if n mod 3 = 2 then [61] else [])"

fun group_values :: "nat list \<Rightarrow> nat list" where
  "group_values [] = []"
| "group_values [a] = [a div 4, a mod 4 * 16]"
| "group_values [a, b] = [a div 4, a mod 4 * 16 + b div 16, b mod 16 * 4]"
| "group_values (a # b # c # r) =
     a div 4 # (a mod 4 * 16 + b div 16) # (b mod 16 * 4 + c div 64) # c mod 64 # group_values r"

lemma b64_groups_split: "b64_groups s = map b64_char (group_values s) @ pad_for (length s)"
  by (induction s rule: b64_groups.induct) (simp_all add: pad_for_def mod_Suc)

lemma group_values_range: "list_all (\<lambda>c. c < 256) s \<Longrightarrow> list_all (\<lambda>v. v < 64) (group_values s)"
  by (induction s rule: group_values.induct) auto

lemma length_group_values:
  "length (group_values s) mod 4 = (if length s mod 3 = 0 then 0 else length s mod 3 + 1)"
  by (induction s rule: group_values.induct) (auto simp add: mod_Suc)

lemma b64_bytes_values: "list_all (\<lambda>c. c < 256) s \<Longrightarrow> b64_bytes (group_values s) = s"
  by (induction s rule: group_values.induct) (auto simp add: div_mult_mod_eq)

lemma values64_map: "list_all (\<lambda>v. v < 64) vs \<Longrightarrow> values64 (map b64_char vs) = Some vs"
  by (induction vs) auto

lemma last_plain:
  "list_all plain64 cs \<Longrightarrow> cs \<noteq> [] \<Longrightarrow> last cs \<noteq> 61"
  by (auto simp add: list_all_iff plain64_def dest: last_in_set)

lemma unpad_pad:
  assumes "list_all plain64 cs" and "length cs mod 4 = (if n mod 3 = 0 then 0 else n mod 3 + 1)"
  shows "unpad (cs @ pad_for n) = cs"
proof -
  have last: "cs \<noteq> [] \<longrightarrow> last cs \<noteq> 61" using last_plain [OF assms(1)] by blast
  consider "n mod 3 = 0" | "n mod 3 = 1" | "n mod 3 = 2" by linarith
  then show ?thesis
  proof cases
    case 1
    with last show ?thesis by (auto simp add: unpad_def pad_for_def)
  next
    case 2
    then have "length cs mod 4 = 2" using assms(2) by simp
    then have "length (cs @ [61, 61]) mod 4 = 0" by (simp, presburger)
    with 2 show ?thesis by (simp add: unpad_def pad_for_def butlast_append)
  next
    case 3
    then have "length cs mod 4 = 3" using assms(2) by simp
    then have "length (cs @ [61]) mod 4 = 0" "cs \<noteq> []"
      by (simp, presburger) (use \<open>length cs mod 4 = 3\<close> in auto)
    with 3 last show ?thesis by (simp add: unpad_def pad_for_def butlast_append)
  qed
qed

lemma plain64_values: "list_all (\<lambda>v. v < 64) vs \<Longrightarrow> list_all plain64 (map b64_char vs)"
  by (simp add: list_all_iff)

lemma filter_plain: "list_all plain64 cs \<Longrightarrow> filter (\<lambda>c. \<not> ascii_space c) cs = cs"
  by (auto simp add: list_all_iff plain64_def ascii_space_def intro!: filter_True)

lemma filter_pad: "filter (\<lambda>c. \<not> ascii_space c) (pad_for n) = pad_for n"
  by (simp add: pad_for_def ascii_space_def)

lemma atob_values:
  assumes "list_all (\<lambda>c. c < 256) s"
  shows "atob (map b64_char (group_values s) @ pad_for (length s)) = Some s"
proof -
  let ?vs = "group_values s"
  have vs: "list_all (\<lambda>v. v < 64) ?vs" by (rule group_values_range [OF assms])
  have "unpad (map b64_char ?vs @ pad_for (length s)) = map b64_char ?vs"
    using unpad_pad [OF plain64_values [OF vs], of "length s"] length_group_values by simp
  moreover have "length ?vs mod 4 \<noteq> 1" by (simp add: length_group_values)
  ultimately show ?thesis
    using vs assms
    by (simp add: atob_def filter_plain [OF plain64_values] filter_pad values64_map b64_bytes_values
        Let_def)
qed

lemma atob_btoa: "btoa s = Some t \<Longrightarrow> atob t = Some s"
  by (auto simp add: btoa_def b64_groups_split atob_values split: if_splits)

lemma byte_units: "list_all (\<lambda>c. c < 256) (map unat (bytes :: byte list))"
  by (simp add: list_all_iff)

lemma bytesToB64_eq:
  "bytesToB64 bytes =
     map b64_char (group_values (map unat bytes)) @ pad_for (length bytes)"
  by (simp add: bytesToB64_def btoa_def byte_units b64_groups_split)

lemma of_nat_unat_bytes [simp]: "map (of_nat \<circ> unat) (bytes :: byte list) = bytes"
  by (simp add: comp_def)

interpretation b64: codec bytesToB64 b64ToBytes "\<lambda>_. True"
proof
  fix bytes :: "byte list"
  show "b64ToBytes (bytesToB64 bytes) = Some bytes"
    using atob_values [OF byte_units, of bytes] by (simp add: b64ToBytes_def bytesToB64_eq)
qed

section \<open>Base64url\<close>

definition replace_unit :: "nat \<Rightarrow> nat \<Rightarrow> js_string \<Rightarrow> js_string" where
  "replace_unit a b s = map (\<lambda>c. if c = a then b else c) s"

definition strip_trailing :: "nat \<Rightarrow> js_string \<Rightarrow> js_string" where
  "strip_trailing a s = rev (dropWhile (\<lambda>c. c = a) (rev s))"

definition padEnd :: "js_string \<Rightarrow> nat \<Rightarrow> nat \<Rightarrow> js_string" where
  "padEnd s n c = s @ replicate (n - length s) c"

definition base64UrlEncode :: "byte list \<Rightarrow> js_string" where
  "base64UrlEncode bytes =
     strip_trailing 61 (replace_unit 47 95 (replace_unit 43 45 (the (btoa (map unat bytes)))))"

definition b64urlToBytes :: "js_string \<Rightarrow> byte list option" where
  "b64urlToBytes b64url =
     map_option (map of_nat)
       (atob (padEnd (replace_unit 95 47 (replace_unit 45 43 b64url))
          ((length b64url + 3) div 4 * 4) 61))"

definition opaqueToken :: "byte list \<Rightarrow> js_string" where
  "opaqueToken buf = base64UrlEncode buf"

lemma strip_trailing_pad:
  "list_all plain64 cs \<Longrightarrow>
   strip_trailing 61 (replace_unit 47 95 (replace_unit 43 45 (cs @ pad_for n))) =
     replace_unit 47 95 (replace_unit 43 45 cs)"
  by (cases cs rule: rev_cases)
    (auto simp add: strip_trailing_def replace_unit_def pad_for_def plain64_def)

lemma url_back:
  "list_all plain64 cs \<Longrightarrow>
   replace_unit 95 47 (replace_unit 45 43 (replace_unit 47 95 (replace_unit 43 45 cs))) = cs"
  by (induction cs) (auto simp add: replace_unit_def plain64_def)

lemma length_replace_unit [simp]: "length (replace_unit a b s) = length s"
  by (simp add: replace_unit_def)

lemma padEnd_pad_for:
  assumes "length cs mod 4 = (if n mod 3 = 0 then 0 else n mod 3 + 1)"
  shows "padEnd cs ((length cs + 3) div 4 * 4) 61 = cs @ pad_for n"
proof -
  define q where "q = length cs div 4"
  have len: "length cs = 4 * q + length cs mod 4" by (simp add: q_def)
  consider "n mod 3 = 0" | "n mod 3 = 1" | "n mod 3 = 2" by linarith
  then show ?thesis
  proof cases
    case 1
    with assms len have "length cs = 4 * q" by simp
    with 1 show ?thesis by (simp add: padEnd_def pad_for_def)
  next
    case 2
    with assms len have "length cs = 4 * q + 2" by simp
    moreover from this have "(length cs + 3) div 4 * 4 - length cs = 2" by simp
    ultimately show ?thesis using 2 by (simp add: padEnd_def pad_for_def numeral_2_eq_2)
  next
    case 3
    with assms len have "length cs = 4 * q + 3" by simp
    moreover from this have "(length cs + 3) div 4 * 4 - length cs = 1" by simp
    ultimately show ?thesis using 3 by (simp add: padEnd_def pad_for_def)
  qed
qed

lemma values_plain: "list_all plain64 (map b64_char (group_values (map unat (bytes :: byte list))))"
  by (intro plain64_values group_values_range byte_units)

lemma base64UrlEncode_eq:
  "base64UrlEncode bytes =
     replace_unit 47 95 (replace_unit 43 45 (map b64_char (group_values (map unat bytes))))"
  using strip_trailing_pad [OF values_plain, of bytes "length bytes"]
  by (simp add: base64UrlEncode_def btoa_def byte_units b64_groups_split)

interpretation b64url: codec base64UrlEncode b64urlToBytes "\<lambda>_. True"
proof
  fix bytes :: "byte list"
  let ?cs = "map b64_char (group_values (map unat bytes))"
  have "padEnd ?cs ((length ?cs + 3) div 4 * 4) 61 = ?cs @ pad_for (length bytes)"
    using padEnd_pad_for [of ?cs "length bytes"] length_group_values [of "map unat bytes"] by simp
  then show "b64urlToBytes (base64UrlEncode bytes) = Some bytes"
    using atob_values [OF byte_units, of bytes]
    by (simp add: b64urlToBytes_def base64UrlEncode_eq url_back [OF values_plain])
qed

text \<open>The characters of a token are letters, digits, \<open>-\<close> and \<open>_\<close>: what a cookie value and
  a query parameter carry unescaped.\<close>

definition url_safe :: "nat \<Rightarrow> bool" where
  "url_safe c \<longleftrightarrow> 65 \<le> c \<and> c \<le> 90 \<or> 97 \<le> c \<and> c \<le> 122 \<or> 48 \<le> c \<and> c \<le> 57 \<or> c = 45 \<or> c = 95"

lemma url_safe_char:
  "v < 64 \<Longrightarrow> b64_char v \<noteq> 43 \<Longrightarrow> b64_char v \<noteq> 47 \<Longrightarrow> url_safe (b64_char v)"
  "url_safe 45" "url_safe 95"
  by (auto simp add: b64_char_def url_safe_def split: if_splits)

lemma length_group_values_eq: "length (group_values s) = (4 * length s + 2) div 3"
  by (induction s rule: group_values.induct) simp_all

lemma opaque_chars: "list_all url_safe (base64UrlEncode buf)"
proof -
  have "list_all (\<lambda>v. v < 64) (group_values (map unat buf))"
    by (intro group_values_range byte_units)
  then show ?thesis
    by (auto intro: url_safe_char simp add: base64UrlEncode_eq replace_unit_def list_all_iff)
qed

text \<open>
  Opaque tokens: a token made of \<open>n\<close> random bytes has \<open>\<lceil>4n/3\<rceil>\<close> characters (43 for the
  32-byte session cookie, 64 for the 48-byte PKCE verifier), all of them safe in a cookie
  and a URL, and the decoder of the JWT code gives the bytes back, so that different
  random bytes make different tokens.
\<close>

theorem opaque_token_codec:
  "length (opaqueToken buf) = (4 * length buf + 2) div 3
   \<and> list_all url_safe (opaqueToken buf)
   \<and> b64urlToBytes (opaqueToken buf) = Some buf"
  using opaque_chars [of buf]
  by (simp add: opaqueToken_def b64url.decode_encode)
    (simp add: base64UrlEncode_eq length_group_values_eq)

section \<open>Hexadecimal\<close>

definition hex_digit :: "nat \<Rightarrow> nat" where
  "hex_digit d = (if d < 10 then 48 + d else 87 + d)"

text \<open>\<open>b.toString(16).padStart(2, '0')\<close> of each byte.\<close>

definition hex_text :: "byte list \<Rightarrow> js_string" where
  "hex_text bytes = concat (map (\<lambda>b. [hex_digit (unat b div 16), hex_digit (unat b mod 16)]) bytes)"

lemma length_hex_text [simp]: "length (hex_text bytes) = 2 * length bytes"
  by (induction bytes) (simp_all add: hex_text_def)

lemma hex_digit_inj: "a < 16 \<Longrightarrow> b < 16 \<Longrightarrow> hex_digit a = hex_digit b \<longleftrightarrow> a = b"
  by (auto simp add: hex_digit_def split: if_splits)

lemma hex_text_inj: "hex_text a = hex_text b \<longleftrightarrow> a = b"
proof (induction a arbitrary: b)
  case Nil
  then show ?case by (cases b) (simp_all add: hex_text_def)
next
  case (Cons x a)
  show ?case
  proof (cases b)
    case Nil
    then show ?thesis by (simp add: hex_text_def)
  next
    case (Cons y b')
    have "unat x div 16 < 16" "unat y div 16 < 16"
      using unat_byte [of x] unat_byte [of y] by linarith+
    then have "hex_text [x] = hex_text [y] \<longleftrightarrow> unat x div 16 = unat y div 16 \<and> unat x mod 16 = unat y mod 16"
      by (simp add: hex_text_def hex_digit_inj)
    also have "\<dots> \<longleftrightarrow> x = y"
      by (metis div_mult_mod_eq word_unat_eq_iff)
    finally show ?thesis using Cons.IH [of b'] Cons by (auto simp add: hex_text_def)
  qed
qed

end
