(* ===== verification/Utf8.thy ===== *)
theory Utf8
  imports Codec
begin

text \<open>
  \<open>TextEncoder\<close> and \<open>TextDecoder\<close> (UTF-8), as the WHATWG encoding standard defines them:
  the encoder turns a lone surrogate into U+FFFD, the decoder emits U+FFFD for a broken
  sequence and drops one leading byte-order mark.
\<close>

definition high_surrogate :: "nat \<Rightarrow> bool" where
  "high_surrogate u \<longleftrightarrow> 55296 \<le> u \<and> u \<le> 56319"

definition low_surrogate :: "nat \<Rightarrow> bool" where
  "low_surrogate u \<longleftrightarrow> 56320 \<le> u \<and> u \<le> 57343"

fun scalars :: "js_string \<Rightarrow> nat list" where
  "scalars [] = []"
| "scalars [u] = [if high_surrogate u \<or> low_surrogate u then 65533 else u]"
| "scalars (u # v # us) =
     (if high_surrogate u \<and> low_surrogate v then
        (65536 + (u - 55296) * 1024 + (v - 56320)) # scalars us
      else (if high_surrogate u \<or> low_surrogate u then 65533 else u) # scalars (v # us))"

definition scalar_bytes :: "nat \<Rightarrow> nat list" where
  "scalar_bytes c =
     (if c < 128 then [c]
      else if c < 2048 then [192 + c div 64, 128 + c mod 64]
      else if c < 65536 then [224 + c div 4096, 128 + c div 64 mod 64, 128 + c mod 64]
      else [240 + c div 262144, 128 + c div 4096 mod 64, 128 + c div 64 mod 64, 128 + c mod 64])"

definition TextEncoder :: "js_string \<Rightarrow> byte list" where
  "TextEncoder s = map of_nat (concat (map scalar_bytes (scalars s)))"

definition in_span :: "nat \<Rightarrow> nat \<Rightarrow> nat \<Rightarrow> bool" where
  "in_span lo hi x \<longleftrightarrow> lo \<le> x \<and> x \<le> hi"

fun utf8_scalars :: "nat list \<Rightarrow> nat list" where
  "utf8_scalars [] = []"
| "utf8_scalars (b # r) =
     (if b < 128 then b # utf8_scalars r
      else if in_span 194 223 b then
        (case r of
           x # r1 \<Rightarrow>
             if in_span 128 191 x then ((b - 192) * 64 + (x - 128)) # utf8_scalars r1
             else 65533 # utf8_scalars r
         | [] \<Rightarrow> [65533])
      else if in_span 224 239 b then
        (case r of
           x # r1 \<Rightarrow>
             if in_span (if b = 224 then 160 else 128) (if b = 237 then 159 else 191) x then
               (case r1 of
                  y # r2 \<Rightarrow>
                    if in_span 128 191 y then
                      ((b - 224) * 4096 + (x - 128) * 64 + (y - 128)) # utf8_scalars r2
                    else 65533 # utf8_scalars r1
                | [] \<Rightarrow> [65533])
             else 65533 # utf8_scalars r
         | [] \<Rightarrow> [65533])
      else if in_span 240 244 b then
        (case r of
           x # r1 \<Rightarrow>
             if in_span (if b = 240 then 144 else 128) (if b = 244 then 143 else 191) x then
               (case r1 of
                  y # r2 \<Rightarrow>
                    if in_span 128 191 y then
                      (case r2 of
                         z # r3 \<Rightarrow>
                           if in_span 128 191 z then
                             ((b - 240) * 262144 + (x - 128) * 4096 + (y - 128) * 64 + (z - 128))
                             # utf8_scalars r3
                           else 65533 # utf8_scalars r2
                       | [] \<Rightarrow> [65533])
                    else 65533 # utf8_scalars r1
                | [] \<Rightarrow> [65533])
             else 65533 # utf8_scalars r
         | [] \<Rightarrow> [65533])
      else 65533 # utf8_scalars r)"

declare utf8_scalars.simps(2) [simp del]

definition scalar_units :: "nat \<Rightarrow> js_string" where
  "scalar_units c =
     (if c < 65536 then [c]
      else [55296 + (c - 65536) div 1024, 56320 + (c - 65536) mod 1024])"

definition TextDecoder :: "byte list \<Rightarrow> js_string" where
  "TextDecoder bytes =
     (let cs = utf8_scalars (map unat bytes)
      in concat (map scalar_units (if take 1 cs = [65279] then tl cs else cs)))"

section \<open>Round trip\<close>

text \<open>A text without lone surrogates.\<close>

fun paired :: "js_string \<Rightarrow> bool" where
  "paired [] = True"
| "paired [u] = (u < 65536 \<and> \<not> high_surrogate u \<and> \<not> low_surrogate u)"
| "paired (u # v # us) =
     (if high_surrogate u \<and> low_surrogate v then paired us
      else u < 65536 \<and> \<not> high_surrogate u \<and> \<not> low_surrogate u \<and> paired (v # us))"

definition is_scalar :: "nat \<Rightarrow> bool" where
  "is_scalar c \<longleftrightarrow> c < 1114112 \<and> \<not> high_surrogate c \<and> \<not> low_surrogate c"

lemma scalars_valid: "paired s \<Longrightarrow> list_all is_scalar (scalars s)"
  by (induction s rule: scalars.induct)
    (auto simp add: is_scalar_def high_surrogate_def low_surrogate_def split: if_splits)

lemma scalars_units: "paired s \<Longrightarrow> concat (map scalar_units (scalars s)) = s"
proof (induction s rule: scalars.induct)
  case 1
  then show ?case by simp
next
  case (2 u)
  then show ?case by (simp add: scalar_units_def)
next
  case (3 u v us)
  show ?case
  proof (cases "high_surrogate u \<and> low_surrogate v")
    case True
    then obtain a b where uv: "u = 55296 + a" "v = 56320 + b" and "a < 1024" "b < 1024"
      by (auto simp add: high_surrogate_def low_surrogate_def dest!: le_Suc_ex)
    with 3 True show ?thesis by (simp add: scalar_units_def)
  next
    case False
    with 3 show ?thesis by (auto simp add: scalar_units_def)
  qed
qed

lemma split64: "(c :: nat) = c div 4096 * 4096 + c div 64 mod 64 * 64 + c mod 64"
proof -
  have "c div 4096 = c div 64 div 64" by (simp add: div_mult2_eq [symmetric])
  then have "c div 64 = c div 4096 * 64 + c div 64 mod 64" by simp
  then show ?thesis using div_mult_mod_eq [of c 64] by linarith
qed

lemma utf8_one: "c < 128 \<Longrightarrow> utf8_scalars (scalar_bytes c @ r) = c # utf8_scalars r"
  by (simp add: scalar_bytes_def utf8_scalars.simps(2))

lemma utf8_two:
  assumes "128 \<le> c" "c < 2048"
  shows "utf8_scalars (scalar_bytes c @ r) = c # utf8_scalars r"
proof -
  have "2 \<le> c div 64" "c div 64 < 32" using assms by auto
  then show ?thesis using assms
    by (simp add: scalar_bytes_def utf8_scalars.simps(2) in_span_def)
qed

lemma utf8_three:
  assumes "2048 \<le> c" "c < 65536" "\<not> high_surrogate c" "\<not> low_surrogate c"
  shows "utf8_scalars (scalar_bytes c @ r) = c # utf8_scalars r"
proof -
  define h m l where "h = c div 4096" and "m = c div 64 mod 64" and "l = c mod 64"
  have c: "c = h * 4096 + m * 64 + l" using split64 [of c] by (simp add: h_def m_def l_def)
  have ml: "m < 64" "l < 64" by (simp_all add: m_def l_def)
  have "h < 16" "h = 0 \<longrightarrow> 32 \<le> m" "h = 13 \<longrightarrow> m < 32"
    using assms c ml by (auto simp add: high_surrogate_def low_surrogate_def)
  moreover have "scalar_bytes c = [224 + h, 128 + m, 128 + l]"
    using assms by (simp add: scalar_bytes_def h_def m_def l_def)
  ultimately show ?thesis using ml
    by (auto simp add: utf8_scalars.simps(2) in_span_def c)
qed

lemma utf8_four:
  assumes "65536 \<le> c" "c < 1114112"
  shows "utf8_scalars (scalar_bytes c @ r) = c # utf8_scalars r"
proof -
  define h k m l where "h = c div 262144" and "k = c div 4096 mod 64"
    and "m = c div 64 mod 64" and "l = c mod 64"
  have c: "c = h * 262144 + k * 4096 + m * 64 + l"
  proof -
    have e: "c div 64 div 4096 = h" "c div 64 div 64 = c div 4096"
      by (simp_all add: h_def div_mult2_eq [symmetric])
    have d: "c div 64 = h * 4096 + k * 64 + m"
      using split64 [of "c div 64"] unfolding e k_def [symmetric] m_def [symmetric] .
    have "c = c div 64 * 64 + l" unfolding l_def by (rule div_mult_mod_eq [symmetric])
    then have "c = (h * 4096 + k * 64 + m) * 64 + l" by (simp only: d)
    then show ?thesis by (simp add: distrib_right)
  qed
  have kml: "k < 64" "m < 64" "l < 64" by (simp_all add: k_def m_def l_def)
  have "h < 5" "h = 0 \<longrightarrow> 16 \<le> k" "h = 4 \<longrightarrow> k < 16"
    using assms c kml by auto
  moreover have "scalar_bytes c = [240 + h, 128 + k, 128 + m, 128 + l]"
    using assms by (simp add: scalar_bytes_def h_def k_def m_def l_def)
  ultimately show ?thesis using kml
    by (auto simp add: utf8_scalars.simps(2) in_span_def c)
qed

lemma utf8_scalar: "is_scalar c \<Longrightarrow> utf8_scalars (scalar_bytes c @ r) = c # utf8_scalars r"
  using utf8_one utf8_two utf8_three utf8_four
  by (cases "c < 128"; cases "c < 2048"; cases "c < 65536") (simp_all add: is_scalar_def)

lemma utf8_all: "list_all is_scalar cs \<Longrightarrow> utf8_scalars (concat (map scalar_bytes cs)) = cs"
  by (induction cs) (simp_all add: utf8_scalar)

lemma scalar_bytes_range: "is_scalar c \<Longrightarrow> list_all (\<lambda>b. b < 256) (scalar_bytes c)"
  by (auto simp add: scalar_bytes_def is_scalar_def)

lemma unat_of_nat_bytes: "list_all (\<lambda>b. b < 256) bs \<Longrightarrow> map unat (map of_nat bs :: byte list) = bs"
  by (induction bs) (simp_all add: unat_of_nat)

definition text_ok :: "js_string \<Rightarrow> bool" where
  "text_ok s \<longleftrightarrow> paired s \<and> no_bom s"

lemma hd_scalars_bom: "paired s \<Longrightarrow> take 1 (scalars s) = [65279] \<Longrightarrow> \<not> no_bom s"
  by (cases s rule: scalars.cases)
    (auto simp add: no_bom_def high_surrogate_def low_surrogate_def split: if_splits)

interpretation utf8: codec TextEncoder "\<lambda>b. Some (TextDecoder b)" text_ok
proof
  fix s
  assume ok: "text_ok s"
  then have valid: "list_all is_scalar (scalars s)" by (simp add: text_ok_def scalars_valid)
  then have "list_all (\<lambda>b. b < 256) (concat (map scalar_bytes (scalars s)))"
    using scalar_bytes_range by (fastforce simp add: list_all_iff)
  then have "map unat (TextEncoder s) = concat (map scalar_bytes (scalars s))"
    unfolding TextEncoder_def by (rule unat_of_nat_bytes)
  then have "utf8_scalars (map unat (TextEncoder s)) = scalars s"
    using utf8_all [OF valid] by simp
  moreover have "take 1 (scalars s) \<noteq> [65279]"
    using ok hd_scalars_bom unfolding text_ok_def by blast
  moreover have "concat (map scalar_units (scalars s)) = s"
    using ok by (simp add: text_ok_def scalars_units)
  ultimately have "TextDecoder (TextEncoder s) = s"
    unfolding TextDecoder_def Let_def by (simp only: if_False)
  then show "Some (TextDecoder (TextEncoder s)) = Some s" by simp
qed

lemma ascii_paired: "list_all (\<lambda>c. c < 128) s \<Longrightarrow> paired s"
  by (induction s rule: paired.induct) (simp_all add: high_surrogate_def low_surrogate_def)

lemma ascii_no_bom: "list_all (\<lambda>c. c < 128) s \<Longrightarrow> no_bom s"
  by (cases s) (simp_all add: no_bom_def)

lemma ascii_text_ok: "list_all (\<lambda>c. c < 128) s \<Longrightarrow> text_ok s"
  by (simp add: text_ok_def ascii_paired ascii_no_bom)

end
