(* ===== verification/Crypto.thy ===== *)
theory Crypto
  imports Utf8 Errors "HOL-Library.Multiset"
begin

text \<open>
  Envelope encryption and temporary passwords (\<open>worker/src/lib/crypto.ts\<close>) and the session
  hash of \<open>worker/src/lib/ids.ts\<close>. AES-GCM and SHA-256 are the platform's: parameters
  \<open>aes_enc\<close>, \<open>aes_dec\<close> and \<open>sha256\<close>. Random bytes are read from a list, one result per
  list, and \<open>None\<close> means that the list ran out before the code returned.
\<close>

section \<open>Envelope encryption\<close>

record envelope_ciphertext =
  ec_ciphertext :: js_string
  ec_iv :: js_string

type_synonym aes_encrypt = "byte list \<Rightarrow> byte list \<Rightarrow> byte list \<Rightarrow> byte list"
type_synonym aes_decrypt = "byte list \<Rightarrow> byte list \<Rightarrow> byte list \<Rightarrow> byte list option"

text \<open>What the code relies on: decryption under the same key and nonce undoes encryption.\<close>

definition aead :: "aes_encrypt \<Rightarrow> aes_decrypt \<Rightarrow> bool" where
  "aead aes_enc aes_dec \<longleftrightarrow>
     (\<forall>key iv plain. length key = 32 \<longrightarrow> length iv = 12 \<longrightarrow>
        aes_dec key iv (aes_enc key iv plain) = Some plain)"

definition importMasterKey :: "js_string \<Rightarrow> exn + byte list" where
  "importMasterKey masterKeyB64 =
     (case b64ToBytes masterKeyB64 of
        None \<Rightarrow> Inl (err Internal ''MASTER_ENCRYPTION_KEY is not valid base64'')
      | Some raw \<Rightarrow>
          if length raw \<noteq> 32 then
            Inl (err Internal ''MASTER_ENCRYPTION_KEY must decode to 32 bytes (AES-256)'')
          else Inr raw)"

definition encryptSecret ::
    "aes_encrypt \<Rightarrow> byte list \<Rightarrow> js_string \<Rightarrow> js_string \<Rightarrow> exn + envelope_ciphertext"
where
  "encryptSecret aes_enc iv masterKeyB64 plaintext =
     (case importMasterKey masterKeyB64 of
        Inl e \<Rightarrow> Inl e
      | Inr key \<Rightarrow>
          Inr \<lparr>ec_ciphertext = bytesToB64 (aes_enc key iv (TextEncoder plaintext)),
               ec_iv = bytesToB64 iv\<rparr>)"

definition decryption_error :: exn where
  "decryption_error = err Internal ''Secret decryption failed (bad key or corrupted ciphertext)''"

definition decryptSecret ::
    "aes_decrypt \<Rightarrow> js_string \<Rightarrow> envelope_ciphertext \<Rightarrow> exn + js_string"
where
  "decryptSecret aes_dec masterKeyB64 env =
     (case importMasterKey masterKeyB64 of
        Inl e \<Rightarrow> Inl e
      | Inr key \<Rightarrow>
          (case (b64ToBytes (ec_iv env), b64ToBytes (ec_ciphertext env)) of
             (Some iv, Some ct) \<Rightarrow>
               (case aes_dec key iv ct of
                  None \<Rightarrow> Inl decryption_error
                | Some plain \<Rightarrow> Inr (TextDecoder plain))
           | _ \<Rightarrow> Inl decryption_error))"

definition sha256Hex :: "(byte list \<Rightarrow> byte list) \<Rightarrow> js_string \<Rightarrow> js_string" where
  "sha256Hex sha256 input = hex_text (sha256 (TextEncoder input))"

lemma importMasterKey_Inr:
  "importMasterKey mk = Inr key \<longleftrightarrow> b64ToBytes mk = Some key \<and> length key = 32"
  by (auto simp add: importMasterKey_def split: option.splits)

lemma secret_back:
  assumes "aead aes_enc aes_dec" and "encryptSecret aes_enc iv mk secret = Inr env"
    and "length iv = 12" and "text_ok secret"
  shows "decryptSecret aes_dec mk env = Inr secret"
proof -
  obtain key where key: "importMasterKey mk = Inr key" "length key = 32"
    and env: "env = \<lparr>ec_ciphertext = bytesToB64 (aes_enc key iv (TextEncoder secret)), ec_iv = bytesToB64 iv\<rparr>"
    using assms(2) by (auto simp add: encryptSecret_def importMasterKey_Inr split: sum.splits)
  then have "aes_dec key iv (aes_enc key iv (TextEncoder secret)) = Some (TextEncoder secret)"
    using assms(1,3) by (simp add: aead_def)
  moreover have "TextDecoder (TextEncoder secret) = secret" using utf8.decode_encode [OF assms(4)] by simp
  ultimately show ?thesis by (simp add: decryptSecret_def b64.decode_encode key env)
qed

text \<open>
  C38. Round trip of the stored secrets: under a valid master key and a 12-byte nonce,
  what \<open>encryptSecret\<close> stores decrypts to the same text, and only base64 text is
  stored (the nonce takes 16 characters). The text must have no lone surrogate and must
  not start with a byte-order mark, which \<open>TextDecoder\<close> drops.
\<close>

theorem secret_round_trip:
  assumes "aead aes_enc aes_dec" and "importMasterKey mk = Inr key"
    and "length iv = 12" and "text_ok secret"
  shows "\<exists>env. encryptSecret aes_enc iv mk secret = Inr env
    \<and> decryptSecret aes_dec mk env = Inr secret \<and> length (ec_iv env) = 16"
proof -
  obtain env where env: "encryptSecret aes_enc iv mk secret = Inr env" "ec_iv env = bytesToB64 iv"
    using assms(2) by (simp add: encryptSecret_def)
  moreover have "length (bytesToB64 iv) = 16"
    using assms(3) by (simp add: bytesToB64_eq length_group_values_eq pad_for_def)
  ultimately show ?thesis using secret_back [OF assms(1) env(1) assms(3,4)] by auto
qed

definition demo_key :: js_string where
  "demo_key = bytesToB64 (replicate 32 7)"

lemma demo_key_valid: "importMasterKey demo_key = Inr (replicate 32 7)"
  by (simp add: importMasterKey_Inr demo_key_def b64.decode_encode)

definition xor_cipher :: aes_encrypt where
  "xor_cipher key iv plain = map (\<lambda>b. xor b (hd key)) plain"

lemma xor_cipher_aead: "aead xor_cipher (\<lambda>key iv ct. Some (xor_cipher key iv ct))"
  by (simp add: aead_def xor_cipher_def comp_def xor.assoc)

theorem secret_round_trip_witness:
  "\<exists>env. encryptSecret xor_cipher (replicate 12 1) demo_key (js ''s3cret'') = Inr env
    \<and> decryptSecret (\<lambda>key iv ct. Some (xor_cipher key iv ct)) demo_key env = Inr (js ''s3cret'')
    \<and> length (ec_iv env) = 16"
  by (rule secret_round_trip [OF xor_cipher_aead demo_key_valid])
    (simp_all add: ascii_text_ok js_def)

section \<open>Temporary passwords\<close>

definition UPPER :: js_string where "UPPER = js ''ABCDEFGHJKLMNPQRSTUVWXYZ''"
definition LOWER :: js_string where "LOWER = js ''abcdefghijkmnopqrstuvwxyz''"
definition DIGIT :: js_string where "DIGIT = js ''23456789''"
definition SYMBOL :: js_string where "SYMBOL = js ''!@#$%^&*-_=+?''"
definition ALL_CHARS :: js_string where "ALL_CHARS = UPPER @ LOWER @ DIGIT @ SYMBOL"

text \<open>The rejection loops of \<open>pick\<close> and of the shuffle: a byte at or above the largest
  multiple of \<open>n\<close> is thrown away.\<close>

fun draw :: "nat \<Rightarrow> byte list \<Rightarrow> (nat \<times> byte list) option" where
  "draw n [] = None"
| "draw n (v # vs) =
     (if unat v \<ge> 256 - 256 mod n then draw n vs else Some (unat v mod n, vs))"

definition pick :: "js_string \<Rightarrow> byte list \<Rightarrow> (nat \<times> byte list) option" where
  "pick cs bytes = map_option (\<lambda>(j, rest). (cs ! j, rest)) (draw (length cs) bytes)"

fun pick_each :: "js_string list \<Rightarrow> js_string \<Rightarrow> byte list \<Rightarrow> (js_string \<times> byte list) option" where
  "pick_each [] chars bytes = Some (chars, bytes)"
| "pick_each (cs # css) chars bytes =
     (case pick cs bytes of
        None \<Rightarrow> None
      | Some (c, rest) \<Rightarrow> pick_each css (chars @ [c]) rest)"

definition swap :: "nat \<Rightarrow> nat \<Rightarrow> 'a list \<Rightarrow> 'a list" where
  "swap i j xs = xs[i := xs ! j, j := xs ! i]"

fun shuffle_from :: "nat \<Rightarrow> js_string \<Rightarrow> byte list \<Rightarrow> (js_string \<times> byte list) option" where
  "shuffle_from 0 chars bytes = Some (chars, bytes)"
| "shuffle_from (Suc i) chars bytes =
     (case draw (Suc (Suc i)) bytes of
        None \<Rightarrow> None
      | Some (j, rest) \<Rightarrow> shuffle_from i (swap (Suc i) j chars) rest)"

definition password_classes :: "nat \<Rightarrow> js_string list" where
  "password_classes n = [UPPER, LOWER, DIGIT, SYMBOL] @ replicate (n - 4) ALL_CHARS"

definition generateTempPassword :: "nat \<Rightarrow> byte list \<Rightarrow> (js_string \<times> byte list) option" where
  "generateTempPassword n bytes =
     (let len = (if n < 8 then 8 else n)
      in case pick_each (password_classes len) [] bytes of
           None \<Rightarrow> None
         | Some (chars, rest) \<Rightarrow> shuffle_from (len - 1) chars rest)"

lemma draw_range: "draw n bytes = Some (j, rest) \<Longrightarrow> 0 < n \<Longrightarrow> j < n"
  by (induction n bytes rule: draw.induct) (auto split: if_splits)

lemma pick_member: "pick cs bytes = Some (c, rest) \<Longrightarrow> cs \<noteq> [] \<Longrightarrow> c \<in> set cs"
  by (auto simp add: pick_def dest!: draw_range)

lemma pick_each_members:
  "pick_each css chars bytes = Some (out, rest) \<Longrightarrow> [] \<notin> set css \<Longrightarrow>
   \<exists>new. out = chars @ new \<and> list_all2 (\<lambda>c cs. c \<in> set cs) new css"
proof (induction css chars bytes rule: pick_each.induct)
  case (1 chars bytes)
  then show ?case by simp
next
  case (2 cs css chars bytes)
  then obtain c r where c: "pick cs bytes = Some (c, r)"
    and rec: "pick_each css (chars @ [c]) r = Some (out, rest)"
    by (auto split: option.splits)
  with "2.IH" [OF c refl rec] "2.prems" obtain new where
    "out = chars @ c # new" "list_all2 (\<lambda>c cs. c \<in> set cs) new css" by auto
  moreover have "c \<in> set cs" using pick_member [OF c] "2.prems" by auto
  ultimately show ?case by (intro exI [of _ "c # new"]) simp
qed

lemma mset_swap_at: "i < length xs \<Longrightarrow> j < length xs \<Longrightarrow> mset (swap i j xs) = mset xs"
  unfolding swap_def by (rule mset_swap)

lemma length_swap [simp]: "length (swap i j xs) = length xs"
  by (simp add: swap_def)

lemma shuffle_mset:
  "shuffle_from i chars bytes = Some (out, rest) \<Longrightarrow> i < length chars \<Longrightarrow> mset out = mset chars"
proof (induction i chars bytes rule: shuffle_from.induct)
  case (1 chars bytes)
  then show ?case by simp
next
  case (2 i chars bytes)
  then obtain j r where j: "draw (Suc (Suc i)) bytes = Some (j, r)"
    and rec: "shuffle_from i (swap (Suc i) j chars) r = Some (out, rest)"
    by (auto split: option.splits)
  have "j < Suc (Suc i)" using draw_range [OF j] by simp
  with "2.IH" [OF j refl rec] "2.prems" show ?case by (simp add: mset_swap_at)
qed

lemma classes_nonempty [simp]: "UPPER \<noteq> []" "LOWER \<noteq> []" "DIGIT \<noteq> []" "SYMBOL \<noteq> []" "ALL_CHARS \<noteq> []"
  "[] \<noteq> UPPER" "[] \<noteq> LOWER" "[] \<noteq> DIGIT" "[] \<noteq> SYMBOL" "[] \<noteq> ALL_CHARS"
  by (simp_all add: UPPER_def LOWER_def DIGIT_def SYMBOL_def ALL_CHARS_def)

lemma members_union:
  "list_all2 (\<lambda>c cs. c \<in> set cs) chars css \<Longrightarrow> set chars \<subseteq> \<Union> (set ` set css)"
  by (induction rule: list_all2_induct) auto

lemma password_chars:
  assumes "generateTempPassword n bytes = Some (pw, rest)"
  obtains chars where "set pw = set chars" "length pw = length chars"
    "list_all2 (\<lambda>c cs. c \<in> set cs) chars (password_classes (max 8 n))"
proof -
  have len: "(if n < 8 then 8 else n) = max 8 n" by simp
  obtain chars r where picked: "pick_each (password_classes (max 8 n)) [] bytes = Some (chars, r)"
    and shuffled: "shuffle_from (max 8 n - 1) chars r = Some (pw, rest)"
    using assms unfolding generateTempPassword_def Let_def len by (auto split: option.splits)
  have members: "list_all2 (\<lambda>c cs. c \<in> set cs) chars (password_classes (max 8 n))"
    using pick_each_members [OF picked] by (auto simp add: password_classes_def)
  then have "length chars = max 8 n"
    by (auto simp add: password_classes_def dest: list_all2_lengthD)
  then have "mset pw = mset chars" using shuffle_mset [OF shuffled] by simp
  then have "length pw = length chars" "set pw = set chars"
    by (metis size_mset, metis set_mset_mset)
  with that members show ?thesis by blast
qed

lemma password_subset:
  assumes "generateTempPassword n bytes = Some (pw, rest)"
  shows "set pw \<subseteq> set ALL_CHARS"
proof -
  obtain chars where "set pw = set chars"
    "list_all2 (\<lambda>c cs. c \<in> set cs) chars (password_classes (max 8 n))"
    using password_chars [OF assms] .
  with members_union show ?thesis by (fastforce simp add: password_classes_def ALL_CHARS_def)
qed

text \<open>
  C39. Every temporary password that is returned satisfies the complexity rule: it has
  the requested length, at least 8, holds a character of each of the four classes, and
  has no character outside them; the shuffle only permutes.
\<close>

theorem temp_password_complex:
  assumes "generateTempPassword n bytes = Some (pw, rest)"
  shows "length pw = max 8 n \<and> set pw \<subseteq> set ALL_CHARS
    \<and> (\<forall>class \<in> {UPPER, LOWER, DIGIT, SYMBOL}. set pw \<inter> set class \<noteq> {})"
proof -
  obtain chars where same: "set pw = set chars" "length pw = length chars"
    and members: "list_all2 (\<lambda>c cs. c \<in> set cs) chars (password_classes (max 8 n))"
    using password_chars [OF assms] .
  then have "length chars = max 8 n"
    by (auto simp add: password_classes_def dest: list_all2_lengthD)
  moreover have "set chars \<inter> set cs \<noteq> {}" if "cs \<in> set [UPPER, LOWER, DIGIT, SYMBOL]" for cs
    using members that by (auto simp add: password_classes_def list_all2_Cons2)
  ultimately show ?thesis using same password_subset [OF assms] by simp
qed

section \<open>The loops return\<close>

lemma accepts_small:
  assumes "0 < n" "n \<le> 256" "unat (v :: byte) < 128"
  shows "\<not> unat v \<ge> 256 - 256 mod n"
proof -
  have "256 mod n < 129"
  proof (cases "n \<le> 128")
    case True
    then show ?thesis using assms(1) mod_less_divisor [of n 256] by linarith
  next
    case False
    show ?thesis
    proof (cases "n = 256")
      case False
      with \<open>\<not> n \<le> 128\<close> assms(2) have "256 mod n = 256 - n" by (simp add: mod_if)
      with \<open>\<not> n \<le> 128\<close> show ?thesis by linarith
    qed simp
  qed
  with assms(3) show ?thesis by linarith
qed

definition small_bytes :: "byte list \<Rightarrow> bool" where
  "small_bytes bytes \<longleftrightarrow> list_all (\<lambda>v. unat v < 128) bytes"

lemma draw_small:
  "small_bytes (v # vs) \<Longrightarrow> 0 < n \<Longrightarrow> n \<le> 256 \<Longrightarrow> draw n (v # vs) = Some (unat v mod n, vs)"
  using accepts_small by (simp add: small_bytes_def)

lemma pick_each_small:
  "small_bytes bytes \<Longrightarrow> length css \<le> length bytes \<Longrightarrow>
   \<forall>cs \<in> set css. cs \<noteq> [] \<and> length cs \<le> 256 \<Longrightarrow>
   \<exists>out. pick_each css chars bytes = Some (out, drop (length css) bytes)"
proof (induction css arbitrary: chars bytes)
  case Nil
  then show ?case by simp
next
  case (Cons cs css)
  then obtain v vs where bytes: "bytes = v # vs" by (cases bytes) auto
  then have "small_bytes vs" using Cons.prems by (simp add: small_bytes_def)
  with Cons.IH [of vs] Cons.prems bytes draw_small [of v vs "length cs"] show ?case
    by (simp add: pick_def)
qed

lemma shuffle_small:
  "small_bytes bytes \<Longrightarrow> i \<le> length bytes \<Longrightarrow> i < 256 \<Longrightarrow>
   \<exists>out. shuffle_from i chars bytes = Some (out, drop i bytes)"
proof (induction i arbitrary: chars bytes)
  case 0
  then show ?case by simp
next
  case (Suc i)
  then obtain v vs where bytes: "bytes = v # vs" by (cases bytes) auto
  then have "small_bytes vs" using Suc.prems by (simp add: small_bytes_def)
  with Suc.IH [of vs] Suc.prems bytes draw_small [of v vs "Suc (Suc i)"] show ?case
    by simp
qed

lemma class_lengths:
  "length UPPER = 24" "length LOWER = 25" "length DIGIT = 8" "length SYMBOL = 13"
  "length ALL_CHARS = 70"
  by (simp_all add: UPPER_def LOWER_def DIGIT_def SYMBOL_def ALL_CHARS_def)

lemma returns_enough:
  assumes "n \<le> 256" and "small_bytes bytes" and "2 * max 8 n - 1 \<le> length bytes"
  shows "generateTempPassword n bytes \<noteq> None"
proof -
  let ?len = "max 8 n"
  have len: "(if n < 8 then 8 else n) = ?len" by simp
  note asm = assms
  have "length (password_classes ?len) = ?len" by (simp add: password_classes_def)
  moreover have "\<forall>cs \<in> set (password_classes ?len). cs \<noteq> [] \<and> length cs \<le> 256"
    by (auto simp add: password_classes_def class_lengths)
  ultimately obtain out where
    out: "pick_each (password_classes ?len) [] bytes = Some (out, drop ?len bytes)"
    using asm pick_each_small [of bytes "password_classes ?len" "[]"] by fastforce
  have "small_bytes (drop ?len bytes)"
    using asm by (auto simp add: small_bytes_def list_all_iff dest: in_set_dropD)
  moreover have "?len - 1 \<le> length (drop ?len bytes)" "?len - 1 < 256" using asm by auto
  ultimately obtain pw where
    "shuffle_from (?len - 1) out (drop ?len bytes) = Some (pw, drop (?len - 1) (drop ?len bytes))"
    using shuffle_small by blast
  with out show ?thesis
    unfolding generateTempPassword_def Let_def len by simp
qed

lemma never_returns:
  assumes "256 < n"
  shows "generateTempPassword n any_bytes = None"
proof -
  have none: "draw n vs = None" for vs
    using assms by (induction vs) simp_all
  obtain m where m: "n - 1 = Suc m" "n = Suc (Suc m)"
    using assms by (intro that [of "n - 2"]) simp_all
  have stuck: "shuffle_from (n - 1) chars vs = None" for chars vs
    using none [of vs] m by simp
  have len: "(if n < 8 then 8 else n) = n" using assms by simp
  show ?thesis
    unfolding generateTempPassword_def Let_def len by (simp only: stuck split: option.split prod.split) simp
qed



theorem temp_password_complex_witness:
  "\<exists>pw rest. generateTempPassword 20 (replicate 39 5) = Some (pw, rest) \<and> length pw = 20
    \<and> set pw \<inter> set DIGIT \<noteq> {}"
proof -
  have "generateTempPassword 20 (replicate 39 5) \<noteq> None"
    by (rule returns_enough) (simp_all add: small_bytes_def list_all_iff)
  then obtain pw rest where "generateTempPassword 20 (replicate 39 5) = Some (pw, rest)" by auto
  from this temp_password_complex [OF this] show ?thesis by auto
qed

section \<open>No bias\<close>

lemma length_filter_upt: "length (filter P [0..<m]) = card {b. b < m \<and> P b}"
  by (simp add: length_filter_conv_card cong: conj_cong)

text \<open>
  The rejection sampling is unbiased: for every size \<open>n\<close> up to 256, each index below
  \<open>n\<close> is the result of the same number of byte values, \<open>256 div n\<close>.
\<close>

theorem draw_unbiased:
  assumes "0 < n" and "n \<le> 256" and "j < n"
  shows "length (filter (\<lambda>b. draw n [of_nat b] = Some (j, [])) [0..<256]) = 256 div n"
proof -
  have accept: "draw n [of_nat b] = Some (j, []) \<longleftrightarrow> b < 256 - 256 mod n \<and> b mod n = j"
    if "b < 256" for b
  proof -
    have "unat (of_nat b :: byte) = b" using that by (simp add: unat_of_nat)
    then show ?thesis by auto
  qed
  have top: "256 - 256 mod n = n * (256 div n)" by (simp add: minus_mod_eq_mult_div)
  have "{b. b < 256 \<and> draw n [of_nat b] = Some (j, [])} = (\<lambda>q. q * n + j) ` {..<256 div n}"
  proof (intro set_eqI iffI)
    fix b
    assume "b \<in> {b. b < 256 \<and> draw n [of_nat b] = Some (j, [])}"
    then have b: "b < n * (256 div n)" "b mod n = j" using accept top by auto
    then have "b div n < 256 div n" by (simp add: less_mult_imp_div_less mult.commute)
    with b show "b \<in> (\<lambda>q. q * n + j) ` {..<256 div n}"
      by (intro image_eqI [of _ _ "b div n"]) auto
  next
    fix b
    assume "b \<in> (\<lambda>q. q * n + j) ` {..<256 div n}"
    then obtain q where q: "b = q * n + j" "q < 256 div n" by auto
    then have "(q + 1) * n \<le> 256 div n * n" by (intro mult_le_mono1) simp
    with q assms(3) have "b < n * (256 div n)" by (simp add: mult.commute)
    moreover have "n * (256 div n) \<le> 256" by simp
    ultimately have b: "b < 256" "b < 256 - 256 mod n" using top by linarith+
    moreover have "b mod n = j" using q assms(3) by simp
    ultimately show "b \<in> {b. b < 256 \<and> draw n [of_nat b] = Some (j, [])}"
      using accept [OF b(1)] by blast
  qed
  moreover have "inj_on (\<lambda>q. q * n + j) {..<256 div n}"
    using assms(1) by (simp add: inj_on_def)
  ultimately have "card {b. b < 256 \<and> draw n [of_nat b] = Some (j, [])} = 256 div n"
    by (simp add: card_image)
  then show ?thesis by (simp only: length_filter_upt)
qed

theorem draw_unbiased_witness:
  "length (filter (\<lambda>b. draw 24 [of_nat b] = Some (7, [])) [0..<256]) = 10"
proof -
  have "length (filter (\<lambda>b. draw 24 [of_nat b] = Some (7, [])) [0..<256]) = 256 div 24"
    by (rule draw_unbiased) (simp_all only: numeral_less_iff numeral_le_iff zero_less_numeral semiring_norm)
  also have "\<dots> = 10" by simp
  finally show ?thesis .
qed

end
