(* ===== verification/Config.thy ===== *)
theory Config
  imports Contracts
begin

text \<open>
  The key/value configuration table (\<open>worker/src/db/config.ts\<close>) and the validation of a
  settings change (\<open>worker/src/routes/config.ts\<close>). Values are stored as text:
  \<open>num_text\<close> is \<open>String(value)\<close> and \<open>num\<close> reads it back. The locale \<open>keyed_store\<close> is the
  contract of a table written by key; other tables are instances of it too.
\<close>

section \<open>A table written by key\<close>

locale keyed_store =
  fixes get :: "'k \<Rightarrow> 't \<Rightarrow> 'v option"
    and put :: "'k \<Rightarrow> 'v \<Rightarrow> 't \<Rightarrow> 't"
    and ok :: "'t \<Rightarrow> bool"
  assumes get_put: "ok t \<Longrightarrow> get k (put k' v t) = (if k = k' then Some v else get k t)"
    and ok_put: "ok t \<Longrightarrow> ok (put k v t)"
begin

definition put_all :: "('k \<times> 'v) list \<Rightarrow> 't \<Rightarrow> 't" where
  "put_all kvs t = fold (\<lambda>(k, v). put k v) kvs t"

lemma ok_put_all: "ok t \<Longrightarrow> ok (put_all kvs t)"
  by (induction kvs arbitrary: t) (auto simp add: put_all_def ok_put)

lemma get_put_all:
  "ok t \<Longrightarrow> get k (put_all kvs t) =
     (case map_of (rev kvs) k of None \<Rightarrow> get k t | Some v \<Rightarrow> Some v)"
proof (induction kvs arbitrary: t)
  case Nil
  then show ?case by (simp add: put_all_def)
next
  case (Cons kv kvs)
  obtain a b where kv: "kv = (a, b)" by (cases kv)
  have "put_all (kv # kvs) t = put_all kvs (put a b t)" by (simp add: put_all_def kv)
  with Cons kv show ?case
    by (auto simp add: ok_put get_put map_add_def split: option.split)
qed

end

section \<open>The table\<close>

type_synonym config_table = "(js_string \<times> js_string) list"

definition getAllConfig :: "config_table \<Rightarrow> js_string \<rightharpoonup> js_string" where
  "getAllConfig t = fold (\<lambda>(k, v) m. m(k \<mapsto> v)) t Map.empty"

definition getConfigValue :: "config_table \<Rightarrow> js_string \<Rightarrow> js_string \<Rightarrow> js_string" where
  "getConfigValue t key fallback =
     (case lookup_by fst key t of None \<Rightarrow> fallback | Some row \<Rightarrow> snd row)"

definition num :: "(js_string \<rightharpoonup> js_string) \<Rightarrow> js_string \<Rightarrow> rat \<Rightarrow> rat" where
  "num m key fallback =
     (case to_number (case m key of None \<Rightarrow> Undefined | Some v \<Rightarrow> JStr v) of
        Fin v \<Rightarrow> v
      | _ \<Rightarrow> fallback)"

definition setConfigValue :: "js_string \<Rightarrow> js_string \<Rightarrow> config_table \<Rightarrow> config_table" where
  "setConfigValue key v t = upsert_by fst (\<lambda>row. (fst row, v)) (key, v) t"

lemma getAllConfig_map_of: "getAllConfig t = map_of (rev t)"
proof -
  have "fold (\<lambda>(k, v) m. m(k \<mapsto> v)) t m = m ++ map_of (rev t)" for m
    by (induction t arbitrary: m) (auto simp add: map_add_def fun_eq_iff split: option.splits)
  then show ?thesis by (simp add: getAllConfig_def)
qed

lemma map_of_lookup: "map_of t k = map_option snd (lookup_by fst k t)"
  by (induction t) (auto simp add: lookup_by_def)

lemma map_of_rev_distinct: "distinct (map fst t) \<Longrightarrow> map_of (rev t) = map_of t"
proof
  fix k
  assume "distinct (map fst t)"
  then have "map_of (rev t) k = Some v \<longleftrightarrow> map_of t k = Some v" for v
    by (simp add: map_of_eq_Some_iff rev_map [symmetric])
  then show "map_of (rev t) k = map_of t k" by (metis option.exhaust)
qed

lemma getAllConfig_lookup:
  assumes "unique_by fst t"
  shows "getAllConfig t k = map_option snd (lookup_by fst k t)"
proof -
  have "map_of (rev t) = map_of t" using assms by (simp add: unique_by_def map_of_rev_distinct)
  then show ?thesis by (simp add: getAllConfig_map_of map_of_lookup)
qed

interpretation config: keyed_store "\<lambda>k t. map_option snd (lookup_by fst k t)" setConfigValue
  "\<lambda>t. unique_by fst t"
proof
  fix t :: config_table and k k' v
  assume "unique_by fst t"
  then show "map_option snd (lookup_by fst k (setConfigValue k' v t)) =
      (if k = k' then Some v else map_option snd (lookup_by fst k t))"
    using lookup_by_upsert_same [of fst "(k', v)" "\<lambda>row. (fst row, v)" t]
      lookup_by_upsert_other [of k fst "(k', v)" "\<lambda>row. (fst row, v)" t]
    by (auto simp add: setConfigValue_def split: option.splits)
next
  fix t :: config_table and k v
  assume "unique_by fst t"
  then show "unique_by fst (setConfigValue k v t)"
    using unique_by_upsert [of fst "(k, v)" "\<lambda>row. (fst row, v)" t] by (simp add: setConfigValue_def)
qed

section \<open>Numbers as text\<close>

fun frac_digits :: "nat \<Rightarrow> rat \<Rightarrow> js_string" where
  "frac_digits 0 r = []"
| "frac_digits (Suc k) r =
     (if r = 0 then []
      else (48 + nat \<lfloor>r * 10\<rfloor>) # frac_digits k (r * 10 - of_int \<lfloor>r * 10\<rfloor>))"

definition unsigned_text :: "rat \<Rightarrow> js_string" where
  "unsigned_text q =
     (let f = frac_digits 20 (q - of_int \<lfloor>q\<rfloor>)
      in digits (nat \<lfloor>q\<rfloor>) @ (if f = [] then [] else 46 # f))"

text \<open>\<open>String(value)\<close> in positional notation, twenty decimals at most.\<close>

definition num_text :: "rat \<Rightarrow> js_string" where
  "num_text q = (if q < 0 then 45 # unsigned_text (- q) else unsigned_text q)"

text \<open>A decimal fraction of at most \<open>k\<close> digits.\<close>

fun exact :: "nat \<Rightarrow> rat \<Rightarrow> bool" where
  "exact 0 r = (r = 0)"
| "exact (Suc k) r = (r = 0 \<or> exact k (r * 10 - of_int \<lfloor>r * 10\<rfloor>))"

definition decimal :: "rat \<Rightarrow> bool" where
  "decimal q \<longleftrightarrow> exact 20 (q - of_int \<lfloor>q\<rfloor>)"

lemma digit_value_10: "d < 10 \<Longrightarrow> digit_value 10 (48 + d) = Some d"
  by (simp add: digit_value_def)

lemma take_digits_stop:
  "digit_value 10 c = None \<Longrightarrow> take_digits 10 v n (c # r) = (v, n, c # r)"
  by simp

lemma take_digits_digits:
  "take_digits 10 v n (digits m @ r) =
     take_digits 10 (v * 10 ^ length (digits m) + m) (n + length (digits m)) r"
proof (induction m arbitrary: r rule: digits.induct)
  case (1 m)
  show ?case
  proof (cases "m < 10")
    case True
    then show ?thesis by (simp add: digits.simps [of m] digit_value_10)
  next
    case False
    have ds: "digits m = digits (m div 10) @ [48 + m mod 10]"
      using False by (subst digits.simps) simp
    have "take_digits 10 v n (digits m @ r) = take_digits 10 v n (digits (m div 10) @ (48 + m mod 10) # r)"
      by (simp add: ds)
    also have "\<dots> = take_digits 10 ((v * 10 ^ length (digits (m div 10)) + m div 10) * 10 + m mod 10)
        (Suc (n + length (digits (m div 10)))) r"
      by (simp add: "1.IH" [OF False] digit_value_10)
    also have "(v * 10 ^ length (digits (m div 10)) + m div 10) * 10 + m mod 10 =
        v * 10 ^ length (digits m) + m"
      by (simp add: ds distrib_right)
    finally show ?thesis by (simp add: ds)
  qed
qed

lemma take_digits_frac:
  "0 \<le> r \<Longrightarrow> r < 1 \<Longrightarrow> exact k r \<Longrightarrow>
   \<exists>w. take_digits 10 v n (frac_digits k r) = (w, n + length (frac_digits k r), [])
     \<and> of_nat w = (of_nat v + r) * 10 ^ length (frac_digits k r)"
proof (induction k arbitrary: r v n)
  case 0
  then show ?case by simp
next
  case (Suc k)
  show ?case
  proof (cases "r = 0")
    case True
    then show ?thesis by simp
  next
    case False
    define d where "d = nat \<lfloor>r * 10\<rfloor>"
    define r' where "r' = r * 10 - of_int \<lfloor>r * 10\<rfloor>"
    define ds where "ds = frac_digits k r'"
    have floor: "\<lfloor>r * 10\<rfloor> = int d" using Suc.prems by (simp add: d_def)
    have "d < 10" using Suc.prems floor by (simp add: floor_eq_iff)
    have digits: "frac_digits (Suc k) r = (48 + d) # ds"
      using False by (simp add: d_def ds_def r'_def)
    have r: "r * 10 = of_nat d + r'" by (simp add: r'_def floor)
    have "0 \<le> r'" "r' < 1" unfolding r'_def by linarith+
    moreover have "exact k r'" using Suc.prems(3) False by (simp add: r'_def)
    ultimately obtain w where w: "take_digits 10 (v * 10 + d) (Suc n) ds = (w, Suc n + length ds, [])"
      "of_nat w = (of_nat (v * 10 + d) + r') * 10 ^ length ds"
      using Suc.IH unfolding ds_def by blast
    have "(of_nat v + r) * 10 ^ length (frac_digits (Suc k) r) =
        (of_nat v * 10 + r * 10) * 10 ^ length ds"
      unfolding digits by (simp add: distrib_right)
    then have "of_nat w = (of_nat v + r) * 10 ^ length (frac_digits (Suc k) r)"
      by (simp only: r w(2)) simp
    moreover have "take_digits 10 v n (frac_digits (Suc k) r) =
        (w, n + length (frac_digits (Suc k) r), [])"
      using w(1) \<open>d < 10\<close> by (simp only: digits take_digits.simps digit_value_10) simp
    ultimately show ?thesis by blast
  qed
qed

lemma no_space_trim: "\<forall>c \<in> set s. \<not> js_space c \<Longrightarrow> trim s = s"
proof -
  assume asm: "\<forall>c \<in> set s. \<not> js_space c"
  then have "dropWhile js_space s = s" by (cases s) auto
  moreover have "dropWhile js_space (rev s) = rev s" using asm by (cases "rev s") (auto simp add: rev_eq_Cons_iff)
  ultimately show ?thesis by (simp add: trim_def)
qed

lemma frac_digits_range:
  "0 \<le> r \<Longrightarrow> r < 1 \<Longrightarrow> \<forall>c \<in> set (frac_digits k r). 48 \<le> c \<and> c \<le> 57"
proof (induction k arbitrary: r)
  case 0
  then show ?case by simp
next
  case (Suc k)
  have "\<lfloor>r * 10\<rfloor> < 10" "0 \<le> \<lfloor>r * 10\<rfloor>" using Suc.prems by (simp_all add: floor_less_iff)
  then have d: "nat \<lfloor>r * 10\<rfloor> \<le> 9" by linarith
  have "0 \<le> r * 10 - of_int \<lfloor>r * 10\<rfloor>" "r * 10 - of_int \<lfloor>r * 10\<rfloor> < 1" by linarith+
  then have rest: "\<forall>c \<in> set (frac_digits k (r * 10 - of_int \<lfloor>r * 10\<rfloor>)). 48 \<le> c \<and> c \<le> 57"
    by (rule Suc.IH)
  show ?case
  proof (cases "r = 0")
    case False
    then have "frac_digits (Suc k) r =
        (48 + nat \<lfloor>r * 10\<rfloor>) # frac_digits k (r * 10 - of_int \<lfloor>r * 10\<rfloor>)"
      by simp
    moreover obtain e ds where "nat \<lfloor>r * 10\<rfloor> = e"
      "frac_digits k (r * 10 - of_int \<lfloor>r * 10\<rfloor>) = ds" by blast
    ultimately show ?thesis using d rest by simp
  qed simp
qed

lemma unsigned_parse:
  assumes "0 \<le> q" and "decimal q"
  shows "unsigned_decimal (unsigned_text q) = Fin q"
proof -
  let ?r = "q - of_int \<lfloor>q\<rfloor>" and ?n = "length (digits (nat \<lfloor>q\<rfloor>))"
  define f where "f = frac_digits 20 ?r"
  have r: "0 \<le> ?r" "?r < 1" by linarith+
  have floor: "of_nat (nat \<lfloor>q\<rfloor>) = (of_int \<lfloor>q\<rfloor> :: rat)" using assms(1) by simp
  obtain w where w: "take_digits 10 0 0 f = (w, length f, [])" "of_nat w = ?r * 10 ^ length f"
    using take_digits_frac [OF r, of 20 0 0] assms(2) by (auto simp add: f_def decimal_def)
  have whole: "take_digits 10 0 0 (digits (nat \<lfloor>q\<rfloor>) @ s) = take_digits 10 (nat \<lfloor>q\<rfloor>) ?n s" for s
    by (simp add: take_digits_digits)
  have n: "0 < ?n" by simp
  have notinf: "unsigned_text q \<noteq> js ''Infinity''"
  proof
    assume "unsigned_text q = js ''Infinity''"
    then have "hd (digits (nat \<lfloor>q\<rfloor>)) = 73"
      by (auto simp add: unsigned_text_def Let_def js_def hd_append dest!: arg_cong [where f = hd])
    moreover have "hd (digits (nat \<lfloor>q\<rfloor>)) \<in> set (digits (nat \<lfloor>q\<rfloor>))" by simp
    ultimately show False using digits_range [of "nat \<lfloor>q\<rfloor>"] by fastforce
  qed
  have total: "of_nat (nat \<lfloor>q\<rfloor>) + of_nat w / 10 ^ length f = q"
    unfolding floor w(2) by simp
  have shape: "unsigned_text q = digits (nat \<lfloor>q\<rfloor>) @ (if f = [] then [] else 46 # f)"
    by (simp add: unsigned_text_def f_def)
  show ?thesis
  proof (cases "f = []")
    case True
    with w total have "of_nat (nat \<lfloor>q\<rfloor>) = q" by simp
    with notinf n True show ?thesis
      unfolding shape
      by (simp add: unsigned_decimal_def whole [of "[]", simplified] exponent_def scale10_def)
  next
    case False
    with notinf n w(1) total show ?thesis
      unfolding shape
      by (simp add: unsigned_decimal_def whole exponent_def scale10_def digit_value_def)
  qed
qed

lemma unsigned_text_units:
  "\<forall>c \<in> set (unsigned_text q). c = 46 \<or> 48 \<le> c \<and> c \<le> 57"
proof -
  have "0 \<le> q - of_int \<lfloor>q\<rfloor>" "q - of_int \<lfloor>q\<rfloor> < 1" by linarith+
  from frac_digits_range [OF this, of 20] digits_range [of "nat \<lfloor>q\<rfloor>"] show ?thesis
    by (auto simp add: unsigned_text_def Let_def)
qed

lemma parse_unsigned_units:
  assumes "\<forall>c \<in> set s. c = 46 \<or> 48 \<le> c \<and> c \<le> 57" and "s \<noteq> []"
  shows "parse_number s = unsigned_decimal s" and "parse_number (45 # s) = negate (unsigned_decimal s)"
proof -
  have "\<not> js_space c" if "c \<in> set s" for c
    using assms(1) that by (fastforce simp add: js_space_def)
  moreover have "\<not> js_space 45" by (simp add: js_space_def)
  ultimately have trim: "trim s = s" "trim (45 # s) = 45 # s"
    by (intro no_space_trim, simp)+
  show "parse_number (45 # s) = negate (unsigned_decimal s)"
    by (simp add: parse_number_def trim Let_def)
  show "parse_number s = unsigned_decimal s"
    using assms by (auto simp add: parse_number_def trim Let_def split: list.split)
qed

text \<open>Reading back the text of a decimal number.\<close>

lemma parse_num_text: "decimal \<bar>q\<bar> \<Longrightarrow> parse_number (num_text q) = Fin q"
  using parse_unsigned_units [OF unsigned_text_units, of "\<bar>q\<bar>"] unsigned_parse [of "\<bar>q\<bar>"]
  by (cases "q < 0") (simp_all add: num_text_def unsigned_text_def Let_def)

lemma num_of_put:
  assumes "unique_by fst t" and "decimal \<bar>v\<bar>"
  shows "num (getAllConfig (setConfigValue k (num_text v) t)) k fb = v"
  unfolding num_def getAllConfig_lookup [OF config.ok_put [OF assms(1)]]
    config.get_put [OF assms(1)]
  by (simp add: parse_num_text assms(2))

lemma num_of_put_other:
  assumes "unique_by fst t" and "k' \<noteq> k"
  shows "num (getAllConfig (setConfigValue k v t)) k' fb = num (getAllConfig t) k' fb"
  unfolding num_def getAllConfig_lookup [OF config.ok_put [OF assms(1)]]
    config.get_put [OF assms(1)] getAllConfig_lookup [OF assms(1)]
  using assms(2) by simp

end
