(* ===== verification/Clock.thy ===== *)
theory Clock
  imports Contracts
begin

text \<open>
  Time (\<open>worker/src/lib/time.ts\<close>). The clock is an argument \<open>now\<close>, milliseconds since the
  epoch; \<open>toISOString\<close> is the proleptic Gregorian calendar text of an instant. A column
  that stores \<open>nowIso()\<close> is modelled by the instant itself, and \<open>Date.parse\<close> reads it back
  unchanged; comparing two such texts compares the instants, because the texts have a
  fixed width. Only the audit log, whose texts meet texts of the request, keeps the text.
\<close>

text \<open>Year, month and day of a day number (0 is 1970-01-01), counted in eras of 400 years
  that start on the first of March.\<close>

definition civil :: "int \<Rightarrow> int \<times> int \<times> int" where
  "civil days =
     (let z = days + 719468;
          era = z div 146097;
          doe = z mod 146097;
          yoe = (doe - doe div 1460 + doe div 36524 - doe div 146096) div 365;
          doy = doe - (365 * yoe + yoe div 4 - yoe div 100);
          mp = (5 * doy + 2) div 153;
          d = doy - (153 * mp + 2) div 5 + 1;
          m = (if mp < 10 then mp + 3 else mp - 9);
          y = yoe + era * 400 + (if m \<le> 2 then 1 else 0)
      in (y, m, d))"

fun pad :: "nat \<Rightarrow> int \<Rightarrow> js_string" where
  "pad 0 v = []"
| "pad (Suc n) v = pad n (v div 10) @ [48 + nat (v mod 10)]"

definition year_text :: "int \<Rightarrow> js_string" where
  "year_text y =
     (if 0 \<le> y \<and> y \<le> 9999 then pad 4 y
      else (if y < 0 then 45 else 43) # pad 6 \<bar>y\<bar>)"

definition toISOString :: "instant \<Rightarrow> js_string" where
  "toISOString t =
     (let (y, m, d) = civil (t div 86400000);
          ms = t mod 86400000
      in year_text y @ 45 # pad 2 m @ 45 # pad 2 d @ 84 #
         pad 2 (ms div 3600000) @ 58 # pad 2 (ms div 60000 mod 60) @ 58 #
         pad 2 (ms div 1000 mod 60) @ 46 # pad 3 (ms mod 1000) @ [90])"

definition nowIso :: "instant \<Rightarrow> instant" where
  "nowIso now = now"

text \<open>A \<open>Date\<close> keeps whole milliseconds, truncated towards zero.\<close>

definition time_clip :: "rat \<Rightarrow> instant" where
  "time_clip t = (if 0 \<le> t then \<lfloor>t\<rfloor> else \<lceil>t\<rceil>)"

definition isoInSeconds :: "instant \<Rightarrow> rat \<Rightarrow> instant" where
  "isoInSeconds now seconds = time_clip (of_int now + seconds * 1000)"

definition todayUtc :: "instant \<Rightarrow> js_string" where
  "todayUtc now = take 10 (toISOString now)"

definition isPast :: "instant \<Rightarrow> instant \<Rightarrow> bool" where
  "isPast now t \<longleftrightarrow> t \<le> now"

text \<open>\<open>Math.round\<close> rounds a half up.\<close>

definition secondsBetween :: "instant \<Rightarrow> instant \<Rightarrow> int" where
  "secondsBetween a b = \<lfloor>(of_int (b - a) / 1000 :: rat) + 1 / 2\<rfloor>"

lemma isoInSeconds_le: "isoInSeconds now s \<le> now + m" if "0 \<le> now" "0 < s" "s * 1000 \<le> of_int m"
proof -
  have "\<lfloor>of_int now + s * 1000\<rfloor> \<le> \<lfloor>of_int (now + m) :: rat\<rfloor>" using that by (intro floor_mono) simp
  with that show ?thesis by (simp add: isoInSeconds_def time_clip_def)
qed

lemma isoInSeconds_int [simp]: "0 \<le> now \<Longrightarrow> 0 \<le> k \<Longrightarrow> isoInSeconds now (of_int k) = now + k * 1000"
proof -
  assume "0 \<le> now" "0 \<le> k"
  moreover have eq: "of_int now + of_int k * 1000 = (of_int (now + k * 1000) :: rat)" by simp
  ultimately show ?thesis unfolding isoInSeconds_def time_clip_def eq floor_of_int by simp
qed

lemma length_pad [simp]: "length (pad n v) = n"
  by (induction n arbitrary: v) simp_all

lemma toISOString_examples:
  "toISOString 0 = js ''1970-01-01T00:00:00.000Z''"
  "toISOString 1783600496789 = js ''2026-07-09T12:34:56.789Z''"
  "toISOString 951827696000 = js ''2000-02-29T12:34:56.000Z''"
  by code_simp+

lemma secondsBetween_bounds: "\<bar>secondsBetween a b * 1000 - (b - a)\<bar> \<le> 500"
proof -
  define q where "q = secondsBetween a b"
  have "of_int q \<le> (of_int (b - a) / 1000 :: rat) + 1 / 2"
    "(of_int (b - a) / 1000 :: rat) + 1 / 2 < of_int q + 1"
    unfolding q_def secondsBetween_def by (rule of_int_floor_le, rule floor_correct [THEN conjunct2, simplified])
  then have "of_int (q * 1000) \<le> (of_int (b - a + 500) :: rat)"
    "(of_int (b - a + 500) :: rat) < of_int (q * 1000 + 1000)"
    by (simp_all add: field_simps)
  then have "q * 1000 \<le> b - a + 500" "b - a + 500 < q * 1000 + 1000"
    by (simp_all only: of_int_le_iff of_int_less_iff)
  then show ?thesis unfolding q_def [symmetric] by linarith
qed

end
