(* ===== verification/Transitions.thy ===== *)
theory Transitions
  imports Prelude
begin

text \<open>
  State machines: a step relation with a property its steps keep. A component that runs
  interleaved operations interprets \<open>stepping\<close> on its step relation and its invariant, and
  has the invariant in every state a run can reach; \<open>progressing\<close> adds a measure the steps
  decrease, and every run ends.
\<close>

locale stepping =
  fixes step :: "'s \<Rightarrow> 's \<Rightarrow> bool"
    and inv :: "'s \<Rightarrow> bool"
  assumes inv_step: "inv s \<Longrightarrow> step s s' \<Longrightarrow> inv s'"
begin

lemma inv_steps: "step\<^sup>*\<^sup>* s s' \<Longrightarrow> inv s \<Longrightarrow> inv s'"
  by (induction rule: rtranclp_induct) (auto intro: inv_step)

lemma reach_frame:
  assumes keep: "\<And>t t'. inv t \<Longrightarrow> step t t' \<Longrightarrow> P t = P t'"
  shows "step\<^sup>*\<^sup>* s s' \<Longrightarrow> inv s \<Longrightarrow> P s = P s'"
  by (induction rule: rtranclp_induct) (auto dest: keep inv_steps)

end

locale progressing = stepping +
  fixes size_of :: "'s \<Rightarrow> nat"
  assumes smaller: "inv s \<Longrightarrow> step s s' \<Longrightarrow> size_of s' < size_of s"
begin

lemma run_bounded:
  "(step ^^ n) s s' \<Longrightarrow> inv s \<Longrightarrow> n + size_of s' \<le> size_of s"
proof (induction n arbitrary: s')
  case 0
  then show ?case by simp
next
  case (Suc n)
  then obtain t where t: "(step ^^ n) s t" "step t s'" by auto
  then have "inv t" using inv_steps [OF relpowp_imp_rtranclp] Suc.prems(2) by blast
  with t smaller have "size_of s' < size_of t" by blast
  with Suc.IH [OF t(1) Suc.prems(2)] show ?case by linarith
qed

end

end
