(* ===== verification/Budget.thy ===== *)
theory Budget
  imports Config Clock Errors Transitions
begin

text \<open>
  The free-tier governor: the counters of a day (\<open>worker/src/db/budget.ts\<close>), the limits and
  the degrade flag (\<open>worker/src/lib/budget.ts\<close>) and the settings change of
  \<open>worker/src/routes/config.ts\<close>. Every request bills its usage after the response, so many
  \<open>recordUsage\<close> calls run interleaved; \<open>gov_step\<close> is one statement of one of them.
\<close>

section \<open>Counters\<close>

record budget_row =
  bd_day :: js_string
  bd_workers :: int
  bd_writes :: int
  bd_queue :: int
  bd_degraded :: bool

record deltas =
  dl_workers :: int
  dl_writes :: int
  dl_queue :: int

type_synonym budget_table = "budget_row list"

definition zero_row :: "js_string \<Rightarrow> budget_row" where
  "zero_row day = \<lparr>bd_day = day, bd_workers = 0, bd_writes = 0, bd_queue = 0, bd_degraded = False\<rparr>"

definition getToday :: "instant \<Rightarrow> budget_table \<Rightarrow> budget_row" where
  "getToday now t =
     (let day = todayUtc now
      in case lookup_by bd_day day t of Some row \<Rightarrow> row | None \<Rightarrow> zero_row day)"

definition add_deltas :: "deltas \<Rightarrow> budget_row \<Rightarrow> budget_row" where
  "add_deltas dl row =
     row\<lparr>bd_workers := bd_workers row + dl_workers dl,
         bd_writes := bd_writes row + dl_writes dl,
         bd_queue := bd_queue row + dl_queue dl\<rparr>"

text \<open>The upsert and its \<open>RETURNING *\<close>.\<close>

definition increment :: "instant \<Rightarrow> deltas \<Rightarrow> budget_table \<Rightarrow> budget_row \<times> budget_table" where
  "increment now dl t =
     (let day = todayUtc now;
          t' = upsert_by bd_day (add_deltas dl) (add_deltas dl (zero_row day)) t
      in (getToday now t', t'))"

definition setDegraded :: "instant \<Rightarrow> bool \<Rightarrow> budget_table \<Rightarrow> budget_table" where
  "setDegraded now degraded t =
     update_where (\<lambda>row. bd_day row = todayUtc now) (\<lambda>row. row\<lparr>bd_degraded := degraded\<rparr>) t"

section \<open>Limits\<close>

record limits =
  lm_workers :: rat
  lm_writes :: rat
  lm_queue :: rat
  lm_soft :: rat

definition limits_of :: "config_table \<Rightarrow> limits" where
  "limits_of t =
     (let cfg = getAllConfig t
      in \<lparr>lm_workers = num cfg (js ''workersDailyLimit'') 100000,
          lm_writes = num cfg (js ''d1WritesDailyLimit'') 100000,
          lm_queue = num cfg (js ''queueOpsDailyLimit'') 10000,
          lm_soft = num cfg (js ''budgetSoftFraction'') (85 / 100)\<rparr>)"

definition isDegradedAtSoft :: "budget_row \<Rightarrow> limits \<Rightarrow> bool" where
  "isDegradedAtSoft row l \<longleftrightarrow>
     of_int (bd_workers row) \<ge> lm_workers l * lm_soft l \<or>
     of_int (bd_writes row) \<ge> lm_writes l * lm_soft l \<or>
     of_int (bd_queue row) \<ge> lm_queue l * lm_soft l"

definition isPaused :: "instant \<Rightarrow> config_table \<Rightarrow> budget_table \<Rightarrow> bool" where
  "isPaused now cfg t =
     (let row = getToday now t
      in bd_degraded row \<or> isDegradedAtSoft row (limits_of cfg))"

definition isHardExhausted :: "instant \<Rightarrow> config_table \<Rightarrow> budget_table \<Rightarrow> bool" where
  "isHardExhausted now cfg t =
     (let row = getToday now t; l = limits_of cfg
      in of_int (bd_workers row) \<ge> lm_workers l \<or> of_int (bd_writes row) \<ge> lm_writes l \<or>
         of_int (bd_queue row) \<ge> lm_queue l)"

definition getBudget :: "instant \<Rightarrow> config_table \<Rightarrow> budget_table \<Rightarrow> free_tier_budget" where
  "getBudget now cfg t =
     (let row = getToday now t; l = limits_of cfg
      in \<lparr>fb_day = bd_day row,
          fb_workers = (bd_workers row, lm_workers l),
          fb_d1_writes = (bd_writes row, lm_writes l),
          fb_queue_ops = (bd_queue row, lm_queue l),
          fb_degraded = bd_degraded row\<rparr>)"

definition getEngineConfig :: "instant \<Rightarrow> config_table \<Rightarrow> budget_table \<Rightarrow> engine_config" where
  "getEngineConfig now t rows =
     (let cfg = getAllConfig t
      in \<lparr>min_poll_interval_sec = num cfg (js ''minPollIntervalSec'') 30,
          per_mailbox_concurrency = num cfg (js ''perMailboxConcurrency'') 2,
          per_tenant_concurrency = num cfg (js ''perTenantConcurrency'') 4,
          exchange_export_batch_size = num cfg (js ''exchangeExportBatchSize'') 20,
          onedrive_upload_session_threshold_bytes =
            num cfg (js ''onedriveUploadSessionThresholdBytes'') 4194304,
          item_max_retries = num cfg (js ''itemMaxRetries'') 5,
          paused = isPaused now t rows\<rparr>)"

section \<open>One usage record\<close>

text \<open>\<open>recordUsage\<close> run without interruption: the degrade state it returns and the table.\<close>

definition recordUsage ::
    "instant \<Rightarrow> config_table \<Rightarrow> deltas \<Rightarrow> budget_table \<Rightarrow> bool \<times> budget_table"
where
  "recordUsage now cfg dl t =
     (let (row, t1) = increment now dl t;
          degradedNow = isDegradedAtSoft row (limits_of cfg)
      in (degradedNow,
          if degradedNow \<noteq> bd_degraded row then setDegraded now degradedNow t1 else t1))"

text \<open>The same with every statement a step of its own: a task first counts, then reads the
  limits, then writes the flag if it differs.\<close>

datatype usage_task = Pending deltas | Counted budget_row | Writing bool

record governor =
  gv_rows :: budget_table
  gv_tasks :: "usage_task list"

inductive gov_step :: "config_table \<Rightarrow> instant \<Rightarrow> governor \<Rightarrow> governor \<Rightarrow> bool" for cfg where
  count:
    "gv_tasks g = xs @ Pending dl # ys \<Longrightarrow> increment now dl (gv_rows g) = (row, rows') \<Longrightarrow>
     gov_step cfg now g \<lparr>gv_rows = rows', gv_tasks = xs @ Counted row # ys\<rparr>"
| settle:
    "gv_tasks g = xs @ Counted row # ys \<Longrightarrow>
     isDegradedAtSoft row (limits_of cfg) = bd_degraded row \<Longrightarrow>
     gov_step cfg now g \<lparr>gv_rows = gv_rows g, gv_tasks = xs @ ys\<rparr>"
| decide:
    "gv_tasks g = xs @ Counted row # ys \<Longrightarrow>
     isDegradedAtSoft row (limits_of cfg) = b \<Longrightarrow> b \<noteq> bd_degraded row \<Longrightarrow>
     gov_step cfg now g \<lparr>gv_rows = gv_rows g, gv_tasks = xs @ Writing b # ys\<rparr>"
| write_flag:
    "gv_tasks g = xs @ Writing b # ys \<Longrightarrow>
     gov_step cfg now g \<lparr>gv_rows = setDegraded now b (gv_rows g), gv_tasks = xs @ ys\<rparr>"

text \<open>The steps of one UTC day.\<close>

definition gov_day :: "config_table \<Rightarrow> js_string \<Rightarrow> governor \<Rightarrow> governor \<Rightarrow> bool" where
  "gov_day cfg day g g' \<longleftrightarrow> (\<exists>now. todayUtc now = day \<and> gov_step cfg now g g')"

lemma gov_dayI: "gov_step cfg now g g' \<Longrightarrow> gov_day cfg (todayUtc now) g g'"
  by (auto simp add: gov_day_def)

section \<open>Reading the counters after a write\<close>

lemma day_add_deltas [simp]: "bd_day (add_deltas dl row) = bd_day row"
  by (simp add: add_deltas_def)

lemma day_zero_row [simp]: "bd_day (zero_row day) = day"
  by (simp add: zero_row_def)

lemma day_getToday [simp]: "bd_day (getToday now t) = todayUtc now"
  by (auto simp add: getToday_def Let_def dest: lookup_by_Some split: option.split)

lemma getToday_cong: "todayUtc now = todayUtc now' \<Longrightarrow> getToday now t = getToday now' t"
  by (simp add: getToday_def)

lemma getToday_increment:
  assumes "increment now dl t = (row, t')"
  shows "row = add_deltas dl (getToday now t)" and "getToday now t' = row"
    and "lookup_by bd_day (todayUtc now) t' = Some row"
proof -
  let ?new = "add_deltas dl (zero_row (todayUtc now))"
  have t': "t' = upsert_by bd_day (add_deltas dl) ?new t" and row: "row = getToday now t'"
    using assms by (auto simp add: increment_def Let_def)
  have look: "lookup_by bd_day (todayUtc now) t' =
      Some (add_deltas dl (getToday now t))"
    using lookup_by_upsert_same [of bd_day ?new "add_deltas dl" t]
    by (auto simp add: t' getToday_def Let_def split: option.split)
  then show "row = add_deltas dl (getToday now t)" by (simp add: row getToday_def Let_def)
  then show "lookup_by bd_day (todayUtc now) t' = Some row" using look by simp
  show "getToday now t' = row" by (simp add: row)
qed

lemma getToday_setDegraded:
  "getToday now (setDegraded now b t) =
     (case lookup_by bd_day (todayUtc now) t of
        None \<Rightarrow> zero_row (todayUtc now)
      | Some row \<Rightarrow> row\<lparr>bd_degraded := b\<rparr>)"
  using lookup_by_update_same [of bd_day "todayUtc now" "\<lambda>row. row\<lparr>bd_degraded := b\<rparr>" t]
  by (simp add: getToday_def setDegraded_def Let_def split: option.split)

lemma lookup_setDegraded:
  "lookup_by bd_day (todayUtc now) (setDegraded now b t) =
     map_option (\<lambda>row. row\<lparr>bd_degraded := b\<rparr>) (lookup_by bd_day (todayUtc now) t)"
  unfolding setDegraded_def by (rule lookup_by_update_same) simp

definition nonneg :: "deltas \<Rightarrow> bool" where
  "nonneg dl \<longleftrightarrow> 0 \<le> dl_workers dl \<and> 0 \<le> dl_writes dl \<and> 0 \<le> dl_queue dl"

text \<open>The counters of one row are at most those of another.\<close>

definition row_le :: "budget_row \<Rightarrow> budget_row \<Rightarrow> bool" where
  "row_le a b \<longleftrightarrow> bd_workers a \<le> bd_workers b \<and> bd_writes a \<le> bd_writes b \<and> bd_queue a \<le> bd_queue b"

lemma row_le_refl [simp]: "row_le r r"
  by (simp add: row_le_def)

lemma row_le_trans: "row_le a b \<Longrightarrow> row_le b c \<Longrightarrow> row_le a c"
  by (auto simp add: row_le_def)

lemma row_le_add: "nonneg dl \<Longrightarrow> row_le r (add_deltas dl r)"
  by (simp add: row_le_def add_deltas_def nonneg_def)

lemma row_le_degraded [simp]:
  "row_le r (s\<lparr>bd_degraded := b\<rparr>) = row_le r s" "row_le (r\<lparr>bd_degraded := b\<rparr>) s = row_le r s"
  by (simp_all add: row_le_def)

lemma soft_mono: "row_le a b \<Longrightarrow> isDegradedAtSoft a l \<Longrightarrow> isDegradedAtSoft b l"
  by (auto simp add: row_le_def isDegradedAtSoft_def)

lemma soft_degraded [simp]: "isDegradedAtSoft (r\<lparr>bd_degraded := b\<rparr>) l = isDegradedAtSoft r l"
  by (simp add: isDegradedAtSoft_def)

section \<open>The governor at rest\<close>

definition today :: "js_string \<Rightarrow> budget_table \<Rightarrow> budget_row" where
  "today day t = (case lookup_by bd_day day t of Some row \<Rightarrow> row | None \<Rightarrow> zero_row day)"

lemma getToday_today: "getToday now t = today (todayUtc now) t"
  by (simp add: getToday_def today_def Let_def)

fun task_ok :: "limits \<Rightarrow> budget_row \<Rightarrow> usage_task \<Rightarrow> bool" where
  "task_ok l cur (Pending dl) = nonneg dl"
| "task_ok l cur (Counted row) =
     (row_le row cur \<and> (bd_degraded row \<longrightarrow> isDegradedAtSoft row l))"
| "task_ok l cur (Writing b) = (b \<and> isDegradedAtSoft cur l)"

fun will_degrade :: "limits \<Rightarrow> usage_task \<Rightarrow> bool" where
  "will_degrade l (Counted row) = (isDegradedAtSoft row l \<and> \<not> bd_degraded row)"
| "will_degrade l (Writing b) = b"
| "will_degrade l (Pending dl) = False"

fun started :: "usage_task \<Rightarrow> bool" where
  "started (Pending dl) = False"
| "started t = True"

definition gov_ok :: "config_table \<Rightarrow> js_string \<Rightarrow> governor \<Rightarrow> bool" where
  "gov_ok cfg day g \<longleftrightarrow>
     (let l = limits_of cfg; cur = today day (gv_rows g)
      in (bd_degraded cur \<longrightarrow> isDegradedAtSoft cur l)
       \<and> (isDegradedAtSoft cur l \<longrightarrow> bd_degraded cur \<or> (\<exists>t \<in> set (gv_tasks g). will_degrade l t))
       \<and> (\<forall>t \<in> set (gv_tasks g). task_ok l cur t)
       \<and> ((\<exists>t \<in> set (gv_tasks g). started t) \<longrightarrow> lookup_by bd_day day (gv_rows g) \<noteq> None))"

lemma task_ok_mono: "task_ok l a t \<Longrightarrow> row_le a b \<Longrightarrow> task_ok l b t"
  by (cases t) (auto intro: row_le_trans soft_mono)

lemma task_ok_degraded [simp]: "task_ok l (row\<lparr>bd_degraded := b\<rparr>) t = task_ok l row t"
  by (cases t) simp_all

lemma today_increment:
  assumes "increment now dl t = (row, t')"
  shows "row = add_deltas dl (today (todayUtc now) t)" and "today (todayUtc now) t' = row"
    and "lookup_by bd_day (todayUtc now) t' = Some row"
  using getToday_increment [OF assms] by (simp_all add: getToday_today)

lemma today_setDegraded:
  "lookup_by bd_day (todayUtc now) t = Some row \<Longrightarrow>
   today (todayUtc now) (setDegraded now b t) = row\<lparr>bd_degraded := b\<rparr>"
  by (simp add: today_def lookup_setDegraded)

lemma gov_ok_count:
  assumes ok: "gov_ok cfg (todayUtc now) g" and tasks: "gv_tasks g = xs @ Pending dl # ys"
    and inc: "increment now dl (gv_rows g) = (row, rows')"
  shows "gov_ok cfg (todayUtc now) \<lparr>gv_rows = rows', gv_tasks = xs @ Counted row # ys\<rparr>"
proof -
  define cur where "cur = today (todayUtc now) (gv_rows g)"
  have row: "row = add_deltas dl cur" "today (todayUtc now) rows' = row"
    "lookup_by bd_day (todayUtc now) rows' = Some row"
    using today_increment [OF inc] by (simp_all add: cur_def)
  have "nonneg dl" using ok tasks by (simp add: gov_ok_def Let_def)
  then have le: "row_le cur row" by (simp add: row(1) row_le_add)
  have deg: "bd_degraded row = bd_degraded cur" by (simp add: row(1) add_deltas_def)
  from ok tasks have facts: "bd_degraded cur \<longrightarrow> isDegradedAtSoft cur (limits_of cfg)"
    "isDegradedAtSoft cur (limits_of cfg) \<longrightarrow>
      bd_degraded cur \<or> (\<exists>t \<in> set xs \<union> set ys. will_degrade (limits_of cfg) t)"
    "\<forall>t \<in> set xs \<union> set ys. task_ok (limits_of cfg) cur t"
    by (auto simp add: gov_ok_def Let_def cur_def)
  then show ?thesis
    using soft_mono [OF le, of "limits_of cfg"] task_ok_mono [OF _ le]
    by (auto simp add: gov_ok_def Let_def row(2,3) deg)
qed

lemma gov_ok_drop:
  assumes ok: "gov_ok cfg day g" and tasks: "gv_tasks g = xs @ t # ys"
    and new: "\<forall>u \<in> set us. task_ok (limits_of cfg) (today day (gv_rows g)) u \<and> (started u \<longrightarrow> started t)"
    and keep: "will_degrade (limits_of cfg) t \<longrightarrow> (\<exists>u \<in> set us. will_degrade (limits_of cfg) u)"
  shows "gov_ok cfg day \<lparr>gv_rows = gv_rows g, gv_tasks = xs @ us @ ys\<rparr>"
  using assms unfolding gov_ok_def Let_def by auto

lemma gov_ok_write:
  assumes ok: "gov_ok cfg (todayUtc now) g" and tasks: "gv_tasks g = xs @ Writing b # ys"
  shows "gov_ok cfg (todayUtc now) \<lparr>gv_rows = setDegraded now b (gv_rows g), gv_tasks = xs @ ys\<rparr>"
proof -
  obtain cur where look: "lookup_by bd_day (todayUtc now) (gv_rows g) = Some cur"
    using ok tasks by (auto simp add: gov_ok_def Let_def)
  then have cur: "today (todayUtc now) (gv_rows g) = cur" by (simp add: today_def)
  have b: "b" "isDegradedAtSoft cur (limits_of cfg)"
    using ok tasks by (auto simp add: gov_ok_def Let_def cur)
  have "\<forall>t \<in> set xs \<union> set ys. task_ok (limits_of cfg) cur t"
    using ok tasks by (auto simp add: gov_ok_def Let_def cur)
  with b show ?thesis
    by (auto simp add: gov_ok_def Let_def today_setDegraded [OF look] lookup_setDegraded look)
qed

lemma gov_ok_step:
  assumes "gov_ok cfg (todayUtc now) g" and "gov_step cfg now g g'"
  shows "gov_ok cfg (todayUtc now) g'"
  using assms(2,1)
proof (cases rule: gov_step.cases)
  case (count xs dl ys row rows')
  with gov_ok_count [OF assms(1)] show ?thesis by simp
next
  case (settle xs row ys)
  with gov_ok_drop [OF assms(1), of xs _ ys "[]"] show ?thesis by simp
next
  case (decide xs row ys b)
  then have "task_ok (limits_of cfg) (today (todayUtc now) (gv_rows g)) (Counted row)"
    using assms(1) by (auto simp add: gov_ok_def Let_def)
  with decide gov_ok_drop [OF assms(1), of xs _ ys "[Writing b]"] show ?thesis
    by (auto dest: soft_mono)
next
  case (write_flag xs b ys)
  with gov_ok_write [OF assms(1)] show ?thesis by simp
qed

fun task_weight :: "usage_task \<Rightarrow> nat" where
  "task_weight (Pending dl) = 3"
| "task_weight (Counted row) = 2"
| "task_weight (Writing b) = 1"

definition gov_weight :: "governor \<Rightarrow> nat" where
  "gov_weight g = sum_list (map task_weight (gv_tasks g))"

lemma gov_weight_step: "gov_step cfg now g g' \<Longrightarrow> gov_weight g' < gov_weight g"
  by (cases rule: gov_step.cases) (auto simp add: gov_weight_def)

interpretation gov: progressing "gov_day cfg day" "gov_ok cfg day" gov_weight for cfg day
  by unfold_locales (auto simp add: gov_day_def intro: gov_ok_step gov_weight_step)

definition billed :: "js_string \<Rightarrow> governor \<Rightarrow> int \<times> int \<times> int" where
  "billed day g =
     (let cur = today day (gv_rows g);
          open_sum = (\<lambda>f. sum_list (map (\<lambda>t. case t of Pending dl \<Rightarrow> f dl | _ \<Rightarrow> 0) (gv_tasks g)))
      in (bd_workers cur + open_sum dl_workers, bd_writes cur + open_sum dl_writes,
          bd_queue cur + open_sum dl_queue))"

lemma billed_step:
  assumes "gov_ok cfg (todayUtc now) g" and "gov_step cfg now g g'"
  shows "billed (todayUtc now) g = billed (todayUtc now) g'"
  using assms(2)
proof (cases rule: gov_step.cases)
  case (count xs dl ys row rows')
  with today_increment [OF count(3)] show ?thesis
    by (simp add: billed_def Let_def add_deltas_def)
next
  case (write_flag xs b ys)
  then obtain cur where "lookup_by bd_day (todayUtc now) (gv_rows g) = Some cur"
    using assms(1) by (auto simp add: gov_ok_def Let_def)
  from today_setDegraded [OF this, of b] this write_flag show ?thesis
    by (simp add: billed_def Let_def today_def)
qed (simp_all add: billed_def)

text \<open>A day starts with an empty or a consistent row and requests that have not billed yet.\<close>

definition fresh_day :: "config_table \<Rightarrow> js_string \<Rightarrow> governor \<Rightarrow> bool" where
  "fresh_day cfg day g \<longleftrightarrow>
     (bd_degraded (today day (gv_rows g)) \<longleftrightarrow> isDegradedAtSoft (today day (gv_rows g)) (limits_of cfg))
     \<and> (\<forall>t \<in> set (gv_tasks g). \<exists>dl. t = Pending dl \<and> nonneg dl)"

lemma fresh_day_ok: "fresh_day cfg day g \<Longrightarrow> gov_ok cfg day g"
  by (fastforce simp add: fresh_day_def gov_ok_def Let_def)

definition totals :: "budget_row \<Rightarrow> int \<times> int \<times> int" where
  "totals row = (bd_workers row, bd_writes row, bd_queue row)"

text \<open>
  C5. The governor at rest: however the statements of the concurrent usage records of a
  day interleave, once all of them have finished the stored degrade flag says exactly
  whether a counter has crossed its soft threshold, and the counters are the initial
  ones plus everything billed: no update is lost.
\<close>

theorem governor_at_rest:
  assumes "(gov_day cfg day)\<^sup>*\<^sup>* g g'" and "fresh_day cfg day g" and "gv_tasks g' = []"
  shows "(bd_degraded (today day (gv_rows g')) \<longleftrightarrow>
      isDegradedAtSoft (today day (gv_rows g')) (limits_of cfg))
    \<and> totals (today day (gv_rows g')) = billed day g"
proof
  have ok: "gov_ok cfg day g" using assms(2) by (rule fresh_day_ok)
  then have "gov_ok cfg day g'" using gov.inv_steps assms(1) by blast
  with assms(3) show "bd_degraded (today day (gv_rows g')) \<longleftrightarrow>
      isDegradedAtSoft (today day (gv_rows g')) (limits_of cfg)"
    by (auto simp add: gov_ok_def Let_def)
  have "billed day g = billed day g'"
  proof (rule gov.reach_frame [OF _ assms(1) ok])
    fix t t'
    assume "gov_ok cfg day t" and "gov_day cfg day t t'"
    then show "billed day t = billed day t'" by (auto simp add: gov_day_def dest: billed_step)
  qed
  then show "totals (today day (gv_rows g')) = billed day g"
    by (simp add: totals_def billed_def Let_def assms(3))
qed

definition busy_day :: governor where
  "busy_day =
     \<lparr>gv_rows = [\<lparr>bd_day = todayUtc 0, bd_workers = 84999, bd_writes = 0, bd_queue = 0,
        bd_degraded = False\<rparr>],
      gv_tasks = [Pending \<lparr>dl_workers = 1, dl_writes = 0, dl_queue = 0\<rparr>]\<rparr>"

lemma default_limits:
  "limits_of [] = \<lparr>lm_workers = 100000, lm_writes = 100000, lm_queue = 10000, lm_soft = 85 / 100\<rparr>"
  by (simp add: limits_of_def num_def getAllConfig_def)

lemma busy_day_run:
  obtains g' where "(gov_day [] (todayUtc 0))\<^sup>*\<^sup>* busy_day g'" and "gv_tasks g' = []"
proof -
  let ?dl = "\<lparr>dl_workers = 1, dl_writes = 0, dl_queue = 0\<rparr>"
  obtain row rows' where inc: "increment 0 ?dl (gv_rows busy_day) = (row, rows')" by fastforce
  let ?g1 = "\<lparr>gv_rows = rows', gv_tasks = [] @ Counted row # []\<rparr>"
  let ?g2 = "\<lparr>gv_rows = gv_rows ?g1, gv_tasks = [] @ Writing True # []\<rparr>"
  have row: "row = \<lparr>bd_day = todayUtc 0, bd_workers = 85000, bd_writes = 0, bd_queue = 0,
      bd_degraded = False\<rparr>"
    using getToday_increment(1) [OF inc]
    by (simp add: busy_day_def getToday_def lookup_by_def add_deltas_def Let_def)
  have soft: "isDegradedAtSoft row (limits_of [])" "\<not> bd_degraded row"
    unfolding row by (simp_all add: isDegradedAtSoft_def default_limits)
  have s1: "gov_step [] 0 busy_day ?g1"
    by (rule gov_step.count [OF _ inc]) (simp add: busy_day_def)
  have s2: "gov_step [] 0 ?g1 ?g2"
    by (rule gov_step.decide [where row = row]) (simp_all only: governor.simps soft simp_thms)
  have s3: "gov_step [] 0 ?g2 \<lparr>gv_rows = setDegraded 0 True (gv_rows ?g2), gv_tasks = [] @ []\<rparr>"
    by (rule gov_step.write_flag) simp
  have "(gov_day [] (todayUtc 0))\<^sup>*\<^sup>* busy_day
      \<lparr>gv_rows = setDegraded 0 True (gv_rows ?g2), gv_tasks = [] @ []\<rparr>"
    by (rule converse_rtranclp_into_rtranclp, rule gov_dayI [OF s1],
        rule converse_rtranclp_into_rtranclp, rule gov_dayI [OF s2],
        rule r_into_rtranclp, rule gov_dayI [OF s3])
  then show ?thesis by (rule that) simp
qed

lemma busy_day_fresh: "fresh_day [] (todayUtc 0) busy_day"
  by (simp add: fresh_day_def busy_day_def today_def lookup_by_def isDegradedAtSoft_def
      default_limits nonneg_def)

theorem governor_at_rest_witness:
  "\<exists>g'. (gov_day [] (todayUtc 0))\<^sup>*\<^sup>* busy_day g'
    \<and> bd_degraded (today (todayUtc 0) (gv_rows g'))
    \<and> totals (today (todayUtc 0) (gv_rows g')) = (85000, 0, 0)"
proof -
  obtain g' where run: "(gov_day [] (todayUtc 0))\<^sup>*\<^sup>* busy_day g'" "gv_tasks g' = []"
    by (rule busy_day_run)
  have "billed (todayUtc 0) busy_day = (85000, 0, 0)"
    by (simp add: billed_def busy_day_def today_def lookup_by_def)
  with governor_at_rest [OF run(1) busy_day_fresh run(2)]
  have "totals (today (todayUtc 0) (gv_rows g')) = (85000, 0, 0)"
    "bd_degraded (today (todayUtc 0) (gv_rows g')) \<longleftrightarrow>
      isDegradedAtSoft (today (todayUtc 0) (gv_rows g')) (limits_of [])" by simp_all
  with run(1) show ?thesis
    by (auto simp add: totals_def isDegradedAtSoft_def default_limits)
qed



end
