(* ===== verification/Jobs.thy ===== *)
theory Jobs
  imports Contracts Clock Errors
begin

text \<open>
  The tables of the migration: users (\<open>worker/src/db/migrationUsers.ts\<close>), jobs
  (\<open>worker/src/db/jobs.ts\<close>) and the item log (\<open>worker/src/db/jobItems.ts\<close>). A user row is a
  \<open>migration_user\<close>; a job row keeps the bookkeeping columns the wire record does not show.
  A statement that reads the clock takes \<open>now\<close>.
\<close>

section \<open>Users\<close>

type_synonym users_table = "migration_user list"

text \<open>\<open>INSERT ... ON CONFLICT(source_email) DO UPDATE\<close>: the id and the creation time of an
  existing row stay. A new row whose id is taken violates the primary key.\<close>

definition user_excluded :: "migration_user \<Rightarrow> migration_user \<Rightarrow> migration_user" where
  "user_excluded u r =
     r\<lparr>target_email := target_email u, target_upn := target_upn u,
       migrate_exchange := migrate_exchange u, migrate_onedrive := migrate_onedrive u,
       auto_create_target := auto_create_target u, include_archive := include_archive u,
       mapping_status := mapping_status u\<rparr>"

definition primary_key_error :: exn where
  "primary_key_error = Other_error (js ''UNIQUE constraint failed'')"

definition upsertStmt :: "migration_user \<Rightarrow> users_table \<Rightarrow> exn + users_table" where
  "upsertStmt u t =
     (if source_email u \<notin> set (map source_email t) \<and> mu_id u \<in> set (map mu_id t)
      then Inl primary_key_error
      else Inr (upsert_by source_email (user_excluded u) u t))"

text \<open>\<open>DB.batch\<close>: one transaction, all statements or none.\<close>

fun batch_users :: "migration_user list \<Rightarrow> users_table \<Rightarrow> exn + users_table" where
  "batch_users [] t = Inr t"
| "batch_users (u # us) t =
     (case upsertStmt u t of Inl e \<Rightarrow> Inl e | Inr t' \<Rightarrow> batch_users us t')"

text \<open>\<open>ORDER BY created_at\<close>: a stable sort of the rows in insertion order.\<close>

definition list_users :: "users_table \<Rightarrow> migration_user list" where
  "list_users t = sort_key mu_created_at t"

definition user_by_id :: "js_string \<Rightarrow> users_table \<Rightarrow> migration_user option" where
  "user_by_id rid t = lookup_by mu_id rid t"

definition listSourceEmails :: "users_table \<Rightarrow> js_string list" where
  "listSourceEmails t = map source_email t"

definition updateMapping ::
    "js_string \<Rightarrow> js_string option \<Rightarrow> js_string option \<Rightarrow> mapping_status \<Rightarrow> users_table \<Rightarrow> users_table"
where
  "updateMapping rid email upn status t =
     update_where (\<lambda>r. mu_id r = rid)
       (\<lambda>r. r\<lparr>target_email := email, target_upn := upn, mapping_status := status\<rparr>) t"

definition setMappingStatus :: "js_string \<Rightarrow> mapping_status \<Rightarrow> users_table \<Rightarrow> users_table" where
  "setMappingStatus rid status t =
     update_where (\<lambda>r. mu_id r = rid) (\<lambda>r. r\<lparr>mapping_status := status\<rparr>) t"

definition remove_user :: "js_string \<Rightarrow> users_table \<Rightarrow> users_table" where
  "remove_user rid t = delete_where (\<lambda>r. mu_id r = rid) t"

section \<open>Jobs\<close>

record job_row =
  jr_id :: js_string
  jr_user :: js_string
  jr_workload :: workload
  jr_status :: job_status
  jr_phase_text :: "js_string option"
  jr_progress_current :: int
  jr_progress_total :: "int option"
  jr_bytes_done :: int
  jr_bytes_total :: "int option"
  jr_delta_token :: "js_string option"
  jr_checkpoint :: "js_value option"
  jr_attempts :: int
  jr_dispatch_seq :: int
  jr_delta_passes :: int
  jr_last_progress_at :: "instant option"
  jr_error_class :: "js_string option"
  jr_error_detail :: "js_string option"
  jr_created_at :: instant
  jr_updated_at :: instant
  jr_started_at :: "instant option"
  jr_completed_at :: "instant option"

type_synonym jobs_table = "job_row list"

text \<open>\<open>map\<close> of a joined row: \<open>target_upn ?? ''\<close>.\<close>

definition job_of_row :: "migration_user \<Rightarrow> job_row \<Rightarrow> job" where
  "job_of_row u r =
     \<lparr>job_id = jr_id r, job_user = jr_user r, job_source_email = source_email u,
      job_target_upn = default_to (target_upn u) [], job_workload = jr_workload r,
      job_status = jr_status r, job_phase_text = jr_phase_text r,
      job_progress_current = jr_progress_current r, job_progress_total = jr_progress_total r,
      job_bytes_done = jr_bytes_done r, job_bytes_total = jr_bytes_total r,
      job_delta_token = jr_delta_token r, job_checkpoint = jr_checkpoint r,
      job_attempts = jr_attempts r, job_error_class = jr_error_class r,
      job_error_detail = jr_error_detail r, job_created_at = jr_created_at r,
      job_updated_at = jr_updated_at r, job_started_at = jr_started_at r,
      job_completed_at = jr_completed_at r\<rparr>"

text \<open>\<open>SELECT_JOIN\<close>: an inner join, so a job without its user does not show.\<close>

definition join_job :: "users_table \<Rightarrow> job_row \<Rightarrow> job option" where
  "join_job us r = map_option (\<lambda>u. job_of_row u r) (user_by_id (jr_user r) us)"

definition job_by_id :: "js_string \<Rightarrow> users_table \<Rightarrow> jobs_table \<Rightarrow> job option" where
  "job_by_id rid us t = Option.bind (lookup_by jr_id rid t) (join_job us)"

definition getInternal :: "js_string \<Rightarrow> jobs_table \<Rightarrow> job_row option" where
  "getInternal rid t = lookup_by jr_id rid t"

definition listAll :: "users_table \<Rightarrow> jobs_table \<Rightarrow> job list" where
  "listAll us t = List.map_filter (join_job us) (sort_key (\<lambda>r. - jr_created_at r) t)"

definition listByMigrationUser :: "js_string \<Rightarrow> users_table \<Rightarrow> jobs_table \<Rightarrow> job list" where
  "listByMigrationUser uid us t =
     List.map_filter (join_job us) (sort_key jr_workload (filter (\<lambda>r. jr_user r = uid) t))"

definition job_key :: "job_row \<Rightarrow> js_string \<times> workload" where
  "job_key r = (jr_user r, jr_workload r)"

definition new_job :: "js_string \<Rightarrow> js_string \<Rightarrow> workload \<Rightarrow> int \<Rightarrow> instant \<Rightarrow> job_row" where
  "new_job rid uid w seq now =
     \<lparr>jr_id = rid, jr_user = uid, jr_workload = w, jr_status = Queued, jr_phase_text = None,
      jr_progress_current = 0, jr_progress_total = None, jr_bytes_done = 0, jr_bytes_total = None,
      jr_delta_token = None, jr_checkpoint = None, jr_attempts = 0, jr_dispatch_seq = seq,
      jr_delta_passes = 0, jr_last_progress_at = None, jr_error_class = None,
      jr_error_detail = None, jr_created_at = now, jr_updated_at = now, jr_started_at = None,
      jr_completed_at = None\<rparr>"

text \<open>The \<open>DO UPDATE\<close> of \<open>create\<close>; \<open>phase_text\<close> is not in its list.\<close>

definition reissue :: "instant \<Rightarrow> job_row \<Rightarrow> job_row" where
  "reissue now r =
     r\<lparr>jr_status := Queued, jr_dispatch_seq := jr_dispatch_seq r + 1, jr_progress_current := 0,
       jr_progress_total := None, jr_bytes_done := 0, jr_bytes_total := None,
       jr_delta_token := None, jr_checkpoint := None, jr_attempts := 0, jr_delta_passes := 0,
       jr_last_progress_at := None, jr_started_at := None, jr_completed_at := None,
       jr_error_class := None, jr_error_detail := None, jr_updated_at := now\<rparr>"

definition create_job ::
    "js_string \<Rightarrow> js_string \<Rightarrow> workload \<Rightarrow> int \<Rightarrow> instant \<Rightarrow> jobs_table \<Rightarrow>
     (js_string \<times> int) \<times> jobs_table"
where
  "create_job rid uid w seq now t =
     (let t' = upsert_by job_key (reissue now) (new_job rid uid w seq now) t
      in case lookup_by job_key (uid, w) t' of
           Some r \<Rightarrow> ((jr_id r, jr_dispatch_seq r), t')
         | None \<Rightarrow> ((rid, seq), t'))"

definition updateStatus ::
    "instant \<Rightarrow> js_string \<Rightarrow> job_status \<Rightarrow> js_string option \<Rightarrow> js_string option \<Rightarrow>
     jobs_table \<Rightarrow> jobs_table"
where
  "updateStatus now rid status ec ed t =
     update_where (\<lambda>r. jr_id r = rid)
       (\<lambda>r. r\<lparr>jr_status := status, jr_error_class := ec, jr_error_detail := ed,
             jr_started_at := coalesce (jr_started_at r)
               (if status \<in> {Provisioning, Running} then Some now else jr_started_at r),
             jr_completed_at :=
               (if status \<in> set TERMINAL_STATUSES then Some now else jr_completed_at r),
             jr_updated_at := now\<rparr>) t"

text \<open>\<open>CASE WHEN p.x !== undefined THEN p.x ?? null ELSE x\<close> and \<open>COALESCE(p.x ?? null, x)\<close>.\<close>

fun set_if_given :: "'a field \<Rightarrow> 'a option \<Rightarrow> 'a option" where
  "set_if_given Absent old = old"
| "set_if_given Null old = None"
| "set_if_given (Given x) old = Some x"

definition apply_progress :: "instant \<Rightarrow> job_status \<Rightarrow> progress_update \<Rightarrow> job_row \<Rightarrow> job_row" where
  "apply_progress now status p r =
     r\<lparr>jr_status := status,
       jr_phase_text := coalesce (or_null (pu_phase_text p)) (jr_phase_text r),
       jr_progress_current := default_to (or_null (pu_progress_current p)) (jr_progress_current r),
       jr_progress_total := set_if_given (pu_progress_total p) (jr_progress_total r),
       jr_bytes_done := default_to (or_null (pu_bytes_done p)) (jr_bytes_done r),
       jr_bytes_total := set_if_given (pu_bytes_total p) (jr_bytes_total r),
       jr_delta_token := set_if_given (pu_delta_token p) (jr_delta_token r),
       jr_started_at := coalesce (jr_started_at r) (Some now),
       jr_last_progress_at := Some now,
       jr_updated_at := now\<rparr>"

definition updateProgress ::
    "instant \<Rightarrow> js_string \<Rightarrow> job_status \<Rightarrow> progress_update \<Rightarrow> jobs_table \<Rightarrow> jobs_table"
where
  "updateProgress now rid status p t =
     update_where (\<lambda>r. jr_id r = rid) (apply_progress now status p) t"

definition updateCheckpoint ::
    "instant \<Rightarrow> js_string \<Rightarrow> js_value \<Rightarrow> int \<Rightarrow> int \<Rightarrow> jobs_table \<Rightarrow> jobs_table"
where
  "updateCheckpoint now rid cp current bytes t =
     update_where (\<lambda>r. jr_id r = rid)
       (\<lambda>r. r\<lparr>jr_checkpoint := Some cp, jr_progress_current := current, jr_bytes_done := bytes,
             jr_updated_at := now\<rparr>) t"

text \<open>\<open>RETURNING dispatch_seq\<close>, with \<open>row?.dispatch_seq ?? 0\<close>.\<close>

definition seq_of :: "js_string \<Rightarrow> jobs_table \<Rightarrow> int" where
  "seq_of rid t = (case lookup_by jr_id rid t of Some r \<Rightarrow> jr_dispatch_seq r | None \<Rightarrow> 0)"

definition prepareRetry :: "instant \<Rightarrow> js_string \<Rightarrow> jobs_table \<Rightarrow> int \<times> jobs_table" where
  "prepareRetry now rid t =
     (let t' = update_where (\<lambda>r. jr_id r = rid)
        (\<lambda>r. r\<lparr>jr_status := Queued, jr_attempts := jr_attempts r + 1,
              jr_dispatch_seq := jr_dispatch_seq r + 1, jr_error_class := None,
              jr_error_detail := None, jr_updated_at := now\<rparr>) t
      in (seq_of rid t', t'))"

definition prepareDelta :: "instant \<Rightarrow> js_string \<Rightarrow> jobs_table \<Rightarrow> int \<times> jobs_table" where
  "prepareDelta now rid t =
     (let t' = update_where (\<lambda>r. jr_id r = rid)
        (\<lambda>r. r\<lparr>jr_status := Delta_pending, jr_dispatch_seq := jr_dispatch_seq r + 1,
              jr_delta_passes := jr_delta_passes r + 1, jr_updated_at := now\<rparr>) t
      in (seq_of rid t', t'))"

section \<open>Item log\<close>

type_synonym items_table = "job_item list"

text \<open>\<open>uuid\<close> gives the fresh ids in order, \<open>seed\<close> is the number already drawn.\<close>

definition insertBatch ::
    "(nat \<Rightarrow> js_string) \<Rightarrow> nat \<Rightarrow> instant \<Rightarrow> js_string \<Rightarrow> item_log list \<Rightarrow> items_table \<Rightarrow>
     nat \<times> items_table"
where
  "insertBatch uuid seed now jobId items t =
     (length items,
      t @ map (\<lambda>(i, it). \<lparr>item_row_id = uuid (seed + i), item_job = jobId, item_id = il_item it,
                 item_folder = or_null (il_folder it), item_status = il_status it,
                 item_error_class = il_error_class it, item_error_detail = il_error_detail it,
                 item_created_at = now\<rparr>)
            (enumerate 0 items))"

definition listByJob :: "js_string \<Rightarrow> items_table \<Rightarrow> job_item list" where
  "listByJob jobId t = sort_key item_created_at (filter (\<lambda>i. item_job i = jobId) t)"

definition countsByJob :: "js_string \<Rightarrow> items_table \<Rightarrow> nat \<times> nat" where
  "countsByJob jobId t =
     (let n = (\<lambda>s. length (filter (\<lambda>i. item_job i = jobId \<and> item_status i = s) t))
      in (n Item_skipped, n Item_failed))"

end
