(* ===== verification/World.thy ===== *)
theory World
  imports Jobs Budget Crypto
begin

text \<open>
  The state the handlers share: the D1 tables (\<open>worker/migrations/0001_init.sql\<close>), the queue
  and the usage records handed to \<open>waitUntil\<close>; and what a request sees of its surroundings.
  A handler maps a world to its outcome and the new world: a statement that ran stays in
  effect when a later one throws, since D1 commits each. The clock is read once per
  request. \<open>cx_uuid\<close> numbers the results of \<open>crypto.randomUUID()\<close>, \<open>w_seed\<close> counts those
  drawn; \<open>cx_send\<close> is the platform's answer to a queue send.
\<close>

section \<open>Rows of the other tables\<close>

datatype tenant_status = Disconnected | Connected | Tenant_error

record tenant_row =
  tn_id :: js_string
  tn_role :: tenant_role
  tn_tenant_id :: js_string
  tn_client_id :: js_string
  tn_ciphertext :: js_string
  tn_iv :: js_string
  tn_secret_expiry :: "js_string option"
  tn_display_name :: "js_string option"
  tn_status :: tenant_status
  tn_last_tested_at :: "instant option"
  tn_created_at :: instant

record cred_row =
  cr_id :: js_string
  cr_user :: js_string
  cr_target_upn :: js_string
  cr_ciphertext :: js_string
  cr_iv :: js_string
  cr_created_at :: instant
  cr_downloaded_at :: "instant option"

record session_record =
  ss_id :: js_string
  ss_actor_upn :: js_string
  ss_actor_oid :: js_string
  ss_display_name :: "js_string option"
  ss_group_ok :: bool
  ss_csrf_token :: js_string
  ss_created_at :: instant
  ss_expires_at :: instant

record auth_flow_record =
  af_state :: js_string
  af_code_verifier :: js_string
  af_nonce :: js_string
  af_redirect_to :: "js_string option"
  af_created_at :: instant
  af_expires_at :: instant

section \<open>World\<close>

record world =
  w_users :: users_table
  w_jobs :: jobs_table
  w_items :: items_table
  w_tenants :: "tenant_row list"
  w_creds :: "cred_row list"
  w_sessions :: "session_record list"
  w_flows :: "auth_flow_record list"
  w_audit :: "audit_entry list"
  w_budget :: budget_table
  w_config :: config_table
  w_queue :: "dispatch_message list"
  w_bills :: "deltas list"
  w_seed :: nat

record request =
  cx_now :: instant
  cx_actor :: js_string
  cx_uuid :: "nat \<Rightarrow> js_string"
  cx_send :: "dispatch_message \<Rightarrow> bool"

type_synonym 'a outcome = "(exn + 'a) \<times> world"

definition empty_world :: world where
  "empty_world =
     \<lparr>w_users = [], w_jobs = [], w_items = [], w_tenants = [], w_creds = [], w_sessions = [],
      w_flows = [], w_audit = [], w_budget = [], w_config = [], w_queue = [], w_bills = [],
      w_seed = 0\<rparr>"

text \<open>\<open>uuid()\<close>.\<close>

definition draw_uuid :: "request \<Rightarrow> world \<Rightarrow> js_string \<times> world" where
  "draw_uuid cx w = (cx_uuid cx (w_seed w), w\<lparr>w_seed := Suc (w_seed w)\<rparr>)"

text \<open>\<open>audit\<close> of \<open>lib/audit.ts\<close> with the insert of \<open>db/audit.ts\<close>.\<close>

definition audit ::
    "request \<Rightarrow> js_string \<Rightarrow> audit_action \<Rightarrow> js_string option \<Rightarrow> js_string option \<Rightarrow> world \<Rightarrow> world"
where
  "audit cx actor act tgt det w =
     (let (i, w1) = draw_uuid cx w
      in w1\<lparr>w_audit := w_audit w1 @
             [\<lparr>au_id = i, au_actor = actor, au_action = action_text act, au_target = tgt, au_detail = det,
               au_created_at = toISOString (cx_now cx)\<rparr>]\<rparr>)"

text \<open>\<open>billUsage(ctx, env, { d1Writes, queueOps })\<close> and the request count of the middleware.\<close>

definition billUsage :: "int \<Rightarrow> int \<Rightarrow> world \<Rightarrow> world" where
  "billUsage writes ops w =
     w\<lparr>w_bills := w_bills w @ [\<lparr>dl_workers = 0, dl_writes = writes, dl_queue = ops\<rparr>]\<rparr>"

definition countWorkerRequest :: "world \<Rightarrow> world" where
  "countWorkerRequest w =
     w\<lparr>w_bills := w_bills w @ [\<lparr>dl_workers = 1, dl_writes = 0, dl_queue = 0\<rparr>]\<rparr>"

text \<open>A write of one table, billed as one D1 write, and an audited action.\<close>

definition audited ::
    "request \<Rightarrow> audit_action \<Rightarrow> js_string option \<Rightarrow> js_string option \<Rightarrow> world \<Rightarrow> world"
where
  "audited cx act tgt det w = billUsage 1 0 (audit cx (cx_actor cx) act tgt det w)"

lemma audit_frame [simp]:
  "w_users (audit cx a b c d w) = w_users w" "w_jobs (audit cx a b c d w) = w_jobs w"
  "w_items (audit cx a b c d w) = w_items w" "w_tenants (audit cx a b c d w) = w_tenants w"
  "w_creds (audit cx a b c d w) = w_creds w" "w_sessions (audit cx a b c d w) = w_sessions w"
  "w_flows (audit cx a b c d w) = w_flows w" "w_budget (audit cx a b c d w) = w_budget w"
  "w_config (audit cx a b c d w) = w_config w" "w_queue (audit cx a b c d w) = w_queue w"
  "w_bills (audit cx a b c d w) = w_bills w" "w_seed (audit cx a b c d w) = Suc (w_seed w)"
  by (simp_all add: audit_def draw_uuid_def)

lemma billUsage_frame [simp]:
  "w_users (billUsage m n w) = w_users w" "w_jobs (billUsage m n w) = w_jobs w"
  "w_items (billUsage m n w) = w_items w" "w_tenants (billUsage m n w) = w_tenants w"
  "w_creds (billUsage m n w) = w_creds w" "w_sessions (billUsage m n w) = w_sessions w"
  "w_flows (billUsage m n w) = w_flows w" "w_audit (billUsage m n w) = w_audit w"
  "w_budget (billUsage m n w) = w_budget w" "w_config (billUsage m n w) = w_config w"
  "w_queue (billUsage m n w) = w_queue w" "w_seed (billUsage m n w) = w_seed w"
  by (simp_all add: billUsage_def)

lemma draw_uuid_simps [simp]:
  "fst (draw_uuid cx w) = cx_uuid cx (w_seed w)" "snd (draw_uuid cx w) = w\<lparr>w_seed := Suc (w_seed w)\<rparr>"
  by (simp_all add: draw_uuid_def)

lemma audited_frame [simp]:
  "w_users (audited cx a b c w) = w_users w" "w_jobs (audited cx a b c w) = w_jobs w"
  "w_items (audited cx a b c w) = w_items w" "w_tenants (audited cx a b c w) = w_tenants w"
  "w_creds (audited cx a b c w) = w_creds w" "w_sessions (audited cx a b c w) = w_sessions w"
  "w_flows (audited cx a b c w) = w_flows w" "w_budget (audited cx a b c w) = w_budget w"
  "w_config (audited cx a b c w) = w_config w" "w_queue (audited cx a b c w) = w_queue w"
  "w_seed (audited cx a b c w) = Suc (w_seed w)"
  by (simp_all add: audited_def)

end
