(* ===== verification/Dispatch.thy ===== *)
theory Dispatch
  imports World
begin

text \<open>
  Migration control (\<open>worker/src/routes/jobs.ts\<close>): creating, cancelling, retrying and
  delta-passing jobs, the only operations that put messages on the queue.
\<close>

definition RETRYABLE :: "job_status list" where
  "RETRYABLE = [Auth_expired, Permission_revoked, Quota_exceeded, Failed]"

definition send_error :: exn where
  "send_error = Other_error (js ''Queue send failed'')"

definition enqueueDispatch :: "request \<Rightarrow> dispatch_message \<Rightarrow> world \<Rightarrow> unit outcome" where
  "enqueueDispatch cx m w =
     (if cx_send cx m then (Inr (), billUsage 0 1 (w\<lparr>w_queue := w_queue w @ [m]\<rparr>))
      else (Inl send_error, w))"

definition selected_workloads :: "migration_user \<Rightarrow> workload list" where
  "selected_workloads u =
     (if migrate_exchange u then [Exchange] else []) @ (if migrate_onedrive u then [Onedrive] else [])"

text \<open>The inner loop of \<open>POST /api/jobs\<close>: one job and one message per workload.\<close>

fun create_workloads ::
    "request \<Rightarrow> js_string \<Rightarrow> migration_user \<Rightarrow> js_string \<Rightarrow> workload list \<Rightarrow> job list \<Rightarrow> world \<Rightarrow>
     job list outcome"
where
  "create_workloads cx uid user upn [] created w = (Inr created, w)"
| "create_workloads cx uid user upn (wl # wls) created w =
     (let (i, w1) = draw_uuid cx w;
          ((jid, seq), jobs') = create_job i uid wl 1 (cx_now cx) (w_jobs w1);
          w2 = billUsage 1 0 (w1\<lparr>w_jobs := jobs'\<rparr>);
          msg = \<lparr>msg_job = jid, msg_user = uid, msg_workload = wl,
                 msg_source_email = source_email user, msg_target_upn = upn,
                 msg_include_archive = include_archive user, msg_pass = Full, msg_seq = seq\<rparr>
      in case enqueueDispatch cx msg w2 of
           (Inl e, w3) \<Rightarrow> (Inl e, w3)
         | (Inr u, w3) \<Rightarrow>
             create_workloads cx uid user upn wls
               (created @ (case job_by_id jid (w_users w3) (w_jobs w3) of
                             None \<Rightarrow> [] | Some j \<Rightarrow> [j])) w3)"

text \<open>The outer loop; a user that is skipped only shows in a log line.\<close>

fun create_users :: "request \<Rightarrow> js_string list \<Rightarrow> job list \<Rightarrow> world \<Rightarrow> job list outcome" where
  "create_users cx [] created w = (Inr created, w)"
| "create_users cx (uid # uids) created w =
     (case user_by_id uid (w_users w) of
        None \<Rightarrow> create_users cx uids created w
      | Some user \<Rightarrow>
          (let upn = coalesce (target_upn user) (target_email user);
               wls = selected_workloads user
           in if \<not> truthy upn \<or> mapping_status user = Invalid \<or> wls = []
              then create_users cx uids created w
              else (case create_workloads cx uid user (the upn) wls created w of
                      (Inl e, w1) \<Rightarrow> (Inl e, w1)
                    | (Inr created', w1) \<Rightarrow>
                        create_users cx uids created'
                          (audited cx Job_start (Some (source_email user))
                             (Some (js ''workloads: '' @ join (js '', '') (map workload_text wls)))
                             w1))))"

definition post_jobs :: "request \<Rightarrow> js_string array_field option \<Rightarrow> world \<Rightarrow> job list outcome" where
  "post_jobs cx ids w =
     (case ids of
        None \<Rightarrow> (Inl Syntax_error, w)
      | Some (Items (x # xs)) \<Rightarrow> create_users cx (x # xs) [] w
      | _ \<Rightarrow> (Inl (err Validation ''migrationUserIds[] is required''), w))"

definition get_jobs :: "world \<Rightarrow> job list" where
  "get_jobs w = listAll (w_users w) (w_jobs w)"

definition job_not_found :: exn where
  "job_not_found = err Not_found ''Job not found''"

definition get_job :: "js_string \<Rightarrow> world \<Rightarrow> exn + job" where
  "get_job jid w =
     (case job_by_id jid (w_users w) (w_jobs w) of None \<Rightarrow> Inl job_not_found | Some j \<Rightarrow> Inr j)"

definition cancel_job :: "request \<Rightarrow> js_string \<Rightarrow> world \<Rightarrow> unit outcome" where
  "cancel_job cx jid w =
     (case job_by_id jid (w_users w) (w_jobs w) of
        None \<Rightarrow> (Inl job_not_found, w)
      | Some j \<Rightarrow>
          (let w1 = billUsage 1 0
             (w\<lparr>w_jobs := updateStatus (cx_now cx) jid Cancelled None None (w_jobs w)\<rparr>)
           in (Inr (), audited cx Job_cancel (Some (job_source_email j))
                 (Some (workload_text (job_workload j))) w1)))"

text \<open>The message of a retry or a delta pass.\<close>

definition redispatch :: "job \<Rightarrow> bool \<Rightarrow> pass_kind \<Rightarrow> int \<Rightarrow> dispatch_message" where
  "redispatch j archive pass seq =
     \<lparr>msg_job = job_id j, msg_user = job_user j, msg_workload = job_workload j,
      msg_source_email = job_source_email j, msg_target_upn = job_target_upn j,
      msg_include_archive = archive, msg_pass = pass, msg_seq = seq\<rparr>"

definition archive_of :: "js_string \<Rightarrow> users_table \<Rightarrow> bool" where
  "archive_of uid us = (case user_by_id uid us of None \<Rightarrow> False | Some u \<Rightarrow> include_archive u)"

definition retry_job :: "request \<Rightarrow> js_string \<Rightarrow> world \<Rightarrow> unit outcome" where
  "retry_job cx jid w =
     (case job_by_id jid (w_users w) (w_jobs w) of
        None \<Rightarrow> (Inl job_not_found, w)
      | Some j \<Rightarrow>
          if job_status j \<notin> set RETRYABLE then
            (Inl (throw_text Conflict
               (js ''Job in status '' @ 39 # status_text (job_status j) @ 39 # js '' is not retryable'')), w)
          else
            (let (seq, jobs') = prepareRetry (cx_now cx) jid (w_jobs w);
                 w1 = billUsage 1 0 (w\<lparr>w_jobs := jobs'\<rparr>)
             in case enqueueDispatch cx
                  (redispatch j (archive_of (job_user j) (w_users w)) Full seq) w1 of
                  (Inl e, w2) \<Rightarrow> (Inl e, w2)
                | (Inr u, w2) \<Rightarrow>
                    (Inr (), audited cx Job_retry (Some (job_source_email j))
                       (Some (workload_text (job_workload j))) w2)))"

definition delta_job :: "request \<Rightarrow> js_string \<Rightarrow> world \<Rightarrow> unit outcome" where
  "delta_job cx jid w =
     (case job_by_id jid (w_users w) (w_jobs w) of
        None \<Rightarrow> (Inl job_not_found, w)
      | Some j \<Rightarrow>
          (let (seq, jobs') = prepareDelta (cx_now cx) jid (w_jobs w);
               w1 = billUsage 1 0 (w\<lparr>w_jobs := jobs'\<rparr>)
           in case enqueueDispatch cx
                (redispatch j (archive_of (job_user j) (w_users w)) Delta seq) w1 of
                (Inl e, w2) \<Rightarrow> (Inl e, w2)
              | (Inr u, w2) \<Rightarrow>
                  (Inr (), audited cx Job_start (Some (job_source_email j))
                     (Some (workload_text (job_workload j) @ js '' delta pass'')) w2)))"

end
