(* ===== verification/Json.thy ===== *)
theory Json
  imports Contracts
begin

text \<open>
  \<open>JSON.parse\<close> (ECMA-404 grammar) as a recursive descent over code units, \<open>None\<close> where it
  throws, and the typed reads the code makes of a parsed value. The fuel of
  \<open>parse_json\<close> is twice the length of the text: every two nested calls consume a code unit.
\<close>

definition json_space :: "nat \<Rightarrow> bool" where
  "json_space c \<longleftrightarrow> c = 32 \<or> c = 9 \<or> c = 10 \<or> c = 13"

definition skip_ws :: "js_string \<Rightarrow> js_string" where
  "skip_ws s = dropWhile json_space s"

fun hex4 :: "js_string \<Rightarrow> (nat \<times> js_string) option" where
  "hex4 (a # b # c # d # r) =
     (case (digit_value 16 a, digit_value 16 b, digit_value 16 c, digit_value 16 d) of
        (Some w, Some x, Some y, Some z) \<Rightarrow> Some (w * 4096 + x * 256 + y * 16 + z, r)
      | _ \<Rightarrow> None)"
| "hex4 s = None"

definition simple_escape :: "nat \<Rightarrow> nat option" where
  "simple_escape c =
     (if c = 34 \<or> c = 92 \<or> c = 47 then Some c
      else if c = 98 then Some 8 else if c = 102 then Some 12 else if c = 110 then Some 10
      else if c = 114 then Some 13 else if c = 116 then Some 9 else None)"

text \<open>The characters of a string after its opening quote.\<close>

primrec string_chars :: "nat \<Rightarrow> js_string \<Rightarrow> (js_string \<times> js_string) option" where
  "string_chars 0 s = None"
| "string_chars (Suc n) s =
     (case s of
        [] \<Rightarrow> None
      | c # r \<Rightarrow>
          if c = 34 then Some ([], r)
          else if c < 32 then None
          else if c \<noteq> 92 then map_option (\<lambda>(t, rest). (c # t, rest)) (string_chars n r)
          else
            (case r of
               [] \<Rightarrow> None
             | e # r' \<Rightarrow>
                 if e = 117 then
                   (case hex4 r' of
                      None \<Rightarrow> None
                    | Some (u, r2) \<Rightarrow> map_option (\<lambda>(t, rest). (u # t, rest)) (string_chars n r2))
                 else
                   (case simple_escape e of
                      None \<Rightarrow> None
                    | Some u \<Rightarrow> map_option (\<lambda>(t, rest). (u # t, rest)) (string_chars n r'))))"

definition digit :: "nat \<Rightarrow> bool" where
  "digit c \<longleftrightarrow> 48 \<le> c \<and> c \<le> 57"

fun exponent_ok :: "js_string \<Rightarrow> bool" where
  "exponent_ok [] = True"
| "exponent_ok (c # r) =
     ((c = 101 \<or> c = 69) \<and>
      (let ds = (case r of x # r' \<Rightarrow> if x = 43 \<or> x = 45 then r' else r | [] \<Rightarrow> [])
       in ds \<noteq> [] \<and> list_all digit ds))"

definition number_ok :: "js_string \<Rightarrow> bool" where
  "number_ok s =
     (let t = (case s of c # r \<Rightarrow> if c = 45 then r else s | [] \<Rightarrow> []);
          whole = takeWhile digit t;
          r = dropWhile digit t
      in whole \<noteq> [] \<and> (hd whole = 48 \<longrightarrow> length whole = 1) \<and>
         (case r of
            [] \<Rightarrow> True
          | c # r' \<Rightarrow>
              if c = 46 then takeWhile digit r' \<noteq> [] \<and> exponent_ok (dropWhile digit r')
              else exponent_ok r))"

definition number_unit :: "nat \<Rightarrow> bool" where
  "number_unit c \<longleftrightarrow> digit c \<or> c = 43 \<or> c = 45 \<or> c = 46 \<or> c = 101 \<or> c = 69"

text \<open>A repeated key overwrites the earlier value.\<close>

definition obj_put :: "js_string \<Rightarrow> js_value \<Rightarrow> (js_string \<times> js_value) list \<Rightarrow> (js_string \<times> js_value) list" where
  "obj_put k v ps = upsert_by fst (\<lambda>p. (k, v)) (k, v) ps"

text \<open>What is being read: a value, the rest of an array, the rest of an object.\<close>

datatype json_part =
    Value
  | Elements "js_value list"
  | Members "(js_string \<times> js_value) list"

primrec json_read :: "nat \<Rightarrow> json_part \<Rightarrow> js_string \<Rightarrow> (js_value \<times> js_string) option" where
  "json_read 0 part s = None"
| "json_read (Suc n) part s =
     (case part of
        Value \<Rightarrow>
          if startsWith s (js ''true'') then Some (JBool True, drop 4 s)
          else if startsWith s (js ''false'') then Some (JBool False, drop 5 s)
          else if startsWith s (js ''null'') then Some (JNull, drop 4 s)
          else
            (case s of
               [] \<Rightarrow> None
             | c # r \<Rightarrow>
                 if c = 34 then map_option (\<lambda>(t, rest). (JStr t, rest)) (string_chars n r)
                 else if c = 91 then
                   (let r' = skip_ws r
                    in if take 1 r' = [93] then Some (JArr [], tl r') else json_read n (Elements []) r')
                 else if c = 123 then
                   (let r' = skip_ws r
                    in if take 1 r' = [125] then Some (JObj [], tl r') else json_read n (Members []) r')
                 else
                   (let t = takeWhile number_unit s
                    in if number_ok t then Some (JNum (parse_number t), dropWhile number_unit s)
                       else None))
      | Elements vs \<Rightarrow>
          (case json_read n Value s of
             None \<Rightarrow> None
           | Some (v, rest) \<Rightarrow>
               (case skip_ws rest of
                  [] \<Rightarrow> None
                | c # r \<Rightarrow>
                    if c = 93 then Some (JArr (vs @ [v]), r)
                    else if c = 44 then json_read n (Elements (vs @ [v])) (skip_ws r)
                    else None))
      | Members ps \<Rightarrow>
          (case s of
             [] \<Rightarrow> None
           | q # r \<Rightarrow>
               if q \<noteq> 34 then None
               else
                 (case string_chars n r of
                    None \<Rightarrow> None
                  | Some (k, rest) \<Rightarrow>
                      (case skip_ws rest of
                         [] \<Rightarrow> None
                       | c # r2 \<Rightarrow>
                           if c \<noteq> 58 then None
                           else
                             (case json_read n Value (skip_ws r2) of
                                None \<Rightarrow> None
                              | Some (v, rest2) \<Rightarrow>
                                  (case skip_ws rest2 of
                                     [] \<Rightarrow> None
                                   | d # r3 \<Rightarrow>
                                       if d = 125 then Some (JObj (obj_put k v ps), r3)
                                       else if d = 44 then
                                         json_read n (Members (obj_put k v ps)) (skip_ws r3)
                                       else None))))))"

definition parse_json :: "js_string \<Rightarrow> js_value option" where
  "parse_json s =
     (case json_read (Suc (2 * length s)) Value (skip_ws s) of
        None \<Rightarrow> None
      | Some (v, rest) \<Rightarrow> if skip_ws rest = [] then Some v else None)"

section \<open>Typed reads\<close>

text \<open>A field the code declares to be a string; null, a missing field and a value of
  another type read as absent.\<close>

fun as_string :: "js_value \<Rightarrow> js_string option" where
  "as_string (JStr s) = Some s"
| "as_string v = None"

definition get_string :: "js_value \<Rightarrow> string \<Rightarrow> js_string option" where
  "get_string v k = as_string (get_key v (js k))"

fun as_items :: "js_value \<Rightarrow> js_value list" where
  "as_items (JArr vs) = vs"
| "as_items v = []"

fun is_object :: "js_value \<Rightarrow> bool" where
  "is_object (JArr vs) = True"
| "is_object (JObj ps) = True"
| "is_object v = False"

text \<open>Truthiness and \<open>x ?? y\<close>.\<close>

fun js_truthy :: "js_value \<Rightarrow> bool" where
  "js_truthy Undefined = False"
| "js_truthy JNull = False"
| "js_truthy (JBool b) = b"
| "js_truthy (JNum n) = (n \<noteq> NaN \<and> n \<noteq> Fin 0)"
| "js_truthy (JStr s) = (s \<noteq> [])"
| "js_truthy (JArr vs) = True"
| "js_truthy (JObj ps) = True"

fun nullish :: "js_value \<Rightarrow> bool" where
  "nullish Undefined = True"
| "nullish JNull = True"
| "nullish v = False"

lemma parse_json_examples:
  "parse_json (js ''{}'') = Some (JObj [])"
  "parse_json (js ''[true, null]'') = Some (JArr [JBool True, JNull])"
  "parse_json (js ''{'') = None"
  "map_option (\<lambda>v. get_string v ''b'') (parse_json (js ''{\"a\": [], \"b\": \"x\"}'')) = Some (Some (js ''x''))"
  by code_simp+

end
