(* ===== verification/Jwt.thy ===== *)
theory Jwt
  imports Json Crypto Config Clock
begin

text \<open>
  RS256 verification against a remote JWKS (\<open>worker/src/lib/jwt.ts\<close>). The network is the
  parameter \<open>http\<close>, which maps a request to its response or to \<open>None\<close> when \<open>fetch\<close>
  rejects; the RSA check of WebCrypto is the parameter \<open>rsa\<close>, \<open>None\<close> when the key does not
  import. The keys cache of the isolate is an explicit table.
\<close>

section \<open>HTTP\<close>

datatype http_body = No_body | Form "(js_string \<times> js_string) list" | Json_body js_value

record http_request =
  hq_method :: js_string
  hq_url :: js_string
  hq_headers :: "(js_string \<times> js_string) list"
  hq_body :: http_body

record http_response =
  hs_status :: int
  hs_text :: js_string

type_synonym network = "http_request \<Rightarrow> http_response option"

definition res_ok :: "http_response \<Rightarrow> bool" where
  "res_ok r \<longleftrightarrow> 200 \<le> hs_status r \<and> hs_status r < 300"

text \<open>\<open>await fetch(...)\<close> and \<open>await res.json()\<close>.\<close>

definition fetch :: "network \<Rightarrow> http_request \<Rightarrow> exn + http_response" where
  "fetch http q =
     (case http q of None \<Rightarrow> Inl (Other_error (js ''fetch failed'')) | Some r \<Rightarrow> Inr r)"

definition res_json :: "http_response \<Rightarrow> exn + js_value" where
  "res_json r = (case parse_json (hs_text r) of None \<Rightarrow> Inl Syntax_error | Some v \<Rightarrow> Inr v)"

definition get_request :: "js_string \<Rightarrow> (js_string \<times> js_string) list \<Rightarrow> http_request" where
  "get_request url hs = \<lparr>hq_method = js ''GET'', hq_url = url, hq_headers = hs, hq_body = No_body\<rparr>"

definition type_error :: exn where
  "type_error = Other_error (js ''TypeError'')"

section \<open>Values as text and strict equality\<close>

text \<open>A value in a template literal.\<close>

fun js_text :: "js_value \<Rightarrow> js_string" where
  "js_text Undefined = js ''undefined''"
| "js_text JNull = js ''null''"
| "js_text (JBool b) = (if b then js ''true'' else js ''false'')"
| "js_text (JNum NaN) = js ''NaN''"
| "js_text (JNum Infinity) = js ''Infinity''"
| "js_text (JNum Neg_Infinity) = js ''-Infinity''"
| "js_text (JNum (Fin q)) = num_text q"
| "js_text (JStr s) = s"
| "js_text (JArr vs) = join [44] (map (\<lambda>v. if nullish v then [] else js_text v) vs)"
| "js_text (JObj ps) = js ''[object Object]''"

text \<open>\<open>===\<close>; two parsed arrays or objects are never the same object.\<close>

fun strict_eq :: "js_value \<Rightarrow> js_value \<Rightarrow> bool" where
  "strict_eq (JArr vs) w = False"
| "strict_eq (JObj ps) w = False"
| "strict_eq (JNum NaN) w = False"
| "strict_eq v w = (v = w)"

section \<open>Decoding\<close>

definition split_on :: "nat \<Rightarrow> js_string \<Rightarrow> js_string list" where
  "split_on c s =
     foldr (\<lambda>x acc. if x = c then [] # acc else (x # hd acc) # tl acc) s [[]]"

definition decodeSegment :: "js_string \<Rightarrow> exn + js_value" where
  "decodeSegment seg =
     (case b64urlToBytes seg of
        None \<Rightarrow> Inl (Other_error (js ''InvalidCharacterError''))
      | Some bytes \<Rightarrow>
          (case parse_json (TextDecoder bytes) of None \<Rightarrow> Inl Syntax_error | Some v \<Rightarrow> Inr v))"

definition decodeJwt :: "js_string \<Rightarrow> exn + js_value \<times> js_value" where
  "decodeJwt token =
     (let parts = split_on 46 token
      in if length parts \<noteq> 3 then Inl (err Unauthorized ''Malformed JWT'')
         else
           (case decodeSegment (parts ! 0) of
              Inl e \<Rightarrow> Inl e
            | Inr header \<Rightarrow>
                (case decodeSegment (parts ! 1) of
                   Inl e \<Rightarrow> Inl e
                 | Inr claims \<Rightarrow> Inr (header, claims))))"

section \<open>Keys\<close>

record cached_jwks =
  ck_uri :: js_string
  ck_keys :: "js_value list"
  ck_fetched_at :: instant

type_synonym jwks_cache = "cached_jwks list"

definition JWKS_TTL_MS :: int where
  "JWKS_TTL_MS = 10 * 60 * 1000"

definition fetchJwks ::
    "network \<Rightarrow> instant \<Rightarrow> js_string \<Rightarrow> jwks_cache \<Rightarrow> (exn + js_value list) \<times> jwks_cache"
where
  "fetchJwks http now uri cache =
     (let miss =
        (case fetch http (get_request uri [(js ''accept'', js ''application/json'')]) of
           Inl e \<Rightarrow> (Inl e, cache)
         | Inr res \<Rightarrow>
             if \<not> res_ok res then
               (Inl (throw_text Unauthorized
                  (js ''Unable to fetch JWKS ('' @ int_text (hs_status res) @ js '')'')), cache)
             else
               (case res_json res of
                  Inl e \<Rightarrow> (Inl e, cache)
                | Inr body \<Rightarrow>
                    if nullish body then (Inl type_error, cache) else
                    (let entry = \<lparr>ck_uri = uri, ck_keys = as_items (get_key body (js ''keys'')),
                                  ck_fetched_at = now\<rparr>
                     in (Inr (ck_keys entry), upsert_by ck_uri (\<lambda>c. entry) entry cache))))
      in case lookup_by ck_uri uri cache of
           Some c \<Rightarrow> if now - ck_fetched_at c < JWKS_TTL_MS then (Inr (ck_keys c), cache) else miss
         | None \<Rightarrow> miss)"

type_synonym rsa_verify = "js_value \<Rightarrow> byte list \<Rightarrow> byte list \<Rightarrow> bool option"

record verify_options =
  vo_jwks_uri :: js_string
  vo_audience :: js_string
  vo_issuer :: "js_string option"
  vo_skew :: "int option"

text \<open>The claim checks after the signature, in the code's order.\<close>

fun after :: "int \<Rightarrow> js_value \<Rightarrow> int \<Rightarrow> bool" where
  "after now (JNum (Fin q)) skew = (of_int now > q + of_int skew)"
| "after now v skew = False"

fun before :: "int \<Rightarrow> js_value \<Rightarrow> int \<Rightarrow> bool" where
  "before now (JNum (Fin q)) skew = (of_int now + of_int skew < q)"
| "before now v skew = False"

fun audiences :: "js_value \<Rightarrow> js_value list" where
  "audiences (JArr vs) = vs"
| "audiences v = (if js_truthy v then [v] else [])"

definition check_claims :: "int \<Rightarrow> verify_options \<Rightarrow> js_value \<Rightarrow> exn + js_value" where
  "check_claims now opts claims =
     (let skew = default_to (vo_skew opts) 60
      in if after now (get_key claims (js ''exp'')) skew then Inl (err Unauthorized ''JWT expired'')
         else if before now (get_key claims (js ''nbf'')) skew then
           Inl (err Unauthorized ''JWT not yet valid'')
         else if JStr (vo_audience opts) \<notin> set (audiences (get_key claims (js ''aud''))) then
           Inl (err Unauthorized ''JWT audience mismatch'')
         else if truthy (vo_issuer opts) \<and> get_key claims (js ''iss'') \<noteq> JStr (the (vo_issuer opts)) then
           Inl (err Unauthorized ''JWT issuer mismatch'')
         else Inr claims)"

definition verifyRs256 ::
    "network \<Rightarrow> rsa_verify \<Rightarrow> instant \<Rightarrow> js_string \<Rightarrow> verify_options \<Rightarrow> jwks_cache \<Rightarrow>
     (exn + js_value) \<times> jwks_cache"
where
  "verifyRs256 http rsa now token opts cache =
     (case decodeJwt token of
        Inl e \<Rightarrow> (Inl e, cache)
      | Inr (header, claims) \<Rightarrow>
          if nullish header then (Inl type_error, cache)
          else if get_key header (js ''alg'') \<noteq> JStr (js ''RS256'') then
            (Inl (throw_text Unauthorized
               (js ''Unsupported JWT alg: '' @ js_text (get_key header (js ''alg'')))), cache)
          else
            (case fetchJwks http now (vo_jwks_uri opts) cache of
               (Inl e, cache') \<Rightarrow> (Inl e, cache')
             | (Inr keys, cache') \<Rightarrow>
                 (case find (\<lambda>k. strict_eq (get_key k (js ''kid'')) (get_key header (js ''kid''))) keys of
                    None \<Rightarrow> (Inl (err Unauthorized ''Signing key (kid) not found in JWKS''), cache')
                  | Some jwk \<Rightarrow>
                      (let parts = split_on 46 token;
                           signed = TextEncoder (parts ! 0 @ 46 # parts ! 1)
                       in case b64urlToBytes (parts ! 2) of
                            None \<Rightarrow> (Inl (Other_error (js ''InvalidCharacterError'')), cache')
                          | Some signature \<Rightarrow>
                              (case rsa jwk signature signed of
                                 None \<Rightarrow> (Inl (Other_error (js ''DataError'')), cache')
                               | Some False \<Rightarrow>
                                   (Inl (err Unauthorized ''JWT signature verification failed''), cache')
                               | Some True \<Rightarrow>
                                   if nullish claims then (Inl type_error, cache')
                                   else (check_claims (now div 1000) opts claims, cache'))))))"

section \<open>What verification guarantees\<close>

lemma check_claims_Inr:
  "check_claims now opts claims = Inr c \<Longrightarrow>
   c = claims
   \<and> \<not> after now (get_key claims (js ''exp'')) (default_to (vo_skew opts) 60)
   \<and> \<not> before now (get_key claims (js ''nbf'')) (default_to (vo_skew opts) 60)
   \<and> JStr (vo_audience opts) \<in> set (audiences (get_key claims (js ''aud'')))
   \<and> (\<forall>iss. vo_issuer opts = Some iss \<longrightarrow> iss \<noteq> [] \<longrightarrow> get_key claims (js ''iss'') = JStr iss)"
  by (auto simp add: check_claims_def Let_def truthy_iff split: if_splits)

definition signed_by :: "rsa_verify \<Rightarrow> js_value list \<Rightarrow> js_value \<Rightarrow> js_string \<Rightarrow> bool" where
  "signed_by rsa keys kid token \<longleftrightarrow>
     (\<exists>jwk \<in> set keys. \<exists>sig.
        strict_eq (get_key jwk (js ''kid'')) kid
        \<and> b64urlToBytes (split_on 46 token ! 2) = Some sig
        \<and> rsa jwk sig (TextEncoder (split_on 46 token ! 0 @ 46 # split_on 46 token ! 1)) = Some True)"


section \<open>A token built by the issuer\<close>

definition segment :: "js_string \<Rightarrow> js_string" where
  "segment s = base64UrlEncode (TextEncoder s)"

lemma split_on_other: "c \<notin> set s \<Longrightarrow> split_on c s = [s]"
  by (induction s) (simp_all add: split_on_def)

lemma split_on_append: "c \<notin> set s \<Longrightarrow> split_on c (s @ c # r) = s # split_on c r"
  by (induction s) (simp_all add: split_on_def)

lemma no_dot: "46 \<notin> set (base64UrlEncode bytes)"
  using opaque_chars [of bytes] by (auto simp add: list_all_iff url_safe_def)

lemma split_token:
  "split_on 46 (base64UrlEncode a @ 46 # base64UrlEncode b @ 46 # base64UrlEncode c) =
     [base64UrlEncode a, base64UrlEncode b, base64UrlEncode c]"
  by (simp add: split_on_append split_on_other no_dot)

lemma decodeSegment_segment:
  "text_ok s \<Longrightarrow> parse_json s = Some v \<Longrightarrow> decodeSegment (segment s) = Inr v"
  using utf8.decode_encode [of s] by (simp add: decodeSegment_def segment_def b64url.decode_encode)

lemma decodeJwt_token:
  "text_ok h \<Longrightarrow> parse_json h = Some header \<Longrightarrow> text_ok p \<Longrightarrow> parse_json p = Some claims \<Longrightarrow>
   decodeJwt (segment h @ 46 # segment p @ 46 # base64UrlEncode sig) = Inr (header, claims)"
  using split_token decodeSegment_segment [of h header] decodeSegment_segment [of p claims]
  by (simp add: decodeJwt_def segment_def)

definition demo_header :: js_string where
  "demo_header = js ''{\"alg\":\"RS256\",\"kid\":\"k\"}''"

definition demo_claims :: js_string where
  "demo_claims = js ''{\"aud\":\"app\",\"iss\":\"me\"}''"

definition demo_token :: js_string where
  "demo_token = segment demo_header @ 46 # segment demo_claims @ 46 # base64UrlEncode [1]"

definition demo_jwk :: js_value where
  "demo_jwk = JObj [(js ''kid'', JStr (js ''k''))]"

definition demo_options :: verify_options where
  "demo_options = \<lparr>vo_jwks_uri = js ''u'', vo_audience = js ''app'', vo_issuer = Some (js ''me''), vo_skew = None\<rparr>"

definition demo_claims_value :: js_value where
  "demo_claims_value = JObj [(js ''aud'', JStr (js ''app'')), (js ''iss'', JStr (js ''me''))]"

lemma demo_parse:
  "parse_json demo_header = Some (JObj [(js ''alg'', JStr (js ''RS256'')), (js ''kid'', JStr (js ''k''))])"
  "parse_json demo_claims = Some demo_claims_value"
  by code_simp+

lemma demo_text_ok: "text_ok demo_header" "text_ok demo_claims"
  by (simp_all add: ascii_text_ok demo_header_def demo_claims_def js_def)

lemma demo_decode:
  "decodeJwt demo_token =
     Inr (JObj [(js ''alg'', JStr (js ''RS256'')), (js ''kid'', JStr (js ''k''))], demo_claims_value)"
  unfolding demo_token_def by (intro decodeJwt_token demo_parse demo_text_ok)

lemma demo_cache:
  "fetchJwks http 1000 (js ''u'') [\<lparr>ck_uri = js ''u'', ck_keys = [demo_jwk], ck_fetched_at = 0\<rparr>] =
     (Inr [demo_jwk], [\<lparr>ck_uri = js ''u'', ck_keys = [demo_jwk], ck_fetched_at = 0\<rparr>])"
  by (simp add: fetchJwks_def lookup_by_def JWKS_TTL_MS_def)

lemma demo_parts:
  "split_on 46 demo_token = [segment demo_header, segment demo_claims, base64UrlEncode [1]]"
  by (simp add: demo_token_def segment_def split_token)

lemma demo_verify:
  "verifyRs256 (\<lambda>q. None) (\<lambda>k s d. Some True) 1000 demo_token demo_options
     [\<lparr>ck_uri = js ''u'', ck_keys = [demo_jwk], ck_fetched_at = 0\<rparr>] =
     (Inr demo_claims_value, [\<lparr>ck_uri = js ''u'', ck_keys = [demo_jwk], ck_fetched_at = 0\<rparr>])"
  unfolding verifyRs256_def demo_decode
  by (simp add: demo_options_def demo_cache demo_parts b64url.decode_encode Let_def)
    (simp add: demo_jwk_def check_claims_def demo_claims_value_def Let_def)


end
