(* ===== verification/Graph.thy ===== *)
theory Graph
  imports Jwt
begin

text \<open>
  The Worker's Microsoft Graph client (\<open>worker/src/graph/client.ts\<close>) over the network
  parameter of \<open>Jwt\<close>. URL parsing is the platform's: \<open>pathname\<close> and \<open>skiptoken\<close> stand
  for \<open>new URL(u).pathname\<close> and \<open>new URL(u).searchParams.get('$skiptoken')\<close>.
\<close>

section \<open>Encoding of URLs\<close>

definition percent :: "byte \<Rightarrow> js_string" where
  "percent b =
     (let up = (\<lambda>d. if d < 10 then 48 + d else 55 + d)
      in [37, up (unat b div 16), up (unat b mod 16)])"

definition alnum :: "nat \<Rightarrow> bool" where
  "alnum c \<longleftrightarrow> 48 \<le> c \<and> c \<le> 57 \<or> 65 \<le> c \<and> c \<le> 90 \<or> 97 \<le> c \<and> c \<le> 122"

text \<open>\<open>URLSearchParams.toString()\<close>.\<close>

definition form_text :: "js_string \<Rightarrow> js_string" where
  "form_text s =
     concat (map (\<lambda>b. let c = unat b
                     in if alnum c \<or> c \<in> {42, 45, 46, 95} then [c]
                        else if c = 32 then [43] else percent b)
       (TextEncoder s))"

definition params_text :: "(js_string \<times> js_string) list \<Rightarrow> js_string" where
  "params_text ps = join [38] (map (\<lambda>(k, v). form_text k @ 61 # form_text v) ps)"

text \<open>\<open>encodeURIComponent\<close>, which throws on a lone surrogate.\<close>

definition encodeURIComponent :: "js_string \<Rightarrow> exn + js_string" where
  "encodeURIComponent s =
     (if paired s then
        Inr (concat (map (\<lambda>b. let c = unat b
                             in if alnum c \<or> c \<in> {45, 95, 46, 33, 126, 42, 39, 40, 41} then [c]
                                else percent b)
               (TextEncoder s)))
      else Inl (Other_error (js ''URIError'')))"

text \<open>\<open>s.replace(/'/g, "''")\<close>.\<close>

definition odata_quote :: "js_string \<Rightarrow> js_string" where
  "odata_quote s = concat (map (\<lambda>c. if c = 39 then [39, 39] else [c]) s)"

section \<open>Tokens and scopes\<close>

definition GRAPH :: js_string where
  "GRAPH = js ''https://graph.microsoft.com/v1.0''"

definition DEFAULT_SCOPE :: js_string where
  "DEFAULT_SCOPE = js ''https://graph.microsoft.com/.default''"

fun REQUIRED_SCOPES :: "tenant_role \<Rightarrow> js_string list" where
  "REQUIRED_SCOPES Source =
     [js ''User.Read.All'', js ''MailboxItem.Export.All'', js ''MailboxFolder.Read.All'',
      js ''MailboxSettings.Read'', js ''Files.Read.All'']"
| "REQUIRED_SCOPES Destination =
     [js ''User.ReadWrite.All'', js ''MailboxItem.ImportExport.All'',
      js ''MailboxFolder.ReadWrite.All'', js ''Files.ReadWrite.All'', js ''Sites.FullControl.All'']"

record app_token =
  at_access_token :: js_string
  at_expires_at :: instant

definition first_some :: "js_string option list \<Rightarrow> js_string \<Rightarrow> js_string" where
  "first_some xs d = (case dropWhile (\<lambda>x. x = None) xs of Some s # ys \<Rightarrow> s | _ \<Rightarrow> d)"

definition http_status_text :: "http_response \<Rightarrow> js_string" where
  "http_status_text res = js ''HTTP '' @ int_text (hs_status res)"

text \<open>\<open>new Date(Date.now() + (expiresIn - 60) * 1000)\<close>, \<open>expires_in ?? 3600\<close>.\<close>

definition token_expiry :: "instant \<Rightarrow> js_value \<Rightarrow> instant" where
  "token_expiry now v =
     isoInSeconds now ((case v of JNum (Fin q) \<Rightarrow> q | _ \<Rightarrow> 3600) - 60)"

definition acquireAppToken ::
    "network \<Rightarrow> instant \<Rightarrow> js_string \<Rightarrow> js_string \<Rightarrow> js_string \<Rightarrow> js_string \<Rightarrow> exn + app_token"
where
  "acquireAppToken http now tenantId clientId clientSecret scope =
     (case fetch http
        \<lparr>hq_method = js ''POST'',
         hq_url = js ''https://login.microsoftonline.com/'' @ tenantId @ js ''/oauth2/v2.0/token'',
         hq_headers = [(js ''content-type'', js ''application/x-www-form-urlencoded'')],
         hq_body = Form [(js ''client_id'', clientId), (js ''client_secret'', clientSecret),
           (js ''grant_type'', js ''client_credentials''), (js ''scope'', scope)]\<rparr> of
        Inl e \<Rightarrow> Inl e
      | Inr res \<Rightarrow>
          (case res_json res of
             Inl e \<Rightarrow> Inl e
           | Inr json \<Rightarrow>
               if nullish json then Inl type_error
               else if \<not> res_ok res \<or> \<not> truthy (get_string json ''access_token'') then
                 Inl (throw_api Token_error ''Graph client-credentials token acquisition failed''
                   (Some (first_some [get_string json ''error_description'', get_string json ''error'']
                            (http_status_text res))))
               else
                 Inr \<lparr>at_access_token = the (get_string json ''access_token''),
                      at_expires_at = token_expiry now (get_key json (js ''expires_in''))\<rparr>))"

definition grantedRoles :: "js_string \<Rightarrow> js_string list" where
  "grantedRoles accessToken =
     (case decodeJwt accessToken of
        Inl e \<Rightarrow> []
      | Inr (header, claims) \<Rightarrow>
          (case get_key claims (js ''roles'') of JArr vs \<Rightarrow> map js_text vs | _ \<Rightarrow> []))"

record connection_test =
  ct_token_acquired :: bool
  ct_tenant_id :: js_string
  ct_scopes :: "(js_string \<times> bool) list"
  ct_missing :: "js_string list"
  ct_error :: "js_string option"

definition testConnection ::
    "network \<Rightarrow> instant \<Rightarrow> js_string \<Rightarrow> js_string \<Rightarrow> js_string \<Rightarrow> tenant_role \<Rightarrow> connection_test"
where
  "testConnection http now tenantId clientId clientSecret role =
     (let required = REQUIRED_SCOPES role
      in case acquireAppToken http now tenantId clientId clientSecret DEFAULT_SCOPE of
           Inr token \<Rightarrow>
             (let roles = grantedRoles (at_access_token token);
                  scopes = map (\<lambda>s. (s, s \<in> set roles)) required
              in \<lparr>ct_token_acquired = True, ct_tenant_id = tenantId, ct_scopes = scopes,
                  ct_missing = map fst (filter (\<lambda>s. \<not> snd s) scopes), ct_error = None\<rparr>)
         | Inl e \<Rightarrow>
             \<lparr>ct_token_acquired = False, ct_tenant_id = tenantId,
              ct_scopes = map (\<lambda>s. (s, False)) required, ct_missing = required,
              ct_error = Some (exn_message e)\<rparr>)"

section \<open>Directory\<close>

definition graphGet ::
    "network \<Rightarrow> (js_string \<Rightarrow> js_string) \<Rightarrow> js_string \<Rightarrow> js_string \<Rightarrow> exn + js_value"
where
  "graphGet http pathname accessToken url =
     (case fetch http (get_request url
        [(js ''authorization'', js ''Bearer '' @ accessToken), (js ''accept'', js ''application/json'')]) of
        Inl e \<Rightarrow> Inl e
      | Inr res \<Rightarrow>
          if \<not> res_ok res then
            Inl (Api_error \<lparr>ae_code = Graph_error,
              ae_message = js ''Graph GET '' @ pathname url @ js '' failed ('' @ int_text (hs_status res) @ js '')'',
              ae_detail = Some (take 500 (hs_text res))\<rparr>)
          else res_json res)"

record graph_user =
  gu_id :: js_string
  gu_display_name :: "js_string option"
  gu_given_name :: "js_string option"
  gu_surname :: "js_string option"
  gu_upn :: "js_string option"
  gu_mail :: "js_string option"
  gu_enabled :: bool

definition graph_user_of :: "js_value \<Rightarrow> graph_user" where
  "graph_user_of v =
     \<lparr>gu_id = default_to (get_string v ''id'') [], gu_display_name = get_string v ''displayName'',
      gu_given_name = get_string v ''givenName'', gu_surname = get_string v ''surname'',
      gu_upn = get_string v ''userPrincipalName'', gu_mail = get_string v ''mail'',
      gu_enabled = (get_key v (js ''accountEnabled'') = JBool True)\<rparr>"

definition USER_SELECT :: js_string where
  "USER_SELECT = js ''id,displayName,givenName,surname,userPrincipalName,mail,accountEnabled''"

definition discover_params :: "js_string option \<Rightarrow> js_string option \<Rightarrow> int \<Rightarrow> (js_string \<times> js_string) list" where
  "discover_params search cursor pageSize =
     [(js ''$select'', USER_SELECT), (js ''$top'', int_text pageSize)]
     @ (if truthy search then
          (let s = odata_quote (the search)
           in [(js ''$filter'',
                js ''startswith(displayName,'' @ 39 # s @ 39 # js '') or startswith(userPrincipalName,'' @
                39 # s @ 39 # js '') or startswith(mail,'' @ 39 # s @ 39 # js '')'')])
        else [])
     @ (if truthy cursor then [(js ''$skiptoken'', the cursor)] else [])"

definition discoverUsers ::
    "network \<Rightarrow> (js_string \<Rightarrow> js_string) \<Rightarrow> (js_string \<Rightarrow> exn + js_string option) \<Rightarrow> js_string \<Rightarrow>
     js_string option \<Rightarrow> js_string option \<Rightarrow> int option \<Rightarrow> exn + graph_user list \<times> js_string option"
where
  "discoverUsers http pathname skiptoken accessToken search cursor pageSize =
     (case graphGet http pathname accessToken
        (GRAPH @ js ''/users?'' @ params_text (discover_params search cursor (default_to pageSize 25))) of
        Inl e \<Rightarrow> Inl e
      | Inr d \<Rightarrow>
          if nullish d then Inl type_error
          else
            (let users = map graph_user_of (as_items (get_key d (js ''value'')));
                 next_link = get_string d ''@odata.nextLink''
             in if truthy next_link then
                  (case skiptoken (the next_link) of Inl e \<Rightarrow> Inl e | Inr c \<Rightarrow> Inr (users, c))
                else Inr (users, None)))"

definition getUserByEmail ::
    "network \<Rightarrow> (js_string \<Rightarrow> js_string) \<Rightarrow> js_string \<Rightarrow> js_string \<Rightarrow> exn + graph_user option"
where
  "getUserByEmail http pathname accessToken email =
     (let s = odata_quote email;
          url = GRAPH @ js ''/users?$select='' @ USER_SELECT @ js ''&$filter=mail eq '' @ 39 # s @
            39 # js '' or userPrincipalName eq '' @ 39 # s @ 39 # js ''&$top=1''
      in case graphGet http pathname accessToken url of
           Inl e \<Rightarrow> Inl e
         | Inr d \<Rightarrow>
             (case get_key d (js ''value'') of
                JArr [] \<Rightarrow> Inr None
              | JArr (v # vs) \<Rightarrow> Inr (if nullish v then None else Some (graph_user_of v))
              | _ \<Rightarrow> Inl type_error))"

section \<open>Provisioning\<close>

record provision_input =
  pi_upn :: js_string
  pi_display_name :: js_string
  pi_given_name :: "js_string option"
  pi_surname :: "js_string option"
  pi_mail_nickname :: js_string
  pi_password :: js_string

fun nullable :: "js_string option \<Rightarrow> js_value" where
  "nullable None = JNull"
| "nullable (Some s) = JStr s"

definition provision_body :: "provision_input \<Rightarrow> js_value" where
  "provision_body i =
     JObj [(js ''accountEnabled'', JBool True), (js ''displayName'', JStr (pi_display_name i)),
       (js ''givenName'', nullable (pi_given_name i)), (js ''surname'', nullable (pi_surname i)),
       (js ''mailNickname'', JStr (pi_mail_nickname i)), (js ''userPrincipalName'', JStr (pi_upn i)),
       (js ''passwordProfile'',
        JObj [(js ''password'', JStr (pi_password i)), (js ''forceChangePasswordNextSignIn'', JBool True)])]"

definition provisionUser ::
    "network \<Rightarrow> js_string \<Rightarrow> provision_input \<Rightarrow> exn + js_string \<times> js_string"
where
  "provisionUser http accessToken i =
     (case fetch http
        \<lparr>hq_method = js ''POST'', hq_url = GRAPH @ js ''/users'',
         hq_headers = [(js ''authorization'', js ''Bearer '' @ accessToken),
           (js ''content-type'', js ''application/json'')],
         hq_body = Json_body (provision_body i)\<rparr> of
        Inl e \<Rightarrow> Inl e
      | Inr res \<Rightarrow>
          if \<not> res_ok res then
            Inl (Api_error \<lparr>ae_code = Graph_error,
              ae_message = js ''Provisioning '' @ pi_upn i @ js '' failed ('' @ int_text (hs_status res) @ js '')'',
              ae_detail = Some (take 500 (hs_text res))\<rparr>)
          else
            (case res_json res of
               Inl e \<Rightarrow> Inl e
             | Inr json \<Rightarrow>
                 if nullish json then Inl type_error
                 else Inr (default_to (get_string json ''id'') (js ''undefined''),
                           default_to (get_string json ''userPrincipalName'') (js ''undefined''))))"

definition preProvisionOneDrive ::
    "network \<Rightarrow> (js_string \<Rightarrow> js_string) \<Rightarrow> js_string \<Rightarrow> js_string \<Rightarrow> bool"
where
  "preProvisionOneDrive http pathname accessToken userId =
     (case encodeURIComponent userId of
        Inl e \<Rightarrow> False
      | Inr u \<Rightarrow>
          (case graphGet http pathname accessToken (GRAPH @ js ''/users/'' @ u @ js ''/drive/root'') of
             Inl e \<Rightarrow> False
           | Inr v \<Rightarrow> True))"

section \<open>Properties\<close>

text \<open>
  The connection test reports exactly the consents: every required scope of the role
  is listed once, in order, with its grant; \<open>missingConsents\<close> are those not granted; and
  nothing is missing just when a token was acquired whose \<open>roles\<close> claim holds every
  required scope.
\<close>

theorem connection_test_exact:
  "map fst (ct_scopes (testConnection http now t c s role)) = REQUIRED_SCOPES role
   \<and> ct_missing (testConnection http now t c s role) =
       map fst (filter (\<lambda>x. \<not> snd x) (ct_scopes (testConnection http now t c s role)))
   \<and> (ct_missing (testConnection http now t c s role) = [] \<longleftrightarrow>
       (\<exists>token. acquireAppToken http now t c s DEFAULT_SCOPE = Inr token
          \<and> set (REQUIRED_SCOPES role) \<subseteq> set (grantedRoles (at_access_token token))))"
proof (cases "acquireAppToken http now t c s DEFAULT_SCOPE")
  case (Inl e)
  have "REQUIRED_SCOPES role \<noteq> []" by (cases role) simp_all
  with Inl show ?thesis by (simp add: testConnection_def Let_def comp_def)
next
  case (Inr token)
  then show ?thesis
    by (auto simp add: testConnection_def Let_def comp_def filter_empty_conv)
qed

end
