(* ===== verification/Stores.thy ===== *)
theory Stores
  imports World
begin

text \<open>
  The tables of tenants, provisioning credentials, sessions, login flows and the audit log
  (\<open>worker/src/db/tenants.ts\<close>, \<open>credentials.ts\<close>, \<open>sessions.ts\<close>, \<open>audit.ts\<close>).
\<close>

section \<open>Tenants\<close>

text \<open>\<open>TenantRecord\<close> is what leaves the Worker: it has no field for the secret.\<close>

record tenant_record =
  tr_id :: js_string
  tr_role :: tenant_role
  tr_tenant_id :: js_string
  tr_client_id :: js_string
  tr_secret_expiry :: "js_string option"
  tr_display_name :: "js_string option"
  tr_status :: tenant_status
  tr_last_tested_at :: "instant option"
  tr_created_at :: instant

definition mapPublic :: "tenant_row \<Rightarrow> tenant_record" where
  "mapPublic r =
     \<lparr>tr_id = tn_id r, tr_role = tn_role r, tr_tenant_id = tn_tenant_id r,
      tr_client_id = tn_client_id r, tr_secret_expiry = tn_secret_expiry r,
      tr_display_name = tn_display_name r, tr_status = tn_status r,
      tr_last_tested_at = tn_last_tested_at r, tr_created_at = tn_created_at r\<rparr>"

definition list_tenants :: "tenant_row list \<Rightarrow> tenant_record list" where
  "list_tenants t = map mapPublic (sort_key tn_role t)"

definition tenant_by_id :: "js_string \<Rightarrow> tenant_row list \<Rightarrow> tenant_record option" where
  "tenant_by_id i t = map_option mapPublic (lookup_by tn_id i t)"

definition tenant_by_role :: "tenant_role \<Rightarrow> tenant_row list \<Rightarrow> tenant_record option" where
  "tenant_by_role role t = map_option mapPublic (lookup_by tn_role role t)"

record secret_material =
  sm_id :: js_string
  sm_tenant_id :: js_string
  sm_client_id :: js_string
  sm_ciphertext :: js_string
  sm_iv :: js_string

definition material_of :: "tenant_row \<Rightarrow> secret_material" where
  "material_of r =
     \<lparr>sm_id = tn_id r, sm_tenant_id = tn_tenant_id r, sm_client_id = tn_client_id r,
      sm_ciphertext = tn_ciphertext r, sm_iv = tn_iv r\<rparr>"

definition getSecretMaterial :: "tenant_role \<Rightarrow> tenant_row list \<Rightarrow> secret_material option" where
  "getSecretMaterial role t = map_option material_of (lookup_by tn_role role t)"

definition getSecretMaterialById :: "js_string \<Rightarrow> tenant_row list \<Rightarrow> secret_material option" where
  "getSecretMaterialById i t = map_option material_of (lookup_by tn_id i t)"

text \<open>\<open>ON CONFLICT(role) DO UPDATE\<close>: id, creation and last test of the row stay.\<close>

definition tenant_excluded :: "tenant_row \<Rightarrow> tenant_row \<Rightarrow> tenant_row" where
  "tenant_excluded n r =
     r\<lparr>tn_tenant_id := tn_tenant_id n, tn_client_id := tn_client_id n,
       tn_ciphertext := tn_ciphertext n, tn_iv := tn_iv n, tn_secret_expiry := tn_secret_expiry n,
       tn_display_name := tn_display_name n, tn_status := Disconnected\<rparr>"

definition upsert_tenant :: "tenant_row \<Rightarrow> tenant_row list \<Rightarrow> tenant_row list" where
  "upsert_tenant n t = upsert_by tn_role (tenant_excluded n) n t"

definition rotateSecret ::
    "js_string \<Rightarrow> js_string \<Rightarrow> js_string \<Rightarrow> js_string option \<Rightarrow> tenant_row list \<Rightarrow> tenant_row list"
where
  "rotateSecret i ct iv expiry t =
     update_where (\<lambda>r. tn_id r = i)
       (\<lambda>r. r\<lparr>tn_ciphertext := ct, tn_iv := iv, tn_secret_expiry := expiry,
             tn_status := Disconnected\<rparr>) t"

definition setStatus ::
    "js_string \<Rightarrow> tenant_status \<Rightarrow> instant option \<Rightarrow> tenant_row list \<Rightarrow> tenant_row list"
where
  "setStatus i status tested t =
     update_where (\<lambda>r. tn_id r = i)
       (\<lambda>r. r\<lparr>tn_status := status, tn_last_tested_at := coalesce tested (tn_last_tested_at r)\<rparr>) t"

definition remove_tenant :: "js_string \<Rightarrow> tenant_row list \<Rightarrow> tenant_row list" where
  "remove_tenant i t = delete_where (\<lambda>r. tn_id r = i) t"

section \<open>Provisioning credentials\<close>

definition insert_cred :: "cred_row \<Rightarrow> cred_row list \<Rightarrow> cred_row list" where
  "insert_cred c t = t @ [c]"

record pending_credential =
  pc_id :: js_string
  pc_user :: js_string
  pc_target_upn :: js_string
  pc_ciphertext :: js_string
  pc_iv :: js_string

text \<open>The schema declares the ciphertext NOT NULL, so only \<open>downloaded_at\<close> decides.\<close>

definition awaiting :: "cred_row \<Rightarrow> bool" where
  "awaiting r \<longleftrightarrow> cr_downloaded_at r = None"

definition pending_of :: "cred_row \<Rightarrow> pending_credential" where
  "pending_of r =
     \<lparr>pc_id = cr_id r, pc_user = cr_user r, pc_target_upn = cr_target_upn r,
      pc_ciphertext = cr_ciphertext r, pc_iv = cr_iv r\<rparr>"

definition listPending :: "cred_row list \<Rightarrow> pending_credential list" where
  "listPending t = map pending_of (sort_key cr_created_at (filter awaiting t))"

definition countPending :: "cred_row list \<Rightarrow> nat" where
  "countPending t = length (filter awaiting t)"

definition markDownloadedAndPurge :: "js_string list \<Rightarrow> instant \<Rightarrow> cred_row list \<Rightarrow> cred_row list" where
  "markDownloadedAndPurge ids downloaded t =
     (if ids = [] then t
      else update_where (\<lambda>r. cr_id r \<in> set ids)
        (\<lambda>r. r\<lparr>cr_downloaded_at := Some downloaded, cr_ciphertext := [], cr_iv := []\<rparr>) t)"

section \<open>Sessions and login flows\<close>

definition insert_session :: "session_record \<Rightarrow> session_record list \<Rightarrow> session_record list" where
  "insert_session s t = t @ [s]"

definition getSession :: "js_string \<Rightarrow> session_record list \<Rightarrow> session_record option" where
  "getSession i t = lookup_by ss_id i t"

definition deleteSession :: "js_string \<Rightarrow> session_record list \<Rightarrow> session_record list" where
  "deleteSession i t = delete_where (\<lambda>s. ss_id s = i) t"

definition deleteExpiredSessions :: "instant \<Rightarrow> session_record list \<Rightarrow> session_record list" where
  "deleteExpiredSessions now t = delete_where (\<lambda>s. ss_expires_at s < now) t"

definition createAuthFlow :: "auth_flow_record \<Rightarrow> auth_flow_record list \<Rightarrow> auth_flow_record list" where
  "createAuthFlow f t = t @ [f]"

definition takeAuthFlow ::
    "js_string \<Rightarrow> auth_flow_record list \<Rightarrow> auth_flow_record option \<times> auth_flow_record list"
where
  "takeAuthFlow state t =
     (case lookup_by af_state state t of
        None \<Rightarrow> (None, t)
      | Some f \<Rightarrow> (Some f, delete_where (\<lambda>g. af_state g = state) t))"

text \<open>A store whose entries are consumed by reading them.\<close>

locale ticket_store =
  fixes issue :: "'e \<Rightarrow> 't \<Rightarrow> 't"
    and take_ticket :: "'k \<Rightarrow> 't \<Rightarrow> 'e option \<times> 't"
    and holds :: "'k \<Rightarrow> 't \<Rightarrow> bool"
    and key_of :: "'e \<Rightarrow> 'k"
  assumes take_none: "fst (take_ticket k t) = None \<longleftrightarrow> \<not> holds k t"
    and take_key: "fst (take_ticket k t) = Some e \<Longrightarrow> key_of e = k"
    and holds_take: "holds k' (snd (take_ticket k t)) \<longleftrightarrow> k' \<noteq> k \<and> holds k' t"
    and holds_issue: "holds k (issue e t) \<longleftrightarrow> k = key_of e \<or> holds k t"
begin

lemma take_twice: "fst (take_ticket k (snd (take_ticket k t))) = None"
  by (simp add: take_none holds_take)

text \<open>Takes in any order: a key is handed out at most once unless it is issued again.\<close>

primrec take_many :: "'k list \<Rightarrow> 't \<Rightarrow> 'e option list \<times> 't" where
  "take_many [] t = ([], t)"
| "take_many (k # ks) t =
     (let (r, t1) = take_ticket k t; (rs, t2) = take_many ks t1 in (r # rs, t2))"

lemma take_many_absent: "\<not> holds k t \<Longrightarrow> \<not> holds k (snd (take_many ks t))"
  by (induction ks arbitrary: t) (auto simp add: split_beta Let_def holds_take)

lemma take_many_keys:
  "Some e \<in> set (fst (take_many ks t)) \<Longrightarrow> holds (key_of e) t"
proof (induction ks arbitrary: t)
  case Nil
  then show ?case by simp
next
  case (Cons k ks)
  then consider "fst (take_ticket k t) = Some e" | "Some e \<in> set (fst (take_many ks (snd (take_ticket k t))))"
    by (auto simp add: split_beta Let_def)
  then show ?case
  proof cases
    case 1
    then show ?thesis using take_key [OF 1] take_none [of k t] by auto
  next
    case 2
    then show ?thesis using Cons.IH holds_take by blast
  qed
qed

lemma take_many_distinct:
  "distinct (map key_of (List.map_filter (\<lambda>r. r) (fst (take_many ks t))))"
proof (induction ks arbitrary: t)
  case Nil
  then show ?case by (simp add: map_filter_simps)
next
  case (Cons k ks)
  let ?t1 = "snd (take_ticket k t)"
  have later: "holds (key_of e) ?t1" if "Some e \<in> set (fst (take_many ks ?t1))" for e
    using take_many_keys [OF that] .
  show ?case
  proof (cases "fst (take_ticket k t)")
    case None
    with Cons show ?thesis by (simp add: split_beta Let_def map_filter_simps)
  next
    case (Some e)
    have "key_of e \<notin> key_of ` set (List.map_filter (\<lambda>r. r) (fst (take_many ks ?t1)))"
    proof
      assume "key_of e \<in> key_of ` set (List.map_filter (\<lambda>r. r) (fst (take_many ks ?t1)))"
      then obtain e' where e': "Some e' \<in> set (fst (take_many ks ?t1))" "key_of e' = key_of e"
        by (auto simp add: map_filter_def)
      then have "holds k ?t1" using later [OF e'(1)] take_key [OF Some] by simp
      then show False by (simp add: holds_take)
    qed
    with Cons Some show ?thesis by (simp add: split_beta Let_def map_filter_simps)
  qed
qed

end

interpretation flows: ticket_store createAuthFlow takeAuthFlow
  "\<lambda>k t. k \<in> af_state ` set t" af_state
proof
  fix k :: js_string and t :: "auth_flow_record list" and e
  show "fst (takeAuthFlow k t) = None \<longleftrightarrow> \<not> k \<in> af_state ` set t"
    by (auto simp add: takeAuthFlow_def lookup_by_None split: option.split)
      (metis lookup_by_Some imageI)
  show "fst (takeAuthFlow k t) = Some e \<Longrightarrow> af_state e = k"
    by (auto simp add: takeAuthFlow_def dest: lookup_by_Some split: option.splits)
next
  fix k k' :: js_string and t :: "auth_flow_record list"
  show "k' \<in> af_state ` set (snd (takeAuthFlow k t)) \<longleftrightarrow> k' \<noteq> k \<and> k' \<in> af_state ` set t"
  proof (cases "lookup_by af_state k t")
    case None
    then have "k \<notin> af_state ` set t" by (simp add: lookup_by_None)
    with None show ?thesis by (auto simp add: takeAuthFlow_def)
  qed (auto simp add: takeAuthFlow_def)
next
  fix k :: js_string and e :: auth_flow_record and t
  show "k \<in> af_state ` set (createAuthFlow e t) \<longleftrightarrow> k = af_state e \<or> k \<in> af_state ` set t"
    by (auto simp add: createAuthFlow_def)
qed

section \<open>Audit log\<close>

record audit_query =
  aq_actor :: "js_string option"
  aq_action :: "js_string option"
  aq_from :: "js_string option"
  aq_to :: "js_string option"
  aq_cursor :: "js_string option"
  aq_limit :: "int option"

definition insert_audit :: "audit_entry \<Rightarrow> audit_entry list \<Rightarrow> audit_entry list" where
  "insert_audit e t = t @ [e]"

text \<open>A filter is part of the \<open>WHERE\<close> only when its value is truthy.\<close>

definition if_given :: "js_string option \<Rightarrow> (js_string \<Rightarrow> bool) \<Rightarrow> bool" where
  "if_given f p \<longleftrightarrow> (truthy f \<longrightarrow> p (the f))"

definition audit_match :: "audit_query \<Rightarrow> audit_entry \<Rightarrow> bool" where
  "audit_match q e \<longleftrightarrow>
     if_given (aq_actor q) (\<lambda>s. au_actor e = s) \<and> if_given (aq_action q) (\<lambda>s. au_action e = s)
     \<and> if_given (aq_from q) (\<lambda>s. s \<le> au_created_at e) \<and> if_given (aq_to q) (\<lambda>s. au_created_at e \<le> s)
     \<and> if_given (aq_cursor q) (\<lambda>s. au_created_at e < s)"

text \<open>\<open>ORDER BY created_at DESC\<close>; rows of equal time keep their insertion order here, SQL
  leaves it open.\<close>

definition newest_first :: "audit_entry list \<Rightarrow> audit_entry list" where
  "newest_first t = rev (sort_key au_created_at (rev t))"

definition page_limit :: "int option \<Rightarrow> nat" where
  "page_limit l = nat (min (max (default_to l 100) 1) 500)"

definition audit_page :: "audit_query \<Rightarrow> audit_entry list \<Rightarrow> audit_entry list \<times> js_string option" where
  "audit_page q t =
     (let limit = page_limit (aq_limit q);
          results = take (limit + 1) (newest_first (filter (audit_match q) t));
          page = take limit results
      in (page,
          if length results > limit then Some (au_created_at (last page)) else None))"

definition pruneOlderThan :: "js_string \<Rightarrow> audit_entry list \<Rightarrow> nat \<times> audit_entry list" where
  "pruneOlderThan cutoff t =
     (length (filter (\<lambda>e. au_created_at e < cutoff) t), delete_where (\<lambda>e. au_created_at e < cutoff) t)"

end
