(* ===== verification/Vm.thy ===== *)
theory Vm
  imports Stores Graph
begin

text \<open>
  The bindings and variables of the Worker (\<open>worker/src/env.ts\<close>), the engine's routes
  (\<open>worker/src/routes/vm.ts\<close>) and the floor between its progress writes
  (\<open>progressFloor\<close> of \<open>worker/src/middleware/budget.ts\<close>). A body that is no JSON is
  \<open>None\<close>; a typed body is the record of its fields.
\<close>

section \<open>Environment\<close>

record env =
  ev_master_key :: js_string
  ev_oidc_client_secret :: js_string
  ev_project_name :: js_string
  ev_entra_tenant :: js_string
  ev_oidc_client_id :: js_string
  ev_redirect_uri :: js_string
  ev_allowed_group :: js_string
  ev_session_ttl :: js_string
  ev_min_poll :: js_string
  ev_team_domain :: js_string
  ev_access_aud :: js_string
  ev_dev_bypass :: "js_string option"

record platform =
  pf_http :: network
  pf_rsa :: rsa_verify
  pf_sha256 :: "byte list \<Rightarrow> byte list"
  pf_aes_enc :: aes_encrypt
  pf_aes_dec :: aes_decrypt
  pf_pathname :: "js_string \<Rightarrow> js_string"
  pf_skiptoken :: "js_string \<Rightarrow> exn + js_string option"

definition decrypt_material :: "platform \<Rightarrow> env \<Rightarrow> secret_material \<Rightarrow> exn + js_string" where
  "decrypt_material pf ev m =
     decryptSecret (pf_aes_dec pf) (ev_master_key ev)
       \<lparr>ec_ciphertext = sm_ciphertext m, ec_iv = sm_iv m\<rparr>"

definition material_token ::
    "platform \<Rightarrow> env \<Rightarrow> instant \<Rightarrow> js_string \<Rightarrow> secret_material \<Rightarrow> exn + app_token"
where
  "material_token pf ev now scope m =
     (case decrypt_material pf ev m of
        Inl e \<Rightarrow> Inl e
      | Inr secret \<Rightarrow> acquireAppToken (pf_http pf) now (sm_tenant_id m) (sm_client_id m) secret scope)"

section \<open>Routes\<close>

definition isRole :: "js_string option \<Rightarrow> tenant_role option" where
  "isRole v =
     (if v = Some (js ''source'') then Some Source
      else if v = Some (js ''destination'') then Some Destination else None)"

definition vm_config :: "request \<Rightarrow> world \<Rightarrow> engine_config" where
  "vm_config cx w = getEngineConfig (cx_now cx) (w_config w) (w_budget w)"

definition vm_token ::
    "platform \<Rightarrow> env \<Rightarrow> request \<Rightarrow> vm_token_request option \<Rightarrow> world \<Rightarrow> exn + vm_token_response"
where
  "vm_token pf ev cx body w =
     (case body of
        None \<Rightarrow> Inl Syntax_error
      | Some b \<Rightarrow>
          (case isRole (vm_token_request.tr_role b) of
             None \<Rightarrow> Inl (throw_text Validation
               (js ''tenantRole must be '' @ 39 # js ''source'' @ 39 # js '' or '' @ 39 # js ''destination'' @ [39]))
           | Some role \<Rightarrow>
               (case getSecretMaterial role (w_tenants w) of
                  None \<Rightarrow> Inl (throw_text Not_found (js ''No '' @ role_text role @ js '' tenant connected''))
                | Some m \<Rightarrow>
                    (case material_token pf ev (cx_now cx) (default_to (tr_scope b) DEFAULT_SCOPE) m of
                       Inl e \<Rightarrow> Inl e
                     | Inr token \<Rightarrow>
                         Inr \<lparr>ts_access_token = at_access_token token,
                              ts_expires_at = at_expires_at token, ts_tenant = sm_tenant_id m\<rparr>))))"

definition vm_get_job :: "js_string \<Rightarrow> world \<Rightarrow> exn + job" where
  "vm_get_job jid w =
     (case job_by_id jid (w_users w) (w_jobs w) of
        None \<Rightarrow> Inl (err Not_found ''Job not found'') | Some j \<Rightarrow> Inr j)"

text \<open>\<open>if (!(await jobsDb.getInternal(db, id))) throw err.notFound('Job not found')\<close>, then the
  body.\<close>

definition with_job :: "js_string \<Rightarrow> 'b option \<Rightarrow> world \<Rightarrow> ('b \<Rightarrow> 'a outcome) \<Rightarrow> 'a outcome" where
  "with_job jid body w k =
     (if getInternal jid (w_jobs w) = None then (Inl (err Not_found ''Job not found''), w)
      else (case body of None \<Rightarrow> (Inl Syntax_error, w) | Some b \<Rightarrow> k b))"

definition vm_status :: "request \<Rightarrow> js_string \<Rightarrow> status_update option \<Rightarrow> world \<Rightarrow> unit outcome" where
  "vm_status cx jid body w =
     with_job jid body w (\<lambda>b.
       if \<not> truthy (su_status b) then (Inl (err Validation ''status is required''), w)
       else (Inr (), billUsage 1 0
         (w\<lparr>w_jobs := updateStatus (cx_now cx) jid (status_of_text (the (su_status b)))
                        (or_null (su_error_class b)) (or_null (su_error_detail b)) (w_jobs w)\<rparr>)))"

text \<open>\<open>Number(env.MIN_POLL_INTERVAL_SEC) || 30\<close>: not NaN, not zero. An infinite value is
  the constructor \<open>Infinity\<close>, which no elapsed time reaches.\<close>

definition min_poll :: "env \<Rightarrow> number" where
  "min_poll ev =
     (let n = parse_number (ev_min_poll ev) in if n = NaN \<or> n = Fin 0 then Fin 30 else n)"

definition elapsed_below :: "int \<Rightarrow> number \<Rightarrow> bool" where
  "elapsed_below ms n =
     (case n of Fin q \<Rightarrow> of_int ms / 1000 < q | Infinity \<Rightarrow> True | _ \<Rightarrow> False)"

definition progressFloor :: "env \<Rightarrow> instant \<Rightarrow> js_string \<Rightarrow> world \<Rightarrow> exn option" where
  "progressFloor ev now jid w =
     (if jid = [] then Some (err Validation ''Missing job id'')
      else
        (case getInternal jid (w_jobs w) of
           None \<Rightarrow> Some (err Not_found ''Job not found'')
         | Some r \<Rightarrow>
             (case jr_last_progress_at r of
                None \<Rightarrow> None
              | Some t \<Rightarrow>
                  if elapsed_below (now - t) (min_poll ev) then
                    Some (throw_text Rate_limited
                      (js ''Progress updates limited to 1 per '' @ js_text (JNum (min_poll ev))
                       @ js ''s for this job''))
                  else None)))"

definition vm_progress ::
    "env \<Rightarrow> request \<Rightarrow> js_string \<Rightarrow> progress_update option \<Rightarrow> world \<Rightarrow> unit outcome"
where
  "vm_progress ev cx jid body w =
     (case progressFloor ev (cx_now cx) jid w of
        Some e \<Rightarrow> (Inl e, w)
      | None \<Rightarrow>
          (case body of
             None \<Rightarrow> (Inl Syntax_error, w)
           | Some b \<Rightarrow>
               if \<not> truthy (pu_status b) then (Inl (err Validation ''status is required''), w)
               else (Inr (), billUsage 1 0
                 (w\<lparr>w_jobs := updateProgress (cx_now cx) jid (status_of_text (the (pu_status b))) b
                                (w_jobs w)\<rparr>))))"

definition vm_checkpoint ::
    "request \<Rightarrow> js_string \<Rightarrow> checkpoint_update option \<Rightarrow> world \<Rightarrow> unit outcome"
where
  "vm_checkpoint cx jid body w =
     with_job jid body w (\<lambda>b.
       if \<not> is_object (cu_checkpoint b) then
         (Inl (err Validation ''checkpoint object is required''), w)
       else (Inr (), billUsage 1 0
         (w\<lparr>w_jobs := updateCheckpoint (cx_now cx) jid (cu_checkpoint b)
                        (default_to (or_null (cu_progress_current b)) 0)
                        (default_to (or_null (cu_bytes_done b)) 0) (w_jobs w)\<rparr>)))"

definition vm_items ::
    "request \<Rightarrow> js_string \<Rightarrow> item_log array_field option \<Rightarrow> world \<Rightarrow> nat outcome"
where
  "vm_items cx jid body w =
     with_job jid body w (\<lambda>b.
       case b of
         Items items \<Rightarrow>
           (let (inserted, items') =
              insertBatch (cx_uuid cx) (w_seed w) (cx_now cx) jid items (w_items w)
            in (Inr inserted, billUsage (int inserted) 0
                  (w\<lparr>w_items := items', w_seed := w_seed w + length items\<rparr>)))
       | _ \<Rightarrow> (Inl (err Validation ''items[] is required''), w))"

section \<open>The floor\<close>

text \<open>The accepted progress writes of one job among a sequence of engine calls at the given
  times: the last accepted one is in the row.\<close>

lemma updateProgress_last:
  "getInternal jid (updateProgress now jid st p t) =
     map_option (apply_progress now st p) (getInternal jid t)"
  unfolding getInternal_def updateProgress_def
  by (rule lookup_by_update_same) (simp add: apply_progress_def)


definition demo_env :: env where
  "demo_env =
     \<lparr>ev_master_key = demo_key, ev_oidc_client_secret = [], ev_project_name = [],
      ev_entra_tenant = js ''t'', ev_oidc_client_id = js ''app'', ev_redirect_uri = [],
      ev_allowed_group = js ''g'', ev_session_ttl = js ''28800'', ev_min_poll = js ''30'',
      ev_team_domain = js ''team'', ev_access_aud = js ''app'', ev_dev_bypass = None\<rparr>"

definition demo_request :: "instant \<Rightarrow> request" where
  "demo_request now =
     \<lparr>cx_now = now, cx_actor = js ''admin'', cx_uuid = (\<lambda>n. js ''id'' @ digits n), cx_send = (\<lambda>m. True)\<rparr>"

definition running_world :: "instant \<Rightarrow> world" where
  "running_world t =
     empty_world\<lparr>w_jobs := [(new_job (js ''j'') (js ''u'') Exchange 1 0)
       \<lparr>jr_status := Running, jr_last_progress_at := Some t\<rparr>]\<rparr>"

definition demo_progress :: progress_update where
  "demo_progress =
     \<lparr>pu_status = Some (js ''running''), pu_phase_text = Absent, pu_progress_current = Given 7,
      pu_progress_total = Absent, pu_bytes_done = Absent, pu_bytes_total = Null, pu_delta_token = Absent\<rparr>"

lemma demo_poll: "min_poll demo_env = Fin 30"
  by (simp add: min_poll_def demo_env_def number_eval)

lemma demo_floor: "progressFloor demo_env 31000 (js ''j'') (running_world 1000) = None"
  by (simp add: progressFloor_def running_world_def getInternal_def lookup_by_def new_job_def
      demo_poll elapsed_below_def)


end
