(* ===== verification/Auth.thy ===== *)
theory Auth
  imports Vm
begin

text \<open>
  Sign-in: server-side sessions (\<open>worker/src/auth/session.ts\<close>), the Entra code flow
  (\<open>oidc.ts\<close>), the Access assertion of the engine (\<open>access.ts\<close>), the localhost bypass
  (\<open>devbypass.ts\<close>) and the routes under \<open>/auth\<close> (\<open>worker/src/routes/auth.ts\<close>). \<open>tok k\<close> is
  the result of the request's \<open>k\<close>-th call of \<open>crypto.getRandomValues\<close>.
\<close>

section \<open>Requests\<close>

text \<open>What the handlers and the guards read of a request.\<close>

record web_request =
  rq_method :: js_string
  rq_path :: js_string
  rq_hostname :: js_string
  rq_cookie :: "js_string option"
  rq_csrf :: "js_string option"
  rq_access_jwt :: "js_string option"
  rq_ip :: "js_string option"
  rq_query :: "(js_string \<times> js_string) list"

definition query :: "web_request \<Rightarrow> string \<Rightarrow> js_string option" where
  "query rq k = map_of (rq_query rq) (js k)"

section \<open>Sessions\<close>

definition SESSION_COOKIE :: js_string where
  "SESSION_COOKIE = js ''es_session''"

definition MAX_TTL_SECONDS :: rat where
  "MAX_TTL_SECONDS = 8 * 60 * 60"

definition ttlSeconds :: "env \<Rightarrow> rat" where
  "ttlSeconds ev =
     (let ttl = (case parse_number (ev_session_ttl ev) of
                   Fin q \<Rightarrow> if 0 < q then q else MAX_TTL_SECONDS | _ \<Rightarrow> MAX_TTL_SECONDS)
      in min ttl MAX_TTL_SECONDS)"

record cookie_options =
  co_http_only :: bool
  co_secure :: bool
  co_same_site :: js_string
  co_path :: js_string
  co_max_age :: rat

definition sessionCookieOptions :: "env \<Rightarrow> cookie_options" where
  "sessionCookieOptions ev =
     \<lparr>co_http_only = True, co_secure = True, co_same_site = js ''Strict'', co_path = js ''/'',
      co_max_age = ttlSeconds ev\<rparr>"

record identity =
  id_upn :: js_string
  id_oid :: js_string
  id_display_name :: "js_string option"
  id_group_ok :: bool

record new_session =
  ns_raw_token :: js_string
  ns_csrf_token :: js_string
  ns_expires_at :: instant

definition session_row ::
    "platform \<Rightarrow> env \<Rightarrow> instant \<Rightarrow> (nat \<Rightarrow> byte list) \<Rightarrow> identity \<Rightarrow> session_record"
where
  "session_row pf ev now tok i =
     \<lparr>ss_id = sha256Hex (pf_sha256 pf) (opaqueToken (tok 0)), ss_actor_upn = id_upn i,
      ss_actor_oid = id_oid i, ss_display_name = id_display_name i,
      ss_group_ok = id_group_ok i, ss_csrf_token = opaqueToken (tok 1),
      ss_created_at = nowIso now, ss_expires_at = isoInSeconds now (ttlSeconds ev)\<rparr>"

definition createSession ::
    "platform \<Rightarrow> env \<Rightarrow> instant \<Rightarrow> (nat \<Rightarrow> byte list) \<Rightarrow> identity \<Rightarrow> session_record list \<Rightarrow>
     new_session \<times> session_record list"
where
  "createSession pf ev now tok i t =
     (let r = session_row pf ev now tok i
      in (\<lparr>ns_raw_token = opaqueToken (tok 0), ns_csrf_token = ss_csrf_token r,
           ns_expires_at = ss_expires_at r\<rparr>,
          deleteExpiredSessions now (insert_session r t)))"

definition resolveSession ::
    "platform \<Rightarrow> instant \<Rightarrow> js_string option \<Rightarrow> session_record list \<Rightarrow>
     session_record option \<times> session_record list"
where
  "resolveSession pf now raw t =
     (if \<not> truthy raw then (None, t)
      else
        (let i = sha256Hex (pf_sha256 pf) (the raw)
         in case getSession i t of
              None \<Rightarrow> (None, t)
            | Some r \<Rightarrow>
                if ss_expires_at r \<le> now then (None, deleteSession i t) else (Some r, t)))"

definition destroySession ::
    "platform \<Rightarrow> js_string option \<Rightarrow> session_record list \<Rightarrow> session_record list"
where
  "destroySession pf raw t =
     (if \<not> truthy raw then t else deleteSession (sha256Hex (pf_sha256 pf) (the raw)) t)"

section \<open>Entra code flow\<close>

definition SCOPES :: js_string where
  "SCOPES = js ''openid profile email''"

definition authority :: "env \<Rightarrow> js_string" where
  "authority ev = js ''https://login.microsoftonline.com/'' @ ev_entra_tenant ev"

definition createPkcePair :: "platform \<Rightarrow> byte list \<Rightarrow> js_string \<times> js_string" where
  "createPkcePair pf bytes =
     (let verifier = opaqueToken bytes
      in (verifier, base64UrlEncode (pf_sha256 pf (TextEncoder verifier))))"

definition buildAuthorizeUrl :: "env \<Rightarrow> js_string \<Rightarrow> js_string \<Rightarrow> js_string \<Rightarrow> js_string" where
  "buildAuthorizeUrl ev state nonce challenge =
     authority ev @ js ''/oauth2/v2.0/authorize?'' @ params_text
       [(js ''client_id'', ev_oidc_client_id ev), (js ''response_type'', js ''code''),
        (js ''redirect_uri'', ev_redirect_uri ev), (js ''response_mode'', js ''query''),
        (js ''scope'', SCOPES), (js ''state'', state), (js ''nonce'', nonce),
        (js ''code_challenge'', challenge), (js ''code_challenge_method'', js ''S256''),
        (js ''prompt'', js ''select_account'')]"

definition exchangeCode :: "platform \<Rightarrow> env \<Rightarrow> js_string \<Rightarrow> js_string \<Rightarrow> exn + js_string" where
  "exchangeCode pf ev code codeVerifier =
     (case fetch (pf_http pf)
        \<lparr>hq_method = js ''POST'', hq_url = authority ev @ js ''/oauth2/v2.0/token'',
         hq_headers = [(js ''content-type'', js ''application/x-www-form-urlencoded'')],
         hq_body = Form [(js ''client_id'', ev_oidc_client_id ev),
           (js ''client_secret'', ev_oidc_client_secret ev),
           (js ''grant_type'', js ''authorization_code''), (js ''code'', code),
           (js ''redirect_uri'', ev_redirect_uri ev), (js ''code_verifier'', codeVerifier),
           (js ''scope'', SCOPES)]\<rparr> of
        Inl e \<Rightarrow> Inl e
      | Inr res \<Rightarrow>
          (case res_json res of
             Inl e \<Rightarrow> Inl e
           | Inr json \<Rightarrow>
               if nullish json then Inl type_error
               else if \<not> res_ok res \<or> \<not> truthy (get_string json ''id_token'') then
                 Inl (throw_api Token_error ''OIDC code exchange failed''
                   (Some (first_some [get_string json ''error_description'', get_string json ''error'']
                            (http_status_text res))))
               else Inr (the (get_string json ''id_token''))))"

text \<open>\<open>claims[a] ?? claims[b] ?? ...\<close>.\<close>

definition first_claim :: "js_value \<Rightarrow> string list \<Rightarrow> js_value" where
  "first_claim claims ks =
     (case dropWhile nullish (map (\<lambda>k. get_key claims (js k)) ks) of [] \<Rightarrow> Undefined | v # vs \<Rightarrow> v)"

definition claim_groups :: "js_value \<Rightarrow> js_string list" where
  "claim_groups claims =
     (case get_key claims (js ''groups'') of JArr vs \<Rightarrow> map js_text vs | _ \<Rightarrow> [])"

definition identity_of :: "env \<Rightarrow> js_string \<Rightarrow> js_value \<Rightarrow> exn + identity" where
  "identity_of ev expectedNonce claims =
     (if get_key claims (js ''nonce'') \<noteq> JStr expectedNonce then
        Inl (err Unauthorized ''id_token nonce mismatch'')
      else if ev_allowed_group ev \<notin> set (claim_groups claims) then
        Inl (err Forbidden ''Not a member of the required MSP security group'')
      else
        (let upn = first_claim claims [''preferred_username'', ''upn'', ''email''];
             oid = first_claim claims [''oid'', ''sub''];
             name = get_key claims (js ''name'')
         in if \<not> js_truthy upn \<or> \<not> js_truthy oid then
              Inl (err Unauthorized ''id_token missing subject/upn claims'')
            else Inr \<lparr>id_upn = js_text upn, id_oid = js_text oid,
                      id_display_name = (if nullish name then None else Some (js_text name)),
                      id_group_ok = True\<rparr>))"

definition id_token_options :: "env \<Rightarrow> verify_options" where
  "id_token_options ev =
     \<lparr>vo_jwks_uri = authority ev @ js ''/discovery/v2.0/keys'', vo_audience = ev_oidc_client_id ev,
      vo_issuer = Some (authority ev @ js ''/v2.0''), vo_skew = None\<rparr>"

definition validateIdToken ::
    "platform \<Rightarrow> env \<Rightarrow> instant \<Rightarrow> js_string \<Rightarrow> js_string \<Rightarrow> jwks_cache \<Rightarrow>
     (exn + identity) \<times> jwks_cache"
where
  "validateIdToken pf ev now idToken expectedNonce cache =
     (case verifyRs256 (pf_http pf) (pf_rsa pf) now idToken (id_token_options ev) cache of
        (Inl e, cache') \<Rightarrow> (Inl e, cache')
      | (Inr claims, cache') \<Rightarrow> (identity_of ev expectedNonce claims, cache'))"

section \<open>Access assertion\<close>

definition ACCESS_HEADER :: js_string where
  "ACCESS_HEADER = js ''Cf-Access-Jwt-Assertion''"

definition team_domain :: "env \<Rightarrow> js_string" where
  "team_domain ev =
     (let d = ev_team_domain ev in if d \<noteq> [] \<and> last d = 47 then butlast d else d)"

definition access_options :: "env \<Rightarrow> verify_options" where
  "access_options ev =
     \<lparr>vo_jwks_uri = team_domain ev @ js ''/cdn-cgi/access/certs'', vo_audience = ev_access_aud ev,
      vo_issuer = Some (team_domain ev), vo_skew = None\<rparr>"

definition validateAccessToken ::
    "platform \<Rightarrow> env \<Rightarrow> instant \<Rightarrow> web_request \<Rightarrow> jwks_cache \<Rightarrow> (exn + js_string) \<times> jwks_cache"
where
  "validateAccessToken pf ev now rq cache =
     (if \<not> truthy (rq_access_jwt rq) then
        (Inl (err Unauthorized ''Missing Cloudflare Access assertion''), cache)
      else
        (case verifyRs256 (pf_http pf) (pf_rsa pf) now (the (rq_access_jwt rq)) (access_options ev) cache of
           (Inl e, cache') \<Rightarrow> (Inl e, cache')
         | (Inr claims, cache') \<Rightarrow>
             (let v = first_claim claims [''common_name'', ''email'', ''sub'']
              in (Inr (if nullish v then js ''vm-engine'' else js_text v), cache'))))"

section \<open>Localhost bypass\<close>

definition LOCAL_HOSTS :: "js_string list" where
  "LOCAL_HOSTS = [js ''localhost'', js ''127.0.0.1'', js ''[::1]'', js ''::1'']"

definition isLocalRequest :: "web_request \<Rightarrow> bool" where
  "isLocalRequest rq \<longleftrightarrow> rq_hostname rq \<in> set LOCAL_HOSTS"

definition devBypassActive :: "env \<Rightarrow> web_request \<Rightarrow> bool" where
  "devBypassActive ev rq \<longleftrightarrow> ev_dev_bypass ev = Some (js ''true'') \<and> isLocalRequest rq"

definition DEV_IDENTITY :: identity where
  "DEV_IDENTITY =
     \<lparr>id_upn = js ''dev@localhost'', id_oid = js ''dev-local-bypass'',
      id_display_name = Some (js ''Local Dev (SSO bypassed)''), id_group_ok = True\<rparr>"

section \<open>Routes\<close>

record auth_response =
  ar_location :: js_string
  ar_cookie :: "(js_string \<times> cookie_options) option"

definition safeRedirect :: "js_string option \<Rightarrow> js_string" where
  "safeRedirect target =
     (if truthy target \<and> startsWith (the target) (js ''/'') then the target else js ''/'')"

definition AUTH_FLOW_TTL_SEC :: rat where
  "AUTH_FLOW_TTL_SEC = 600"

text \<open>Mint a session for an identity, bill its two writes, and audit the sign-in.\<close>

definition sign_in ::
    "platform \<Rightarrow> env \<Rightarrow> request \<Rightarrow> (nat \<Rightarrow> byte list) \<Rightarrow> identity \<Rightarrow> js_string option \<Rightarrow> world \<Rightarrow>
     (js_string \<times> cookie_options) \<times> world"
where
  "sign_in pf ev cx tok i det w =
     (let (s, t) = createSession pf ev (cx_now cx) tok i (w_sessions w);
          w1 = billUsage 2 0 (w\<lparr>w_sessions := t\<rparr>)
      in ((ns_raw_token s, sessionCookieOptions ev),
          billUsage 1 0 (audit cx (id_upn i) Sign_in (Some (id_upn i)) det w1)))"

definition auth_login ::
    "platform \<Rightarrow> env \<Rightarrow> request \<Rightarrow> (nat \<Rightarrow> byte list) \<Rightarrow> web_request \<Rightarrow> world \<Rightarrow> auth_response \<times> world"
where
  "auth_login pf ev cx tok rq w =
     (if devBypassActive ev rq then
        (let (cookie, w') = sign_in pf ev cx tok DEV_IDENTITY
               (Some (js ''DEV_AUTH_BYPASS (localhost)'')) w
         in (\<lparr>ar_location = safeRedirect (query rq ''redirect_to''), ar_cookie = Some cookie\<rparr>, w'))
      else
        (let (verifier, challenge) = createPkcePair pf (tok 0);
             state = opaqueToken (tok 1);
             nonce = opaqueToken (tok 2);
             redirectTo = default_to (query rq ''redirect_to'') (js ''/'');
             flow = \<lparr>af_state = state, af_code_verifier = verifier, af_nonce = nonce,
               af_redirect_to = Some (if startsWith redirectTo (js ''/'') then redirectTo else js ''/''),
               af_created_at = nowIso (cx_now cx),
               af_expires_at = isoInSeconds (cx_now cx) AUTH_FLOW_TTL_SEC\<rparr>
         in (\<lparr>ar_location = buildAuthorizeUrl ev state nonce challenge, ar_cookie = None\<rparr>,
             billUsage 1 0 (w\<lparr>w_flows := createAuthFlow flow (w_flows w)\<rparr>))))"

definition auth_callback ::
    "platform \<Rightarrow> env \<Rightarrow> request \<Rightarrow> (nat \<Rightarrow> byte list) \<Rightarrow> web_request \<Rightarrow> jwks_cache \<Rightarrow> world \<Rightarrow>
     (exn + auth_response) \<times> jwks_cache \<times> world"
where
  "auth_callback pf ev cx tok rq cache w =
     (if truthy (query rq ''error'') then
        (Inl (throw_api Unauthorized ''Sign-in failed''
           (coalesce (query rq ''error_description'') (query rq ''error''))), cache, w)
      else if \<not> truthy (query rq ''code'') \<or> \<not> truthy (query rq ''state'') then
        (Inl (err Validation ''Missing code or state''), cache, w)
      else
        (let (found, flows') = takeAuthFlow (the (query rq ''state'')) (w_flows w);
             w1 = billUsage 1 0 (w\<lparr>w_flows := flows'\<rparr>)
         in case found of
              None \<Rightarrow> (Inl (err Unauthorized ''Unknown or reused state''), cache, w1)
            | Some flow \<Rightarrow>
                if isPast (cx_now cx) (af_expires_at flow) then
                  (Inl (err Unauthorized ''Sign-in state expired; please retry''), cache, w1)
                else
                  (case exchangeCode pf ev (the (query rq ''code'')) (af_code_verifier flow) of
                     Inl e \<Rightarrow> (Inl e, cache, w1)
                   | Inr idToken \<Rightarrow>
                       (case validateIdToken pf ev (cx_now cx) idToken (af_nonce flow) cache of
                          (Inl e, cache') \<Rightarrow> (Inl e, cache', w1)
                        | (Inr i, cache') \<Rightarrow>
                            (let (cookie, w2) = sign_in pf ev cx tok i None w1
                             in (Inr \<lparr>ar_location = default_to (af_redirect_to flow) (js ''/''),
                                      ar_cookie = Some cookie\<rparr>, cache', w2))))))"

definition csrf_ok :: "web_request \<Rightarrow> session_record \<Rightarrow> bool" where
  "csrf_ok rq s \<longleftrightarrow> truthy (rq_csrf rq) \<and> the (rq_csrf rq) = ss_csrf_token s"

definition auth_logout :: "platform \<Rightarrow> request \<Rightarrow> web_request \<Rightarrow> world \<Rightarrow> unit outcome" where
  "auth_logout pf cx rq w =
     (let (found, t) = resolveSession pf (cx_now cx) (rq_cookie rq) (w_sessions w);
          w1 = w\<lparr>w_sessions := t\<rparr>
      in case found of
           None \<Rightarrow> (Inr (), w1)
         | Some s \<Rightarrow>
             if \<not> csrf_ok rq s then (Inl (err Csrf_code ''Invalid or missing CSRF token''), w1)
             else
               (Inr (), billUsage 2 0
                  (audit cx (ss_actor_upn s) Sign_out (Some (ss_actor_upn s)) None
                     (w1\<lparr>w_sessions := destroySession pf (rq_cookie rq) t\<rparr>))))"

end
