(* ===== verification/Guards.thy ===== *)
theory Guards
  imports Auth
begin

text \<open>
  The middleware (\<open>worker/src/middleware/\<close>) and its composition in front of the routes
  (\<open>worker/src/routes/index.ts\<close>). The keys cache and the rate-limit buckets live in the
  isolate; a guard that refuses still keeps what it wrote (an expired session deleted, a
  request counted).
\<close>

section \<open>Rate limit\<close>

definition WINDOW_MS :: int where
  "WINDOW_MS = 60000"

definition MAX_PER_WINDOW :: nat where
  "MAX_PER_WINDOW = 120"

record bucket =
  bk_key :: js_string
  bk_count :: nat
  bk_reset_at :: instant

definition fresh_bucket :: "instant \<Rightarrow> js_string \<Rightarrow> bucket" where
  "fresh_bucket now key = \<lparr>bk_key = key, bk_count = 0, bk_reset_at = now + WINDOW_MS\<rparr>"

definition rate_key :: "session_record option \<Rightarrow> web_request \<Rightarrow> js_string" where
  "rate_key s rq = default_to (coalesce (map_option ss_id s) (rq_ip rq)) (js ''anon'')"

definition rateLimit :: "instant \<Rightarrow> js_string \<Rightarrow> bucket list \<Rightarrow> exn option \<times> bucket list" where
  "rateLimit now key bs =
     (let b = (case lookup_by bk_key key bs of
                 None \<Rightarrow> fresh_bucket now key
               | Some b \<Rightarrow> if bk_reset_at b \<le> now then fresh_bucket now key else b);
          b' = b\<lparr>bk_count := Suc (bk_count b)\<rparr>;
          bs' = upsert_by bk_key (\<lambda>row. b') b' bs
      in (if MAX_PER_WINDOW < bk_count b' then
            Some (throw_text Rate_limited
              (js ''Per-session request cap ('' @ digits MAX_PER_WINDOW @ js ''/min) exceeded''))
          else None, bs'))"

section \<open>Sessions and budget\<close>

definition read_method :: "web_request \<Rightarrow> bool" where
  "read_method rq \<longleftrightarrow>
     toUpperCase (rq_method rq) \<in> {js ''GET'', js ''HEAD'', js ''OPTIONS''}"

definition requireSession ::
    "platform \<Rightarrow> instant \<Rightarrow> web_request \<Rightarrow> session_record list \<Rightarrow>
     (exn + session_record) \<times> session_record list"
where
  "requireSession pf now rq t =
     (case resolveSession pf now (rq_cookie rq) t of
        (None, t') \<Rightarrow> (Inl (err Unauthorized ''No valid session''), t')
      | (Some s, t') \<Rightarrow>
          if \<not> ss_group_ok s then
            (Inl (err Forbidden ''Not a member of the required MSP security group''), t')
          else if \<not> read_method rq \<and> \<not> csrf_ok rq s then
            (Inl (err Csrf_code ''Invalid or missing CSRF token''), t')
          else (Inr s, t'))"

definition budgetGuard :: "instant \<Rightarrow> web_request \<Rightarrow> world \<Rightarrow> exn option" where
  "budgetGuard now rq w =
     (if \<not> read_method rq \<and> isHardExhausted now (w_config w) (w_budget w) then
        Some (err Budget_exhausted ''Daily Cloudflare free-tier cap reached; writes are paused'')
      else None)"

definition requireAccessToken ::
    "platform \<Rightarrow> env \<Rightarrow> instant \<Rightarrow> web_request \<Rightarrow> jwks_cache \<Rightarrow> (exn + js_string) \<times> jwks_cache"
where
  "requireAccessToken pf ev now rq cache = validateAccessToken pf ev now rq cache"

section \<open>Composition\<close>

record isolate =
  is_jwks :: jwks_cache
  is_buckets :: "bucket list"

datatype principal = Engineer session_record | Engine js_string | Anyone

definition VM_PREFIX :: js_string where
  "VM_PREFIX = js ''/api/vm''"

text \<open>The pattern \<open>/vm/*\<close> matches the prefix itself and everything below it.\<close>

definition vm_route :: "js_string \<Rightarrow> bool" where
  "vm_route path \<longleftrightarrow> path = VM_PREFIX \<or> startsWith path (VM_PREFIX @ js ''/'')"

definition ui_guard ::
    "platform \<Rightarrow> instant \<Rightarrow> web_request \<Rightarrow> isolate \<Rightarrow> world \<Rightarrow> (exn + principal) \<times> isolate \<times> world"
where
  "ui_guard pf now rq mem w =
     (case requireSession pf now rq (w_sessions w) of
        (Inl e, t) \<Rightarrow> (Inl e, mem, w\<lparr>w_sessions := t\<rparr>)
      | (Inr s, t) \<Rightarrow>
          (let w1 = w\<lparr>w_sessions := t\<rparr>;
               (limited, bs) = rateLimit now (rate_key (Some s) rq) (is_buckets mem);
               mem1 = mem\<lparr>is_buckets := bs\<rparr>
           in case limited of
                Some e \<Rightarrow> (Inl e, mem1, w1)
              | None \<Rightarrow>
                  (case budgetGuard now rq w1 of
                     Some e \<Rightarrow> (Inl e, mem1, w1)
                   | None \<Rightarrow> (Inr (Engineer s), mem1, w1))))"

definition vm_guard ::
    "platform \<Rightarrow> env \<Rightarrow> instant \<Rightarrow> web_request \<Rightarrow> isolate \<Rightarrow> world \<Rightarrow> (exn + principal) \<times> isolate \<times> world"
where
  "vm_guard pf ev now rq mem w =
     (case requireAccessToken pf ev now rq (is_jwks mem) of
        (Inl e, cache) \<Rightarrow> (Inl e, mem\<lparr>is_jwks := cache\<rparr>, w)
      | (Inr subject, cache) \<Rightarrow>
          (case budgetGuard now rq w of
             Some e \<Rightarrow> (Inl e, mem\<lparr>is_jwks := cache\<rparr>, w)
           | None \<Rightarrow> (Inr (Engine subject), mem\<lparr>is_jwks := cache\<rparr>, w)))"

text \<open>The two path-scoped guards first, then the wildcard guard, which lets every path
  that begins with the VM prefix and the branding path pass.\<close>

definition api_guard ::
    "platform \<Rightarrow> env \<Rightarrow> instant \<Rightarrow> web_request \<Rightarrow> isolate \<Rightarrow> world \<Rightarrow> (exn + principal) \<times> isolate \<times> world"
where
  "api_guard pf ev now rq mem w =
     (if vm_route (rq_path rq) then vm_guard pf ev now rq mem w
      else if startsWith (rq_path rq) VM_PREFIX \<or> rq_path rq = js ''/api/app-info'' then
        (Inr Anyone, mem, w)
      else ui_guard pf now rq mem w)"

text \<open>The mounted routers.\<close>

definition MOUNTS :: "js_string list" where
  "MOUNTS =
     [js ''/api/tenants'', js ''/api/discovery'', js ''/api/migration-users'', js ''/api/provision'',
      js ''/api/passwords'', js ''/api/jobs'', js ''/api/reports'', js ''/api/audit'', js ''/api/budget'',
      js ''/api/config'', js ''/api/vm'']"

definition routed :: "js_string \<Rightarrow> bool" where
  "routed path \<longleftrightarrow>
     path = js ''/api/app-info'' \<or> path = js ''/api/me''
     \<or> (\<exists>m \<in> set MOUNTS. path = m \<or> startsWith path (m @ js ''/''))"

record app_info =
  ai_project_name :: js_string
  ai_product :: js_string

definition get_app_info :: "env \<Rightarrow> app_info" where
  "get_app_info ev =
     \<lparr>ai_project_name = (if ev_project_name ev = [] then js ''EntraShift'' else ev_project_name ev),
      ai_product = js ''EntraShift''\<rparr>"

record me =
  me_upn :: js_string
  me_display_name :: "js_string option"
  me_group_ok :: bool
  me_csrf_token :: js_string

definition get_me :: "session_record \<Rightarrow> me" where
  "get_me s =
     \<lparr>me_upn = ss_actor_upn s, me_display_name = ss_display_name s, me_group_ok = ss_group_ok s,
      me_csrf_token = ss_csrf_token s\<rparr>"

text \<open>\<open>app.use('/auth/*')\<close> and \<open>app.use('/api/*')\<close>: every request is counted after its
  response.\<close>

definition counted :: "web_request \<Rightarrow> world \<Rightarrow> world" where
  "counted rq w =
     (if rq_path rq = js ''/auth'' \<or> rq_path rq = js ''/api'' \<or> startsWith (rq_path rq) (js ''/auth/'')
         \<or> startsWith (rq_path rq) (js ''/api/'')
      then countWorkerRequest w else w)"

end
