(* ===== verification/UsersRoute.thy ===== *)
theory UsersRoute
  imports Vm Csv
begin

text \<open>
  The migration queue: selecting and importing users (\<open>worker/src/routes/users.ts\<close>) and
  mapping them to destination accounts (\<open>worker/src/routes/mapping.ts\<close>).
\<close>

section \<open>Selecting and importing\<close>

definition deriveMappingStatus :: "js_string option \<Rightarrow> bool \<Rightarrow> mapping_status" where
  "deriveMappingStatus targetEmail autoCreate =
     (if autoCreate then Auto_create else if truthy targetEmail then Mapped else Unmapped)"

definition get_users :: "world \<Rightarrow> migration_user list" where
  "get_users w = list_users (w_users w)"

text \<open>A \<open>Partial<MigrationUser>\<close> of the request.\<close>

record partial_user =
  pu_id :: "js_string option"
  pu_source_email :: "js_string option"
  pu_target_email :: "js_string option"
  pu_target_upn :: "js_string option"
  pu_exchange :: bool
  pu_onedrive :: bool
  pu_auto_create :: bool
  pu_archive :: bool
  pu_mapping_status :: "mapping_status option"

definition user_stmt :: "request \<Rightarrow> nat \<Rightarrow> partial_user \<Rightarrow> migration_user" where
  "user_stmt cx seed u =
     \<lparr>mu_id = default_to (pu_id u) (cx_uuid cx seed), source_email = the (pu_source_email u),
      target_email = pu_target_email u, target_upn = pu_target_upn u,
      migrate_exchange = pu_exchange u, migrate_onedrive = pu_onedrive u,
      auto_create_target = pu_auto_create u, include_archive = pu_archive u,
      mapping_status = default_to (pu_mapping_status u)
        (deriveMappingStatus (pu_target_email u) (pu_auto_create u)),
      mu_created_at = cx_now cx\<rparr>"

text \<open>\<open>input.map(...)\<close>: an id is drawn for each user that has none, in order.\<close>

fun user_stmts :: "request \<Rightarrow> nat \<Rightarrow> partial_user list \<Rightarrow> exn + migration_user list \<times> nat" where
  "user_stmts cx seed [] = Inr ([], seed)"
| "user_stmts cx seed (u # us) =
     (if \<not> truthy (pu_source_email u) then Inl (err Validation ''each user requires sourceEmail'')
      else
        (case user_stmts cx (if pu_id u = None then Suc seed else seed) us of
           Inl e \<Rightarrow> Inl e
         | Inr (rows, seed') \<Rightarrow> Inr (user_stmt cx seed u # rows, seed')))"

text \<open>The array itself or its wrapped form arrive as the same list.\<close>

definition post_users ::
    "request \<Rightarrow> partial_user array_field option \<Rightarrow> world \<Rightarrow> migration_user list outcome"
where
  "post_users cx input w =
     (case input of
        None \<Rightarrow> (Inl Syntax_error, w)
      | Some (Items (x # xs)) \<Rightarrow>
          (case user_stmts cx (w_seed w) (x # xs) of
             Inl e \<Rightarrow> (Inl e, w)
           | Inr (rows, seed') \<Rightarrow>
               (case batch_users rows (w_users w) of
                  Inl e \<Rightarrow> (Inl e, w\<lparr>w_seed := seed'\<rparr>)
                | Inr users' \<Rightarrow>
                    (let w1 = billUsage (int (length rows)) 0 (w\<lparr>w_seed := seed', w_users := users'\<rparr>);
                         w2 = audited cx User_select None
                           (Some (js ''added '' @ digits (length rows) @ js '' user(s)'')) w1
                     in (Inr (list_users (w_users w2)), w2))))
      | _ \<Rightarrow> (Inl (err Validation
          ''a non-empty MigrationUser[] (or { users: [...] }) is required''), w))"

definition import_stmt :: "request \<Rightarrow> nat \<Rightarrow> csv_import_row \<Rightarrow> migration_user" where
  "import_stmt cx seed r =
     \<lparr>mu_id = cx_uuid cx seed, source_email = ci_source r, target_email = ci_target r,
      target_upn = None, migrate_exchange = ci_exchange r, migrate_onedrive = ci_onedrive r,
      auto_create_target = ci_auto_create r, include_archive = False,
      mapping_status = deriveMappingStatus (ci_target r) (ci_auto_create r),
      mu_created_at = cx_now cx\<rparr>"

definition import_users ::
    "request \<Rightarrow> js_string \<Rightarrow> world \<Rightarrow> (nat \<times> (nat \<times> js_string) list) outcome"
where
  "import_users cx csv w =
     (if trim csv = [] then (Inl (err Validation ''Empty CSV body''), w)
      else
        (let (accepted, rejected) = validateImportCsv csv (listSourceEmails (w_users w));
             n = length accepted;
             rows = map (\<lambda>(i, r). import_stmt cx (w_seed w + i) r) (enumerate 0 accepted);
             finish = (\<lambda>w1. (Inr (n, rejected), audited cx Csv_import None
               (Some (js ''accepted '' @ digits n @ js '', rejected '' @ digits (length rejected))) w1))
         in if n = 0 then finish w
            else
              (case batch_users rows (w_users w) of
                 Inl e \<Rightarrow> (Inl e, w\<lparr>w_seed := w_seed w + n\<rparr>)
               | Inr users' \<Rightarrow>
                   finish (billUsage (int n) 0 (w\<lparr>w_seed := w_seed w + n, w_users := users'\<rparr>)))))"

text \<open>\<open>DELETE\<close>, with the \<open>ON DELETE CASCADE\<close> of the schema: the user's jobs, their item
  logs and the user's credentials go too.\<close>

definition cascade_user :: "js_string \<Rightarrow> world \<Rightarrow> world" where
  "cascade_user uid w =
     (let gone = jr_id ` set (filter (\<lambda>r. jr_user r = uid) (w_jobs w))
      in w\<lparr>w_users := remove_user uid (w_users w),
           w_jobs := delete_where (\<lambda>r. jr_user r = uid) (w_jobs w),
           w_items := delete_where (\<lambda>i. item_job i \<in> gone) (w_items w),
           w_creds := delete_where (\<lambda>c. cr_user c = uid) (w_creds w)\<rparr>)"

definition user_not_found :: exn where
  "user_not_found = err Not_found ''Migration user not found''"

definition delete_user :: "request \<Rightarrow> js_string \<Rightarrow> world \<Rightarrow> unit outcome" where
  "delete_user cx uid w =
     (case user_by_id uid (w_users w) of
        None \<Rightarrow> (Inl user_not_found, w)
      | Some u \<Rightarrow>
          (Inr (), audited cx User_select (Some (source_email u)) (Some (js ''removed''))
             (billUsage 1 0 (cascade_user uid w))))"

section \<open>Mapping\<close>

definition resolveDestinationUpn ::
    "platform \<Rightarrow> env \<Rightarrow> instant \<Rightarrow> tenant_row list \<Rightarrow> js_string \<Rightarrow> js_string option"
where
  "resolveDestinationUpn pf ev now t email =
     (case getSecretMaterial Destination t of
        None \<Rightarrow> None
      | Some m \<Rightarrow>
          (case material_token pf ev now DEFAULT_SCOPE m of
             Inl e \<Rightarrow> None
           | Inr token \<Rightarrow>
               (case getUserByEmail (pf_http pf) (pf_pathname pf) (at_access_token token) email of
                  Inr (Some u) \<Rightarrow> gu_upn u
                | _ \<Rightarrow> None)))"

record mapping_body =
  mb_target_email :: "js_string field"
  mb_target_upn :: "js_string field"
  mb_mapping_status :: "mapping_status option"

text \<open>The decision of the handler: the target and the status the row gets. \<open>resolve\<close> is
  \<open>resolveDestinationUpn\<close>.\<close>

definition decide_mapping ::
    "(js_string \<Rightarrow> js_string option) \<Rightarrow> migration_user \<Rightarrow> mapping_body \<Rightarrow>
     js_string option \<times> js_string option \<times> mapping_status"
where
  "decide_mapping resolve u b =
     (let email = set_if_given (mb_target_email b) (target_email u);
          requested = default_to (mb_mapping_status b) (mapping_status u);
          upn = or_null (mb_target_upn b)
      in if requested = Auto_create then
           (let upn' = coalesce upn email
            in (email, upn', if truthy upn' then requested else Invalid))
         else if requested = Mapped then
           (let upn' = (if \<not> truthy upn \<and> truthy email then resolve (the email) else upn)
            in (email, upn', if truthy upn' then Mapped else Invalid))
         else (email, upn, requested))"

definition patch_mapping ::
    "platform \<Rightarrow> env \<Rightarrow> request \<Rightarrow> js_string \<Rightarrow> mapping_body option \<Rightarrow> world \<Rightarrow>
     migration_user option outcome"
where
  "patch_mapping pf ev cx uid body w =
     (case user_by_id uid (w_users w) of
        None \<Rightarrow> (Inl user_not_found, w)
      | Some u \<Rightarrow>
          (case body of
             None \<Rightarrow> (Inl Syntax_error, w)
           | Some b \<Rightarrow>
               (let (email, upn, status) =
                      decide_mapping (resolveDestinationUpn pf ev (cx_now cx) (w_tenants w)) u b;
                    w1 = billUsage 1 0 (w\<lparr>w_users := updateMapping uid email upn status (w_users w)\<rparr>);
                    w2 = audited cx Mapping_change (Some (source_email u))
                      (Some (8594 # 32 # default_to upn (js ''(unresolved)'') @ js '' ['' @
                             mapping_text status @ js '']'')) w1
                in (Inr (user_by_id uid (w_users w2)), w2))))"

end
