(* ===== verification/Provision.thy ===== *)
theory Provision
  imports Vm Csv
begin

text \<open>
  Creating destination accounts (\<open>worker/src/routes/provision.ts\<close>) and the one-time download
  of their passwords (\<open>worker/src/routes/passwords.ts\<close>). Random bytes are drawn from the
  stream \<open>rnd\<close>: \<open>rnd k\<close> are the bytes the \<open>k\<close>-th account may consume, \<open>iv k\<close> its
  initialisation vector.
\<close>

record provision_result =
  ps_user :: js_string
  ps_ok :: bool
  ps_target_upn :: "js_string option"
  ps_error :: "js_string option"

definition failed_result :: "js_string \<Rightarrow> string \<Rightarrow> provision_result" where
  "failed_result uid m = \<lparr>ps_user = uid, ps_ok = False, ps_target_upn = None, ps_error = Some (js m)\<rparr>"

text \<open>\<open>s.split('@')[0]\<close>.\<close>

definition local_part :: "js_string \<Rightarrow> js_string" where
  "local_part s = takeWhile (\<lambda>c. c \<noteq> 64) s"

text \<open>Display name, given name and surname, enriched from the source directory.\<close>

definition enrich ::
    "platform \<Rightarrow> js_string option \<Rightarrow> js_string \<Rightarrow>
     exn + js_string \<times> js_string option \<times> js_string option"
where
  "enrich pf srcAccess email =
     (if \<not> truthy srcAccess then Inr (local_part email, None, None)
      else
        (case getUserByEmail (pf_http pf) (pf_pathname pf) (the srcAccess) email of
           Inl e \<Rightarrow> Inl e
         | Inr None \<Rightarrow> Inr (local_part email, None, None)
         | Inr (Some u) \<Rightarrow>
             Inr (default_to (gu_display_name u) (local_part email), gu_given_name u, gu_surname u)))"

text \<open>The calls of the \<open>try\<close> block up to the stored ciphertext. A password generation that
  never returns is \<open>None\<close>.\<close>

definition create_account ::
    "platform \<Rightarrow> env \<Rightarrow> js_string \<Rightarrow> js_string option \<Rightarrow> byte list \<Rightarrow> byte list \<Rightarrow> migration_user \<Rightarrow>
     js_string \<Rightarrow> (exn + envelope_ciphertext) option"
where
  "create_account pf ev destAccess srcAccess bytes iv user upn =
     (case enrich pf srcAccess (source_email user) of
        Inl e \<Rightarrow> Some (Inl e)
      | Inr (displayName, givenName, surname) \<Rightarrow>
          (case generateTempPassword 20 bytes of
             None \<Rightarrow> None
           | Some (password, rest) \<Rightarrow>
               (case provisionUser (pf_http pf) destAccess
                  \<lparr>pi_upn = upn, pi_display_name = displayName, pi_given_name = givenName,
                   pi_surname = surname, pi_mail_nickname = local_part upn, pi_password = password\<rparr> of
                  Inl e \<Rightarrow> Some (Inl e)
                | Inr created \<Rightarrow>
                    let onedrive = preProvisionOneDrive (pf_http pf) (pf_pathname pf) destAccess (fst created)
                    in Some (encryptSecret (pf_aes_enc pf) iv (ev_master_key ev) password))))"

definition store_account ::
    "request \<Rightarrow> migration_user \<Rightarrow> js_string \<Rightarrow> envelope_ciphertext \<Rightarrow> world \<Rightarrow> world"
where
  "store_account cx user upn enc w =
     (let (i, w1) = draw_uuid cx w;
          w2 = w1\<lparr>w_creds := insert_cred
                 \<lparr>cr_id = i, cr_user = mu_id user, cr_target_upn = upn,
                  cr_ciphertext = ec_ciphertext enc, cr_iv = ec_iv enc,
                  cr_created_at = cx_now cx, cr_downloaded_at = None\<rparr> (w_creds w1)\<rparr>;
          w3 = billUsage 2 0
                 (w2\<lparr>w_users := updateMapping (mu_id user) (target_email user) (Some upn) Provisioned
                       (w_users w2)\<rparr>)
      in audited cx Provision (Some upn) (Some (js ''created + credential stored'')) w3)"

fun provision_users ::
    "platform \<Rightarrow> env \<Rightarrow> request \<Rightarrow> (nat \<Rightarrow> byte list) \<Rightarrow> (nat \<Rightarrow> byte list) \<Rightarrow> js_string \<Rightarrow>
     js_string option \<Rightarrow> nat \<Rightarrow> js_string list \<Rightarrow> provision_result list \<Rightarrow> world \<Rightarrow>
     (provision_result list \<times> world) option"
where
  "provision_users pf ev cx rnd iv dest src k [] results w = Some (results, w)"
| "provision_users pf ev cx rnd iv dest src k (uid # uids) results w =
     (case user_by_id uid (w_users w) of
        None \<Rightarrow> provision_users pf ev cx rnd iv dest src (Suc k) uids
                  (results @ [failed_result uid ''not found'']) w
      | Some user \<Rightarrow>
          if \<not> auto_create_target user then
            provision_users pf ev cx rnd iv dest src (Suc k) uids
              (results @ [failed_result uid ''not marked for auto-create'']) w
          else
            (let upn = coalesce (target_upn user) (target_email user)
             in if \<not> truthy upn then
                  provision_users pf ev cx rnd iv dest src (Suc k) uids
                    (results @ [failed_result uid ''no resolved target UPN'']) w
                else
                  (case create_account pf ev dest src (rnd k) (iv k) user (the upn) of
                     None \<Rightarrow> None
                   | Some (Inl e) \<Rightarrow>
                       provision_users pf ev cx rnd iv dest src (Suc k) uids
                         (results @ [\<lparr>ps_user = uid, ps_ok = False, ps_target_upn = upn,
                                     ps_error = Some (exn_message e)\<rparr>])
                         (audited cx Provision upn (Some (js ''FAILED: '' @ exn_message e)) w)
                   | Some (Inr enc) \<Rightarrow>
                       provision_users pf ev cx rnd iv dest src (Suc k) uids
                         (results @ [\<lparr>ps_user = uid, ps_ok = True, ps_target_upn = upn,
                                     ps_error = None\<rparr>])
                         (store_account cx user (the upn) enc w))))"

record provision_reply =
  pp_provisioned :: "(js_string \<times> js_string) list"
  pp_failed :: "(js_string \<times> js_string) list"
  pp_credentials_pending :: bool

definition provision_reply_of :: "provision_result list \<Rightarrow> provision_reply" where
  "provision_reply_of results =
     (let provisioned = map (\<lambda>r. (ps_user r, default_to (ps_target_upn r) [])) (filter ps_ok results)
      in \<lparr>pp_provisioned = provisioned,
          pp_failed = map (\<lambda>r. (ps_user r, default_to (ps_error r) (js ''unknown error'')))
            (filter (\<lambda>r. \<not> ps_ok r) results),
          pp_credentials_pending = (provisioned \<noteq> [])\<rparr>)"

definition source_access :: "platform \<Rightarrow> env \<Rightarrow> instant \<Rightarrow> tenant_row list \<Rightarrow> js_string option" where
  "source_access pf ev now t =
     (case getSecretMaterial Source t of
        None \<Rightarrow> None
      | Some m \<Rightarrow>
          (case material_token pf ev now DEFAULT_SCOPE m of
             Inl e \<Rightarrow> None | Inr token \<Rightarrow> Some (at_access_token token)))"

definition post_provision ::
    "platform \<Rightarrow> env \<Rightarrow> request \<Rightarrow> (nat \<Rightarrow> byte list) \<Rightarrow> (nat \<Rightarrow> byte list) \<Rightarrow>
     js_string array_field option \<Rightarrow> world \<Rightarrow> provision_reply outcome option"
where
  "post_provision pf ev cx rnd iv ids w =
     (case ids of
        None \<Rightarrow> Some (Inl Syntax_error, w)
      | Some (Items (x # xs)) \<Rightarrow>
          (case getSecretMaterial Destination (w_tenants w) of
             None \<Rightarrow> Some (Inl (err Validation ''No destination tenant is connected''), w)
           | Some m \<Rightarrow>
               (case material_token pf ev (cx_now cx) DEFAULT_SCOPE m of
                  Inl e \<Rightarrow> Some (Inl e, w)
                | Inr token \<Rightarrow>
                    map_option (\<lambda>(results, w'). (Inr (provision_reply_of results), w'))
                      (provision_users pf ev cx rnd iv (at_access_token token)
                         (source_access pf ev (cx_now cx) (w_tenants w)) 0 (x # xs) [] w)))
      | _ \<Rightarrow> Some (Inl (err Validation ''migrationUserIds[] is required''), w))"

section \<open>One-time download\<close>

definition get_passwords :: "world \<Rightarrow> nat" where
  "get_passwords w = countPending (w_creds w)"

definition PASSWORD_HEADERS :: "js_string list" where
  "PASSWORD_HEADERS =
     [js ''TargetUpn'', js ''TemporaryPassword'', js ''ForceChangeAtNextSignIn'']"

text \<open>The decryption loop: the first failure ends the request.\<close>

fun password_rows :: "platform \<Rightarrow> env \<Rightarrow> pending_credential list \<Rightarrow> exn + cell list list" where
  "password_rows pf ev [] = Inr []"
| "password_rows pf ev (c # cs) =
     (case decryptSecret (pf_aes_dec pf) (ev_master_key ev)
             \<lparr>ec_ciphertext = pc_ciphertext c, ec_iv = pc_iv c\<rparr> of
        Inl e \<Rightarrow> Inl e
      | Inr password \<Rightarrow>
          (case password_rows pf ev cs of
             Inl e \<Rightarrow> Inl e
           | Inr rows \<Rightarrow> Inr ([CStr (pc_target_upn c), CStr password, CBool True] # rows)))"

definition download_passwords ::
    "platform \<Rightarrow> env \<Rightarrow> request \<Rightarrow> js_string option \<Rightarrow> world \<Rightarrow> js_string outcome"
where
  "download_passwords pf ev cx acknowledge w =
     (if acknowledge \<noteq> Some (js ''true'') then
        (Inl (err Validation
           ''Download requires acknowledge=true (the file contains live credentials)''), w)
      else
        (let pending = listPending (w_creds w)
         in if pending = [] then
              (Inl (err Not_found ''No temporary passwords are pending download''), w)
            else
              (case password_rows pf ev pending of
                 Inl e \<Rightarrow> (Inl e, w)
               | Inr rows \<Rightarrow>
                   (let w1 = billUsage 1 0 (w\<lparr>w_creds := markDownloadedAndPurge (map pc_id pending)
                               (cx_now cx) (w_creds w)\<rparr>)
                    in (Inr (serializeCsv PASSWORD_HEADERS rows),
                        audited cx Password_csv_download None
                          (Some (js ''downloaded '' @ digits (length pending) @ js '' credential(s)'')) w1)))))"

end
