(* ===== verification/Tenancy.thy ===== *)
theory Tenancy
  imports Vm
begin

text \<open>
  Connecting, testing, rotating and removing tenants (\<open>worker/src/routes/tenants.ts\<close>), and
  reading the source directory (\<open>worker/src/routes/discovery.ts\<close>). \<open>iv\<close> is the random
  initialisation vector of the request.
\<close>

definition tenant_subject :: "tenant_role \<Rightarrow> js_string \<Rightarrow> js_string" where
  "tenant_subject role tenantId = role_text role @ 58 # tenantId"

definition get_tenants :: "world \<Rightarrow> tenant_record list" where
  "get_tenants w = list_tenants (w_tenants w)"

record connect_body =
  cb_role :: "js_string option"
  cb_tenant_id :: "js_string option"
  cb_client_id :: "js_string option"
  cb_client_secret :: "js_string option"
  cb_secret_expiry :: "js_string option"
  cb_display_name :: "js_string option"

definition post_tenant ::
    "platform \<Rightarrow> env \<Rightarrow> request \<Rightarrow> byte list \<Rightarrow> connect_body option \<Rightarrow> world \<Rightarrow>
     tenant_record option outcome"
where
  "post_tenant pf ev cx iv body w =
     (case body of
        None \<Rightarrow> (Inl Syntax_error, w)
      | Some b \<Rightarrow>
          (case isRole (cb_role b) of
             None \<Rightarrow> (Inl (throw_text Validation
               (js ''role must be '' @ 39 # js ''source'' @ 39 # js '' or '' @ 39 # js ''destination'' @ [39])), w)
           | Some role \<Rightarrow>
               if \<not> truthy (cb_tenant_id b) \<or> \<not> truthy (cb_client_id b) \<or> \<not> truthy (cb_client_secret b) then
                 (Inl (err Validation ''tenantId, clientId and clientSecret are required''), w)
               else
                 (case encryptSecret (pf_aes_enc pf) iv (ev_master_key ev) (the (cb_client_secret b)) of
                    Inl e \<Rightarrow> (Inl e, w)
                  | Inr enc \<Rightarrow>
                      (let (i, w1) = draw_uuid cx w;
                           row = \<lparr>tn_id = i, tn_role = role, tn_tenant_id = the (cb_tenant_id b),
                             tn_client_id = the (cb_client_id b), tn_ciphertext = ec_ciphertext enc,
                             tn_iv = ec_iv enc, tn_secret_expiry = cb_secret_expiry b,
                             tn_display_name = cb_display_name b, tn_status = Disconnected,
                             tn_last_tested_at = None, tn_created_at = cx_now cx\<rparr>;
                           w2 = billUsage 1 0 (w1\<lparr>w_tenants := upsert_tenant row (w_tenants w1)\<rparr>);
                           w3 = audited cx Tenant_connect
                             (Some (tenant_subject role (the (cb_tenant_id b)))) None w2
                       in (Inr (tenant_by_role role (w_tenants w3)), w3)))))"

definition tenant_not_found :: exn where
  "tenant_not_found = err Not_found ''Tenant not found''"

definition test_status :: "connection_test \<Rightarrow> tenant_status" where
  "test_status r = (if ct_token_acquired r \<and> ct_missing r = [] then Connected else Tenant_error)"

definition test_detail :: "connection_test \<Rightarrow> js_string" where
  "test_detail r =
     (if ct_missing r \<noteq> [] then js ''missing: '' @ join (js '', '') (ct_missing r) else js ''ok'')"

definition test_tenant ::
    "platform \<Rightarrow> env \<Rightarrow> request \<Rightarrow> js_string \<Rightarrow> world \<Rightarrow> connection_test outcome"
where
  "test_tenant pf ev cx tid w =
     (case tenant_by_id tid (w_tenants w) of
        None \<Rightarrow> (Inl tenant_not_found, w)
      | Some tenant \<Rightarrow>
          (case getSecretMaterialById tid (w_tenants w) of
             None \<Rightarrow> (Inl (err Not_found ''Tenant secret not found''), w)
           | Some m \<Rightarrow>
               (case decrypt_material pf ev m of
                  Inl e \<Rightarrow> (Inl e, w)
                | Inr secret \<Rightarrow>
                    (let result = testConnection (pf_http pf) (cx_now cx) (sm_tenant_id m)
                           (sm_client_id m) secret (tr_role tenant);
                         w1 = billUsage 1 0 (w\<lparr>w_tenants := setStatus tid (test_status result)
                                (Some (cx_now cx)) (w_tenants w)\<rparr>)
                     in (Inr result, audited cx Tenant_test
                           (Some (tenant_subject (tr_role tenant) (sm_tenant_id m)))
                           (Some (test_detail result)) w1)))))"

record rotate_body =
  rb_client_secret :: "js_string option"
  rb_secret_expiry :: "js_string option"

definition rotate_tenant ::
    "platform \<Rightarrow> env \<Rightarrow> request \<Rightarrow> byte list \<Rightarrow> js_string \<Rightarrow> rotate_body option \<Rightarrow> world \<Rightarrow>
     tenant_record option outcome"
where
  "rotate_tenant pf ev cx iv tid body w =
     (case tenant_by_id tid (w_tenants w) of
        None \<Rightarrow> (Inl tenant_not_found, w)
      | Some tenant \<Rightarrow>
          (case body of
             None \<Rightarrow> (Inl Syntax_error, w)
           | Some b \<Rightarrow>
               if \<not> truthy (rb_client_secret b) then
                 (Inl (err Validation ''clientSecret is required''), w)
               else
                 (case encryptSecret (pf_aes_enc pf) iv (ev_master_key ev) (the (rb_client_secret b)) of
                    Inl e \<Rightarrow> (Inl e, w)
                  | Inr enc \<Rightarrow>
                      (let w1 = billUsage 1 0 (w\<lparr>w_tenants := rotateSecret tid (ec_ciphertext enc)
                             (ec_iv enc) (coalesce (rb_secret_expiry b) (tr_secret_expiry tenant))
                             (w_tenants w)\<rparr>);
                           w2 = audited cx Secret_rotate
                             (Some (tenant_subject (tr_role tenant) (tr_tenant_id tenant))) None w1
                       in (Inr (tenant_by_role (tr_role tenant) (w_tenants w2)), w2)))))"

definition delete_tenant :: "request \<Rightarrow> js_string \<Rightarrow> world \<Rightarrow> unit outcome" where
  "delete_tenant cx tid w =
     (case tenant_by_id tid (w_tenants w) of
        None \<Rightarrow> (Inl tenant_not_found, w)
      | Some tenant \<Rightarrow>
          (Inr (), audited cx Tenant_disconnect
             (Some (tenant_subject (tr_role tenant) (tr_tenant_id tenant))) None
             (billUsage 1 0 (w\<lparr>w_tenants := remove_tenant tid (w_tenants w)\<rparr>))))"

section \<open>Discovery\<close>

text \<open>An empty query parameter counts as missing.\<close>

definition given_text :: "js_string option \<Rightarrow> js_string option" where
  "given_text q = (if truthy q then q else None)"

definition discover ::
    "platform \<Rightarrow> env \<Rightarrow> instant \<Rightarrow> js_string option \<Rightarrow> js_string option \<Rightarrow> world \<Rightarrow>
     exn + graph_user list \<times> js_string option"
where
  "discover pf ev now search cursor w =
     (case getSecretMaterial Source (w_tenants w) of
        None \<Rightarrow> Inl (err Validation ''No source tenant is connected'')
      | Some m \<Rightarrow>
          (case material_token pf ev now DEFAULT_SCOPE m of
             Inl e \<Rightarrow> Inl e
           | Inr token \<Rightarrow>
               discoverUsers (pf_http pf) (pf_pathname pf) (pf_skiptoken pf) (at_access_token token)
                 (given_text search) (given_text cursor) None))"

end
