(* ===== verification/Reports.thy ===== *)
theory Reports
  imports Vm Csv
begin

text \<open>
  Per-user reports (\<open>worker/src/routes/reports.ts\<close>) and the audit log viewer with its export
  (\<open>worker/src/routes/audit.ts\<close>).
\<close>

section \<open>Reports\<close>

definition workload_row :: "world \<Rightarrow> job \<Rightarrow> workload_report" where
  "workload_row w j =
     (let (skipped, failed) = countsByJob (job_id j) (w_items w)
      in \<lparr>wr_workload = job_workload j, wr_status = job_status j,
          wr_succeeded = max (job_progress_current j - int skipped - int failed) 0,
          wr_skipped = int skipped, wr_failed = int failed, wr_bytes = job_bytes_done j,
          wr_duration_sec = (case (job_started_at j, job_completed_at j) of
                               (Some a, Some b) \<Rightarrow> Some (secondsBetween a b) | _ \<Rightarrow> None),
          wr_delta_passes =
            (case getInternal (job_id j) (w_jobs w) of None \<Rightarrow> 0 | Some r \<Rightarrow> jr_delta_passes r)\<rparr>)"

definition buildReport :: "js_string \<Rightarrow> world \<Rightarrow> per_user_report option" where
  "buildReport uid w =
     (case user_by_id uid (w_users w) of
        None \<Rightarrow> None
      | Some u \<Rightarrow>
          Some \<lparr>pr_user = uid, pr_source_email = source_email u,
                pr_target_upn = default_to (target_upn u) [],
                pr_workloads = map (workload_row w) (listByMigrationUser uid (w_users w) (w_jobs w))\<rparr>)"

definition get_report :: "js_string \<Rightarrow> world \<Rightarrow> exn + per_user_report" where
  "get_report uid w =
     (case buildReport uid w of
        None \<Rightarrow> Inl (err Not_found ''Migration user not found'') | Some r \<Rightarrow> Inr r)"

definition REPORT_HEADERS :: "js_string list" where
  "REPORT_HEADERS =
     [js ''SourceEmail'', js ''TargetUpn'', js ''Workload'', js ''Status'', js ''ItemsSucceeded'',
      js ''ItemsSkipped'', js ''ItemsFailed'', js ''Bytes'', js ''DurationSec'', js ''DeltaPasses'']"

definition report_cells :: "per_user_report \<Rightarrow> workload_report \<Rightarrow> cell list" where
  "report_cells r x =
     [CStr (pr_source_email r), CStr (pr_target_upn r), CStr (workload_text (wr_workload x)),
      CStr (status_text (wr_status x)), CInt (wr_succeeded x), CInt (wr_skipped x),
      CInt (wr_failed x), CInt (wr_bytes x),
      (case wr_duration_sec x of None \<Rightarrow> CNull | Some s \<Rightarrow> CInt s), CInt (wr_delta_passes x)]"

definition export_report :: "js_string \<Rightarrow> world \<Rightarrow> exn + js_string" where
  "export_report uid w =
     (case buildReport uid w of
        None \<Rightarrow> Inl (err Not_found ''Migration user not found'')
      | Some r \<Rightarrow> Inr (serializeCsv REPORT_HEADERS (map (report_cells r) (pr_workloads r))))"

section \<open>Audit log\<close>

definition blank_to_none :: "js_string option \<Rightarrow> js_string option" where
  "blank_to_none q = (if truthy q then q else None)"

text \<open>The filters of the query string; the cursor is the page's own.\<close>

definition audit_filters ::
    "(string \<Rightarrow> js_string option) \<Rightarrow> js_string option \<Rightarrow> int option \<Rightarrow> audit_query"
where
  "audit_filters q cursor limit =
     \<lparr>aq_actor = blank_to_none (q ''actor''), aq_action = blank_to_none (q ''action''),
      aq_from = blank_to_none (q ''from''), aq_to = blank_to_none (q ''to''),
      aq_cursor = blank_to_none cursor, aq_limit = limit\<rparr>"

definition get_audit ::
    "(string \<Rightarrow> js_string option) \<Rightarrow> world \<Rightarrow> audit_entry list \<times> js_string option"
where
  "get_audit q w = audit_page (audit_filters q (q ''cursor'') None) (w_audit w)"

text \<open>The loop over the pages, \<open>n\<close> of them at most.\<close>

fun export_pages :: "nat \<Rightarrow> (js_string option \<Rightarrow> audit_query) \<Rightarrow> js_string option \<Rightarrow>
     audit_entry list \<Rightarrow> audit_entry list" where
  "export_pages 0 f cursor t = []"
| "export_pages (Suc n) f cursor t =
     (let (entries, nextCursor) = audit_page (f cursor) t
      in entries @ (if truthy nextCursor then export_pages n f nextCursor t else []))"

definition AUDIT_HEADERS :: "js_string list" where
  "AUDIT_HEADERS = [js ''CreatedAt'', js ''ActorUpn'', js ''Action'', js ''Target'', js ''Detail'']"

fun nullable_cell :: "js_string option \<Rightarrow> cell" where
  "nullable_cell None = CNull"
| "nullable_cell (Some s) = CStr s"

definition audit_cells :: "audit_entry \<Rightarrow> cell list" where
  "audit_cells e =
     [CStr (au_created_at e), CStr (au_actor e), CStr (au_action e), nullable_cell (au_target e),
      nullable_cell (au_detail e)]"

definition MAX_PAGES :: nat where
  "MAX_PAGES = 200"

definition export_audit :: "request \<Rightarrow> (string \<Rightarrow> js_string option) \<Rightarrow> world \<Rightarrow> js_string outcome" where
  "export_audit cx q w =
     (let found = export_pages MAX_PAGES (\<lambda>cursor. audit_filters q cursor (Some 500)) None (w_audit w)
      in (Inr (serializeCsv AUDIT_HEADERS (map audit_cells found)),
          audited cx Audit_export None
            (Some (js ''exported '' @ digits (length found) @ js '' entries'')) w))"

end
