(* ===== verification/Settings.thy ===== *)
theory Settings
  imports Vm
begin

text \<open>
  The settings screen's routes (\<open>worker/src/routes/config.ts\<close>) and the budget indicator
  (\<open>worker/src/routes/budget.ts\<close>).
\<close>

definition NUMERIC_KEYS :: "(js_string \<times> rat \<times> rat) list" where
  "NUMERIC_KEYS =
     [(js ''minPollIntervalSec'', 30, 3600), (js ''perMailboxConcurrency'', 1, 10),
      (js ''perTenantConcurrency'', 1, 20), (js ''exchangeExportBatchSize'', 1, 20),
      (js ''onedriveUploadSessionThresholdBytes'', 1048576, 268435456),
      (js ''itemMaxRetries'', 0, 20), (js ''auditRetentionDays'', 1, 365),
      (js ''budgetSoftFraction'', 1 / 2, 99 / 100)]"

record settings =
  st_engine :: engine_config
  st_audit_retention_days :: number

definition get_settings :: "instant \<Rightarrow> world \<Rightarrow> settings" where
  "get_settings now w =
     \<lparr>st_engine = getEngineConfig now (w_config w) (w_budget w),
      st_audit_retention_days =
        parse_number (getConfigValue (w_config w) (js ''auditRetentionDays'') (js ''90''))\<rparr>"

definition in_bounds :: "number \<Rightarrow> rat \<Rightarrow> rat \<Rightarrow> bool" where
  "in_bounds v lo hi = (case v of Fin q \<Rightarrow> lo \<le> q \<and> q \<le> hi | _ \<Rightarrow> False)"

definition bounds_error :: "js_string \<Rightarrow> rat \<Rightarrow> rat \<Rightarrow> exn" where
  "bounds_error key lo hi =
     throw_text Validation (key @ js '' must be a number in ['' @ num_text lo @ js '', '' @ num_text hi @ js '']'')"

text \<open>The loop: a key out of bounds ends it, and the writes before it stay.\<close>

fun patch_keys ::
    "(js_string \<times> rat \<times> rat) list \<Rightarrow> js_value \<Rightarrow> js_string list \<Rightarrow> config_table \<Rightarrow>
     (exn + js_string list) \<times> config_table"
where
  "patch_keys [] body changed t = (Inr changed, t)"
| "patch_keys ((key, lo, hi) # ks) body changed t =
     (if \<not> has_key body key then patch_keys ks body changed t
      else
        (let v = to_number (get_key body key)
         in if \<not> in_bounds v lo hi then (Inl (bounds_error key lo hi), t)
            else patch_keys ks body (changed @ [key @ 61 # js_text (JNum v)])
                   (setConfigValue key (js_text (JNum v)) t)))"

definition patch_settings :: "request \<Rightarrow> js_value option \<Rightarrow> world \<Rightarrow> settings outcome" where
  "patch_settings cx body w =
     (case body of
        None \<Rightarrow> (Inl Syntax_error, w)
      | Some b \<Rightarrow>
          if \<not> is_object b then (Inl type_error, w)
          else
            (case patch_keys NUMERIC_KEYS b [] (w_config w) of
               (Inl e, t) \<Rightarrow> (Inl e, w\<lparr>w_config := t\<rparr>)
             | (Inr changed, t) \<Rightarrow>
                 if changed = [] then
                   (Inl (err Validation ''No recognised config keys to update''), w\<lparr>w_config := t\<rparr>)
                 else
                   (let w1 = billUsage (int (length changed)) 0 (w\<lparr>w_config := t\<rparr>);
                        w2 = audited cx Config_change None (Some (join (js '', '') changed)) w1
                    in (Inr (get_settings (cx_now cx) w2), w2))))"

definition get_budget :: "instant \<Rightarrow> world \<Rightarrow> free_tier_budget" where
  "get_budget now w = getBudget now (w_config w) (w_budget w)"

end
