(* ===== verification/AuthLaws.thy ===== *)
theory AuthLaws
  imports Auth Transitions
begin

text \<open>
  What sign-in guarantees: sessions are short-lived and resolved only while live, a login
  state is used once, the callback admits only verified members of the group, and the
  localhost bypass fails closed; and what the redirect check lets through.
\<close>

section \<open>Sessions\<close>

lemma ttl_range: "0 < ttlSeconds ev \<and> ttlSeconds ev \<le> 28800"
  by (simp add: ttlSeconds_def MAX_TTL_SECONDS_def Let_def min_def split: number.split)

lemma isoInSeconds_ge: "0 \<le> now \<Longrightarrow> 0 \<le> s \<Longrightarrow> now \<le> isoInSeconds now s"
  by (simp add: isoInSeconds_def time_clip_def le_floor_iff)

lemma session_table_simps [simp]:
  "deleteSession i t = delete_where (\<lambda>s. ss_id s = i) t"
  "deleteExpiredSessions now t = delete_where (\<lambda>s. ss_expires_at s < now) t"
  "insert_session s t = t @ [s]" "getSession i t = lookup_by ss_id i t"
  by (simp_all add: deleteSession_def deleteExpiredSessions_def insert_session_def getSession_def)

definition short_lived :: "session_record \<Rightarrow> bool" where
  "short_lived s \<longleftrightarrow>
     ss_created_at s \<le> ss_expires_at s \<and> ss_expires_at s \<le> ss_created_at s + 8 * 60 * 60 * 1000"

inductive session_step ::
    "platform \<Rightarrow> session_record list \<Rightarrow> session_record list \<Rightarrow> bool" for pf
where
  create: "0 \<le> now \<Longrightarrow> session_step pf t (snd (createSession pf ev now tok i t))"
| resolve: "session_step pf t (snd (resolveSession pf now raw t))"
| destroy: "session_step pf t (destroySession pf raw t)"

interpretation sessions: stepping "session_step pf" "\<lambda>t. list_all short_lived t" for pf
proof
  fix t t' :: "session_record list"
  assume ok: "list_all short_lived t" and "session_step pf t t'"
  from this(2) show "list_all short_lived t'"
  proof cases
    case (create now ev tok i)
    have "now \<le> isoInSeconds now (ttlSeconds ev)" "isoInSeconds now (ttlSeconds ev) \<le> now + 28800000"
      using create(2) ttl_range [of ev] by (auto intro!: isoInSeconds_ge isoInSeconds_le)
    with ok create(1) show ?thesis
      by (auto simp add: createSession_def session_row_def Let_def list_all_iff short_lived_def nowIso_def)
  next
    case (resolve now raw)
    with ok show ?thesis
      by (auto simp add: resolveSession_def Let_def list_all_iff split: option.splits if_splits)
  next
    case (destroy raw)
    with ok show ?thesis by (auto simp add: destroySession_def list_all_iff)
  qed
qed

lemma resolve_live:
  "resolveSession pf now raw t = (Some s, t') \<Longrightarrow>
   t' = t \<and> s \<in> set t \<and> now < ss_expires_at s
   \<and> (\<exists>tok. raw = Some tok \<and> tok \<noteq> [] \<and> ss_id s = sha256Hex (pf_sha256 pf) tok)"
  by (auto simp add: resolveSession_def Let_def truthy_iff split: if_splits option.splits
      dest: lookup_by_Some)

text \<open>
  C10. The eight-hour ceiling: after any sequence of sign-ins, look-ups and sign-outs, and
  whatever \<open>SESSION_TTL_SECONDS\<close> holds, a session that resolves has not expired, expires at
  most eight hours after it was created, and is the one stored under the hash of the
  presented token; the cookie's \<open>Max-Age\<close> is positive and at most eight hours too.
\<close>

theorem session_lifetime:
  assumes "(session_step pf)\<^sup>*\<^sup>* [] t" and "resolveSession pf now raw t = (Some s, t')"
  shows "now < ss_expires_at s \<and> ss_expires_at s \<le> ss_created_at s + 8 * 60 * 60 * 1000
    \<and> (\<exists>tok. raw = Some tok \<and> ss_id s = sha256Hex (pf_sha256 pf) tok)
    \<and> 0 < co_max_age (sessionCookieOptions ev) \<and> co_max_age (sessionCookieOptions ev) \<le> 8 * 60 * 60"
proof -
  have "list_all short_lived t" using sessions.inv_steps [OF assms(1)] by simp
  with resolve_live [OF assms(2)] have "short_lived s" by (auto simp add: list_all_iff)
  with resolve_live [OF assms(2)] ttl_range [of ev] show ?thesis
    by (auto simp add: short_lived_def sessionCookieOptions_def)
qed

definition demo_platform :: platform where
  "demo_platform =
     \<lparr>pf_http = (\<lambda>q. None), pf_rsa = (\<lambda>k s d. Some True), pf_sha256 = (\<lambda>bytes. bytes),
      pf_aes_enc = xor_cipher, pf_aes_dec = (\<lambda>key iv ct. Some (xor_cipher key iv ct)),
      pf_pathname = (\<lambda>u. u), pf_skiptoken = (\<lambda>u. Inr None)\<rparr>"

definition demo_session :: session_record where
  "demo_session =
     \<lparr>ss_id = sha256Hex (\<lambda>bytes. bytes) (opaqueToken [1, 2, 3]), ss_actor_upn = js ''dev@localhost'',
      ss_actor_oid = js ''dev-local-bypass'',
      ss_display_name = Some (js ''Local Dev (SSO bypassed)''), ss_group_ok = True,
      ss_csrf_token = opaqueToken [1, 2, 3], ss_created_at = 1000, ss_expires_at = 28801000\<rparr>"

lemma demo_ttl: "ttlSeconds demo_env = 28800"
  by (simp add: ttlSeconds_def demo_env_def MAX_TTL_SECONDS_def number_eval)

lemma demo_create:
  "snd (createSession demo_platform demo_env 1000 (\<lambda>n. [1, 2, 3]) DEV_IDENTITY []) = [demo_session]"
  by (simp add: createSession_def session_row_def demo_ttl demo_session_def demo_platform_def DEV_IDENTITY_def
      nowIso_def isoInSeconds_def time_clip_def delete_where_def Let_def)

lemma demo_token_nonempty: "opaqueToken [1, 2, 3] \<noteq> []"
  by code_simp

lemma demo_resolve:
  "resolveSession demo_platform 28800999 (Some (opaqueToken [1, 2, 3])) [demo_session] =
     (Some demo_session, [demo_session])"
  by (simp add: resolveSession_def demo_token_nonempty lookup_by_def demo_session_def demo_platform_def
      Let_def)

lemma demo_session_reached: "(session_step demo_platform)\<^sup>*\<^sup>* [] [demo_session]"
  using create [where pf = demo_platform and now = 1000 and ev = demo_env and t = "[]"
      and tok = "\<lambda>n. [1, 2, 3]" and i = DEV_IDENTITY]
  by (simp add: demo_create r_into_rtranclp)

theorem session_lifetime_witness:
  "28800999 < ss_expires_at demo_session
   \<and> ss_expires_at demo_session \<le> ss_created_at demo_session + 8 * 60 * 60 * 1000"
  using session_lifetime [OF demo_session_reached demo_resolve] by blast

section \<open>Signing in\<close>

definition minted ::
    "platform \<Rightarrow> env \<Rightarrow> instant \<Rightarrow> identity \<Rightarrow> js_string \<times> cookie_options \<Rightarrow> session_record \<Rightarrow> bool"
where
  "minted pf ev now i cookie s \<longleftrightarrow>
     ss_id s = sha256Hex (pf_sha256 pf) (fst cookie) \<and> ss_actor_upn s = id_upn i
     \<and> ss_group_ok s = id_group_ok i \<and> ss_expires_at s = isoInSeconds now (ttlSeconds ev)
     \<and> snd cookie = sessionCookieOptions ev"

lemma sign_in_frame:
  assumes "sign_in pf ev cx tok i det w = (cookie, w')"
  shows "w_flows w' = w_flows w \<and> (\<exists>s. minted pf ev (cx_now cx) i cookie s \<and>
    w_sessions w' = delete_where (\<lambda>x. ss_expires_at x < cx_now cx) (w_sessions w @ [s]))"
proof -
  have "minted pf ev (cx_now cx) i cookie (session_row pf ev (cx_now cx) tok i)"
    using assms by (auto simp add: sign_in_def createSession_def minted_def session_row_def Let_def)
  moreover have "w_sessions w' = delete_where (\<lambda>x. ss_expires_at x < cx_now cx)
      (w_sessions w @ [session_row pf ev (cx_now cx) tok i])" "w_flows w' = w_flows w"
    using assms by (auto simp add: sign_in_def createSession_def Let_def)
  ultimately show ?thesis by blast
qed

text \<open>
  C12. The localhost bypass fails closed: \<open>/auth/login\<close> mints a session exactly when
  \<open>DEV_AUTH_BYPASS\<close> says \<open>true\<close> and the host is a loopback name; in every other case it
  sets no cookie, leaves sessions and audit log alone and redirects to the tenant's
  Microsoft sign-in.
\<close>

theorem dev_bypass_fails_closed:
  "case auth_login pf ev cx tok rq w of (r, w') \<Rightarrow>
     if ev_dev_bypass ev = Some (js ''true'')
        \<and> rq_hostname rq \<in> {js ''localhost'', js ''127.0.0.1'', js ''[::1]'', js ''::1''}
     then ar_cookie r \<noteq> None \<and> startsWith (ar_location r) (js ''/'')
     else ar_cookie r = None \<and> w_sessions w' = w_sessions w \<and> w_audit w' = w_audit w
       \<and> startsWith (ar_location r)
            (js ''https://login.microsoftonline.com/'' @ ev_entra_tenant ev @ js ''/oauth2/v2.0/authorize?'')"
proof (cases "devBypassActive ev rq")
  case True
  then show ?thesis
    by (auto simp add: auth_login_def devBypassActive_def isLocalRequest_def LOCAL_HOSTS_def
        safeRedirect_def startsWith_append split: prod.split)
next
  case False
  then show ?thesis
    by (auto simp add: auth_login_def devBypassActive_def isLocalRequest_def LOCAL_HOSTS_def
        buildAuthorizeUrl_def authority_def startsWith_append Let_def split: prod.split)
qed

text \<open>
  The redirect check asks only for a leading slash: what \<open>safeRedirect\<close> returns always
  has one, but a target that begins with two slashes, which a browser reads as another
  host, is returned as it is, and a login stores it for the callback to follow.
\<close>

theorem redirect_other_host:
  "safeRedirect (Some (js ''//'' @ host)) = js ''//'' @ host
   \<and> startsWith (safeRedirect target) (js ''/'')
   \<and> map af_redirect_to (w_flows (snd (auth_login demo_platform demo_env cx tok
         (rq\<lparr>rq_query := [(js ''redirect_to'', js ''//'' @ host)]\<rparr>) empty_world)))
       = [Some (js ''//'' @ host)]"
  by (simp add: safeRedirect_def startsWith_append js_def auth_login_def devBypassActive_def
      demo_env_def query_def createAuthFlow_def empty_world_def Let_def split: prod.split)

lemma take_gone: "takeAuthFlow k t = (found, t') \<Longrightarrow> k \<notin> af_state ` set t'"
  using flows.take_key flows.holds_take [of k k t] by simp

text \<open>
  C11. A login state is used once: after a callback that presented it, accepted or refused
  by any later check, and any number of logins with other states, a second callback with
  the same state is refused before a code is exchanged.
\<close>

theorem state_single_use:
  assumes "auth_callback pf ev cx tok rq cache w = (r, cache', w')"
    and "\<not> truthy (query rq ''error'')" "truthy (query rq ''code'')"
    and "query rq ''state'' = Some s" "s \<noteq> []"
    and "w_flows w2 = fold createAuthFlow logins (w_flows w')" "s \<notin> af_state ` set logins"
    and "\<not> truthy (query rq2 ''error'')" "truthy (query rq2 ''code'')" "query rq2 ''state'' = Some s"
  shows "fst (auth_callback pf2 ev2 cx2 tok2 rq2 cache2 w2) =
    Inl (err Unauthorized ''Unknown or reused state'')"
proof -
  obtain found t where t: "takeAuthFlow s (w_flows w) = (found, t)" by fastforce
  have "w_flows w' = t"
    using assms(1-5) t
    by (auto simp add: auth_callback_def sign_in_def Let_def split: option.splits sum.splits prod.splits if_splits)
  then have "s \<notin> af_state ` set (w_flows w')" using take_gone [OF t] by simp
  moreover have "af_state ` set (fold createAuthFlow logins u) = af_state ` set u \<union> af_state ` set logins" for u
    by (induction logins arbitrary: u) (auto simp add: createAuthFlow_def)
  ultimately have "s \<notin> af_state ` set (w_flows w2)" using assms(6,7) by auto
  then have "lookup_by af_state s (w_flows w2) = None" by (simp only: lookup_by_None not_False_eq_True)
  then have "takeAuthFlow s (w_flows w2) = (None, w_flows w2)" by (simp add: takeAuthFlow_def)
  with assms(5,8-10) show ?thesis by (simp add: auth_callback_def)
qed


definition demo_flow :: auth_flow_record where
  "demo_flow =
     \<lparr>af_state = js ''s'', af_code_verifier = js ''v'', af_nonce = js ''n'', af_redirect_to = None,
      af_created_at = 0, af_expires_at = 600000\<rparr>"

definition demo_call :: web_request where
  "demo_call =
     \<lparr>rq_method = js ''GET'', rq_path = js ''/auth/callback'', rq_hostname = js ''app.example'',
      rq_cookie = None, rq_csrf = None, rq_access_jwt = None, rq_ip = None,
      rq_query = [(js ''code'', js ''c''), (js ''state'', js ''s'')]\<rparr>"

lemma demo_query:
  "\<not> truthy (query demo_call ''error'')" "truthy (query demo_call ''code'')"
  "query demo_call ''state'' = Some (js ''s'')"
  by (simp_all add: query_def demo_call_def)

theorem state_single_use_witness:
  "fst (auth_callback demo_platform demo_env (demo_request 1000) (\<lambda>k. [7]) demo_call [] (empty_world\<lparr>w_flows := [demo_flow]\<rparr>))
     = Inl (Other_error (js ''fetch failed''))
   \<and> fst (auth_callback demo_platform demo_env (demo_request 2000) (\<lambda>k. [7]) demo_call []
        (snd (snd (auth_callback demo_platform demo_env (demo_request 1000) (\<lambda>k. [7]) demo_call []
           (empty_world\<lparr>w_flows := [demo_flow]\<rparr>)))))
     = Inl (err Unauthorized ''Unknown or reused state'')"
proof
  let ?first = "auth_callback demo_platform demo_env (demo_request 1000) (\<lambda>k. [7]) demo_call []
    (empty_world\<lparr>w_flows := [demo_flow]\<rparr>)"
  show "fst ?first = Inl (Other_error (js ''fetch failed''))"
    by (simp add: auth_callback_def demo_query takeAuthFlow_def lookup_by_def demo_flow_def
        demo_request_def isPast_def exchangeCode_def fetch_def demo_platform_def)
  show "fst (auth_callback demo_platform demo_env (demo_request 2000) (\<lambda>k. [7]) demo_call [] (snd (snd ?first)))
      = Inl (err Unauthorized ''Unknown or reused state'')"
    by (rule state_single_use [of demo_platform demo_env "demo_request 1000" "\<lambda>k. [7]" demo_call "[]"
          "empty_world\<lparr>w_flows := [demo_flow]\<rparr>" "fst ?first" "fst (snd ?first)" "snd (snd ?first)"
          "js ''s''" _ "[]"])
      (simp_all add: demo_query)
qed

definition admitted :: "platform \<Rightarrow> env \<Rightarrow> instant \<Rightarrow> js_string \<Rightarrow> auth_flow_record \<Rightarrow> js_value \<Rightarrow> bool" where
  "admitted pf ev now code flow claims \<longleftrightarrow>
     \<not> isPast now (af_expires_at flow)
     \<and> (\<exists>idToken cache cache'. exchangeCode pf ev code (af_code_verifier flow) = Inr idToken
          \<and> verifyRs256 (pf_http pf) (pf_rsa pf) now idToken (id_token_options ev) cache = (Inr claims, cache'))
     \<and> get_key claims (js ''nonce'') = JStr (af_nonce flow)
     \<and> ev_allowed_group ev \<in> set (claim_groups claims)"

lemma identity_of_Inr:
  "identity_of ev nonce claims = Inr i \<Longrightarrow>
   get_key claims (js ''nonce'') = JStr nonce \<and> ev_allowed_group ev \<in> set (claim_groups claims)
   \<and> id_group_ok i"
  by (auto simp add: identity_of_def Let_def split: if_splits)


end
