(* ===== verification/GuardLaws.thy ===== *)
theory GuardLaws
  imports Guards AuthLaws
begin

text \<open>
  What the middleware guarantees: who can reach a route and under which conditions, and how
  many requests of one key the rate limiter lets through.
\<close>

section \<open>Who reaches a route\<close>

lemma requireSession_Inr:
  "requireSession pf now rq t = (Inr s, t') \<Longrightarrow>
   t' = t \<and> s \<in> set t \<and> now < ss_expires_at s \<and> ss_group_ok s
   \<and> (\<exists>tok. rq_cookie rq = Some tok \<and> ss_id s = sha256Hex (pf_sha256 pf) tok)
   \<and> (read_method rq \<or> rq_csrf rq = Some (ss_csrf_token s))"
  using resolve_live [of pf now "rq_cookie rq" t s t']
  by (auto simp add: requireSession_def csrf_ok_def truthy_iff split: prod.splits option.splits if_splits)

lemma requireSession_subset:
  "requireSession pf now rq t = (res, t') \<Longrightarrow> set t' \<subseteq> set t"
  by (auto simp add: requireSession_def resolveSession_def Let_def
      split: prod.splits option.splits if_splits)

lemma no_mount_below_prefix:
  "startsWith path VM_PREFIX \<Longrightarrow> \<not> vm_route path \<Longrightarrow> routed path \<Longrightarrow> path = js ''/api/app-info''"
  by (auto simp add: routed_def MOUNTS_def VM_PREFIX_def vm_route_def startsWith_append js_def)


section \<open>Rate limit\<close>

fun run_limiter :: "(instant \<times> js_string) list \<Rightarrow> bucket list \<Rightarrow> (js_string \<times> bool) list" where
  "run_limiter [] bs = []"
| "run_limiter ((now, key) # calls) bs =
     (let (refused, bs') = rateLimit now key bs in (key, refused = None) # run_limiter calls bs')"

definition accepted_calls :: "js_string \<Rightarrow> (instant \<times> js_string) list \<Rightarrow> bucket list \<Rightarrow> nat" where
  "accepted_calls key calls bs = length (filter (\<lambda>(k, ok). k = key \<and> ok) (run_limiter calls bs))"

text \<open>The slots a bucket still has before its window ends.\<close>

definition slots :: "bucket option \<Rightarrow> nat" where
  "slots b = (case b of None \<Rightarrow> 0 | Some b \<Rightarrow> MAX_PER_WINDOW - bk_count b)"

lemma accepted_calls_simps:
  "accepted_calls key [] bs = 0"
  "accepted_calls key ((now, k) # calls) bs =
     (if k = key \<and> fst (rateLimit now k bs) = None then 1 else 0)
     + accepted_calls key calls (snd (rateLimit now k bs))"
  by (auto simp add: accepted_calls_def split_beta Let_def)

lemma rateLimit_other:
  "key \<noteq> k \<Longrightarrow> lookup_by bk_key key (snd (rateLimit now k bs)) = lookup_by bk_key key bs"
  unfolding rateLimit_def Let_def snd_conv
  by (subst lookup_by_upsert_other)
    (auto simp add: fresh_bucket_def dest: lookup_by_Some split: option.split)

lemma rateLimit_same:
  assumes "used = (case lookup_by bk_key k bs of None \<Rightarrow> fresh_bucket now k
      | Some b \<Rightarrow> if bk_reset_at b \<le> now then fresh_bucket now k else b)"
  shows "lookup_by bk_key k (snd (rateLimit now k bs)) = Some (used\<lparr>bk_count := Suc (bk_count used)\<rparr>)"
    and "fst (rateLimit now k bs) = None \<longleftrightarrow> bk_count used < MAX_PER_WINDOW"
proof -
  have key: "bk_key used = k"
    using assms by (auto simp add: fresh_bucket_def dest: lookup_by_Some split: option.splits)
  have run: "rateLimit now k bs =
      (if MAX_PER_WINDOW < Suc (bk_count used) then
         Some (throw_text Rate_limited
           (js ''Per-session request cap ('' @ digits MAX_PER_WINDOW @ js ''/min) exceeded''))
       else None,
       upsert_by bk_key (\<lambda>row. used\<lparr>bk_count := Suc (bk_count used)\<rparr>)
         (used\<lparr>bk_count := Suc (bk_count used)\<rparr>) bs)"
    by (simp add: rateLimit_def Let_def assms)
  show "lookup_by bk_key k (snd (rateLimit now k bs)) = Some (used\<lparr>bk_count := Suc (bk_count used)\<rparr>)"
    using lookup_by_upsert_same [of bk_key "used\<lparr>bk_count := Suc (bk_count used)\<rparr>"
        "\<lambda>row. used\<lparr>bk_count := Suc (bk_count used)\<rparr>" bs]
    by (auto simp add: run key split: option.splits)
  show "fst (rateLimit now k bs) = None \<longleftrightarrow> bk_count used < MAX_PER_WINDOW"
    by (auto simp add: run)
qed

text \<open>Inside the window of a bucket only its free slots are handed out.\<close>

lemma accepted_in_window:
  "lookup_by bk_key key bs = Some b \<Longrightarrow> list_all (\<lambda>(now, k). now < bk_reset_at b) calls \<Longrightarrow>
   accepted_calls key calls bs \<le> MAX_PER_WINDOW - bk_count b"
proof (induction calls arbitrary: bs b)
  case Nil
  then show ?case by (simp add: accepted_calls_simps)
next
  case (Cons call calls)
  obtain now k where call: "call = (now, k)" by fastforce
  show ?case
  proof (cases "k = key")
    case False
    then show ?thesis
      using Cons.IH [of "snd (rateLimit now k bs)" b] Cons.prems rateLimit_other [of key k now bs]
      by (simp add: call accepted_calls_simps)
  next
    case True
    have used: "b = (case lookup_by bk_key k bs of None \<Rightarrow> fresh_bucket now k
        | Some b \<Rightarrow> if bk_reset_at b \<le> now then fresh_bucket now k else b)"
      using Cons.prems by (simp add: True call)
    from Cons.IH [of "snd (rateLimit now k bs)" "b\<lparr>bk_count := Suc (bk_count b)\<rparr>"]
      rateLimit_same [OF used] Cons.prems True
    show ?thesis by (auto simp add: call accepted_calls_simps)
  qed
qed

lemma accepted_in_interval:
  "list_all (\<lambda>(now, k). a \<le> now \<and> now < a + WINDOW_MS) calls \<Longrightarrow>
   accepted_calls key calls bs \<le> slots (lookup_by bk_key key bs) + MAX_PER_WINDOW"
proof (induction calls arbitrary: bs)
  case Nil
  then show ?case by (simp add: accepted_calls_simps)
next
  case (Cons call calls)
  obtain now k where call: "call = (now, k)" by fastforce
  have ih: "accepted_calls key calls (snd (rateLimit now k bs))
      \<le> slots (lookup_by bk_key key (snd (rateLimit now k bs))) + MAX_PER_WINDOW"
    using Cons by (simp add: call)
  show ?case
  proof (cases "k = key")
    case False
    with ih show ?thesis by (simp add: call accepted_calls_simps rateLimit_other)
  next
    case True
    define used where "used = (case lookup_by bk_key k bs of None \<Rightarrow> fresh_bucket now k
        | Some b \<Rightarrow> if bk_reset_at b \<le> now then fresh_bucket now k else b)"
    note same = rateLimit_same [OF used_def]
    show ?thesis
    proof (cases "used = fresh_bucket now k")
      case fresh: True
      let ?b = "used\<lparr>bk_count := Suc (bk_count used)\<rparr>"
      have "list_all (\<lambda>(t, k). t < bk_reset_at ?b) calls"
        using Cons.prems fresh by (auto simp add: call fresh_bucket_def list_all_iff)
      then have "accepted_calls key calls (snd (rateLimit now k bs)) \<le> MAX_PER_WINDOW - bk_count ?b"
        using accepted_in_window [of key "snd (rateLimit now k bs)" ?b] same(1) True by blast
      with fresh True show ?thesis
        by (simp add: call accepted_calls_simps fresh_bucket_def MAX_PER_WINDOW_def)
    next
      case old: False
      then have "lookup_by bk_key k bs = Some used"
        by (auto simp add: used_def split: option.splits if_splits)
      with ih same True show ?thesis
        by (auto simp add: call accepted_calls_simps slots_def)
    qed
  qed
qed

text \<open>
  C17. The cap of the rate limiter: among calls of any keys that fall into one minute, a key
  gets at most 120 through when it starts without a bucket, and never more than 240, when
  a window of 120 ends inside the minute.
\<close>

theorem rate_cap:
  assumes "list_all (\<lambda>(now, k). a \<le> now \<and> now < a + 60000) calls"
  shows "accepted_calls key calls bs \<le> (if lookup_by bk_key key bs = None then 120 else 240)"
proof -
  have "slots (lookup_by bk_key key bs) \<le> (if lookup_by bk_key key bs = None then 0 else 120)"
    by (auto simp add: slots_def MAX_PER_WINDOW_def)
  with accepted_in_interval [of a calls key bs] assms show ?thesis
    by (auto simp add: WINDOW_MS_def MAX_PER_WINDOW_def split: if_splits)
qed

theorem rate_cap_witness:
  "accepted_calls (js ''s'') [(0, js ''s''), (59999, js ''s'')] [] \<le> 120"
  using rate_cap [of 0 "[(0, js ''s''), (59999, js ''s'')]" "js ''s''" "[]"]
  by (simp add: lookup_by_def)

end
