(* ===== verification/SettingsLaws.thy ===== *)
theory SettingsLaws
  imports Settings Transitions
begin

text \<open>
  What a settings change does to the table: it writes the keys in the order of
  \<open>NUMERIC_KEYS\<close> up to the first one out of bounds. What is written reads back, every
  reachable table keeps the tunables within their bounds, and then the governor pauses the
  engine before a hard cap refuses writes.
\<close>

section \<open>The loop\<close>

definition key_ok :: "js_value \<Rightarrow> js_string \<times> rat \<times> rat \<Rightarrow> bool" where
  "key_ok b = (\<lambda>(k, lo, hi). \<not> has_key b k \<or> in_bounds (to_number (get_key b k)) lo hi)"

definition entries :: "js_value \<Rightarrow> (js_string \<times> rat \<times> rat) list \<Rightarrow> (js_string \<times> js_string) list" where
  "entries b ks =
     map (\<lambda>(k, lo, hi). (k, js_text (JNum (to_number (get_key b k)))))
       (filter (\<lambda>(k, lo, hi). has_key b k) (takeWhile (key_ok b) ks))"

lemma patch_keys_eq:
  "patch_keys ks b changed t =
     (case dropWhile (key_ok b) ks of
        [] \<Rightarrow> Inr (changed @ map (\<lambda>(k, v). k @ 61 # v) (entries b ks))
      | (k, lo, hi) # rest \<Rightarrow> Inl (bounds_error k lo hi),
      config.put_all (entries b ks) t)"
proof (induction ks b changed t rule: patch_keys.induct)
  case (1 b changed t)
  then show ?case by (simp add: entries_def config.put_all_def)
next
  case (2 k lo hi ks b changed t)
  consider "\<not> has_key b k" | "has_key b k" "\<not> in_bounds (to_number (get_key b k)) lo hi"
    | "has_key b k" "in_bounds (to_number (get_key b k)) lo hi" by blast
  then show ?case
  proof cases
    case 1
    then have ok: "key_ok b (k, lo, hi)" "entries b ((k, lo, hi) # ks) = entries b ks"
      by (simp_all add: key_ok_def entries_def)
    show ?thesis unfolding ok(2) using 1 ok(1) "2.IH"(1) by simp
  next
    case 2
    then have "\<not> key_ok b (k, lo, hi)" "entries b ((k, lo, hi) # ks) = []"
      by (simp_all add: key_ok_def entries_def)
    with 2 show ?thesis by (simp add: config.put_all_def)
  next
    case 3
    define v where "v = js_text (JNum (to_number (get_key b k)))"
    have ok: "key_ok b (k, lo, hi)" "entries b ((k, lo, hi) # ks) = (k, v) # entries b ks"
      using 3 by (simp_all add: key_ok_def entries_def v_def)
    have "config.put_all ((k, v) # entries b ks) t = config.put_all (entries b ks) (setConfigValue k v t)"
      by (simp add: config.put_all_def)
    then show ?thesis
      unfolding ok(2) using 3 ok(1) "2.IH"(2) [of "to_number (get_key b k)"]
      by (simp add: v_def [symmetric] cong: list.case_cong)
  qed
qed

lemma patch_settings_cases:
  assumes "is_object b"
  shows "w_config (snd (patch_settings cx (Some b) w)) = config.put_all (entries b NUMERIC_KEYS) (w_config w)"
    and "fst (patch_settings cx (Some b) w) = Inr st \<Longrightarrow> takeWhile (key_ok b) NUMERIC_KEYS = NUMERIC_KEYS"
proof -
  show "w_config (snd (patch_settings cx (Some b) w)) = config.put_all (entries b NUMERIC_KEYS) (w_config w)"
    using assms by (auto simp add: patch_settings_def patch_keys_eq Let_def split: list.split)
  assume *: "fst (patch_settings cx (Some b) w) = Inr st"
  have "dropWhile (key_ok b) NUMERIC_KEYS = []"
  proof (cases "dropWhile (key_ok b) NUMERIC_KEYS")
    case (Cons x xs)
    with * assms show ?thesis by (cases x) (simp add: patch_settings_def patch_keys_eq)
  qed
  then show "takeWhile (key_ok b) NUMERIC_KEYS = NUMERIC_KEYS"
    using takeWhile_dropWhile_id [of "key_ok b" NUMERIC_KEYS] by simp
qed

lemma distinct_keys: "distinct (map fst NUMERIC_KEYS)"
  by (simp add: NUMERIC_KEYS_def)

lemma num_config:
  "unique_by fst t \<Longrightarrow>
   num (getAllConfig t) k fb =
     (case map_option snd (lookup_by fst k t) of
        None \<Rightarrow> fb
      | Some v \<Rightarrow> (case parse_number v of Fin q \<Rightarrow> q | _ \<Rightarrow> fb))"
  by (auto simp add: num_def getAllConfig_lookup split: option.split)

lemma entries_lookup:
  assumes "(k, lo, hi) \<in> set NUMERIC_KEYS"
  shows "map_of (rev (entries b NUMERIC_KEYS)) k =
    (if has_key b k \<and> (k, lo, hi) \<in> set (takeWhile (key_ok b) NUMERIC_KEYS)
     then Some (js_text (JNum (to_number (get_key b k)))) else None)"
proof -
  let ?t = "takeWhile (key_ok b) NUMERIC_KEYS"
  let ?e = "entries b NUMERIC_KEYS"
  have sub: "set ?t \<subseteq> set NUMERIC_KEYS" by (auto dest: set_takeWhileD)
  have inj: "(k, x) \<in> set NUMERIC_KEYS \<Longrightarrow> x = (lo, hi)" for x
    by (rule eq_key_imp_eq_value [OF distinct_keys _ assms])
  have "distinct (map fst ?t)"
    using distinct_keys takeWhile_eq_take [of "key_ok b" NUMERIC_KEYS]
    by (metis distinct_take take_map)
  then have "distinct (map fst (filter (\<lambda>(k, lo, hi). has_key b k) ?t))"
    by (rule distinct_map_filter)
  moreover have "map fst ?e = map fst (filter (\<lambda>(k, lo, hi). has_key b k) ?t)"
    by (auto simp add: entries_def)
  ultimately have "distinct (map fst ?e)" by simp
  then have rev: "map_of (rev ?e) = map_of ?e" by (rule map_of_rev_distinct)
  have "map_of ?e k = None" if "\<not> (has_key b k \<and> (k, lo, hi) \<in> set ?t)"
  proof -
    have "k \<notin> fst ` set ?e"
    proof
      assume "k \<in> fst ` set ?e"
      then obtain x where "(k, x) \<in> set ?t" "has_key b k" by (auto simp add: entries_def)
      with inj sub that show False by blast
    qed
    then show ?thesis by (simp add: map_of_eq_None_iff)
  qed
  moreover have "map_of ?e k = Some (js_text (JNum (to_number (get_key b k))))"
    if "has_key b k" "(k, lo, hi) \<in> set ?t"
  proof -
    have "(k, js_text (JNum (to_number (get_key b k)))) \<in> set ?e"
      using that unfolding entries_def by force
    then show ?thesis using \<open>distinct (map fst ?e)\<close> by simp
  qed
  ultimately show ?thesis by (simp add: rev)
qed

lemma num_after:
  assumes "unique_by fst t" and "(k, lo, hi) \<in> set NUMERIC_KEYS"
    and "\<forall>q. to_number (get_key b k) = Fin q \<longrightarrow> decimal \<bar>q\<bar>"
  shows "num (getAllConfig (config.put_all (entries b NUMERIC_KEYS) t)) k fb =
    (if has_key b k \<and> (k, lo, hi) \<in> set (takeWhile (key_ok b) NUMERIC_KEYS)
     then (case to_number (get_key b k) of Fin q \<Rightarrow> q | _ \<Rightarrow> fb) else num (getAllConfig t) k fb)"
proof -
  have "in_bounds (to_number (get_key b k)) lo hi"
    if "has_key b k" "(k, lo, hi) \<in> set (takeWhile (key_ok b) NUMERIC_KEYS)"
    using that set_takeWhileD [of "(k, lo, hi)" "key_ok b" NUMERIC_KEYS] by (auto simp add: key_ok_def)
  then show ?thesis
    unfolding num_config [OF config.ok_put_all [OF assms(1)]] num_config [OF assms(1)]
      config.get_put_all [OF assms(1)] entries_lookup [OF assms(2)]
    using assms(3) by (auto simp add: in_bounds_def parse_num_text split: number.splits)
qed

section \<open>Reading back\<close>

text \<open>
  A settings change that is accepted reads back: every tunable of the body has the
  number it was given, which lies within its bounds, and every other tunable keeps its
  value. (A number is given with at most twenty decimals.)
\<close>

theorem settings_read_back:
  assumes "unique_by fst (w_config w)" and "(k, lo, hi) \<in> set NUMERIC_KEYS" and "is_object b"
    and "patch_settings cx (Some b) w = (Inr st, w')"
    and "\<forall>q. to_number (get_key b k) = Fin q \<longrightarrow> decimal \<bar>q\<bar>"
  shows "if has_key b k
    then \<exists>q. to_number (get_key b k) = Fin q \<and> lo \<le> q \<and> q \<le> hi
      \<and> num (getAllConfig (w_config w')) k fb = q
    else num (getAllConfig (w_config w')) k fb = num (getAllConfig (w_config w)) k fb"
proof -
  note parts = patch_settings_cases [OF assms(3), where cx = cx and w = w]
  have all: "takeWhile (key_ok b) NUMERIC_KEYS = NUMERIC_KEYS" using parts(2) assms(4) by simp
  then have "key_ok b (k, lo, hi)" using assms(2) by (metis set_takeWhileD)
  moreover have "num (getAllConfig (w_config w')) k fb =
      (if has_key b k then (case to_number (get_key b k) of Fin q \<Rightarrow> q | _ \<Rightarrow> fb)
       else num (getAllConfig (w_config w)) k fb)"
    using num_after [OF assms(1,2,5), of fb] parts(1) assms(2,4) by (simp add: all)
  ultimately show ?thesis by (auto simp add: key_ok_def in_bounds_def split: number.splits)
qed

definition demo_patch :: js_value where
  "demo_patch = JObj [(js ''itemMaxRetries'', JNum (Fin 7))]"

lemma demo_patch_ok:
  "patch_settings (demo_request 0) (Some demo_patch) empty_world =
     (Inr (get_settings 0 (snd (patch_settings (demo_request 0) (Some demo_patch) empty_world))),
      snd (patch_settings (demo_request 0) (Some demo_patch) empty_world))"
  by (simp add: patch_settings_def demo_patch_def NUMERIC_KEYS_def in_bounds_def demo_request_def Let_def)

lemma exact_zero [simp]: "exact k 0"
  by (cases k) simp_all

theorem settings_read_back_witness:
  "num (getAllConfig (w_config (snd (patch_settings (demo_request 0) (Some demo_patch) empty_world))))
     (js ''itemMaxRetries'') 5 = 7"
  using settings_read_back [OF _ _ _ demo_patch_ok, of "js ''itemMaxRetries''" 0 20 5]
  by (simp add: demo_patch_def NUMERIC_KEYS_def empty_world_def decimal_def)

lemma put_all_single: "config.put_all [(k, v)] [] = [(k, v)]"
  by (simp add: config.put_all_def setConfigValue_def upsert_by_def)

definition half_good :: js_value where
  "half_good =
     JObj [(js ''minPollIntervalSec'', JNum (Fin 60)), (js ''perMailboxConcurrency'', JNum (Fin 99))]"

lemma half_good_entries: "entries half_good NUMERIC_KEYS = [(js ''minPollIntervalSec'', js ''60'')]"
proof -
  have "num_text 60 = js ''60''" by code_simp
  then show ?thesis
    by (simp add: entries_def NUMERIC_KEYS_def key_ok_def half_good_def in_bounds_def)
qed

text \<open>
  A settings change that is refused is not undone: the keys before the one out of bounds
  are written, and nothing of it is billed or audited; an accepted one is billed and
  audited. With two keys of which the second is out of bounds the first stays written.
\<close>

theorem settings_partial_write:
  "(case patch_settings cx (Some (JObj ps)) w of
      (Inl e, w') \<Rightarrow>
        w' = w\<lparr>w_config := config.put_all (entries (JObj ps) NUMERIC_KEYS) (w_config w)\<rparr>
    | (Inr st, w') \<Rightarrow>
        w_config w' = config.put_all (entries (JObj ps) NUMERIC_KEYS) (w_config w)
        \<and> length (w_bills w') = length (w_bills w) + 2 \<and> length (w_audit w') = Suc (length (w_audit w)))
   \<and> patch_settings cx (Some half_good) empty_world =
       (Inl (bounds_error (js ''perMailboxConcurrency'') 1 10),
        empty_world\<lparr>w_config := [(js ''minPollIntervalSec'', js ''60'')]\<rparr>)"
proof
  show "case patch_settings cx (Some (JObj ps)) w of
      (Inl e, w') \<Rightarrow>
        w' = w\<lparr>w_config := config.put_all (entries (JObj ps) NUMERIC_KEYS) (w_config w)\<rparr>
    | (Inr st, w') \<Rightarrow>
        w_config w' = config.put_all (entries (JObj ps) NUMERIC_KEYS) (w_config w)
        \<and> length (w_bills w') = length (w_bills w) + 2 \<and> length (w_audit w') = Suc (length (w_audit w))"
    by (auto simp add: patch_settings_def patch_keys_eq Let_def audited_def audit_def draw_uuid_def
        billUsage_def split: list.split)
  have "dropWhile (key_ok half_good) NUMERIC_KEYS =
      (js ''perMailboxConcurrency'', 1, 10) # drop 2 NUMERIC_KEYS"
    by (simp add: NUMERIC_KEYS_def key_ok_def half_good_def in_bounds_def)
  then show "patch_settings cx (Some half_good) empty_world =
       (Inl (bounds_error (js ''perMailboxConcurrency'') 1 10),
        empty_world\<lparr>w_config := [(js ''minPollIntervalSec'', js ''60'')]\<rparr>)"
    by (simp add: patch_settings_def patch_keys_eq half_good_entries half_good_def [THEN arg_cong [where f = is_object]]
        put_all_single empty_world_def)
qed

section \<open>Reachable settings\<close>

definition tunable_ok :: "config_table \<Rightarrow> js_string \<times> rat \<times> rat \<Rightarrow> bool" where
  "tunable_ok t = (\<lambda>(k, lo, hi). \<forall>fb. lo \<le> fb \<longrightarrow> fb \<le> hi \<longrightarrow>
     lo \<le> num (getAllConfig t) k fb \<and> num (getAllConfig t) k fb \<le> hi)"

definition sane :: "world \<Rightarrow> bool" where
  "sane w \<longleftrightarrow> unique_by fst (w_config w) \<and> list_all (tunable_ok (w_config w)) NUMERIC_KEYS"

text \<open>The numbers of a body have at most twenty decimals.\<close>

definition decimal_body :: "js_value \<Rightarrow> bool" where
  "decimal_body b \<longleftrightarrow>
     list_all (\<lambda>(k, lo, hi). case to_number (get_key b k) of Fin q \<Rightarrow> decimal \<bar>q\<bar> | _ \<Rightarrow> True) NUMERIC_KEYS"

inductive patch_step :: "world \<Rightarrow> world \<Rightarrow> bool" where
  patch: "decimal_body b \<Longrightarrow> patch_step w (snd (patch_settings cx (Some b) w))"

lemma put_all_sane:
  assumes "unique_by fst t" "list_all (tunable_ok t) NUMERIC_KEYS" "decimal_body b"
  shows "list_all (tunable_ok (config.put_all (entries b NUMERIC_KEYS) t)) NUMERIC_KEYS"
  unfolding list_all_iff
proof
  fix x
  assume x: "x \<in> set NUMERIC_KEYS"
  obtain k lo hi where "x = (k, lo, hi)" by (cases x)
  have dec: "\<forall>q. to_number (get_key b k) = Fin q \<longrightarrow> decimal \<bar>q\<bar>"
    using bspec [OF assms(3) [unfolded decimal_body_def list_all_iff] x] \<open>x = (k, lo, hi)\<close> by auto
  have old: "tunable_ok t (k, lo, hi)" using assms(2) x \<open>x = (k, lo, hi)\<close> by (simp add: list_all_iff)
  have new: "has_key b k \<Longrightarrow> in_bounds (to_number (get_key b k)) lo hi"
    if "(k, lo, hi) \<in> set (takeWhile (key_ok b) NUMERIC_KEYS)"
    using set_takeWhileD [OF that] by (simp add: key_ok_def)
  show "tunable_ok (config.put_all (entries b NUMERIC_KEYS) t) x"
    unfolding tunable_ok_def \<open>x = (k, lo, hi)\<close> prod.case
  proof (intro allI impI)
    fix fb
    assume fb: "lo \<le> fb" "fb \<le> hi"
    show "lo \<le> num (getAllConfig (config.put_all (entries b NUMERIC_KEYS) t)) k fb
        \<and> num (getAllConfig (config.put_all (entries b NUMERIC_KEYS) t)) k fb \<le> hi"
    proof (cases "has_key b k \<and> (k, lo, hi) \<in> set (takeWhile (key_ok b) NUMERIC_KEYS)")
      case True
      with new num_after [OF assms(1) x [unfolded \<open>x = (k, lo, hi)\<close>] dec, of fb] show ?thesis
        by (auto simp add: in_bounds_def split: number.splits)
    next
      case False
      with old fb num_after [OF assms(1) x [unfolded \<open>x = (k, lo, hi)\<close>] dec, of fb] show ?thesis
        by (auto simp add: tunable_ok_def)
    qed
  qed
qed

interpretation settings: stepping patch_step sane
proof
  fix w w'
  assume sane: "sane w" and "patch_step w w'"
  from this(2) obtain b cx where b: "decimal_body b" and w': "w' = snd (patch_settings cx (Some b) w)"
    by (auto elim: patch_step.cases)
  show "sane w'"
  proof (cases "is_object b")
    case True
    then show ?thesis
      using sane put_all_sane [OF _ _ b] patch_settings_cases(1) [OF True, of cx w]
      by (simp add: sane_def w' config.ok_put_all)
  next
    case False
    with sane show ?thesis by (simp add: w' patch_settings_def)
  qed
qed

lemma sane_num:
  "sane w \<Longrightarrow> (k, lo, hi) \<in> set NUMERIC_KEYS \<Longrightarrow> lo \<le> fb \<Longrightarrow> fb \<le> hi \<Longrightarrow>
   lo \<le> num (getAllConfig (w_config w)) k fb \<and> num (getAllConfig (w_config w)) k fb \<le> hi"
  by (fastforce simp add: sane_def tunable_ok_def list_all_iff)

lemma sane_empty: "w_config w = [] \<Longrightarrow> sane w"
  by (auto simp add: sane_def tunable_ok_def list_all_iff num_def getAllConfig_def)


lemma demo_patch_step:
  "patch_step\<^sup>*\<^sup>* empty_world (snd (patch_settings (demo_request 0) (Some demo_patch) empty_world))"
  by (intro r_into_rtranclp patch) (simp add: decimal_body_def demo_patch_def NUMERIC_KEYS_def decimal_def)


text \<open>
  The soft threshold comes first: with settings that were only changed through the API,
  and daily limits that are not negative, a counter at its hard cap means the engine is
  paused already.
\<close>

theorem hard_cap_pauses:
  assumes "patch_step\<^sup>*\<^sup>* w w'" and "w_config w = []" and "isHardExhausted now (w_config w') rows"
    and "0 \<le> lm_workers (limits_of (w_config w'))" "0 \<le> lm_writes (limits_of (w_config w'))"
    "0 \<le> lm_queue (limits_of (w_config w'))"
  shows "paused (getEngineConfig now (w_config w') rows)"
proof -
  have "sane w'" using settings.inv_steps [OF assms(1) sane_empty] assms(2) by blast
  then have soft: "lm_soft (limits_of (w_config w')) \<le> 1"
    using sane_num [of w' "js ''budgetSoftFraction''" "1 / 2" "99 / 100" "85 / 100"]
    by (simp add: NUMERIC_KEYS_def limits_of_def Let_def)
  have "x * lm_soft (limits_of (w_config w')) \<le> x" if "0 \<le> x" for x
    using mult_left_mono [OF soft that] by simp
  with assms(3-6) show ?thesis
    unfolding getEngineConfig_def isPaused_def isHardExhausted_def isDegradedAtSoft_def Let_def
    by (auto intro: order_trans)
qed

theorem hard_cap_pauses_witness:
  "paused (getEngineConfig 0 [] [\<lparr>bd_day = todayUtc 0, bd_workers = 0, bd_writes = 0,
     bd_queue = 10000, bd_degraded = False\<rparr>])"
  using hard_cap_pauses [of empty_world empty_world 0 "[\<lparr>bd_day = todayUtc 0, bd_workers = 0,
     bd_writes = 0, bd_queue = 10000, bd_degraded = False\<rparr>]"]
  by (simp add: empty_world_def isHardExhausted_def getToday_def lookup_by_def limits_of_def num_def
      getAllConfig_def)

end
