(* ===== verification/DispatchLaws.thy ===== *)
theory DispatchLaws
  imports Dispatch UsersRoute Transitions
begin

text \<open>
  The dispatch protocol. Every handler that touches the jobs table or the queue is a
  sequence of four small moves on (jobs, queue, number of ids drawn): a quiet update, a
  deletion, a creation and a re-dispatch, the last two possibly sending one message. The
  invariant of the moves is that of every reachable world.
\<close>

section \<open>Moves\<close>

type_synonym core = "job_row list \<times> dispatch_message list \<times> nat"

definition core_of :: "world \<Rightarrow> core" where
  "core_of w = (w_jobs w, w_queue w, w_seed w)"

definition keeps_identity :: "(job_row \<Rightarrow> job_row) \<Rightarrow> int \<Rightarrow> bool" where
  "keeps_identity f d \<longleftrightarrow>
     (\<forall>r. jr_id (f r) = jr_id r \<and> job_key (f r) = job_key r
        \<and> jr_dispatch_seq (f r) = jr_dispatch_seq r + d)"

definition sent :: "js_string \<Rightarrow> int \<Rightarrow> dispatch_message list \<Rightarrow> dispatch_message list \<Rightarrow> bool" where
  "sent jid seq q q' \<longleftrightarrow> q' = q \<or> (\<exists>m. q' = q @ [m] \<and> msg_job m = jid \<and> msg_seq m = seq)"

inductive move :: "(nat \<Rightarrow> js_string) \<Rightarrow> core \<Rightarrow> core \<Rightarrow> bool" for uuid where
  quiet: "keeps_identity f 0 \<Longrightarrow> n \<le> n' \<Longrightarrow> move uuid (t, q, n) (update_where p f t, q, n')"
| gone: "move uuid (t, q, n) (delete_where p t, q, n)"
| create: "create_job (uuid n) uid wl 1 now t = ((jid, seq), t') \<Longrightarrow> sent jid seq q q' \<Longrightarrow>
    move uuid (t, q, n) (t', q', Suc n)"
| again: "keeps_identity f 1 \<Longrightarrow> lookup_by jr_id jid t = Some r \<Longrightarrow>
    sent jid (jr_dispatch_seq r + 1) q q' \<Longrightarrow>
    move uuid (t, q, n) (update_where (\<lambda>r. jr_id r = jid) f t, q', n)"

definition message_key :: "dispatch_message \<Rightarrow> js_string \<times> int" where
  "message_key m = (msg_job m, msg_seq m)"

definition drawn :: "(nat \<Rightarrow> js_string) \<Rightarrow> nat \<Rightarrow> js_string \<Rightarrow> bool" where
  "drawn uuid n i \<longleftrightarrow> (\<exists>k < n. i = uuid k)"

definition ahead :: "dispatch_message list \<Rightarrow> job_row \<Rightarrow> bool" where
  "ahead q r \<longleftrightarrow> (\<forall>m \<in> set q. msg_job m = jr_id r \<longrightarrow> msg_seq m \<le> jr_dispatch_seq r)"

definition dispatch_ok :: "(nat \<Rightarrow> js_string) \<Rightarrow> core \<Rightarrow> bool" where
  "dispatch_ok uuid = (\<lambda>(t, q, n).
     inj uuid \<and> unique_by job_key t \<and> unique_by jr_id t \<and> unique_by message_key q
     \<and> (\<forall>r \<in> set t. drawn uuid n (jr_id r) \<and> ahead q r)
     \<and> (\<forall>m \<in> set q. drawn uuid n (msg_job m)))"

lemma drawn_mono: "drawn uuid n i \<Longrightarrow> n \<le> n' \<Longrightarrow> drawn uuid n' i"
  by (force simp add: drawn_def)

lemma not_drawn: "inj uuid \<Longrightarrow> \<not> drawn uuid n (uuid n)"
  by (auto simp add: drawn_def inj_def)

lemma dispatch_okD:
  assumes "dispatch_ok uuid (t, q, n)"
  shows "inj uuid" "unique_by job_key t" "unique_by jr_id t" "unique_by message_key q"
    and "r \<in> set t \<Longrightarrow> drawn uuid n (jr_id r)" "r \<in> set t \<Longrightarrow> ahead q r"
    and "m \<in> set q \<Longrightarrow> drawn uuid n (msg_job m)"
  using assms by (simp_all add: dispatch_ok_def)

lemma dispatch_okI:
  assumes "inj uuid" "unique_by job_key t" "unique_by jr_id t" "unique_by message_key q"
    and "\<And>r. r \<in> set t \<Longrightarrow> drawn uuid n (jr_id r)" "\<And>r. r \<in> set t \<Longrightarrow> ahead q r"
    and "\<And>m. m \<in> set q \<Longrightarrow> drawn uuid n (msg_job m)"
  shows "dispatch_ok uuid (t, q, n)"
  using assms by (simp add: dispatch_ok_def)

lemma sent_ok:
  assumes "unique_by message_key q" and "sent jid seq q q'"
    and "\<forall>m \<in> set q. msg_job m = jid \<longrightarrow> msg_seq m < seq"
  shows "unique_by message_key q'"
    and "ahead q r \<Longrightarrow> (jr_id r = jid \<Longrightarrow> seq \<le> jr_dispatch_seq r) \<Longrightarrow> ahead q' r"
    and "m \<in> set q' \<Longrightarrow> m \<in> set q \<or> msg_job m = jid"
proof -
  have "message_key m \<notin> message_key ` set q" if "msg_job m = jid" "msg_seq m = seq" for m
    using that assms(3) by (force simp add: message_key_def)
  then show "unique_by message_key q'"
    using assms(1,2) by (auto simp add: sent_def unique_by_snoc)
  show "ahead q r \<Longrightarrow> (jr_id r = jid \<Longrightarrow> seq \<le> jr_dispatch_seq r) \<Longrightarrow> ahead q' r"
    using assms(2) by (auto simp add: sent_def ahead_def)
  show "m \<in> set q' \<Longrightarrow> m \<in> set q \<or> msg_job m = jid"
    using assms(2) by (auto simp add: sent_def)
qed

lemma create_job_cases:
  assumes "create_job rid uid wl seq0 now t = ((jid, seq), t')" and "unique_by job_key t"
  obtains (new) "(uid, wl) \<notin> job_key ` set t" "jid = rid" "seq = seq0"
      "t' = t @ [new_job rid uid wl seq0 now]"
    | (old) r where "lookup_by job_key (uid, wl) t = Some r" "jid = jr_id r"
      "seq = jr_dispatch_seq r + 1" "t' = update_where (\<lambda>x. job_key x = (uid, wl)) (reissue now) t"
proof -
  have key: "job_key (new_job rid uid wl seq0 now) = (uid, wl)"
    by (simp add: job_key_def new_job_def)
  have reissue: "job_key (reissue now x) = job_key x" "jr_id (reissue now x) = jr_id x"
    "jr_dispatch_seq (reissue now x) = jr_dispatch_seq x + 1" for x
    by (simp_all add: reissue_def job_key_def)
  have found: "lookup_by job_key (uid, wl) (upsert_by job_key (reissue now) (new_job rid uid wl seq0 now) t) =
      (case lookup_by job_key (uid, wl) t of None \<Rightarrow> Some (new_job rid uid wl seq0 now)
       | Some x \<Rightarrow> Some (reissue now x))"
    using lookup_by_upsert_same [of job_key "new_job rid uid wl seq0 now" "reissue now" t]
    by (simp add: key reissue)
  show ?thesis
  proof (cases "lookup_by job_key (uid, wl) t")
    case None
    then have "(uid, wl) \<notin> job_key ` set t" by (simp add: lookup_by_None)
    moreover from this have "upsert_by job_key (reissue now) (new_job rid uid wl seq0 now) t =
        t @ [new_job rid uid wl seq0 now]"
      by (auto simp add: upsert_by_def key)
    moreover have "jr_id (new_job rid uid wl seq0 now) = rid"
      "jr_dispatch_seq (new_job rid uid wl seq0 now) = seq0"
      by (simp_all add: new_job_def)
    ultimately have "jid = rid" "seq = seq0" "t' = t @ [new_job rid uid wl seq0 now]"
      using None assms(1) found by (auto simp add: create_job_def Let_def)
    with new \<open>(uid, wl) \<notin> job_key ` set t\<close> show ?thesis by blast
  next
    case (Some r)
    then have "(uid, wl) \<in> job_key ` set t" by (force dest: lookup_by_Some)
    then have "upsert_by job_key (reissue now) (new_job rid uid wl seq0 now) t =
        update_where (\<lambda>x. job_key x = (uid, wl)) (reissue now) t"
      by (auto simp add: upsert_by_def key)
    with Some assms(1) found show ?thesis
      by (intro old [of r]) (simp_all add: create_job_def reissue Let_def)
  qed
qed

lemma update_ok:
  assumes "keeps_identity f d"
  shows "unique_by job_key t \<Longrightarrow> unique_by job_key (update_where p f t)"
    and "unique_by jr_id t \<Longrightarrow> unique_by jr_id (update_where p f t)"
  using assms by (simp_all add: keeps_identity_def unique_by_def map_update_where)

lemma keeps_identityD:
  "keeps_identity f d \<Longrightarrow> jr_id (f r) = jr_id r"
  "keeps_identity f d \<Longrightarrow> jr_dispatch_seq (f r) = jr_dispatch_seq r + d"
  by (simp_all add: keeps_identity_def)

lemma bump_ok:
  assumes ok: "dispatch_ok uuid (t, q, n)" and f: "keeps_identity f 1"
    and one: "\<And>x. p x \<Longrightarrow> x \<in> set t \<Longrightarrow> jr_id x = jid" and r: "r \<in> set t" "jr_id r = jid" "p r"
    and sent: "sent jid (jr_dispatch_seq r + 1) q q'" and n: "n \<le> n'"
  shows "dispatch_ok uuid (update_where p f t, q', n')"
proof -
  note D = dispatch_okD [OF ok] and id_f = keeps_identityD [OF f]
  have below: "\<forall>m \<in> set q. msg_job m = jid \<longrightarrow> msg_seq m < jr_dispatch_seq r + 1"
    using D(6) [OF r(1)] r(2) by (auto simp add: ahead_def)
  note sent' = sent_ok [OF D(4) sent below]
  have same: "x = r" if "x \<in> set t" "jr_id x = jid" for x
    using lookup_by_unique [OF D(3) that(1)] lookup_by_unique [OF D(3) r(1)] that(2) r(2) by simp
  have ahead: "ahead q' (if p x then f x else x)" if x: "x \<in> set t" for x
  proof (cases "jr_id x = jid")
    case True
    with same x have [simp]: "x = r" by blast
    have "ahead q (f r)" using D(6) [OF r(1)] by (auto simp add: ahead_def id_f)
    then have "ahead q' (f r)" by (rule sent'(2)) (simp add: id_f)
    with r(3) show ?thesis by simp
  next
    case False
    with one x have "\<not> p x" by blast
    moreover have "ahead q' x" using D(6) [OF x] by (rule sent'(2)) (use False in simp)
    ultimately show ?thesis by simp
  qed
  show ?thesis
  proof (rule dispatch_okI)
    fix y
    assume "y \<in> set (update_where p f t)"
    then obtain x where x: "x \<in> set t" "y = (if p x then f x else x)" by auto
    with ahead show "ahead q' y" by simp
    from x have "jr_id y = jr_id x" by (simp add: id_f)
    with drawn_mono [OF D(5) [OF x(1)] n] show "drawn uuid n' (jr_id y)" by simp
  next
    fix m
    assume "m \<in> set q'"
    then consider "m \<in> set q" | "msg_job m = jid" using sent'(3) by blast
    then have "drawn uuid n (msg_job m)"
    proof cases
      case 2
      with D(5) [OF r(1)] r(2) show ?thesis by simp
    qed (rule D(7))
    then show "drawn uuid n' (msg_job m)" using n by (rule drawn_mono)
  qed (use D sent'(1) update_ok [OF f] in auto)
qed

lemma quiet_ok:
  assumes ok: "dispatch_ok uuid (t, q, n)" and f: "keeps_identity f 0" and n: "n \<le> n'"
  shows "dispatch_ok uuid (update_where p f t, q, n')"
proof -
  note D = dispatch_okD [OF ok] and id_f = keeps_identityD [OF f]
  show ?thesis
  proof (rule dispatch_okI)
    fix y
    assume "y \<in> set (update_where p f t)"
    then obtain x where x: "x \<in> set t" "y = (if p x then f x else x)" by auto
    then have "jr_id y = jr_id x" "jr_dispatch_seq y = jr_dispatch_seq x" by (simp_all add: id_f)
    with drawn_mono [OF D(5) [OF x(1)] n] D(6) [OF x(1)]
    show "drawn uuid n' (jr_id y)" "ahead q y" by (simp_all add: ahead_def)
  next
    fix m
    assume "m \<in> set q"
    then show "drawn uuid n' (msg_job m)" using D(7) n drawn_mono by blast
  qed (use D update_ok [OF f] in auto)
qed

lemma create_ok:
  assumes ok: "dispatch_ok uuid (t, q, n)"
    and create: "create_job (uuid n) uid wl 1 now t = ((jid, seq), t')" and sent: "sent jid seq q q'"
  shows "dispatch_ok uuid (t', q', Suc n)"
proof -
  note D = dispatch_okD [OF ok]
  from create D(2) show ?thesis
  proof (cases rule: create_job_cases)
    case (old r)
    have r: "r \<in> set t" "job_key r = (uid, wl)" using lookup_by_Some [OF old(1)] by auto
    have one: "x = r" if "job_key x = (uid, wl)" "x \<in> set t" for x
      using that r lookup_by_unique [OF D(2), of x] lookup_by_unique [OF D(2), of r] by simp
    have keeps: "keeps_identity (reissue now) 1" by (simp add: keeps_identity_def reissue_def job_key_def)
    show ?thesis
      unfolding old(4)
    proof (rule bump_ok [where jid = jid and r = r, OF ok keeps])
      fix x
      assume "job_key x = (uid, wl)" "x \<in> set t"
      then show "jr_id x = jid" using one old(2) by blast
    next
      show "sent jid (jr_dispatch_seq r + 1) q q'" using sent unfolding old(3) .
      show "r \<in> set t" "jr_id r = jid" "job_key r = (uid, wl)" using r old(2) by auto
    qed simp
  next
    case new
    define row where "row = new_job (uuid n) uid wl 1 now"
    have row: "jr_id row = jid" "job_key row = (uid, wl)" "jr_dispatch_seq row = seq"
      by (simp_all add: row_def new_job_def job_key_def new)
    have fresh: "\<not> drawn uuid n jid" using not_drawn [OF D(1)] new(2) by simp
    have none: "msg_job m \<noteq> jid" if "m \<in> set q" for m using D(7) [OF that] fresh by auto
    have ids: "jr_id x \<noteq> jid" if "x \<in> set t" for x using D(5) [OF that] fresh by auto
    have below: "\<forall>m \<in> set q. msg_job m = jid \<longrightarrow> msg_seq m < seq" using none by blast
    note sent' = sent_ok [OF D(4) sent below]
    have new_id: "drawn uuid (Suc n) jid" using new(2) by (auto simp add: drawn_def)
    show ?thesis
      unfolding new(4) row_def [symmetric]
    proof (rule dispatch_okI)
      fix x
      assume x: "x \<in> set (t @ [row])"
      show "ahead q' x"
      proof (cases "x = row")
        case True
        have "ahead q row" using none by (auto simp add: ahead_def row)
        then show ?thesis unfolding True by (rule sent'(2)) (simp add: row)
      next
        case False
        with x have x': "x \<in> set t" by simp
        show ?thesis using D(6) [OF x'] by (rule sent'(2)) (use ids [OF x'] in simp)
      qed
      show "drawn uuid (Suc n) (jr_id x)"
      proof (cases "x = row")
        case True
        with row new_id show ?thesis by simp
      next
        case False
        with x have "x \<in> set t" by simp
        from drawn_mono [OF D(5) [OF this]] show ?thesis by simp
      qed
    next
      fix m
      assume "m \<in> set q'"
      then consider "m \<in> set q" | "msg_job m = jid" using sent'(3) by blast
      then show "drawn uuid (Suc n) (msg_job m)"
      proof cases
        case 1
        from drawn_mono [OF D(7) [OF this]] show ?thesis by simp
      next
        case 2
        with new_id show ?thesis by simp
      qed
    next
      show "unique_by job_key (t @ [row])" using D(2) new(1) by (simp add: unique_by_snoc row)
      show "unique_by jr_id (t @ [row])" using D(3) ids by (auto simp add: unique_by_snoc row)
    qed (use D sent'(1) in auto)
  qed
qed

interpretation moves: stepping "move uuid" "dispatch_ok uuid" for uuid
proof
  fix s s' :: core
  assume ok: "dispatch_ok uuid s" and "move uuid s s'"
  from this(2) show "dispatch_ok uuid s'"
  proof cases
    case quiet
    with ok quiet_ok show ?thesis by blast
  next
    case (gone t q n p)
    note D = dispatch_okD [OF ok [unfolded gone(1)]]
    show ?thesis
      unfolding gone(2)
      by (rule dispatch_okI) (use D in \<open>auto intro: unique_by_delete\<close>)
  next
    case create
    with ok create_ok show ?thesis by blast
  next
    case (again f jid t r q q' n)
    have "r \<in> set t" "jr_id r = jid" using lookup_by_Some [OF again(4)] by auto
    then show ?thesis
      unfolding again(2) using again(5)
      by (intro bump_ok [where jid = jid and r = r, OF ok [unfolded again(1)] again(3)]) auto
  qed
qed

section \<open>Handlers as moves\<close>

lemma core_simps [simp]:
  "core_of (billUsage m n w) = core_of w"
  "core_of (audited cx a b c w) = (w_jobs w, w_queue w, Suc (w_seed w))"
  "core_of (w\<lparr>w_jobs := t\<rparr>) = (t, w_queue w, w_seed w)"
  by (simp_all add: core_of_def)

lemma tick: "n \<le> n' \<Longrightarrow> move uuid (t, q, n) (t, q, n')"
  using quiet [of "\<lambda>r. r" n n' uuid t q "\<lambda>r. False"] by (simp add: keeps_identity_def update_where_def)

abbreviation moves_of :: "request \<Rightarrow> world \<Rightarrow> world \<Rightarrow> bool" where
  "moves_of cx w w' \<equiv> (move (cx_uuid cx))\<^sup>*\<^sup>* (core_of w) (core_of w')"

lemma moves_audited: "moves_of cx w w' \<Longrightarrow> moves_of cx w (audited cx a b c w')"
  by (erule rtranclp.rtrancl_into_rtrancl) (simp add: core_of_def tick)

lemma enqueue_sent:
  "enqueueDispatch cx m w = (res, w') \<Longrightarrow>
   w_jobs w' = w_jobs w \<and> w_seed w' = w_seed w
   \<and> sent (msg_job m) (msg_seq m) (w_queue w) (w_queue w')"
  by (auto simp add: enqueueDispatch_def sent_def split: if_splits)

lemma moves_create_workloads:
  "create_workloads cx uid user upn wls created w = (res, w') \<Longrightarrow> moves_of cx w w'"
proof (induction wls arbitrary: created w)
  case Nil
  then show ?case by simp
next
  case (Cons wl wls)
  obtain jid seq jobs' where create:
    "create_job (cx_uuid cx (w_seed w)) uid wl 1 (cx_now cx) (w_jobs w) = ((jid, seq), jobs')"
    by (metis surj_pair)
  define msg where "msg = \<lparr>msg_job = jid, msg_user = uid, msg_workload = wl,
      msg_source_email = source_email user, msg_target_upn = upn,
      msg_include_archive = include_archive user, msg_pass = Full, msg_seq = seq\<rparr>"
  define w2 where "w2 = billUsage 1 0 (w\<lparr>w_seed := Suc (w_seed w), w_jobs := jobs'\<rparr>)"
  obtain r3 w3 where enq: "enqueueDispatch cx msg w2 = (r3, w3)" by fastforce
  have "move (cx_uuid cx) (core_of w) (core_of w3)"
    using create enqueue_sent [OF enq] unfolding core_of_def
    by (auto simp add: w2_def msg_def intro: move.create)
  moreover have "moves_of cx w3 w'"
  proof (cases r3)
    case (Inl e)
    with Cons.prems enq create show ?thesis by (simp add: draw_uuid_def msg_def w2_def)
  next
    case (Inr u)
    with Cons.prems enq create show ?thesis
      by (intro Cons.IH) (simp add: draw_uuid_def msg_def w2_def)
  qed
  ultimately show ?case by (rule converse_rtranclp_into_rtranclp)
qed

lemma moves_create_users:
  "create_users cx uids created w = (res, w') \<Longrightarrow> moves_of cx w w'"
proof (induction uids arbitrary: created w)
  case Nil
  then show ?case by simp
next
  case (Cons uid uids)
  show ?case
  proof (cases "user_by_id uid (w_users w)")
    case None
    with Cons show ?thesis by simp
  next
    case (Some user)
    let ?upn = "coalesce (target_upn user) (target_email user)" and ?wls = "selected_workloads user"
    show ?thesis
    proof (cases "\<not> truthy ?upn \<or> mapping_status user = Invalid \<or> ?wls = []")
      case True
      with Some Cons show ?thesis by (auto simp add: Let_def)
    next
      case False
      obtain r1 w1 where run: "create_workloads cx uid user (the ?upn) ?wls created w = (r1, w1)"
        by fastforce
      have first: "moves_of cx w w1" by (rule moves_create_workloads [OF run])
      show ?thesis
      proof (cases r1)
        case (Inl e)
        with Some False Cons.prems run first show ?thesis by (simp add: Let_def)
      next
        case (Inr created')
        with Some False Cons.prems run have "moves_of cx (audited cx Job_start (Some (source_email user))
            (Some (js ''workloads: '' @ join (js '', '') (map workload_text ?wls))) w1) w'"
          by (intro Cons.IH [of created']) (simp add: Let_def)
        with moves_audited [OF first] show ?thesis by (rule rtranclp_trans)
      qed
    qed
  qed
qed

text \<open>One handler call, or any step that leaves jobs and queue alone.\<close>

inductive control_step :: "(nat \<Rightarrow> js_string) \<Rightarrow> world \<Rightarrow> world \<Rightarrow> bool" for uuid where
  post: "cx_uuid cx = uuid \<Longrightarrow> control_step uuid w (snd (post_jobs cx ids w))"
| cancel: "cx_uuid cx = uuid \<Longrightarrow> control_step uuid w (snd (cancel_job cx jid w))"
| retry: "cx_uuid cx = uuid \<Longrightarrow> control_step uuid w (snd (retry_job cx jid w))"
| delta: "cx_uuid cx = uuid \<Longrightarrow> control_step uuid w (snd (delta_job cx jid w))"
| status: "cx_uuid cx = uuid \<Longrightarrow> control_step uuid w (snd (vm_status cx jid sb w))"
| progress: "cx_uuid cx = uuid \<Longrightarrow> control_step uuid w (snd (vm_progress ev cx jid pb w))"
| checkpoint: "cx_uuid cx = uuid \<Longrightarrow> control_step uuid w (snd (vm_checkpoint cx jid cb w))"
| remove: "cx_uuid cx = uuid \<Longrightarrow> control_step uuid w (snd (delete_user cx uid w))"
| other: "w_jobs w' = w_jobs w \<Longrightarrow> w_queue w' = w_queue w \<Longrightarrow> w_seed w \<le> w_seed w' \<Longrightarrow>
    control_step uuid w w'"

lemma moves_refl_audited: "moves_of cx w (audited cx a b c w)"
  by (rule moves_audited) simp

lemma moves_update:
  "keeps_identity f 0 \<Longrightarrow> moves_of cx w (billUsage m n (w\<lparr>w_jobs := update_where p f (w_jobs w)\<rparr>))"
  unfolding core_simps unfolding core_of_def by (rule r_into_rtranclp, rule quiet) simp_all

lemma job_by_id_row:
  "job_by_id jid us t = Some j \<Longrightarrow> \<exists>r. lookup_by jr_id jid t = Some r \<and> job_id j = jid"
  by (auto simp add: job_by_id_def join_job_def job_of_row_def bind_eq_Some_conv dest: lookup_by_Some)

lemma moves_again:
  assumes "job_by_id jid us (w_jobs w) = Some j" and f: "keeps_identity f 1"
    and run: "enqueueDispatch cx (redispatch j archive pass
        (seq_of jid (update_where (\<lambda>r. jr_id r = jid) f (w_jobs w))))
      (billUsage 1 0 (w\<lparr>w_jobs := update_where (\<lambda>r. jr_id r = jid) f (w_jobs w)\<rparr>)) = (res, w')"
  shows "moves_of cx w w'"
proof -
  obtain r where r: "lookup_by jr_id jid (w_jobs w) = Some r" "job_id j = jid"
    using job_by_id_row [OF assms(1)] by blast
  have "lookup_by jr_id jid (update_where (\<lambda>r. jr_id r = jid) f (w_jobs w)) = Some (f r)"
    using lookup_by_update_same [of jr_id jid f "w_jobs w"] f r by (simp add: keeps_identity_def)
  then have "seq_of jid (update_where (\<lambda>r. jr_id r = jid) f (w_jobs w)) = jr_dispatch_seq r + 1"
    using f by (simp add: seq_of_def keeps_identity_def)
  with enqueue_sent [OF run] r(2) have "w_jobs w' = update_where (\<lambda>r. jr_id r = jid) f (w_jobs w)"
    "w_seed w' = w_seed w" "sent jid (jr_dispatch_seq r + 1) (w_queue w) (w_queue w')"
    by (simp_all add: redispatch_def)
  with move.again [OF f r(1), of "w_queue w" "w_queue w'" "cx_uuid cx" "w_seed w"] show ?thesis
    unfolding core_of_def by (intro r_into_rtranclp) simp
qed

lemma moves_cancel: "moves_of cx w (snd (cancel_job cx jid w))"
proof (cases "job_by_id jid (w_users w) (w_jobs w)")
  case (Some j)
  then show ?thesis
    unfolding cancel_job_def updateStatus_def
    by (simp add: Let_def del: core_simps)
      (intro moves_audited moves_update, simp add: keeps_identity_def job_key_def)
qed (simp add: cancel_job_def)

lemma moves_retry: "moves_of cx w (snd (retry_job cx jid w))"
proof (cases "job_by_id jid (w_users w) (w_jobs w)")
  case (Some j)
  show ?thesis
  proof (cases "job_status j \<in> set RETRYABLE")
    case True
    define f :: "job_row \<Rightarrow> job_row" where "f = (\<lambda>r. r\<lparr>jr_status := Queued, jr_attempts := jr_attempts r + 1,
        jr_dispatch_seq := jr_dispatch_seq r + 1, jr_error_class := None,
        jr_error_detail := None, jr_updated_at := cx_now cx\<rparr>)"
    have f: "keeps_identity f 1" by (simp add: keeps_identity_def f_def job_key_def)
    obtain res w2 where run: "enqueueDispatch cx (redispatch j (archive_of (job_user j) (w_users w)) Full
        (seq_of jid (update_where (\<lambda>r. jr_id r = jid) f (w_jobs w))))
      (billUsage 1 0 (w\<lparr>w_jobs := update_where (\<lambda>r. jr_id r = jid) f (w_jobs w)\<rparr>)) = (res, w2)"
      by fastforce
    have "moves_of cx w w2" by (rule moves_again [OF Some f run])
    with Some True run show ?thesis
      by (cases res)
        (simp_all add: retry_job_def prepareRetry_def f_def [symmetric] Let_def moves_audited del: core_simps)
  qed (simp add: Some retry_job_def)
qed (simp add: retry_job_def)

lemma moves_delta: "moves_of cx w (snd (delta_job cx jid w))"
proof (cases "job_by_id jid (w_users w) (w_jobs w)")
  case (Some j)
  define f :: "job_row \<Rightarrow> job_row" where "f = (\<lambda>r. r\<lparr>jr_status := Delta_pending, jr_dispatch_seq := jr_dispatch_seq r + 1,
      jr_delta_passes := jr_delta_passes r + 1, jr_updated_at := cx_now cx\<rparr>)"
  have f: "keeps_identity f 1" by (simp add: keeps_identity_def f_def job_key_def)
  obtain res w2 where run: "enqueueDispatch cx (redispatch j (archive_of (job_user j) (w_users w)) Delta
      (seq_of jid (update_where (\<lambda>r. jr_id r = jid) f (w_jobs w))))
    (billUsage 1 0 (w\<lparr>w_jobs := update_where (\<lambda>r. jr_id r = jid) f (w_jobs w)\<rparr>)) = (res, w2)"
    by fastforce
  have "moves_of cx w w2" by (rule moves_again [OF Some f run])
  with Some run show ?thesis
    by (cases res)
      (simp_all add: delta_job_def prepareDelta_def f_def [symmetric] Let_def moves_audited del: core_simps)
qed (simp add: delta_job_def)

lemma moves_control:
  assumes "control_step uuid w w'"
  shows "(move uuid)\<^sup>*\<^sup>* (core_of w) (core_of w')"
  using assms
proof cases
  case (post cx ids)
  have run: "moves_of cx w (snd (create_users cx uids [] w))" for uids
    using moves_create_users [of cx uids "[]" w] by (metis prod.collapse)
  have "moves_of cx w (snd (post_jobs cx ids w))"
    by (auto simp add: post_jobs_def run simp del: create_users.simps
        split: option.split array_field.split list.split)
  with post show ?thesis by simp
next
  case (cancel cx jid)
  with moves_cancel [of cx w jid] show ?thesis by simp
next
  case (retry cx jid)
  with moves_retry [of cx w jid] show ?thesis by simp
next
  case (delta cx jid)
  with moves_delta [of cx w jid] show ?thesis by simp
next
  case (status cx jid sb)
  have "moves_of cx w (snd (vm_status cx jid sb w))"
    unfolding vm_status_def with_job_def updateStatus_def
    by (auto split: option.split simp del: core_simps intro!: moves_update
        simp add: keeps_identity_def job_key_def)
  with status show ?thesis by simp
next
  case (progress cx ev jid pb)
  have "moves_of cx w (snd (vm_progress ev cx jid pb w))"
    unfolding vm_progress_def updateProgress_def
    by (auto split: option.split simp del: core_simps intro!: moves_update
        simp add: keeps_identity_def job_key_def apply_progress_def)
  with progress show ?thesis by simp
next
  case (checkpoint cx jid cb)
  have "moves_of cx w (snd (vm_checkpoint cx jid cb w))"
    unfolding vm_checkpoint_def with_job_def updateCheckpoint_def
    by (auto split: option.split simp del: core_simps intro!: moves_update
        simp add: keeps_identity_def job_key_def)
  with checkpoint show ?thesis by simp
next
  case (remove cx uid)
  have "moves_of cx w (snd (delete_user cx uid w))"
  proof (cases "user_by_id uid (w_users w)")
    case (Some u)
    have "moves_of cx w (billUsage 1 0 (cascade_user uid w))"
      unfolding core_simps by (rule r_into_rtranclp) (simp add: core_of_def cascade_user_def Let_def gone)
    with Some show ?thesis by (simp add: delete_user_def moves_audited del: core_simps)
  qed (simp add: delete_user_def)
  with remove show ?thesis by simp
next
  case other
  then show ?thesis unfolding core_of_def by (intro r_into_rtranclp) (simp add: tick)
qed

lemma control_reach:
  "(control_step uuid)\<^sup>*\<^sup>* w w' \<Longrightarrow> (move uuid)\<^sup>*\<^sup>* (core_of w) (core_of w')"
  by (induction rule: rtranclp_induct) (auto dest: moves_control)

text \<open>
  C4. The dispatch protocol, for any sequence of handler calls of the UI and the engine,
  failed queue sends and deleted users included, while ids are never drawn twice: there is
  at most one job per user and workload, job ids are unique, no two messages ever sent
  carry the same job and sequence number, and no message is ahead of its job's row, so
  that the engine can drop every message that is behind it.
\<close>

theorem dispatch_protocol:
  assumes "(control_step uuid)\<^sup>*\<^sup>* w w'" and "inj uuid" and "w_jobs w = []" and "w_queue w = []"
  shows "distinct (map (\<lambda>r. (jr_user r, jr_workload r)) (w_jobs w'))
    \<and> distinct (map jr_id (w_jobs w'))
    \<and> distinct (map (\<lambda>m. (msg_job m, msg_seq m)) (w_queue w'))
    \<and> (\<forall>m \<in> set (w_queue w'). \<forall>r \<in> set (w_jobs w').
         jr_id r = msg_job m \<longrightarrow> msg_seq m \<le> jr_dispatch_seq r)"
proof -
  have "dispatch_ok uuid (core_of w)" using assms(2-4) by (simp add: dispatch_ok_def core_of_def)
  with moves.inv_steps [OF control_reach [OF assms(1)]] have "dispatch_ok uuid (core_of w')" by blast
  then have ok: "dispatch_ok uuid (w_jobs w', w_queue w', w_seed w')" by (simp add: core_of_def)
  from dispatch_okD [OF ok] show ?thesis
    by (auto simp add: unique_by_def ahead_def job_key_def [abs_def] message_key_def [abs_def])
qed

definition queue_user :: migration_user where
  "queue_user =
     \<lparr>mu_id = js ''u'', source_email = js ''a@old.example'', target_email = Some (js ''a@new.example''),
      target_upn = None, migrate_exchange = True, migrate_onedrive = True,
      auto_create_target = False, include_archive = False, mapping_status = Mapped,
      mu_created_at = 0\<rparr>"

definition numbered_request :: request where
  "numbered_request = \<lparr>cx_now = 0, cx_actor = js ''admin'', cx_uuid = (\<lambda>n. [n]), cx_send = (\<lambda>m. True)\<rparr>"

definition queue_world :: world where
  "queue_world = empty_world\<lparr>w_users := [queue_user]\<rparr>"

abbreviation posted :: world where
  "posted \<equiv> snd (post_jobs numbered_request (Some (Items [js ''u''])) queue_world)"

lemma posted_queue: "map (\<lambda>m. (msg_job m, msg_seq m)) (w_queue posted) = [([0], 1), ([1], 1)]"
  by (simp add: post_jobs_def queue_world_def empty_world_def user_by_id_def lookup_by_def
      queue_user_def selected_workloads_def draw_uuid_def create_job_def upsert_by_def
      new_job_def job_key_def numbered_request_def enqueueDispatch_def Let_def job_by_id_def)

theorem dispatch_protocol_witness:
  "w_queue posted \<noteq> [] \<and> distinct (map (\<lambda>m. (msg_job m, msg_seq m)) (w_queue posted))"
proof -
  have "control_step (\<lambda>n. [n]) queue_world posted"
    by (rule control_step.post) (simp add: numbered_request_def)
  then have "(control_step (\<lambda>n. [n]))\<^sup>*\<^sup>* queue_world posted" by blast
  from dispatch_protocol [OF this] posted_queue show ?thesis
    by (auto simp add: inj_def queue_world_def empty_world_def)
qed

section \<open>Retry, cancel and re-issue\<close>

text \<open>
  C25. Retry is offered for the four failure states only: in any other state the call is a
  conflict and changes nothing, and in a failure state, when the queue accepts, the job is
  queued again with one more attempt and exactly one message, which carries the new
  sequence number of the row.
\<close>

theorem retry_guard:
  assumes "lookup_by jr_id jid (w_jobs w) = Some r" and "user_by_id (jr_user r) (w_users w) = Some u"
    and "\<And>m. cx_send cx m"
  shows "if jr_status r \<in> {Auth_expired, Permission_revoked, Quota_exceeded, Failed}
    then (case retry_job cx jid w of (res, w') \<Rightarrow>
        res = Inr () \<and> (\<exists>m r'. w_queue w' = w_queue w @ [m]
          \<and> lookup_by jr_id jid (w_jobs w') = Some r' \<and> jr_status r' = Queued
          \<and> jr_attempts r' = jr_attempts r + 1 \<and> jr_dispatch_seq r' = jr_dispatch_seq r + 1
          \<and> msg_job m = jid \<and> msg_seq m = jr_dispatch_seq r' \<and> msg_pass m = Full))
    else retry_job cx jid w = (Inl (throw_text Conflict
      (js ''Job in status '' @ 39 # status_text (jr_status r) @ 39 # js '' is not retryable'')), w)"
proof -
  have j: "job_by_id jid (w_users w) (w_jobs w) = Some (job_of_row u r)"
    using assms(1,2) by (simp add: job_by_id_def join_job_def)
  have st: "job_status (job_of_row u r) = jr_status r" "job_id (job_of_row u r) = jid"
    using lookup_by_Some [OF assms(1)] by (simp_all add: job_of_row_def)
  show ?thesis
  proof (cases "jr_status r \<in> set RETRYABLE")
    case True
    have row: "lookup_by jr_id jid (snd (prepareRetry (cx_now cx) jid (w_jobs w))) =
        Some (r\<lparr>jr_status := Queued, jr_attempts := jr_attempts r + 1,
              jr_dispatch_seq := jr_dispatch_seq r + 1, jr_error_class := None,
              jr_error_detail := None, jr_updated_at := cx_now cx\<rparr>)"
      using assms(1) by (simp add: prepareRetry_def Let_def lookup_by_update_same)
    then have seq: "fst (prepareRetry (cx_now cx) jid (w_jobs w)) = jr_dispatch_seq r + 1"
      by (simp add: prepareRetry_def seq_of_def Let_def)
    from True j st row seq assms(3) show ?thesis
      by (auto simp add: retry_job_def split_beta Let_def enqueueDispatch_def redispatch_def RETRYABLE_def)
  next
    case False
    with j st show ?thesis by (simp add: retry_job_def RETRYABLE_def)
  qed
qed

definition failed_world :: world where
  "failed_world = queue_world\<lparr>w_jobs := [(new_job (js ''j'') (js ''u'') Exchange 1 0)\<lparr>jr_status := Failed\<rparr>]\<rparr>"

theorem retry_guard_witness:
  "fst (retry_job numbered_request (js ''j'') failed_world) = Inr ()
   \<and> length (w_queue (snd (retry_job numbered_request (js ''j'') failed_world))) = 1"
  using retry_guard [of "js ''j''" failed_world "(new_job (js ''j'') (js ''u'') Exchange 1 0)\<lparr>jr_status := Failed\<rparr>"
      queue_user numbered_request]
  by (auto simp add: failed_world_def queue_world_def empty_world_def lookup_by_def new_job_def
      user_by_id_def queue_user_def numbered_request_def split_beta)

text \<open>
  The target of a re-dispatch: the first dispatch of a user without a resolved UPN goes
  to the user's target address, but a retry and a delta pass of the same job read the
  joined column alone and carry the empty target.
\<close>

theorem redispatch_loses_target:
  "map msg_target_upn (w_queue posted) = [js ''a@new.example'', js ''a@new.example'']
   \<and> map msg_target_upn (w_queue (snd (retry_job numbered_request (js ''j'') failed_world))) = [[]]
   \<and> map msg_target_upn (w_queue (snd (delta_job numbered_request (js ''j'') failed_world))) = [[]]"
proof (intro conjI)
  show "map msg_target_upn (w_queue posted) = [js ''a@new.example'', js ''a@new.example'']"
    by (simp add: post_jobs_def queue_world_def empty_world_def user_by_id_def lookup_by_def
        queue_user_def selected_workloads_def draw_uuid_def create_job_def upsert_by_def
        new_job_def job_key_def numbered_request_def enqueueDispatch_def Let_def job_by_id_def)
  note unf = failed_world_def queue_world_def empty_world_def lookup_by_def new_job_def
      job_by_id_def join_job_def user_by_id_def queue_user_def numbered_request_def job_of_row_def
      RETRYABLE_def prepareRetry_def prepareDelta_def seq_of_def update_where_def enqueueDispatch_def
      redispatch_def
  show "map msg_target_upn (w_queue (snd (retry_job numbered_request (js ''j'') failed_world))) = [[]]"
    by (simp add: retry_job_def unf Let_def)
  show "map msg_target_upn (w_queue (snd (delta_job numbered_request (js ''j'') failed_world))) = [[]]"
    by (simp add: delta_job_def unf Let_def)
qed

text \<open>
  Cancelling is not final: a status write of the engine has no guard on the current
  state, so it takes a job the operator has cancelled back to any state it names, and
  clears nothing of the completion time the cancellation stamped.
\<close>

theorem cancel_is_overwritten:
  assumes "lookup_by jr_id jid (w_jobs w) = Some r" and "user_by_id (jr_user r) (w_users w) = Some u"
    and "su_status b = Some s" and "s \<noteq> []"
  shows "case cancel_job cx jid w of (res, w1) \<Rightarrow>
    res = Inr () \<and> map_option jr_status (lookup_by jr_id jid (w_jobs w1)) = Some Cancelled
    \<and> (case vm_status cx2 jid (Some b) w1 of (res2, w2) \<Rightarrow>
         res2 = Inr ()
         \<and> map_option jr_status (lookup_by jr_id jid (w_jobs w2)) = Some (status_of_text s)
         \<and> map_option jr_completed_at (lookup_by jr_id jid (w_jobs w2)) =
             Some (Some (if status_of_text s \<in> set TERMINAL_STATUSES then cx_now cx2 else cx_now cx)))"
proof -
  have j: "job_by_id jid (w_users w) (w_jobs w) = Some (job_of_row u r)"
    using assms(1,2) by (simp add: job_by_id_def join_job_def)
  have up: "lookup_by jr_id jid (updateStatus now jid st ec ed t) =
      map_option (\<lambda>r. r\<lparr>jr_status := st, jr_error_class := ec, jr_error_detail := ed,
             jr_started_at := coalesce (jr_started_at r)
               (if st \<in> {Provisioning, Running} then Some now else jr_started_at r),
             jr_completed_at := (if st \<in> set TERMINAL_STATUSES then Some now else jr_completed_at r),
             jr_updated_at := now\<rparr>) (lookup_by jr_id jid t)" for now st ec ed t
    unfolding updateStatus_def by (rule lookup_by_update_same) simp
  have "Cancelled \<in> set TERMINAL_STATUSES" by (simp add: TERMINAL_STATUSES_def)
  with j assms show ?thesis
    by (simp add: cancel_job_def vm_status_def with_job_def getInternal_def up Let_def)
qed

definition engine_says_running :: status_update where
  "engine_says_running = \<lparr>su_status = Some (js ''running''), su_error_class = Absent, su_error_detail = Absent\<rparr>"

theorem cancel_is_overwritten_witness:
  "case vm_status numbered_request (js ''j'') (Some engine_says_running)
      (snd (cancel_job numbered_request (js ''j'') failed_world)) of (res, w2) \<Rightarrow>
    map_option jr_status (lookup_by jr_id (js ''j'') (w_jobs w2)) = Some (status_of_text (js ''running''))"
  using cancel_is_overwritten [of "js ''j''" failed_world
      "(new_job (js ''j'') (js ''u'') Exchange 1 0)\<lparr>jr_status := Failed\<rparr>" queue_user
      engine_says_running "js ''running''" numbered_request numbered_request]
  by (simp add: failed_world_def queue_world_def empty_world_def lookup_by_def new_job_def
      user_by_id_def queue_user_def engine_says_running_def split_beta)

text \<open>
  Re-issuing a job wipes its run: creating a job for a user and workload that already
  have one leaves a row that differs from a brand new one only in its id, its creation
  time, its sequence number, which is one higher, and the text of its last phase, which is
  kept.
\<close>

theorem reissue_starts_clean:
  assumes "lookup_by job_key (uid, wl) t = Some r"
  shows "case create_job rid uid wl seq now t of ((jid, seq'), t') \<Rightarrow>
    jid = jr_id r \<and> seq' = jr_dispatch_seq r + 1 \<and> length t' = length t
    \<and> lookup_by job_key (uid, wl) t' =
        Some ((new_job jid uid wl seq' now)
          \<lparr>jr_created_at := jr_created_at r, jr_phase_text := jr_phase_text r\<rparr>)"
proof -
  have key: "job_key r = (uid, wl)" using lookup_by_Some [OF assms] by simp
  have "job_key (reissue now x) = job_key x" for x by (simp add: reissue_def job_key_def)
  then have "lookup_by job_key (uid, wl) (upsert_by job_key (reissue now) (new_job rid uid wl seq now) t)
      = Some (reissue now r)"
    using lookup_by_upsert_same [of job_key "new_job rid uid wl seq now" "reissue now" t] assms
    by (simp add: job_key_def new_job_def)
  moreover have "(uid, wl) \<in> job_key ` set t" using lookup_by_Some [OF assms] by force
  ultimately show ?thesis
    using key
    by (simp add: create_job_def Let_def upsert_by_def length_update_where)
      (simp add: reissue_def new_job_def job_key_def)
qed

theorem reissue_starts_clean_witness:
  "fst (create_job (js ''x'') (js ''u'') Exchange 1 5 (w_jobs failed_world)) = (js ''j'', 2)"
  using reissue_starts_clean [where uid = "js ''u''" and wl = Exchange and t = "w_jobs failed_world"
      and r = "(new_job (js ''j'') (js ''u'') Exchange 1 0)\<lparr>jr_status := Failed\<rparr>"
      and rid = "js ''x''" and seq = 1 and now = 5]
  by (auto simp add: failed_world_def lookup_by_def job_key_def new_job_def split_beta prod_eq_iff)

end
