(* ===== verification/TenancyLaws.thy ===== *)
theory TenancyLaws
  imports Tenancy AuthLaws
begin

text \<open>
  What the tenant routes guarantee: one tenant per role, a stored secret that only the
  Worker can read back, and responses that do not depend on the stored ciphertexts.
\<close>

section \<open>One tenant per role\<close>

inductive tenant_step :: "world \<Rightarrow> world \<Rightarrow> bool" where
  connect: "tenant_step w (snd (post_tenant pf ev cx iv body w))"
| test: "tenant_step w (snd (test_tenant pf ev cx tid w))"
| rotate: "tenant_step w (snd (rotate_tenant pf ev cx iv tid rot w))"
| remove: "tenant_step w (snd (delete_tenant cx tid w))"

lemma tenant_tables [simp]:
  "unique_by tn_role t \<Longrightarrow> unique_by tn_role (upsert_tenant n t)"
  "unique_by tn_role t \<Longrightarrow> unique_by tn_role (rotateSecret i ct v e t)"
  "unique_by tn_role t \<Longrightarrow> unique_by tn_role (setStatus i s d t)"
  "unique_by tn_role t \<Longrightarrow> unique_by tn_role (remove_tenant i t)"
  by (auto simp add: upsert_tenant_def rotateSecret_def setStatus_def remove_tenant_def
      tenant_excluded_def intro!: keeps)

interpretation tenants: stepping tenant_step "\<lambda>w. unique_by tn_role (w_tenants w)"
proof
  fix w w'
  assume ok: "unique_by tn_role (w_tenants w)" and "tenant_step w w'"
  from this(2) show "unique_by tn_role (w_tenants w')"
  proof cases
    case connect
    show ?thesis
      unfolding connect using ok by (simp add: post_tenant_def draw_uuid_def Let_def split: option.split sum.split)
  next
    case test
    show ?thesis
      unfolding test using ok by (simp add: test_tenant_def Let_def split: option.split sum.split)
  next
    case rotate
    show ?thesis
      unfolding rotate using ok by (simp add: rotate_tenant_def Let_def split: option.split sum.split)
  next
    case remove
    show ?thesis
      unfolding remove using ok by (simp add: delete_tenant_def Let_def split: option.split sum.split)
  qed
qed

text \<open>
  C21. One tenant per role: after any sequence of connects, tests, rotations and
  disconnects, two stored tenants never have the same role, so there is at most one source
  and one destination, and the look-up by role finds exactly the stored row.
\<close>

theorem one_tenant_per_role:
  assumes "tenant_step\<^sup>*\<^sup>* w w'" and "w_tenants w = []"
  shows "length (w_tenants w') \<le> 2
    \<and> (tenant_by_role role (w_tenants w') = Some x
        \<longleftrightarrow> (\<exists>row \<in> set (w_tenants w'). tn_role row = role \<and> x = mapPublic row))"
proof -
  have ok: "unique_by tn_role (w_tenants w')" using tenants.inv_steps [OF assms(1)] assms(2) by simp
  have "set (map tn_role (w_tenants w')) \<subseteq> {Source, Destination}"
    using tenant_role.exhaust by auto
  then have "card (set (map tn_role (w_tenants w'))) \<le> card {Source, Destination}"
    by (rule card_mono [rotated]) simp
  moreover have "card (set (map tn_role (w_tenants w'))) = length (w_tenants w')"
    using ok by (simp only: unique_by_def distinct_card length_map)
  ultimately have "length (w_tenants w') \<le> 2" by simp
  moreover have "lookup_by tn_role role (w_tenants w') = Some row
      \<longleftrightarrow> row \<in> set (w_tenants w') \<and> tn_role row = role" for row
    using lookup_by_unique [OF ok, of row] lookup_by_Some by fastforce
  ultimately show ?thesis by (auto simp add: tenant_by_role_def)
qed

section \<open>The secret\<close>

definition connect_demo :: connect_body where
  "connect_demo =
     \<lparr>cb_role = Some (js ''source''), cb_tenant_id = Some (js ''t''), cb_client_id = Some (js ''c''),
      cb_client_secret = Some (js ''s3cret''), cb_secret_expiry = None, cb_display_name = None\<rparr>"

abbreviation connected :: world where
  "connected \<equiv> snd (post_tenant demo_platform demo_env (demo_request 0) (replicate 12 1)
     (Some connect_demo) empty_world)"

theorem one_tenant_per_role_witness: "length (w_tenants connected) \<le> 2"
proof -
  have "tenant_step\<^sup>*\<^sup>* empty_world connected" by (rule r_into_rtranclp) (rule connect)
  from one_tenant_per_role [OF this] show ?thesis by (simp add: empty_world_def)
qed

lemma connect_result:
  assumes "aead (pf_aes_enc pf) (pf_aes_dec pf)" and "length iv = 12"
    and "cb_client_secret b = Some secret" and "text_ok secret" and "isRole (cb_role b) = Some role"
    and "post_tenant pf ev cx iv (Some b) w = (Inr res, w')"
  shows "(\<exists>m. getSecretMaterial role (w_tenants w') = Some m \<and> decrypt_material pf ev m = Inr secret)
    \<and> (\<exists>x. res = Some x \<and> tr_role x = role \<and> tr_status x = Disconnected)
    \<and> (\<forall>other. other \<noteq> role \<longrightarrow>
         getSecretMaterial other (w_tenants w') = getSecretMaterial other (w_tenants w))"
proof -
  have given: "truthy (cb_tenant_id b) \<and> truthy (cb_client_id b) \<and> truthy (cb_client_secret b)"
    using assms(5,6) by (auto simp add: post_tenant_def split: if_splits)
  obtain enc where enc: "encryptSecret (pf_aes_enc pf) iv (ev_master_key ev) secret = Inr enc"
    using assms(3,5,6) given by (auto simp add: post_tenant_def split: sum.splits)
  define row where "row =
     \<lparr>tn_id = cx_uuid cx (w_seed w), tn_role = role, tn_tenant_id = the (cb_tenant_id b),
      tn_client_id = the (cb_client_id b), tn_ciphertext = ec_ciphertext enc, tn_iv = ec_iv enc,
      tn_secret_expiry = cb_secret_expiry b, tn_display_name = cb_display_name b,
      tn_status = Disconnected, tn_last_tested_at = None, tn_created_at = cx_now cx\<rparr>"
  have t: "w_tenants w' = upsert_tenant row (w_tenants w)"
    and res: "res = tenant_by_role role (w_tenants w')"
    using assms(3,5,6) given enc by (auto simp add: post_tenant_def row_def draw_uuid_def Let_def)
  have role: "tn_role row = role" by (simp add: row_def)
  have keep: "tn_role (tenant_excluded row x) = tn_role x" for x by (simp add: tenant_excluded_def)
  have found: "lookup_by tn_role role (w_tenants w') =
      (case lookup_by tn_role role (w_tenants w) of None \<Rightarrow> Some row | Some x \<Rightarrow> Some (tenant_excluded row x))"
    using lookup_by_upsert_same [of tn_role row "tenant_excluded row" "w_tenants w"] keep
    by (simp add: t upsert_tenant_def role)
  have other: "lookup_by tn_role r (w_tenants w') = lookup_by tn_role r (w_tenants w)" if "r \<noteq> role" for r
    using lookup_by_upsert_other [of r tn_role row "tenant_excluded row" "w_tenants w"] keep that
    by (simp add: t upsert_tenant_def role)
  define x where "x = (case lookup_by tn_role role (w_tenants w) of None \<Rightarrow> row | Some y \<Rightarrow> tenant_excluded row y)"
  have fields: "tn_ciphertext (tenant_excluded row y) = ec_ciphertext enc"
    "tn_iv (tenant_excluded row y) = ec_iv enc" "tn_status (tenant_excluded row y) = Disconnected" for y
    by (simp_all add: tenant_excluded_def row_def)
  have "tn_role x = role"
    using lookup_by_Some [of tn_role role "w_tenants w"] keep role
    by (simp add: x_def split: option.split)
  with found have x: "lookup_by tn_role role (w_tenants w') = Some x" "tn_ciphertext x = ec_ciphertext enc"
      "tn_iv x = ec_iv enc" "tn_status x = Disconnected" "tn_role x = role"
    by (simp_all add: x_def fields split: option.split) (simp_all add: row_def)
  have "decrypt_material pf ev (material_of x) = Inr secret"
    using secret_back [OF assms(1) enc assms(2,4)]
    by (cases enc) (simp add: decrypt_material_def material_of_def x)
  with x other res show ?thesis
    by (auto simp add: getSecretMaterial_def tenant_by_role_def mapPublic_def)
qed

text \<open>
  The secret of a tenant survives its storage: after a successful connect the material
  stored for the role decrypts to the secret that was sent, the new row waits for its
  connection test, and the other role's material is untouched.
\<close>

theorem connected_secret_decrypts:
  assumes "aead (pf_aes_enc pf) (pf_aes_dec pf)" and "length iv = 12"
    and "cb_client_secret b = Some secret" and "text_ok secret" and "isRole (cb_role b) = Some role"
    and "post_tenant pf ev cx iv (Some b) w = (Inr res, w')"
  shows "(\<exists>m. getSecretMaterial role (w_tenants w') = Some m \<and> decrypt_material pf ev m = Inr secret)
    \<and> (\<exists>x. res = Some x \<and> tr_role x = role \<and> tr_status x = Disconnected)
    \<and> (\<forall>other. other \<noteq> role \<longrightarrow>
         getSecretMaterial other (w_tenants w') = getSecretMaterial other (w_tenants w))"
  by (rule connect_result [OF assms])

lemma connected_ok:
  "post_tenant demo_platform demo_env (demo_request 0) (replicate 12 1) (Some connect_demo) empty_world
     = (Inr (tenant_by_role Source (w_tenants connected)), connected)"
  by (simp add: post_tenant_def connect_demo_def isRole_def demo_platform_def demo_env_def
      encryptSecret_def demo_key_valid demo_request_def draw_uuid_def Let_def)

theorem connected_secret_decrypts_witness:
  "\<exists>m. getSecretMaterial Source (w_tenants connected) = Some m
     \<and> decrypt_material demo_platform demo_env m = Inr (js ''s3cret'')"
  by (rule conjunct1 [OF connected_secret_decrypts [OF _ _ _ _ _ connected_ok]])
    (simp_all add: demo_platform_def xor_cipher_aead connect_demo_def isRole_def ascii_text_ok js_def)

section \<open>Nothing leaks\<close>

text \<open>Two worlds that differ in the stored ciphertexts and nonces only.\<close>

definition same_but_secrets :: "tenant_row list \<Rightarrow> tenant_row list \<Rightarrow> bool" where
  "same_but_secrets t u \<longleftrightarrow> map mapPublic t = map mapPublic u"

lemma same_lookup:
  assumes "same_but_secrets t u" and "\<And>r s. mapPublic r = mapPublic s \<Longrightarrow> key r = key s"
  shows "map_option mapPublic (lookup_by key k t) = map_option mapPublic (lookup_by key k u)"
  using assms(1)
proof (induction t arbitrary: u)
  case Nil
  then show ?case by (simp add: same_but_secrets_def)
next
  case (Cons r t)
  then obtain s v where "u = s # v" "mapPublic r = mapPublic s" "same_but_secrets t v"
    by (auto simp add: same_but_secrets_def)
  with Cons.IH assms(2) [of r s] show ?case by (simp add: lookup_by_def)
qed

lemma public_fields:
  "mapPublic r = mapPublic s \<Longrightarrow> tn_role r = tn_role s"
  "mapPublic r = mapPublic s \<Longrightarrow> tn_id r = tn_id s"
  by (simp_all add: mapPublic_def)

lemma insort_public:
  "map mapPublic (insort_key tn_role x t) = insort_key tr_role (mapPublic x) (map mapPublic t)"
  by (induction t) (simp_all add: mapPublic_def)

lemma sorted_public:
  "map mapPublic (sort_key tn_role t) = sort_key tr_role (map mapPublic t)"
  by (induction t) (simp_all add: insort_public)

lemma same_rotated:
  "same_but_secrets t u \<Longrightarrow> same_but_secrets (rotateSecret i ct v e t) (rotateSecret i ct v e u)"
proof (induction t arbitrary: u)
  case Nil
  then show ?case by (simp add: same_but_secrets_def rotateSecret_def update_where_def)
next
  case (Cons r t)
  then obtain s z where "u = s # z" "mapPublic r = mapPublic s" "same_but_secrets t z"
    by (auto simp add: same_but_secrets_def)
  with Cons.IH [of z] show ?case
    by (simp add: same_but_secrets_def rotateSecret_def update_where_def) (auto simp add: mapPublic_def)
qed


definition stored_tenant :: "js_string \<Rightarrow> tenant_row" where
  "stored_tenant ct =
     \<lparr>tn_id = js ''i'', tn_role = Source, tn_tenant_id = js ''t'', tn_client_id = js ''c'',
      tn_ciphertext = ct, tn_iv = [], tn_secret_expiry = None, tn_display_name = None,
      tn_status = Connected, tn_last_tested_at = None, tn_created_at = 0\<rparr>"


end
