(* ===== verification/ProvisionLaws.thy ===== *)
theory ProvisionLaws
  imports Provision AuthLaws
begin

text \<open>
  What provisioning and the password download guarantee: every requested user is reported
  once, an account is created only for a user marked for it, the password in the file is
  the one the account was created with, and the file can be had once.
\<close>

section \<open>The one-time download\<close>

lemma awaiting_marked:
  "ids \<noteq> [] \<Longrightarrow> \<forall>r \<in> set t. awaiting r \<longrightarrow> cr_id r \<in> set ids \<Longrightarrow>
   filter awaiting (markDownloadedAndPurge ids now t) = []"
  by (auto simp add: markDownloadedAndPurge_def awaiting_def filter_empty_conv)

lemma pending_ids: "awaiting r \<Longrightarrow> r \<in> set t \<Longrightarrow> cr_id r \<in> set (map pc_id (listPending t))"
  by (force simp add: listPending_def pending_of_def)

lemma listPending_Nil: "listPending t = [] \<longleftrightarrow> filter awaiting t = []"
  unfolding listPending_def by (metis length_0_conv length_map length_sort)

text \<open>
  C18. The file is delivered once: a download that succeeds leaves no credential pending,
  has emptied the ciphertext and the nonce of every one it delivered, and any later
  download, with nothing provisioned in between, finds nothing; a download that fails,
  because it is not acknowledged or a secret does not decrypt, changes nothing and can be
  repeated.
\<close>

theorem passwords_delivered_once:
  "case download_passwords pf ev cx ack w of
     (Inl e, w') \<Rightarrow> w' = w
   | (Inr csv, w') \<Rightarrow>
       ack = Some (js ''true'') \<and> get_passwords w' = 0
       \<and> list_all2 (\<lambda>r r'. if awaiting r then cr_ciphertext r' = [] \<and> cr_iv r' = []
              \<and> cr_downloaded_at r' = Some (cx_now cx) else cr_target_upn r' = cr_target_upn r)
           (w_creds w) (w_creds w')
       \<and> download_passwords pf2 ev2 cx2 (Some (js ''true'')) w' =
           (Inl (err Not_found ''No temporary passwords are pending download''), w')"
proof (cases "download_passwords pf ev cx ack w")
  case (Pair res w')
  show ?thesis
  proof (cases res)
    case (Inl e)
    with Pair show ?thesis by (auto simp add: download_passwords_def Let_def split: if_splits sum.splits)
  next
    case (Inr csv)
    let ?ids = "map pc_id (listPending (w_creds w))"
    have ack: "ack = Some (js ''true'')" and some: "listPending (w_creds w) \<noteq> []"
      and creds: "w_creds w' = markDownloadedAndPurge ?ids (cx_now cx) (w_creds w)"
      using Pair Inr by (auto simp add: download_passwords_def Let_def split: if_splits sum.splits)
    have none: "filter awaiting (w_creds w') = []"
      unfolding creds using some pending_ids by (intro awaiting_marked) auto
    have "list_all2 (\<lambda>r r'. if awaiting r then cr_ciphertext r' = [] \<and> cr_iv r' = []
              \<and> cr_downloaded_at r' = Some (cx_now cx) else cr_target_upn r' = cr_target_upn r)
           (w_creds w) (w_creds w')"
      unfolding creds markDownloadedAndPurge_def update_where_def list_all2_conv_all_nth
      using some pending_ids by auto
    with Pair Inr ack none show ?thesis
      by (simp add: get_passwords_def countPending_def download_passwords_def listPending_Nil)
  qed
qed

section \<open>The password in the file\<close>

lemma password_text_ok:
  assumes "generateTempPassword n bytes = Some (pw, rest)"
  shows "text_ok pw"
proof (rule ascii_text_ok)
  have "list_all (\<lambda>c. c < 128) ALL_CHARS"
    by (simp add: ALL_CHARS_def UPPER_def LOWER_def DIGIT_def SYMBOL_def js_def)
  with password_subset [OF assms] show "list_all (\<lambda>c. c < 128) pw" by (auto simp add: list_all_iff)
qed


text \<open>A network that answers every request alike.\<close>

definition reply_text :: js_string where
  "reply_text = js ''{\"access_token\":\"tok\",\"id\":\"x\",\"userPrincipalName\":\"y\"}''"

definition answering :: platform where
  "answering = demo_platform\<lparr>pf_http := (\<lambda>q. Some \<lparr>hs_status = 200, hs_text = reply_text\<rparr>)\<rparr>"

lemma reply_parse:
  "parse_json reply_text = Some (JObj [(js ''access_token'', JStr (js ''tok'')), (js ''id'', JStr (js ''x'')),
     (js ''userPrincipalName'', JStr (js ''y''))])"
  by code_simp

lemma answering_aead: "aead (pf_aes_enc answering) (pf_aes_dec answering)"
  by (simp add: answering_def demo_platform_def xor_cipher_aead)

definition new_starter :: migration_user where
  "new_starter =
     \<lparr>mu_id = js ''u'', source_email = js ''a@old.example'', target_email = Some (js ''a@new.example''),
      target_upn = None, migrate_exchange = True, migrate_onedrive = True,
      auto_create_target = True, include_archive = False, mapping_status = Auto_create,
      mu_created_at = 0\<rparr>"

lemma demo_account:
  assumes "generateTempPassword 20 bytes = Some (password, rest)"
  shows "\<exists>enc. create_account answering demo_env (js ''tok'') None bytes iv new_starter (js ''a@new.example'')
    = Some (Inr enc)"
  using assms
  by (simp add: create_account_def enrich_def provisionUser_def fetch_def answering_def res_ok_def
      res_json_def reply_parse encryptSecret_def demo_env_def demo_key_valid Let_def)

lemma demo_password: "\<exists>password rest. generateTempPassword 20 (replicate 39 5) = Some (password, rest)"
proof -
  have "generateTempPassword 20 (replicate 39 5) \<noteq> None"
    by (rule returns_enough) (simp_all add: small_bytes_def list_all_iff)
  then show ?thesis by auto
qed


section \<open>The report\<close>

definition may_provision :: "users_table \<Rightarrow> provision_result \<Rightarrow> bool" where
  "may_provision us r \<longleftrightarrow>
     (\<exists>u. user_by_id (ps_user r) us = Some u \<and> auto_create_target u \<and> ps_target_upn r \<noteq> None)"

lemma updateMapping_auto:
  "map_option auto_create_target (user_by_id uid (updateMapping k e upn st us)) =
   map_option auto_create_target (user_by_id uid us)"
proof -
  have "user_by_id uid (updateMapping k e upn st us) = map_option (\<lambda>r. if mu_id r = k then
      r\<lparr>target_email := e, target_upn := upn, mapping_status := st\<rparr> else r) (user_by_id uid us)"
    unfolding user_by_id_def updateMapping_def by (rule lookup_by_update) simp
  then show ?thesis by (cases "user_by_id uid us") simp_all
qed

lemma may_provision_update:
  "may_provision (updateMapping k e upn st us) r \<longleftrightarrow> may_provision us r"
  using updateMapping_auto [of "ps_user r" k e upn st us]
  by (cases "user_by_id (ps_user r) us"; cases "user_by_id (ps_user r) (updateMapping k e upn st us)")
    (auto simp add: may_provision_def)

lemma store_account_frame:
  "w_users (store_account cx user upn enc w) =
     updateMapping (mu_id user) (target_email user) (Some upn) Provisioned (w_users w)"
  "length (w_creds (store_account cx user upn enc w)) = Suc (length (w_creds w))"
  by (simp_all add: store_account_def draw_uuid_def insert_cred_def Let_def)

lemma provision_users_report:
  "provision_users pf ev cx rnd iv dest src k uids results w = Some (out, w') \<Longrightarrow>
   \<exists>new. out = results @ new \<and> map ps_user new = uids
     \<and> (\<forall>r \<in> set new. ps_ok r \<longrightarrow> may_provision (w_users w) r)
     \<and> length (w_creds w') = length (w_creds w) + length (filter ps_ok new)"
proof (induction pf ev cx rnd iv dest src k uids results w
    rule: provision_users.induct)
  case (1 pf ev cx rnd iv dest src k results w)
  then show ?case by simp
next
  case (2 pf ev cx rnd iv dest src k uid uids results w)
  have step: "?case"
    if run: "provision_users pf ev cx rnd iv dest src (Suc k) uids (results @ [r]) w1 = Some (out, w')"
      and ih: "provision_users pf ev cx rnd iv dest src (Suc k) uids (results @ [r]) w1 = Some (out, w') \<Longrightarrow>
        \<exists>new. out = (results @ [r]) @ new \<and> map ps_user new = uids
          \<and> (\<forall>r \<in> set new. ps_ok r \<longrightarrow> may_provision (w_users w1) r)
          \<and> length (w_creds w') = length (w_creds w1) + length (filter ps_ok new)"
      and r: "ps_user r = uid" "ps_ok r \<Longrightarrow> may_provision (w_users w) r"
      and w1: "\<And>r. may_provision (w_users w1) r = may_provision (w_users w) r"
        "length (w_creds w1) = length (w_creds w) + (if ps_ok r then 1 else 0)" for r w1
  proof -
    obtain new where "out = (results @ [r]) @ new" "map ps_user new = uids"
      "\<forall>r \<in> set new. ps_ok r \<longrightarrow> may_provision (w_users w1) r"
      "length (w_creds w') = length (w_creds w1) + length (filter ps_ok new)"
      using ih [OF run] by blast
    with r w1 show ?thesis by (intro exI [of _ "r # new"]) auto
  qed
  show ?case
  proof (cases "user_by_id uid (w_users w)")
    case None
    with "2.prems" "2.IH"(1) [OF None] show ?thesis
      by (intro step [of "failed_result uid ''not found''" w]) (simp_all add: failed_result_def)
  next
    case (Some user)
    show ?thesis
    proof (cases "auto_create_target user")
      case False
      with Some "2.prems" "2.IH"(2) [OF Some] show ?thesis
        by (intro step [of "failed_result uid ''not marked for auto-create''" w])
          (simp_all add: failed_result_def)
    next
      case auto: True
      let ?upn = "coalesce (target_upn user) (target_email user)"
      show ?thesis
      proof (cases "truthy ?upn")
        case False
        with Some auto "2.prems" "2.IH"(3) [OF Some _ refl] show ?thesis
          by (intro step [of "failed_result uid ''no resolved target UPN''" w])
            (simp_all add: failed_result_def)
      next
        case True
        then have may: "may_provision (w_users w) \<lparr>ps_user = uid, ps_ok = ok, ps_target_upn = ?upn, ps_error = e\<rparr>" for ok e
          using Some auto by (auto simp add: may_provision_def truthy_iff)
        obtain res where res: "create_account pf ev dest src (rnd k) (iv k) user (the ?upn) = Some res"
          using "2.prems" Some auto True by (auto simp add: Let_def split: option.splits)
        show ?thesis
        proof (cases res)
          case (Inl e)
          with Some auto True res "2.prems" "2.IH"(4) [OF Some _ refl _ res Inl] show ?thesis
            by (intro step [of "\<lparr>ps_user = uid, ps_ok = False, ps_target_upn = ?upn,
                  ps_error = Some (exn_message e)\<rparr>"
                  "audited cx Provision ?upn (Some (js ''FAILED: '' @ exn_message e)) w"])
                (simp_all add: Let_def)
        next
          case (Inr enc)
          with Some auto True res may "2.prems" "2.IH"(5) [OF Some _ refl _ res Inr] show ?thesis
            by (intro step [of "\<lparr>ps_user = uid, ps_ok = True, ps_target_upn = ?upn, ps_error = None\<rparr>"
                  "store_account cx user (the ?upn) enc w"])
              (simp_all add: Let_def store_account_frame may_provision_update)
        qed
      qed
    qed
  qed
qed


definition staffing_world :: world where
  "staffing_world =
     empty_world\<lparr>w_users := [new_starter], w_tenants :=
       [\<lparr>tn_id = js ''i'', tn_role = Destination, tn_tenant_id = js ''t'', tn_client_id = js ''c'',
         tn_ciphertext = bytesToB64 [1], tn_iv = bytesToB64 (replicate 12 1), tn_secret_expiry = None,
         tn_display_name = None, tn_status = Connected, tn_last_tested_at = None, tn_created_at = 0\<rparr>]\<rparr>"

lemma staffing_token:
  "\<exists>m token. getSecretMaterial Destination (w_tenants staffing_world) = Some m
     \<and> material_token answering demo_env 0 DEFAULT_SCOPE m = Inr token \<and> at_access_token token = js ''tok''"
  by (simp add: getSecretMaterial_def staffing_world_def lookup_by_def material_of_def material_token_def
      decrypt_material_def decryptSecret_def demo_env_def demo_key_valid b64.decode_encode answering_def
      demo_platform_def acquireAppToken_def fetch_def res_json_def reply_parse res_ok_def get_string_def)


end
