(* ===== verification/ReportsLaws.thy ===== *)
theory ReportsLaws
  imports Reports
begin

text \<open>
  What the reports and the audit export guarantee: the counts of a report add up, and the
  paged export equals the whole filtered log, newest first, as long as no two entries
  share a timestamp; entries that share one can be lost.
\<close>

section \<open>Counts\<close>

lemma filter_two: "length (filter P t) =
    length (filter (\<lambda>i. P i \<and> item_status i = Item_skipped) t)
    + length (filter (\<lambda>i. P i \<and> item_status i = Item_failed) t)"
proof (induction t)
  case (Cons i t)
  then show ?case by (cases "item_status i") auto
qed simp

text \<open>
  The counts of a report add up: succeeded, skipped and failed items are never negative
  and together make the processed items the engine reported, or the logged items when
  those are more; the logged ones are exactly the job's item log.
\<close>

theorem report_counts_add_up:
  "case workload_row w j of r \<Rightarrow>
     0 \<le> wr_succeeded r \<and> 0 \<le> wr_skipped r \<and> 0 \<le> wr_failed r
     \<and> wr_skipped r + wr_failed r = int (length (listByJob (job_id j) (w_items w)))
     \<and> wr_succeeded r + wr_skipped r + wr_failed r =
         max (job_progress_current j) (int (length (listByJob (job_id j) (w_items w))))"
  using filter_two [of "\<lambda>i. item_job i = job_id j" "w_items w"]
  by (simp add: workload_row_def countsByJob_def listByJob_def Let_def)

section \<open>Paging\<close>

lemma audit_match_cursor:
  "audit_match (audit_filters q (Some c) l) e \<longleftrightarrow>
   audit_match (audit_filters q None l) e \<and> (c \<noteq> [] \<longrightarrow> au_created_at e < c)"
  by (auto simp add: audit_match_def audit_filters_def blank_to_none_def if_given_def)

lemma newest_first_filter: "newest_first (filter P t) = filter P (newest_first t)"
  by (simp only: newest_first_def rev_filter [symmetric] filter_sort)

definition newer :: "audit_entry \<Rightarrow> audit_entry \<Rightarrow> bool" where
  "newer a b \<longleftrightarrow> au_created_at b < au_created_at a"

lemma newest_first_sorted:
  assumes "distinct (map au_created_at t)"
  shows "sorted_wrt newer (newest_first t)"
proof -
  have "sorted (map au_created_at (sort_key au_created_at (rev t)))" by simp
  moreover have "distinct (map au_created_at (sort_key au_created_at (rev t)))"
    using assms by (metis distinct_map distinct_rev distinct_sort set_rev set_sort)
  ultimately have "sorted_wrt (<) (map au_created_at (sort_key au_created_at (rev t)))"
    by (simp add: strict_sorted_iff)
  then show ?thesis by (simp add: newest_first_def sorted_wrt_rev sorted_wrt_map newer_def)
qed

lemma older_than_page:
  assumes "sorted_wrt newer L" and "0 < k" and "k \<le> length L"
  shows "filter (\<lambda>e. au_created_at e < au_created_at (last (take k L))) L = drop k L"
proof -
  define x where "x = last (take k L)"
  have take: "take k L = butlast (take k L) @ [x]"
  proof -
    have "take k L \<noteq> []" using assms(2,3) by auto
    then show ?thesis unfolding x_def by (rule append_butlast_last_id [symmetric])
  qed
  then have L: "L = butlast (take k L) @ x # drop k L" by (metis append.assoc append_Cons append_Nil append_take_drop_id)
  with assms(1) have "sorted_wrt newer (butlast (take k L) @ x # drop k L)" by simp
  then have "\<forall>e \<in> set (butlast (take k L)). newer e x" "\<forall>e \<in> set (drop k L). newer x e"
    by (auto simp add: sorted_wrt_append)
  then have "filter (\<lambda>e. au_created_at e < au_created_at x) (butlast (take k L) @ x # drop k L) = drop k L"
    by (auto simp add: newer_def filter_empty_conv filter_id_conv dest: less_asym)
  with L show ?thesis unfolding x_def by simp
qed

abbreviation page_query :: "(string \<Rightarrow> js_string option) \<Rightarrow> js_string option \<Rightarrow> audit_query" where
  "page_query q \<equiv> \<lambda>cursor. audit_filters q cursor (Some 500)"

definition matching :: "(string \<Rightarrow> js_string option) \<Rightarrow> audit_entry list \<Rightarrow> audit_entry list" where
  "matching q t = newest_first (filter (audit_match (page_query q None)) t)"

lemma page_limit_500: "page_limit (aq_limit (page_query q c)) = 500"
  by (simp add: page_limit_def audit_filters_def)

lemma page_at:
  assumes "sorted_wrt newer (matching q t)" and "0 < k" and "k \<le> length (matching q t)"
    and "au_created_at (last (take k (matching q t))) \<noteq> []"
  shows "newest_first (filter (audit_match (page_query q (Some (au_created_at (last (take k (matching q t))))))) t)
    = drop k (matching q t)"
proof -
  let ?c = "au_created_at (last (take k (matching q t)))"
  have "filter (audit_match (page_query q (Some ?c))) t =
      filter (\<lambda>e. au_created_at e < ?c) (filter (audit_match (page_query q None)) t)"
    unfolding filter_filter using assms(4) by (intro filter_cong refl) (auto simp only: audit_match_cursor)
  then have "newest_first (filter (audit_match (page_query q (Some ?c))) t) =
      filter (\<lambda>e. au_created_at e < ?c) (matching q t)"
    by (simp add: newest_first_filter matching_def)
  with older_than_page [OF assms(1-3)] show ?thesis by simp
qed

lemma export_from:
  assumes sorted: "sorted_wrt newer (matching q t)"
    and "newest_first (filter (audit_match (page_query q cursor)) t) = drop k (matching q t)"
  shows "export_pages n (page_query q) cursor t = take (n * 500) (drop k (matching q t))"
  using assms(2)
proof (induction n arbitrary: k cursor)
  case 0
  then show ?case by simp
next
  case (Suc n)
  define M where "M = drop k (matching q t)"
  have page: "audit_page (page_query q cursor) t =
      (take 500 M, if 500 < length M then Some (au_created_at (last (take 500 M))) else None)"
    using Suc.prems
    by (simp add: audit_page_def page_limit_500 M_def [symmetric] Let_def min_def del: take_append)
  show ?case
  proof (cases "500 < length M")
    case False
    then have "take (500 + n * 500) M = take 500 M" by simp
    with False page show ?thesis by (simp add: M_def [symmetric])
  next
    case True
    have len: "k + 500 < length (matching q t)" using True by (simp add: M_def)
    have last: "last (take 500 M) = last (take (k + 500) (matching q t))"
    proof -
      have "take (k + 500) (matching q t) = take k (matching q t) @ take 500 M"
        by (simp add: take_add M_def)
      moreover have "take 500 M \<noteq> []" using True by (cases M) simp_all
      ultimately show ?thesis by simp
    qed
    have "newer (last (take (k + 500) (matching q t))) (matching q t ! (k + 500))"
    proof -
      have "last (take (k + 500) (matching q t)) = matching q t ! (k + 499)"
      proof -
        have "take (k + 500) (matching q t) \<noteq> []" using len by auto
        with len show ?thesis by (simp add: last_conv_nth min_def add.commute)
      qed
      with sorted len show ?thesis by (simp add: sorted_wrt_iff_nth_less)
    qed
    then have given: "au_created_at (last (take (k + 500) (matching q t))) \<noteq> []"
      by (auto simp add: newer_def)
    have "newest_first (filter (audit_match (page_query q
        (Some (au_created_at (last (take (k + 500) (matching q t))))))) t) = drop (k + 500) (matching q t)"
      using page_at [OF sorted _ _ given] len by simp
    from Suc.IH [OF this] True page given last
    have "export_pages (Suc n) (page_query q) cursor t =
        take 500 M @ take (n * 500) (drop (k + 500) (matching q t))"
      by simp
    moreover have "drop (k + 500) (matching q t) = drop 500 M" by (simp add: M_def add.commute)
    ultimately show ?thesis by (simp add: take_add M_def [symmetric])
  qed
qed

text \<open>
  C36. The export is the log: when no two matching entries share a timestamp, the page by
  page export of \<open>GET /api/audit/export\<close> returns exactly the matching entries, newest first
  and each once, up to the hundred thousand entries of its two hundred pages, and records
  how many it exported.
\<close>

theorem export_is_complete:
  assumes "distinct (map au_created_at (filter (audit_match (audit_filters q None None)) (w_audit w)))"
  shows "case export_audit cx q w of (res, w') \<Rightarrow>
    res = Inr (serializeCsv AUDIT_HEADERS (map audit_cells (take 100000
      (newest_first (filter (audit_match (audit_filters q None None)) (w_audit w))))))
    \<and> length (w_audit w') = Suc (length (w_audit w))"
proof -
  have same: "audit_match (audit_filters q None None) = audit_match (page_query q None)"
    by (simp add: fun_eq_iff audit_match_def audit_filters_def)
  have "sorted_wrt newer (matching q (w_audit w))"
    using newest_first_sorted [OF assms] by (simp add: same matching_def)
  from export_from [OF this, of None 0 MAX_PAGES]
  have "export_pages MAX_PAGES (page_query q) None (w_audit w) = take 100000 (matching q (w_audit w))"
    by (simp add: matching_def MAX_PAGES_def)
  then show ?thesis
    by (simp add: export_audit_def same matching_def Let_def)
      (simp add: audited_def audit_def draw_uuid_def billUsage_def)
qed

definition log_entry :: "nat \<Rightarrow> js_string \<Rightarrow> audit_entry" where
  "log_entry n stamp =
     \<lparr>au_id = [n], au_actor = js ''admin'', au_action = js ''sign_in'', au_target = None,
      au_detail = None, au_created_at = stamp\<rparr>"

theorem export_is_complete_witness:
  "fst (export_audit (demo_request 0) (\<lambda>k. None) (empty_world\<lparr>w_audit := [log_entry 0 [49], log_entry 1 [50]]\<rparr>))
     = Inr (serializeCsv AUDIT_HEADERS (map audit_cells [log_entry 1 [50], log_entry 0 [49]]))"
proof -
  have all: "audit_match (audit_filters (\<lambda>k. None) None None) e" for e
    by (simp add: audit_match_def audit_filters_def blank_to_none_def if_given_def)
  show ?thesis
    using export_is_complete [of "\<lambda>k. None" "empty_world\<lparr>w_audit := [log_entry 0 [49], log_entry 1 [50]]\<rparr>" "demo_request 0"]
    by (simp add: all split_beta log_entry_def newest_first_def)
qed

definition ties :: "nat \<Rightarrow> js_string \<Rightarrow> audit_entry list" where
  "ties n stamp = map (\<lambda>i. log_entry i stamp) [0..<n]"

lemma ties_newest: "newest_first (ties n s) = ties n s"
proof -
  have "sort_key au_created_at (rev (ties n s)) = rev (ties n s)"
    by (rule sort_key_id_if_sorted) (auto simp add: ties_def log_entry_def rev_map comp_def map_replicate_const)
  then show ?thesis by (simp add: newest_first_def)
qed

text \<open>
  The cursor is the timestamp alone: of any number of entries written at the same
  instant the export returns only the first page, so beyond five hundred the rest is lost
  without an error.
\<close>

theorem export_loses_ties:
  "length (export_pages MAX_PAGES (\<lambda>cursor. audit_filters (\<lambda>k. None) cursor (Some 500)) None (ties n (c # cs)))
     = min n 500"
proof -
  have all: "audit_match (page_query (\<lambda>k. None) None) e" for e
    by (simp add: audit_match_def audit_filters_def blank_to_none_def if_given_def)
  have none: "filter (audit_match (page_query (\<lambda>k. None) (Some (c # cs)))) (ties n (c # cs)) = []"
    by (auto simp add: filter_empty_conv audit_match_cursor ties_def log_entry_def)
  have len: "length (ties n (c # cs)) = n" by (simp add: ties_def)
  have first: "audit_page (page_query (\<lambda>k. None) None) (ties n (c # cs)) =
      (take 500 (ties n (c # cs)), if 500 < n then Some (c # cs) else None)"
  proof -
    have "au_created_at (last (take 500 (ties n (c # cs)))) = c # cs" if "500 < n"
    proof -
      have "last (take 500 (ties n (c # cs))) \<in> set (ties n (c # cs))"
        by (rule in_set_takeD [where n = 500], rule last_in_set) (use that len in auto)
      then show ?thesis by (auto simp add: ties_def log_entry_def)
    qed
    then show ?thesis
      by (auto simp add: audit_page_def page_limit_500 all ties_newest len Let_def min_def)
  qed
  have second: "export_pages m (page_query (\<lambda>k. None)) (Some (c # cs)) (ties n (c # cs)) = []" for m
    by (cases m) (simp_all add: audit_page_def none newest_first_def Let_def)
  have "length (export_pages (Suc m) (page_query (\<lambda>k. None)) None (ties n (c # cs))) = min n 500" for m
    by (simp add: first second len min_def)
  from this [of 199] have "length (export_pages (Suc 199) (page_query (\<lambda>k. None)) None (ties n (c # cs))) = min n 500" .
  moreover have "MAX_PAGES = Suc 199" by (simp add: MAX_PAGES_def)
  ultimately show ?thesis by (simp only:)
qed

end
