(* ===== verification/Stringify.thy ===== *)
theory Stringify
  imports Json Utf8 Config
begin

text \<open>
  \<open>JSON.stringify\<close>, which the Worker's \<open>c.json\<close> and the browser client's \<open>request\<close> write
  their bodies with, and the round trip with \<open>JSON.parse\<close> (\<open>Json\<close>). A member whose value is
  \<open>undefined\<close> is left out, in an array it is written \<open>null\<close>; a lone surrogate is escaped.
\<close>

section \<open>Writing\<close>

definition unicode_escape :: "nat \<Rightarrow> js_string" where
  "unicode_escape c =
     [92, 117, hex_digit (c div 4096), hex_digit (c div 256 mod 16), hex_digit (c div 16 mod 16),
      hex_digit (c mod 16)]"

definition escape_unit :: "nat \<Rightarrow> js_string" where
  "escape_unit c =
     (if c = 34 \<or> c = 92 then [92, c]
      else if c = 8 then [92, 98] else if c = 12 then [92, 102] else if c = 10 then [92, 110]
      else if c = 13 then [92, 114] else if c = 9 then [92, 116]
      else if c < 32 then unicode_escape c else [c])"

fun escape_text :: "js_string \<Rightarrow> js_string" where
  "escape_text [] = []"
| "escape_text [u] =
     (if high_surrogate u \<or> low_surrogate u then unicode_escape u else escape_unit u)"
| "escape_text (u # v # us) =
     (if high_surrogate u \<and> low_surrogate v then u # v # escape_text us
      else if high_surrogate u \<or> low_surrogate u then unicode_escape u @ escape_text (v # us)
      else escape_unit u @ escape_text (v # us))"

definition quote_text :: "js_string \<Rightarrow> js_string" where
  "quote_text s = 34 # escape_text s @ [34]"

fun number_text :: "number \<Rightarrow> js_string" where
  "number_text (Fin q) = num_text q"
| "number_text n = js ''null''"

fun json_text :: "js_value \<Rightarrow> js_string"
  and json_items :: "js_value list \<Rightarrow> js_string list"
  and json_fields :: "(js_string \<times> js_value) list \<Rightarrow> js_string list"
where
  "json_text Undefined = js ''null''"
| "json_text JNull = js ''null''"
| "json_text (JBool b) = (if b then js ''true'' else js ''false'')"
| "json_text (JNum n) = number_text n"
| "json_text (JStr s) = quote_text s"
| "json_text (JArr vs) = 91 # join [44] (json_items vs) @ [93]"
| "json_text (JObj ps) = 123 # join [44] (json_fields ps) @ [125]"
| "json_items [] = []"
| "json_items (v # vs) = json_text v # json_items vs"
| "json_fields [] = []"
| "json_fields ((k, v) # ps) =
     (if v = Undefined then json_fields ps
      else (quote_text k @ 58 # json_text v) # json_fields ps)"

text \<open>The value as a whole: \<open>undefined\<close> has no text.\<close>

definition stringify :: "js_value \<Rightarrow> js_string option" where
  "stringify v = (if v = Undefined then None else Some (json_text v))"

section \<open>Reading back\<close>

text \<open>Values a JSON text can express exactly: no \<open>undefined\<close>, finite decimals, code units
  of 16 bits and distinct keys.\<close>

definition units16 :: "js_string \<Rightarrow> bool" where
  "units16 s \<longleftrightarrow> list_all (\<lambda>c. c < 65536) s"

fun json_value :: "js_value \<Rightarrow> bool" where
  "json_value Undefined = False"
| "json_value JNull = True"
| "json_value (JBool b) = True"
| "json_value (JNum n) = (case n of Fin q \<Rightarrow> decimal \<bar>q\<bar> | _ \<Rightarrow> False)"
| "json_value (JStr s) = units16 s"
| "json_value (JArr vs) = (\<forall>v \<in> set vs. json_value v)"
| "json_value (JObj ps) =
     (distinct (map fst ps) \<and> (\<forall>p \<in> set ps. units16 (fst p)) \<and> (\<forall>p \<in> set ps. json_value (snd p)))"

lemma hex_value: "d < 16 \<Longrightarrow> digit_value 16 (hex_digit d) = Some d"
  by (auto simp add: digit_value_def hex_digit_def)

lemma hex4_escape:
  assumes "c < 65536"
  shows "hex4 (hex_digit (c div 4096) # hex_digit (c div 256 mod 16) # hex_digit (c div 16 mod 16)
      # hex_digit (c mod 16) # r) = Some (c, r)"
proof -
  have "c div 4096 < 16" using assms by simp
  moreover have "c div 4096 * 4096 + c div 256 mod 16 * 256 + c div 16 mod 16 * 16 + c mod 16 = c"
  proof -
    have split: "x div 16 * 16 + x mod 16 = x" for x :: nat by simp
    have "c div 16 div 16 = c div 256" "c div 256 div 16 = c div 4096"
      by (simp_all only: div_mult2_eq [symmetric]) simp_all
    with split [of c] split [of "c div 16"] split [of "c div 256"] show ?thesis by linarith
  qed
  ultimately show ?thesis by (simp add: hex_value)
qed

lemma string_chars_unicode:
  "c < 65536 \<Longrightarrow> string_chars (Suc n) (unicode_escape c @ r) =
     map_option (\<lambda>(t, rest). (c # t, rest)) (string_chars n r)"
  by (simp add: unicode_escape_def hex4_escape del: hex4.simps)

lemma string_chars_unit:
  assumes "c < 65536"
  shows "string_chars (Suc n) (escape_unit c @ r) =
     map_option (\<lambda>(t, rest). (c # t, rest)) (string_chars n r)"
proof (cases "c < 32 \<and> c \<notin> {8, 9, 10, 12, 13}")
  case True
  then have "escape_unit c = unicode_escape c" by (auto simp add: escape_unit_def)
  then show ?thesis using string_chars_unicode [OF assms] by simp
next
  case False
  then show ?thesis by (auto simp add: escape_unit_def simple_escape_def)
qed

lemma escape_text_nonempty: "length s \<le> length (escape_text s)"
  by (induction s rule: escape_text.induct) (auto simp add: escape_unit_def unicode_escape_def)

lemma string_chars_escape:
  assumes "units16 s" and "length (escape_text s) < n"
  shows "string_chars n (escape_text s @ 34 # rest) = Some (s, rest)"
  using assms
proof (induction s arbitrary: n rule: escape_text.induct)
  case 1
  then show ?case by (cases n) simp_all
next
  case (2 u)
  then obtain m where n: "n = Suc (Suc m)" 
    by (cases n; cases "n - 1") (auto simp add: escape_unit_def unicode_escape_def split: if_splits)
  have "u < 65536" using 2 by (simp add: units16_def)
  then show ?case
    by (simp add: n string_chars_unicode string_chars_unit del: string_chars.simps(2))
      (simp add: string_chars.simps(2))
next
  case (3 u v us)
  then have u: "u < 65536" "v < 65536" "units16 (v # us)" "units16 us" by (simp_all add: units16_def)
  show ?case
  proof (cases "high_surrogate u \<and> low_surrogate v")
    case True
    with 3 obtain m where n: "n = Suc (Suc m)" "length (escape_text us) < m"
      by (cases n; cases "n - 1") auto
    have "\<not> u < 32" "u \<noteq> 34" "u \<noteq> 92" "\<not> v < 32" "v \<noteq> 34" "v \<noteq> 92"
      using True by (simp_all add: high_surrogate_def low_surrogate_def)
    with 3(1) [OF True u(4) n(2)] True show ?thesis by (simp add: n)
  next
    case False
    define e where "e = (if high_surrogate u \<or> low_surrogate u then unicode_escape u else escape_unit u)"
    have parts: "escape_text (u # v # us) = e @ escape_text (v # us)"
      using False by (auto simp add: e_def)
    have "e \<noteq> []" by (simp add: e_def escape_unit_def unicode_escape_def)
    then have "0 < length e" by simp
    with 3(5) have "Suc (length (escape_text (v # us))) < n" unfolding parts length_append by linarith
    then obtain m where n: "n = Suc m" "length (escape_text (v # us)) < m" by (cases n) auto
    have rest: "string_chars m (escape_text (v # us) @ 34 # rest) = Some (v # us, rest)"
      using False 3(2,3) u(3) n(2) by blast
    have unit: "string_chars (Suc m) (e @ r) = map_option (\<lambda>(t, rest). (u # t, rest)) (string_chars m r)" for r
      using u(1) by (simp add: e_def string_chars_unicode string_chars_unit del: string_chars.simps(2))
    show ?thesis unfolding n(1) parts append_assoc unit rest by simp
  qed
qed

section \<open>Numbers\<close>

lemma digits_lead: "hd (digits n) = 48 \<longleftrightarrow> n = 0"
proof (induction n rule: digits.induct)
  case (1 n)
  then show ?case by (subst digits.simps) (auto simp add: hd_append)
qed

lemma digits_zero: "digits 0 = [48]"
  by (subst digits.simps) simp

lemma list_all_digits: "list_all digit (digits n)"
  using digits_range [of n] by (auto simp add: list_all_iff digit_def)

lemma takeWhile_split:
  assumes "list_all p a" and "b = [] \<or> \<not> p (hd b)"
  shows "takeWhile p (a @ b) = a \<and> dropWhile p (a @ b) = b"
  using assms by (cases b) (auto simp add: list_all_iff takeWhile_append dropWhile_append
      takeWhile_eq_all_conv [THEN iffD2] dropWhile_eq_Nil_conv [THEN iffD2])

lemma number_ok_unsigned: "number_ok (unsigned_text q)" "number_ok (45 # unsigned_text q)"
proof -
  define f where "f = frac_digits 20 (q - of_int \<lfloor>q\<rfloor>)"
  define t where "t = (if f = [] then [] else 46 # f)"
  have "0 \<le> q - of_int \<lfloor>q\<rfloor>" "q - of_int \<lfloor>q\<rfloor> < 1" by linarith+
  from frac_digits_range [OF this, of 20] have f: "list_all digit f"
    by (auto simp add: f_def list_all_iff digit_def)
  have shape: "unsigned_text q = digits (nat \<lfloor>q\<rfloor>) @ t" by (simp add: unsigned_text_def f_def t_def Let_def)
  have "t = [] \<or> \<not> digit (hd t)" by (simp add: t_def digit_def)
  note parts = takeWhile_split [OF list_all_digits this, of "nat \<lfloor>q\<rfloor>"]
  have frac: "takeWhile digit f = f" "dropWhile digit f = []"
    using takeWhile_split [OF f, of "[]"] by simp_all
  have lead: "hd (digits (nat \<lfloor>q\<rfloor>)) = 48 \<longrightarrow> length (digits (nat \<lfloor>q\<rfloor>)) = 1"
    by (auto simp add: digits_lead digits_zero)
  have minus: "hd (unsigned_text q) \<noteq> 45"
    using bspec [OF digits_range hd_in_set [OF digits_nonempty [of "nat \<lfloor>q\<rfloor>"]]]
    by (auto simp add: shape hd_append)
  show "number_ok (45 # unsigned_text q)"
    using lead unfolding number_ok_def shape by (simp add: parts) (simp add: t_def frac)
  obtain c r where cr: "unsigned_text q = c # r" by (cases "unsigned_text q") (simp_all add: shape)
  with minus have "(case unsigned_text q of c # r \<Rightarrow> if c = 45 then r else unsigned_text q | [] \<Rightarrow> []) = unsigned_text q"
    by simp
  then show "number_ok (unsigned_text q)"
    using lead unfolding number_ok_def shape by (simp add: parts) (simp add: t_def frac)
qed

section \<open>Round trip\<close>

definition stops :: "js_string \<Rightarrow> bool" where
  "stops rest \<longleftrightarrow> rest = [] \<or> \<not> number_unit (hd rest)"

lemma stops_simps [simp]: "stops []" "stops (44 # r)" "stops (93 # r)" "stops (125 # r)"
  by (simp_all add: stops_def number_unit_def digit_def)

lemma num_text_units: "num_text q \<noteq> []" "list_all number_unit (num_text q)"
  "hd (num_text q) = 45 \<or> 48 \<le> hd (num_text q) \<and> hd (num_text q) \<le> 57"
proof -
  have u: "unsigned_text x \<noteq> []" "48 \<le> hd (unsigned_text x) \<and> hd (unsigned_text x) \<le> 57" for x
    using bspec [OF digits_range hd_in_set [OF digits_nonempty [of "nat \<lfloor>x\<rfloor>"]]]
    by (simp_all add: unsigned_text_def Let_def hd_append)
  then show "num_text q \<noteq> []" by (simp add: num_text_def)
  from u show "hd (num_text q) = 45 \<or> 48 \<le> hd (num_text q) \<and> hd (num_text q) \<le> 57"
    by (simp add: num_text_def)
  show "list_all number_unit (num_text q)"
    using unsigned_text_units [of q] unsigned_text_units [of "- q"]
    by (auto simp add: num_text_def list_all_iff number_unit_def digit_def)
qed

lemma number_ok_num_text: "number_ok (num_text q)"
  using number_ok_unsigned by (simp add: num_text_def)

text \<open>What the reader does by the first code unit.\<close>

lemma read_number:
  assumes "decimal \<bar>q\<bar>" and "stops rest"
  shows "json_read (Suc n) Value (num_text q @ rest) = Some (JNum (Fin q), rest)"
proof -
  obtain c r where cr: "num_text q = c # r" by (cases "num_text q") (simp_all add: num_text_units)
  have c: "c = 45 \<or> 48 \<le> c \<and> c \<le> 57" using num_text_units(3) [of q] by (simp add: cr)
  then have "\<not> startsWith (c # s) (js ''true'')" "\<not> startsWith (c # s) (js ''false'')"
    "\<not> startsWith (c # s) (js ''null'')" for s
    by (auto simp add: startsWith_def js_def)
  moreover have "c \<noteq> 34" "c \<noteq> 91" "c \<noteq> 123" using c by auto
  moreover have "takeWhile number_unit (num_text q @ rest) = num_text q"
    "dropWhile number_unit (num_text q @ rest) = rest"
    using takeWhile_split [OF num_text_units(2)] assms(2) by (auto simp add: stops_def)
  moreover have "parse_number (num_text q) = Fin q" by (rule parse_num_text [OF assms(1)])
  ultimately show ?thesis
    using number_ok_num_text [of q] by (simp add: cr)
qed

lemma read_open:
  assumes "c \<in> {34, 91, 123}"
  shows "\<not> startsWith (c # s) (js ''true'') \<and> \<not> startsWith (c # s) (js ''false'')
    \<and> \<not> startsWith (c # s) (js ''null'')"
  using assms by (auto simp add: startsWith_def js_def)

lemma read_string:
  assumes "units16 s" and "length (quote_text s) \<le> Suc n"
  shows "json_read (Suc n) Value (quote_text s @ rest) = Some (JStr s, rest)"
proof -
  have "string_chars n (escape_text s @ 34 # rest) = Some (s, rest)"
    using assms by (intro string_chars_escape) (simp_all add: quote_text_def)
  then show ?thesis using read_open [of 34] by (simp add: quote_text_def)
qed

lemma json_text_head:
  assumes "json_value v"
  shows "json_text v \<noteq> [] \<and> \<not> json_space (hd (json_text v)) \<and> hd (json_text v) \<noteq> 93"
proof (cases v)
  case (JNum x)
  with assms obtain q where q: "x = Fin q" by (auto split: number.splits)
  from num_text_units(3) [of q] num_text_units(1) [of q] JNum q show ?thesis
    by (auto simp add: json_space_def)
qed (use assms in \<open>auto simp add: quote_text_def json_space_def js_def\<close>)

lemma skip_ws_id: "s = [] \<or> \<not> json_space (hd s) \<Longrightarrow> skip_ws s = s"
  by (cases s) (auto simp add: skip_ws_def)

lemma not_space [simp]: "\<not> json_space 34" "\<not> json_space 44" "\<not> json_space 58" "\<not> json_space 93" "\<not> json_space 125"
  by (simp_all add: json_space_def)

definition reads :: "js_value \<Rightarrow> bool" where
  "reads v \<longleftrightarrow> (\<forall>n rest. 2 * length (json_text v) \<le> n \<longrightarrow> stops rest \<longrightarrow>
     json_read n Value (json_text v @ rest) = Some (v, rest))"

lemma read_items:
  assumes "\<forall>v \<in> set (v # vs). json_value v \<and> reads v"
    and "2 * length (join [44] (json_items (v # vs))) < n"
  shows "json_read n (Elements acc) (join [44] (json_items (v # vs)) @ 93 # rest) =
    Some (JArr (acc @ v # vs), rest)"
  using assms
proof (induction vs arbitrary: v acc n)
  case Nil
  then obtain m where n: "n = Suc m" "2 * length (json_text v) \<le> m" by (cases n) auto
  then have "json_read m Value (json_text v @ 93 # rest) = Some (v, 93 # rest)"
    using Nil by (simp add: reads_def)
  then show ?case by (simp add: n skip_ws_id)
next
  case (Cons x xs)
  then obtain m where n: "n = Suc m" "2 * length (json_text v) \<le> m"
    "2 * length (join [44] (json_items (x # xs))) < m" by (cases n) auto
  define tail where "tail = join [44] (json_items (x # xs)) @ 93 # rest"
  have "json_text x \<noteq> [] \<and> \<not> json_space (hd (json_text x))" using Cons.prems(1) json_text_head by simp
  then have "skip_ws tail = tail"
    by (intro skip_ws_id) (cases xs; simp add: tail_def)
  moreover have "json_read m Value (json_text v @ 44 # tail) = Some (v, 44 # tail)"
    using Cons.prems(1) n(2) by (simp add: reads_def)
  moreover have "json_read m (Elements (acc @ [v])) tail = Some (JArr ((acc @ [v]) @ x # xs), rest)"
    unfolding tail_def using Cons.prems(1) n(3) by (intro Cons.IH) auto
  moreover have "join [44] (json_items (v # x # xs)) @ 93 # rest = json_text v @ 44 # tail"
    by (simp add: tail_def)
  ultimately show ?case by (simp add: n(1) skip_ws_id)
qed

lemma obj_put_new: "k \<notin> fst ` set ps \<Longrightarrow> obj_put k v ps = ps @ [(k, v)]"
  by (simp add: obj_put_def upsert_by_def)

lemma read_fields:
  assumes "\<forall>p \<in> set (p # ps). units16 (fst p) \<and> json_value (snd p) \<and> reads (snd p)"
    and "distinct (map fst (acc @ p # ps))"
    and "2 * length (join [44] (json_fields (p # ps))) < n"
  shows "json_read n (Members acc) (join [44] (json_fields (p # ps)) @ 125 # rest) =
    Some (JObj (acc @ p # ps), rest)"
  using assms
proof (induction ps arbitrary: p acc n)
  case Nil
  obtain k v where p: "p = (k, v)" by (cases p)
  have given: "v \<noteq> Undefined" using Nil.prems(1) by (auto simp add: p)
  with Nil.prems(3) obtain m where n: "n = Suc m" "2 * length (json_text v) \<le> m" "length (escape_text k) < m"
    by (cases n) (auto simp add: p quote_text_def)
  have "string_chars m (escape_text k @ 34 # s) = Some (k, s)" for s
    using Nil.prems(1) n(3) by (intro string_chars_escape) (simp_all add: p)
  moreover have "json_read m Value (json_text v @ 125 # rest) = Some (v, 125 # rest)"
    using Nil.prems(1) n(2) by (simp add: p reads_def)
  moreover have "skip_ws (json_text v @ s) = json_text v @ s" for s
    using Nil.prems(1) json_text_head [of v] by (intro skip_ws_id) (simp add: p)
  moreover have "obj_put k v acc = acc @ [(k, v)]"
    using Nil.prems(2) by (intro obj_put_new) (auto simp add: p)
  ultimately show ?case
    using given by (simp add: n(1) p quote_text_def skip_ws_id)
next
  case (Cons x xs)
  obtain k v where p: "p = (k, v)" by (cases p)
  obtain k2 v2 where x: "x = (k2, v2)" by (cases x)
  have given: "v \<noteq> Undefined" "v2 \<noteq> Undefined" using Cons.prems(1) by (auto simp add: p x)
  define tail where "tail = join [44] (json_fields (x # xs)) @ 125 # rest"
  have joined: "join [44] (json_fields (p # x # xs)) @ 125 # rest =
      34 # escape_text k @ 34 # 58 # json_text v @ 44 # tail"
    using given by (simp add: tail_def p x quote_text_def)
  have "2 * length (join [44] (json_fields (p # x # xs))) =
      2 * length (json_text v) + 2 * length (escape_text k) + 8 + 2 * length (join [44] (json_fields (x # xs)))"
    using given by (simp add: p x quote_text_def)
  with Cons.prems(3) obtain m where n: "n = Suc m" "2 * length (json_text v) \<le> m" "length (escape_text k) < m"
    "2 * length (join [44] (json_fields (x # xs))) < m" by (cases n) auto
  have "string_chars m (escape_text k @ 34 # s) = Some (k, s)" for s
    using Cons.prems(1) n(3) by (intro string_chars_escape) (simp_all add: p)
  moreover have "json_read m Value (json_text v @ 44 # tail) = Some (v, 44 # tail)"
    using Cons.prems(1) n(2) by (simp add: p reads_def)
  moreover have "skip_ws (json_text v @ s) = json_text v @ s" for s
    using Cons.prems(1) json_text_head [of v] by (intro skip_ws_id) (simp add: p)
  moreover have "obj_put k v acc = acc @ [(k, v)]"
    using Cons.prems(2) by (intro obj_put_new) (auto simp add: p)
  moreover have "skip_ws tail = tail"
    using given by (intro skip_ws_id) (cases "json_fields xs"; simp add: tail_def x quote_text_def)
  moreover have "json_read m (Members (acc @ [p])) tail = Some (JObj ((acc @ [p]) @ x # xs), rest)"
    unfolding tail_def using Cons.prems(1,2) n(4) by (intro Cons.IH) auto
  ultimately show ?case
    unfolding joined n(1) using p by (simp add: skip_ws_id)
qed

lemma reads_all: "json_value v \<Longrightarrow> reads v"
proof (induction v rule: json_value.induct)
  case 2
  show ?case unfolding reads_def
  proof (intro allI impI)
    fix n rest
    assume "2 * length (json_text JNull) \<le> n"
    then obtain m where "n = Suc m" by (cases n) auto
    then show "json_read n Value (json_text JNull @ rest) = Some (JNull, rest)"
      by (simp add: startsWith_def js_def)
  qed
next
  case (3 b)
  show ?case unfolding reads_def
  proof (intro allI impI)
    fix n rest
    assume "2 * length (json_text (JBool b)) \<le> n"
    then obtain m where "n = Suc m" by (cases n; cases b) auto
    then show "json_read n Value (json_text (JBool b) @ rest) = Some (JBool b, rest)"
      by (cases b) (simp_all add: startsWith_def js_def)
  qed
next
  case (4 x)
  then obtain q where q: "x = Fin q" "decimal \<bar>q\<bar>" by (auto split: number.splits)
  show ?case unfolding reads_def
  proof (intro allI impI)
    fix n rest
    assume "2 * length (json_text (JNum x)) \<le> n" "stops rest"
    moreover from this have "n \<noteq> 0" using num_text_units(1) [of q] by (cases n) (simp_all add: q)
    then obtain m where "n = Suc m" by (cases n) auto
    ultimately show "json_read n Value (json_text (JNum x) @ rest) = Some (JNum x, rest)"
      using read_number [OF q(2), of rest m] by (simp add: q(1) del: json_read.simps(2))
  qed
next
  case (5 s)
  show ?case unfolding reads_def
  proof (intro allI impI)
    fix n rest
    assume n: "2 * length (json_text (JStr s)) \<le> n"
    then obtain m where m: "n = Suc m" by (cases n) (auto simp add: quote_text_def)
    with n 5 read_string [of s m rest] show "json_read n Value (json_text (JStr s) @ rest) = Some (JStr s, rest)"
      by (simp del: json_read.simps(2))
  qed
next
  case (6 vs)
  show ?case unfolding reads_def
  proof (intro allI impI)
    fix n rest
    assume n: "2 * length (json_text (JArr vs)) \<le> n"
    then obtain m where m: "n = Suc m" by (cases n) auto
    show "json_read n Value (json_text (JArr vs) @ rest) = Some (JArr vs, rest)"
    proof (cases vs)
      case Nil
      then show ?thesis using read_open [of 91] by (simp add: m skip_ws_id)
    next
      case (Cons x xs)
      have "json_text x \<noteq> [] \<and> \<not> json_space (hd (json_text x)) \<and> hd (json_text x) \<noteq> 93"
        using 6 Cons json_text_head by simp
      then have "skip_ws (join [44] (json_items vs) @ 93 # rest) = join [44] (json_items vs) @ 93 # rest"
        "take 1 (join [44] (json_items vs) @ 93 # rest) \<noteq> [93]"
        by (cases "json_items xs"; cases "json_text x"; simp add: Cons skip_ws_id)+
      moreover have "json_read m (Elements []) (join [44] (json_items vs) @ 93 # rest) = Some (JArr vs, rest)"
        using read_items [of x xs m "[]" rest] 6 n by (simp add: Cons m del: json_read.simps json_items.simps)
      ultimately show ?thesis using read_open [of 91] by (simp add: m)
    qed
  qed
next
  case (7 ps)
  show ?case unfolding reads_def
  proof (intro allI impI)
    fix n rest
    assume n: "2 * length (json_text (JObj ps)) \<le> n"
    then obtain m where m: "n = Suc m" by (cases n) auto
    show "json_read n Value (json_text (JObj ps) @ rest) = Some (JObj ps, rest)"
    proof (cases ps)
      case Nil
      then show ?thesis using read_open [of 123] by (simp add: m skip_ws_id)
    next
      case (Cons p ps')
      obtain k v where p: "p = (k, v)" by (cases p)
      have "v \<noteq> Undefined" using 7 by (auto simp add: Cons p)
      then have "skip_ws (join [44] (json_fields ps) @ 125 # rest) = join [44] (json_fields ps) @ 125 # rest"
        "take 1 (join [44] (json_fields ps) @ 125 # rest) \<noteq> [125]"
        by (cases "json_fields ps'"; simp add: Cons p quote_text_def skip_ws_id)+
      moreover have "json_read m (Members []) (join [44] (json_fields ps) @ 125 # rest) = Some (JObj ps, rest)"
        using read_fields [of p ps' "[]" m rest] 7 n
        by (simp add: Cons m del: json_read.simps json_fields.simps)
      ultimately show ?thesis using read_open [of 123] by (simp add: m)
    qed
  qed
qed simp_all

lemma units16_js: "units16 (js s)"
proof -
  have "of_char c < (65536 :: nat)" for c :: char
    using nat_of_char_less_256 [of c] by linarith
  then show ?thesis by (simp add: units16_def js_def list_all_iff)
qed

lemma parse_json_text:
  assumes "json_value v"
  shows "parse_json (json_text v) = Some v"
proof -
  have "skip_ws (json_text v) = json_text v"
    using json_text_head [OF assms] by (intro skip_ws_id) simp
  moreover have "json_read (Suc (2 * length (json_text v))) Value (json_text v @ []) = Some (v, [])"
    by (rule reads_all [OF assms, unfolded reads_def, rule_format]) simp_all
  ultimately show ?thesis by (simp add: parse_json_def skip_ws_id)
qed

interpretation json_codec: codec json_text parse_json json_value
  by unfold_locales (rule parse_json_text)


definition sample_json :: js_value where
  "sample_json =
     JObj [(js ''csv'', JStr [34, 10, 55357, 56832]), (js ''n'', JArr [JNum (Fin (5 / 2)), JNull])]"


end
