(* ===== verification/Client.thy ===== *)
theory Client
  imports Stringify Graph
begin

text \<open>
  The browser client (\<open>web/src/lib/api.ts\<close>). The server is the parameter \<open>srv\<close>, a function
  of its own state and the request; a client carries the module variable \<open>csrfToken\<close>, the
  number of \<open>entrashift:unauthorized\<close> events it dispatched, the server's state and, for the
  statements about it, the log of what was sent and answered. Calls of one client run one
  after the other.
\<close>

section \<open>Requests and replies\<close>

record wire_request =
  wq_method :: js_string
  wq_url :: js_string
  wq_headers :: "(js_string \<times> js_string) list"
  wq_body :: "js_string option"

text \<open>What becomes of a \<open>fetch\<close>: it is aborted, it does not reach the server, or it is
  answered with a status, a status text and a body, \<open>None\<close> when reading the body fails.\<close>

datatype reply = Aborted | Unreachable | Reply int js_string "js_string option"

record client_error =
  ce_code :: js_value
  ce_message :: js_string
  ce_status :: int
  ce_detail :: js_value

datatype client_exn = Client_error client_error | Abort_error | Read_error | Uri_error

record 's client =
  cl_csrf :: "js_string option"
  cl_bounces :: nat
  cl_server :: 's
  cl_log :: "(wire_request \<times> reply) list"

type_synonym 's server = "'s \<Rightarrow> wire_request \<Rightarrow> reply \<times> 's"

definition transmit :: "'s server \<Rightarrow> wire_request \<Rightarrow> 's client \<Rightarrow> reply \<times> 's client" where
  "transmit srv q c =
     (let (r, s') = srv (cl_server c) q
      in (r, c\<lparr>cl_server := s', cl_log := cl_log c @ [(q, r)]\<rparr>))"

section \<open>Reading a reply\<close>

definition safeJson :: "js_string \<Rightarrow> js_value" where
  "safeJson t = (case parse_json t of None \<Rightarrow> Undefined | Some v \<Rightarrow> v)"

definition httpToCode :: "int \<Rightarrow> js_value" where
  "httpToCode status =
     JStr (if status = 401 then js ''unauthorized''
           else if status = 403 then js ''forbidden''
           else if status = 404 then js ''not_found''
           else if status = 429 then js ''rate_limited''
           else js ''unknown'')"

text \<open>\<open>v ?? d\<close>.\<close>

definition nullish_or :: "js_value \<Rightarrow> js_value \<Rightarrow> js_value" where
  "nullish_or v d = (if nullish v then d else v)"

definition network_error :: client_error where
  "network_error =
     \<lparr>ce_code = JStr (js ''network''), ce_message = js ''Could not reach the control plane.'',
      ce_status = 0, ce_detail = Undefined\<rparr>"

definition error_of :: "int \<Rightarrow> js_string \<Rightarrow> js_value \<Rightarrow> client_error" where
  "error_of status statusText parsed =
     (let e = get_key parsed (js ''error'')
      in \<lparr>ce_code = nullish_or (get_key e (js ''code'')) (httpToCode status),
          ce_message = js_text (nullish_or (get_key e (js ''message'')) (JStr statusText)),
          ce_status = status, ce_detail = get_key e (js ''detail'')\<rparr>)"

fun answer :: "reply \<Rightarrow> client_exn + js_value" where
  "answer Aborted = Inl Abort_error"
| "answer Unreachable = Inl (Client_error network_error)"
| "answer (Reply status statusText body) =
     (if status = 204 then Inr Undefined
      else
        (case body of
           None \<Rightarrow> Inl Read_error
         | Some t \<Rightarrow>
             (let parsed = (if t = [] then Undefined else safeJson t)
              in if 200 \<le> status \<and> status < 300 then Inr parsed
                 else Inl (Client_error (error_of status statusText parsed)))))"

fun has_code :: "string \<Rightarrow> client_exn + js_value \<Rightarrow> bool" where
  "has_code k (Inl (Client_error e)) = (ce_code e = JStr (js k))"
| "has_code k r = False"

section \<open>Sending\<close>

definition UNSAFE_METHODS :: "js_string list" where
  "UNSAFE_METHODS = [js ''POST'', js ''PUT'', js ''PATCH'', js ''DELETE'']"

text \<open>\<open>(import.meta.env.VITE_API_BASE ?? '').replace(/\/$/, '')\<close>.\<close>

definition API_BASE :: "js_string option \<Rightarrow> js_string" where
  "API_BASE env =
     (let b = default_to env [] in if b \<noteq> [] \<and> last b = 47 then butlast b else b)"

definition url :: "js_string \<Rightarrow> js_string \<Rightarrow> js_string" where
  "url base path = base @ path"

definition request_headers :: "js_string \<Rightarrow> js_value \<Rightarrow> js_string option \<Rightarrow> (js_string \<times> js_string) list" where
  "request_headers method body csrf =
     [(js ''Accept'', js ''application/json'')]
     @ (if body \<noteq> Undefined then [(js ''Content-Type'', js ''application/json'')] else [])
     @ (if method \<in> set UNSAFE_METHODS \<and> truthy csrf then [(js ''X-CSRF-Token'', the csrf)] else [])"

definition wire :: "js_string \<Rightarrow> js_string \<Rightarrow> js_string \<Rightarrow> js_value \<Rightarrow> js_string option \<Rightarrow> wire_request" where
  "wire base method path body csrf =
     \<lparr>wq_method = method, wq_url = url base path,
      wq_headers = request_headers method body csrf, wq_body = stringify body\<rparr>"

definition attempt ::
    "'s server \<Rightarrow> js_string \<Rightarrow> js_string \<Rightarrow> js_string \<Rightarrow> js_value \<Rightarrow> 's client \<Rightarrow>
     (client_exn + js_value) \<times> 's client"
where
  "attempt srv base method path body c =
     (let (r, c') = transmit srv (wire base method path body (cl_csrf c)) c in (answer r, c'))"

text \<open>The event that sends the engineer back to the sign-in.\<close>

definition bounce :: "js_string \<Rightarrow> client_exn + js_value \<Rightarrow> 's client \<Rightarrow> 's client" where
  "bounce path r c =
     (if has_code ''unauthorized'' r \<and> \<not> startsWith path (js ''/api/me'')
      then c\<lparr>cl_bounces := Suc (cl_bounces c)\<rparr> else c)"

text \<open>\<open>getMe\<close>, whose own request is a \<open>GET\<close> and takes neither CSRF branch.\<close>

definition ME :: js_string where
  "ME = js ''/api/me''"

definition keep_token :: "client_exn + js_value \<Rightarrow> 's client \<Rightarrow> 's client" where
  "keep_token r c =
     (case r of
        Inl e \<Rightarrow> c
      | Inr me \<Rightarrow>
          if js_truthy (get_key me (js ''csrfToken''))
          then c\<lparr>cl_csrf := Some (js_text (get_key me (js ''csrfToken'')))\<rparr> else c)"

definition getMe :: "'s server \<Rightarrow> js_string \<Rightarrow> 's client \<Rightarrow> (client_exn + js_value) \<times> 's client" where
  "getMe srv base c =
     (let (r, c') = attempt srv base (js ''GET'') ME Undefined c in (r, keep_token r c'))"

definition request_call ::
    "'s server \<Rightarrow> js_string \<Rightarrow> js_string \<Rightarrow> js_string \<Rightarrow> js_value \<Rightarrow> 's client \<Rightarrow>
     (client_exn + js_value) \<times> 's client"
where
  "request_call srv base meth path body c =
     (let method = toUpperCase meth;
          unsafe = (method \<in> set UNSAFE_METHODS);
          c1 = (if unsafe \<and> \<not> truthy (cl_csrf c) then snd (getMe srv base c) else c);
          (r, c2) = attempt srv base method path body c1
      in if has_code ''csrf'' r \<and> unsafe then
           (let c3 = snd (getMe srv base (c2\<lparr>cl_csrf := None\<rparr>));
                (r', c4) = attempt srv base method path body c3
            in (r', bounce path r' c4))
         else (r, bounce path r c2))"

definition signOut :: "'s server \<Rightarrow> js_string \<Rightarrow> 's client \<Rightarrow> (client_exn + unit) \<times> 's client" where
  "signOut srv base c =
     (case request_call srv base (js ''POST'') (js ''/auth/logout'') Undefined c of
        (Inl e, c') \<Rightarrow> (Inl e, c')
      | (Inr v, c') \<Rightarrow> (Inr (), c'\<lparr>cl_csrf := None\<rparr>))"

definition signInRedirect :: "js_string \<Rightarrow> js_string" where
  "signInRedirect base = url base (js ''/auth/login'')"

section \<open>Endpoint bindings\<close>

record call =
  ca_method :: js_string
  ca_path :: "client_exn + js_string"
  ca_body :: js_value

definition get_call :: "js_string \<Rightarrow> call" where
  "get_call path = \<lparr>ca_method = js ''GET'', ca_path = Inr path, ca_body = Undefined\<rparr>"

definition send_call :: "string \<Rightarrow> js_string \<Rightarrow> js_value \<Rightarrow> call" where
  "send_call m path body = \<lparr>ca_method = js m, ca_path = Inr path, ca_body = body\<rparr>"

text \<open>A path with an encoded id; a lone surrogate in the id throws before anything is sent.\<close>

definition id_call :: "string \<Rightarrow> string \<Rightarrow> js_string \<Rightarrow> string \<Rightarrow> js_value \<Rightarrow> call" where
  "id_call m prefix i suffix body =
     \<lparr>ca_method = js m,
      ca_path = (case encodeURIComponent i of
          Inl e \<Rightarrow> Inl Uri_error | Inr t \<Rightarrow> Inr (js prefix @ t @ js suffix)),
      ca_body = body\<rparr>"

definition with_query :: "js_string \<Rightarrow> (js_string \<times> js_string) list \<Rightarrow> js_string" where
  "with_query path ps =
     (let qs = params_text ps in path @ (if qs \<noteq> [] then 63 # qs else []))"

definition given_params :: "(string \<times> js_string option) list \<Rightarrow> (js_string \<times> js_string) list" where
  "given_params ps = map (\<lambda>(k, v). (js k, the v)) (filter (\<lambda>(k, v). truthy v) ps)"

fun opt_value :: "js_string option \<Rightarrow> js_value" where
  "opt_value None = JNull"
| "opt_value (Some s) = JStr s"

definition body_fields :: "(string \<times> js_value) list \<Rightarrow> js_value" where
  "body_fields ps = JObj (map (\<lambda>(k, v). (js k, v)) ps)"

definition ids_body :: "js_string list \<Rightarrow> js_value" where
  "ids_body ids = body_fields [(''migrationUserIds'', JArr (map JStr ids))]"

definition getAppInfo :: call where
  "getAppInfo = get_call (js ''/api/app-info'')"

datatype tenants_api =
    Tenants_list
  | Tenants_create tenant_role js_string js_string js_string
  | Tenants_test js_string
  | Tenants_rotate js_string js_string "js_string option"
  | Tenants_disconnect js_string

fun tenants_call :: "tenants_api \<Rightarrow> call" where
  "tenants_call Tenants_list = get_call (js ''/api/tenants'')"
| "tenants_call (Tenants_create role tenantId clientId secret) =
     send_call ''POST'' (js ''/api/tenants'')
       (body_fields [(''role'', JStr (role_text role)), (''tenantId'', JStr tenantId),
                (''clientId'', JStr clientId), (''clientSecret'', JStr secret)])"
| "tenants_call (Tenants_test i) = id_call ''POST'' ''/api/tenants/'' i ''/test'' Undefined"
| "tenants_call (Tenants_rotate i secret expiry) =
     id_call ''POST'' ''/api/tenants/'' i ''/secret''
       (body_fields [(''clientSecret'', JStr secret),
                (''secretExpiry'', case expiry of None \<Rightarrow> Undefined | Some t \<Rightarrow> JStr t)])"
| "tenants_call (Tenants_disconnect i) = id_call ''DELETE'' ''/api/tenants/'' i [] Undefined"

definition discovery_call :: "js_string option \<Rightarrow> js_string option \<Rightarrow> call" where
  "discovery_call search cursor =
     get_call (with_query (js ''/api/discovery/users'')
       (given_params [(''search'', search), (''cursor'', cursor)]))"

datatype users_api =
    Users_list
  | Users_add js_value
  | Users_import js_string
  | Users_remove js_string
  | Users_mapping js_string "js_string option" "js_string option" mapping_status

fun users_call :: "users_api \<Rightarrow> call" where
  "users_call Users_list = get_call (js ''/api/migration-users'')"
| "users_call (Users_add users) = send_call ''POST'' (js ''/api/migration-users'') users"
| "users_call (Users_import csv) =
     send_call ''POST'' (js ''/api/migration-users/import'') (body_fields [(''csv'', JStr csv)])"
| "users_call (Users_remove i) = id_call ''DELETE'' ''/api/migration-users/'' i [] Undefined"
| "users_call (Users_mapping i email upn status) =
     id_call ''PATCH'' ''/api/migration-users/'' i ''/mapping''
       (body_fields [(''targetEmail'', opt_value email), (''targetUpn'', opt_value upn),
                (''mappingStatus'', JStr (mapping_text status))])"

definition provision_call :: "js_string list \<Rightarrow> call" where
  "provision_call ids = send_call ''POST'' (js ''/api/provision'') (ids_body ids)"

datatype jobs_api =
    Jobs_create "js_string list" | Jobs_list | Jobs_get js_string
  | Jobs_cancel js_string | Jobs_retry js_string | Jobs_delta js_string

fun jobs_call :: "jobs_api \<Rightarrow> call" where
  "jobs_call (Jobs_create ids) = send_call ''POST'' (js ''/api/jobs'') (ids_body ids)"
| "jobs_call Jobs_list = get_call (js ''/api/jobs'')"
| "jobs_call (Jobs_get i) = id_call ''GET'' ''/api/jobs/'' i [] Undefined"
| "jobs_call (Jobs_cancel i) = id_call ''POST'' ''/api/jobs/'' i ''/cancel'' Undefined"
| "jobs_call (Jobs_retry i) = id_call ''POST'' ''/api/jobs/'' i ''/retry'' Undefined"
| "jobs_call (Jobs_delta i) = id_call ''POST'' ''/api/jobs/'' i ''/delta'' Undefined"

definition report_call :: "js_string \<Rightarrow> call" where
  "report_call i = id_call ''GET'' ''/api/reports/'' i [] Undefined"

definition report_export_url :: "js_string \<Rightarrow> js_string \<Rightarrow> client_exn + js_string" where
  "report_export_url base i =
     (case ca_path (id_call ''GET'' ''/api/reports/'' i ''/export'' Undefined) of
        Inl e \<Rightarrow> Inl e | Inr p \<Rightarrow> Inr (url base p))"

record audit_params =
  ap_actor :: "js_string option"
  ap_action :: "js_string option"
  ap_from :: "js_string option"
  ap_to :: "js_string option"
  ap_cursor :: "js_string option"

definition audit_list_call :: "audit_params \<Rightarrow> call" where
  "audit_list_call p =
     get_call (with_query (js ''/api/audit'')
       (given_params [(''actor'', ap_actor p), (''action'', ap_action p), (''from'', ap_from p),
                      (''to'', ap_to p), (''cursor'', ap_cursor p)]))"

definition audit_export_url :: "js_string \<Rightarrow> audit_params \<Rightarrow> js_string" where
  "audit_export_url base p =
     url base (with_query (js ''/api/audit/export'')
       (given_params [(''actor'', ap_actor p), (''action'', ap_action p), (''from'', ap_from p),
                      (''to'', ap_to p)]))"

definition budget_call :: call where
  "budget_call = get_call (js ''/api/budget'')"

definition config_get_call :: call where
  "config_get_call = get_call (js ''/api/config'')"

definition config_update_call :: "js_value \<Rightarrow> call" where
  "config_update_call patch = send_call ''PATCH'' (js ''/api/config'') patch"

definition invoke :: "'s server \<Rightarrow> js_string \<Rightarrow> call \<Rightarrow> 's client \<Rightarrow> (client_exn + js_value) \<times> 's client" where
  "invoke srv base k c =
     (case ca_path k of
        Inl e \<Rightarrow> (Inl e, c)
      | Inr path \<Rightarrow> request_call srv base (ca_method k) path (ca_body k) c)"

text \<open>The password file is fetched on its own, since its answer is text: a rejected
  \<open>fetch\<close> is rethrown as it is.\<close>

definition download_error :: "int \<Rightarrow> js_value \<Rightarrow> client_error" where
  "download_error status parsed =
     (let e = get_key parsed (js ''error'')
      in \<lparr>ce_code = nullish_or (get_key e (js ''code'')) (httpToCode status),
          ce_message = js_text (nullish_or (get_key e (js ''message'')) (JStr (js ''Password download failed''))),
          ce_status = status, ce_detail = Undefined\<rparr>)"

definition downloadPasswords ::
    "'s server \<Rightarrow> js_string \<Rightarrow> bool \<Rightarrow> 's client \<Rightarrow> (client_exn + js_string) \<times> 's client"
where
  "downloadPasswords srv base acknowledge c =
     (let (r, c') = transmit srv
            \<lparr>wq_method = js ''GET'',
             wq_url = url base (js ''/api/passwords/download?acknowledge='' @
                        (if acknowledge then js ''true'' else js ''false'')),
             wq_headers = [(js ''Accept'', js ''text/csv'')], wq_body = None\<rparr> c
      in (case r of
            Aborted \<Rightarrow> Inl Abort_error
          | Unreachable \<Rightarrow> Inl Read_error
          | Reply status statusText body \<Rightarrow>
              (case body of
                 None \<Rightarrow> Inl Read_error
               | Some t \<Rightarrow>
                   if 200 \<le> status \<and> status < 300 then Inr t
                   else Inl (Client_error (download_error status (safeJson t)))), c'))"

end
