(* ===== verification/ClientServer.thy ===== *)
theory ClientServer
  imports Client GuardLaws Tenancy
begin

text \<open>
  The browser client against the Worker: requests of one engineer's browser, with its session
  cookie, pass the middleware of \<open>Guards\<close> and reach the routes of \<open>/api\<close>. The routes other
  than \<open>/api/me\<close> are the parameter \<open>handler\<close>; \<open>clk\<close> gives the time of each request.
\<close>

section \<open>What the log of a request says\<close>

definition is_write :: "wire_request \<Rightarrow> bool" where
  "is_write q \<longleftrightarrow> wq_method q \<in> set UNSAFE_METHODS"

definition refused :: "wire_request \<times> reply \<Rightarrow> bool" where
  "refused e \<longleftrightarrow> has_code ''csrf'' (answer (snd e))"

definition asks_me :: "js_string \<Rightarrow> wire_request \<times> reply \<Rightarrow> bool" where
  "asks_me base e \<longleftrightarrow> wq_method (fst e) = js ''GET'' \<and> wq_url (fst e) = url base ME"

lemma keep_token_frame [simp]:
  "cl_log (keep_token r c) = cl_log c" "cl_bounces (keep_token r c) = cl_bounces c"
  "cl_server (keep_token r c) = cl_server c"
  by (auto simp add: keep_token_def split: sum.split)

lemma bounce_frame [simp]:
  "cl_log (bounce p r c) = cl_log c" "cl_csrf (bounce p r c) = cl_csrf c"
  "cl_server (bounce p r c) = cl_server c"
  by (simp_all add: bounce_def)

lemma attempt_log:
  "attempt srv base m path body c = (r, c') \<Longrightarrow>
   \<exists>q rp. cl_log c' = cl_log c @ [(q, rp)] \<and> r = answer rp \<and> wq_method q = m \<and> wq_url q = url base path"
  by (auto simp add: attempt_def transmit_def wire_def Let_def split: prod.splits)

lemma getMe_log:
  "\<exists>e. cl_log (snd (getMe srv base c)) = cl_log c @ [e] \<and> asks_me base e"
proof -
  obtain r c' where at: "attempt srv base (js ''GET'') ME Undefined c = (r, c')" by fastforce
  then have "snd (getMe srv base c) = keep_token r c'" by (simp add: getMe_def)
  with attempt_log [OF at] show ?thesis by (auto simp add: asks_me_def)
qed

definition mine :: "js_string \<Rightarrow> js_string \<Rightarrow> js_string \<Rightarrow> wire_request \<times> reply \<Rightarrow> bool" where
  "mine base m path e \<longleftrightarrow> wq_method (fst e) = m \<and> wq_url (fst e) = url base path"

lemma request_call_eq:
  assumes "(if toUpperCase meth \<in> set UNSAFE_METHODS \<and> \<not> truthy (cl_csrf c)
      then snd (getMe srv base c) else c) = c1"
    and "attempt srv base (toUpperCase meth) path body c1 = (r, c2)"
  shows "request_call srv base meth path body c =
    (if has_code ''csrf'' r \<and> toUpperCase meth \<in> set UNSAFE_METHODS then
       (case attempt srv base (toUpperCase meth) path body (snd (getMe srv base (c2\<lparr>cl_csrf := None\<rparr>))) of
          (r', c4) \<Rightarrow> (r', bounce path r' c4))
     else (r, bounce path r c2))"
  unfolding request_call_def Let_def assms prod.case ..

text \<open>
  A write is sent at most twice: in the log of a state-changing request everything but
  the request itself is the client's own \<open>GET /api/me\<close>, at most once before it and once
  between two sends; the request is sent a second time only after the first was refused
  with the code \<open>csrf\<close>, and its result is the answer of the last send.
\<close>

theorem write_sent_twice_at_most:
  "case request_call srv base meth path body c of (r, c') \<Rightarrow>
     \<exists>pre q rest. cl_log c' = cl_log c @ pre @ q # rest
       \<and> mine base (toUpperCase meth) path q \<and> (pre = [] \<or> (\<exists>me. pre = [me] \<and> asks_me base me))
       \<and> (rest = [] \<and> r = answer (snd q)
          \<or> (\<exists>me q2. rest = [me, q2] \<and> asks_me base me \<and> refused q
               \<and> toUpperCase meth \<in> set UNSAFE_METHODS
               \<and> mine base (toUpperCase meth) path q2 \<and> r = answer (snd q2)))"
proof -
  let ?m = "toUpperCase meth" and ?unsafe = "toUpperCase meth \<in> set UNSAFE_METHODS"
  obtain c1 where c1: "(if ?unsafe \<and> \<not> truthy (cl_csrf c) then snd (getMe srv base c) else c) = c1" by blast
  obtain pre where pre: "cl_log c1 = cl_log c @ pre" "pre = [] \<or> (\<exists>me. pre = [me] \<and> asks_me base me)"
    using getMe_log [of srv base c] c1 by (cases "?unsafe \<and> \<not> truthy (cl_csrf c)") auto
  obtain r c2 where first: "attempt srv base ?m path body c1 = (r, c2)" by fastforce
  from attempt_log [OF this] obtain q rp where q: "cl_log c2 = cl_log c1 @ [(q, rp)]" "r = answer rp"
    "mine base ?m path (q, rp)" by (auto simp add: mine_def)
  note eq = request_call_eq [OF c1 first]
  show ?thesis
  proof (cases "has_code ''csrf'' r \<and> ?unsafe")
    case False
    show ?thesis unfolding eq if_not_P [OF False] prod.case
      by (intro exI [of _ pre] exI [of _ "(q, rp)"] exI [of _ "[]"]) (use pre q in simp)
  next
    case True
    define c3 where "c3 = snd (getMe srv base (c2\<lparr>cl_csrf := None\<rparr>))"
    obtain me where me: "cl_log c3 = cl_log c2 @ [me]" "asks_me base me"
      using getMe_log [of srv base "c2\<lparr>cl_csrf := None\<rparr>"] by (auto simp add: c3_def)
    obtain r' c4 where second: "attempt srv base ?m path body c3 = (r', c4)" by fastforce
    from attempt_log [OF this] obtain q2 rp2 where q2: "cl_log c4 = cl_log c3 @ [(q2, rp2)]"
      "r' = answer rp2" "mine base ?m path (q2, rp2)" by (auto simp add: mine_def)
    have "refused (q, rp)" using True q(2) by (simp add: refused_def)
    then show ?thesis unfolding eq if_P [OF True] c3_def [symmetric] second prod.case
      by (intro exI [of _ pre] exI [of _ "(q, rp)"] exI [of _ "[me, (q2, rp2)]"])
        (use pre q me q2 True in simp)
  qed
qed

section \<open>The Worker as the server\<close>

type_synonym handler = "instant \<Rightarrow> session_record \<Rightarrow> wire_request \<Rightarrow> world \<Rightarrow> js_value outcome"

record site =
  st_mem :: isolate
  st_world :: world
  st_tick :: nat
  st_runs :: nat

definition browser_request :: "js_string \<Rightarrow> js_string option \<Rightarrow> wire_request \<Rightarrow> web_request" where
  "browser_request host cookie q =
     \<lparr>rq_method = wq_method q, rq_path = takeWhile (\<lambda>c. c \<noteq> 63) (wq_url q), rq_hostname = host,
      rq_cookie = cookie, rq_csrf = map_of (wq_headers q) (js ''X-CSRF-Token''),
      rq_access_jwt = None, rq_ip = None, rq_query = []\<rparr>"

definition envelope_value :: "envelope \<Rightarrow> js_value" where
  "envelope_value v =
     JObj [(js ''error'', JObj
       ([(js ''code'', JStr (code_text (env_code v))), (js ''message'', JStr (env_message v))]
        @ (case env_detail v of None \<Rightarrow> [] | Some d \<Rightarrow> [(js ''detail'', JStr d)])))]"

definition error_reply :: "exn \<Rightarrow> reply" where
  "error_reply e = (let (status, v) = on_error e in Reply (int status) [] (stringify (envelope_value v)))"

definition me_value :: "me \<Rightarrow> js_value" where
  "me_value m =
     JObj [(js ''upn'', JStr (me_upn m)), (js ''displayName'', opt_value (me_display_name m)),
           (js ''groupOk'', JBool (me_group_ok m)), (js ''csrfToken'', JStr (me_csrf_token m))]"

definition is_me :: "wire_request \<Rightarrow> bool" where
  "is_me q \<longleftrightarrow> wq_method q = js ''GET'' \<and> wq_url q = ME"

definition serve ::
    "platform \<Rightarrow> env \<Rightarrow> (nat \<Rightarrow> instant) \<Rightarrow> js_string \<Rightarrow> js_string option \<Rightarrow> handler \<Rightarrow> site server"
where
  "serve pf ev clk host cookie handler st q =
     (let now = clk (st_tick st);
          (g, mem, w) = api_guard pf ev now (browser_request host cookie q) (st_mem st) (st_world st);
          st1 = st\<lparr>st_mem := mem, st_world := w, st_tick := Suc (st_tick st)\<rparr>
      in case g of
           Inl e \<Rightarrow> (error_reply e, st1)
         | Inr (Engineer s) \<Rightarrow>
             if is_me q then (Reply 200 [] (stringify (me_value (get_me s))), st1)
             else
               (case handler now s q w of (res, w') \<Rightarrow>
                  (case res of Inl e \<Rightarrow> error_reply e | Inr v \<Rightarrow> Reply 200 [] (stringify v),
                   st1\<lparr>st_world := w', st_runs := Suc (st_runs st)\<rparr>))
         | Inr p \<Rightarrow> (error_reply (err Not_found ''Not found''), st1))"

text \<open>An answer the route may give: a value with a text, or an error other than \<open>csrf\<close>.\<close>

fun proper :: "exn + js_value \<Rightarrow> bool" where
  "proper (Inr v) = json_value v"
| "proper (Inl e) =
     (let v = snd (on_error e)
      in env_code v \<noteq> Csrf_code \<and> units16 (env_message v) \<and> pred_option units16 (env_detail v))"

lemma code_text_units: "units16 (code_text c)"
  by (cases c) (simp_all add: code_text_def units16_def js_def)

lemma envelope_json:
  "units16 (env_message v) \<Longrightarrow> pred_option units16 (env_detail v) \<Longrightarrow> json_value (envelope_value v)"
  using code_text_units by (cases "env_detail v") (simp_all add: envelope_value_def units16_def js_def)

lemma safe_json_stringify:
  assumes "json_value v" and "stringify v = Some t"
  shows "t \<noteq> [] \<and> safeJson t = v"
proof -
  have "t = json_text v" using assms(2) by (simp add: stringify_def split: if_splits)
  with parse_json_text [OF assms(1)] json_text_head [OF assms(1)] show ?thesis by (simp add: safeJson_def)
qed

lemma on_error_status: "400 \<le> fst (on_error e)"
proof (cases e)
  case (Api_error a)
  then show ?thesis by (cases "ae_code a") simp_all
qed simp_all

lemma error_reply_code:
  assumes "units16 (env_message (snd (on_error e)))" "pred_option units16 (env_detail (snd (on_error e)))"
  shows "\<exists>ce. answer (error_reply e) = Inl (Client_error ce)
    \<and> ce_code ce = JStr (code_text (env_code (snd (on_error e))))
    \<and> ce_message ce = env_message (snd (on_error e))"
proof -
  obtain status v where s: "on_error e = (status, v)" by fastforce
  then have "400 \<le> status" using on_error_status [of e] by simp
  moreover obtain t where t: "stringify (envelope_value v) = Some t"
    by (auto simp add: stringify_def envelope_value_def)
  moreover have "t \<noteq> [] \<and> safeJson t = envelope_value v"
    using safe_json_stringify [OF envelope_json t] assms s by simp
  ultimately show ?thesis
    using s by (auto simp add: error_reply_def error_of_def envelope_value_def nullish_or_def js_def)
qed

section \<open>The handler runs at most once\<close>

lemma digits_units: "units16 (digits n)"
  using digits_range [of n] by (auto simp add: units16_def list_all_iff)

lemma units16_simps [simp]:
  "units16 [] = True" "units16 (c # s) = (c < 65536 \<and> units16 s)" "units16 (s @ t) = (units16 s \<and> units16 t)"
  by (simp_all add: units16_def)

lemma ui_error_text:
  assumes "ui_guard pf now rq mem w = (Inl e, mem', w')"
  shows "units16 (env_message (snd (on_error e))) \<and> pred_option units16 (env_detail (snd (on_error e)))"
  using assms
  by (auto simp add: ui_guard_def requireSession_def rateLimit_def budgetGuard_def throw_api_def throw_text_def
      to_envelope_def units16_js digits_units Let_def split: prod.splits option.splits if_splits sum.splits)

definition ui_path :: "js_string \<Rightarrow> bool" where
  "ui_path path \<longleftrightarrow> \<not> startsWith (takeWhile (\<lambda>c. c \<noteq> 63) path) VM_PREFIX
     \<and> takeWhile (\<lambda>c. c \<noteq> 63) path \<noteq> js ''/api/app-info''"

lemma ui_guard_only:
  "ui_path (wq_url q) \<Longrightarrow> api_guard pf ev now (browser_request host cookie q) mem w =
     ui_guard pf now (browser_request host cookie q) mem w"
  by (auto simp add: api_guard_def ui_path_def browser_request_def vm_route_def VM_PREFIX_def
      startsWith_append js_def)

lemma ui_guard_engineer: "ui_guard pf now rq mem w = (Inr p, mem', w') \<Longrightarrow> \<exists>s. p = Engineer s"
  by (auto simp add: ui_guard_def split: prod.splits option.splits sum.splits simp: Let_def)

lemma proper_reply:
  assumes "proper res"
  shows "\<not> has_code ''csrf'' (answer (case res of Inl e \<Rightarrow> error_reply e | Inr v \<Rightarrow> Reply 200 [] (stringify v)))"
proof (cases res)
  case (Inl e)
  with assms have "env_code (snd (on_error e)) \<noteq> Csrf_code"
    "units16 (env_message (snd (on_error e)))" "pred_option units16 (env_detail (snd (on_error e)))"
    by (simp_all add: Let_def)
  moreover from this obtain ce where "answer (error_reply e) = Inl (Client_error ce)"
    "ce_code ce = JStr (code_text (env_code (snd (on_error e))))"
    using error_reply_code [of e] by blast
  moreover have "code_text Csrf_code = js ''csrf''" by (simp add: code_text_def)
  ultimately show ?thesis using code_text_inj [of _ Csrf_code] Inl by auto
next
  case (Inr v)
  with assms have "v \<noteq> Undefined" by auto
  with Inr show ?thesis by (simp add: stringify_def Let_def)
qed

lemma serve_runs:
  assumes "serve pf ev clk host cookie handler st q = (rp, st')" and "ui_path (wq_url q)"
    and "\<forall>now s q w. proper (fst (handler now s q w))"
  shows "if is_me q then st_runs st' = st_runs st
    else st_runs st' = st_runs st \<and> (\<forall>v. answer rp \<noteq> Inr v)
      \<or> st_runs st' = Suc (st_runs st) \<and> \<not> has_code ''csrf'' (answer rp)"
proof -
  obtain g mem w where g: "ui_guard pf (clk (st_tick st)) (browser_request host cookie q) (st_mem st) (st_world st)
      = (g, mem, w)" by (metis prod_cases3)
  show ?thesis
  proof (cases g)
    case (Inl e)
    have "\<exists>ce. answer (error_reply e) = Inl (Client_error ce)"
      using error_reply_code [of e] ui_error_text [OF g [unfolded Inl]] by blast
    with assms(1) show ?thesis by (auto simp add: serve_def ui_guard_only [OF assms(2)] g Inl)
  next
    case (Inr p)
    with ui_guard_engineer g obtain s where s: "p = Engineer s" by blast
    obtain res w' where h: "handler (clk (st_tick st)) s q w = (res, w')" by fastforce
    then have "proper res" using assms(3) by (metis fst_conv)
    from proper_reply [OF this] assms(1) h show ?thesis
      by (auto simp add: serve_def ui_guard_only [OF assms(2)] g Inr s split: if_splits)
  qed
qed

lemma attempt_serve:
  assumes "attempt srv base m path body c = (r, c')"
  shows "\<exists>rp. srv (cl_server c) (wire base m path body (cl_csrf c)) = (rp, cl_server c')
    \<and> r = answer rp \<and> cl_csrf c' = cl_csrf c"
  using assms by (auto simp add: attempt_def transmit_def Let_def split: prod.splits)

lemma getMe_serve:
  obtains rp where "srv (cl_server c) (wire base (js ''GET'') ME Undefined (cl_csrf c)) =
      (rp, cl_server (snd (getMe srv base c)))"
    and "cl_csrf (snd (getMe srv base c)) = cl_csrf (keep_token (answer rp) c)"
proof -
  obtain r c' where at: "attempt srv base (js ''GET'') ME Undefined c = (r, c')" by fastforce
  then have "snd (getMe srv base c) = keep_token r c'" by (simp add: getMe_def)
  moreover have "cl_csrf (keep_token r c') = cl_csrf (keep_token r c)" if "cl_csrf c' = cl_csrf c"
    using that by (simp add: keep_token_def split: sum.split)
  ultimately show thesis using attempt_serve [OF at] that by auto
qed

lemma is_me_wire [simp]: "is_me (wire [] (js ''GET'') ME Undefined tok)"
  by (simp add: is_me_def wire_def url_def)

lemma write_not_me: "m \<in> set UNSAFE_METHODS \<Longrightarrow> \<not> is_me (wire base m path body tok)"
  by (auto simp add: is_me_def wire_def UNSAFE_METHODS_def)

lemma ui_path_wire [simp]: "ui_path (wq_url (wire [] m path body tok)) = ui_path path"
  by (simp add: wire_def url_def)

lemma ui_path_me: "ui_path ME"
  by code_simp

text \<open>
  C7. Exactly once: a state-changing call of the client to a route of the engineer's plane
  runs its handler at most once, however often the client sends it and whatever token it
  holds; when the call returns a value the handler ran once. (No handler of these routes
  answers with the code \<open>csrf\<close>.)
\<close>

theorem write_runs_once:
  assumes "\<forall>now s q w. proper (fst (handler now s q w))"
    and "toUpperCase meth \<in> set UNSAFE_METHODS" and "ui_path path"
  shows "case request_call (serve pf ev clk host cookie handler) [] meth path body c of (r, c') \<Rightarrow>
    st_runs (cl_server c) \<le> st_runs (cl_server c')
    \<and> st_runs (cl_server c') \<le> Suc (st_runs (cl_server c))
    \<and> (case r of Inl e \<Rightarrow> True | Inr v \<Rightarrow> st_runs (cl_server c') = Suc (st_runs (cl_server c)))"
proof -
  let ?srv = "serve pf ev clk host cookie handler" and ?m = "toUpperCase meth"
  have me: "st_runs (cl_server (snd (getMe ?srv [] d))) = st_runs (cl_server d)" for d
  proof -
    obtain rp where "?srv (cl_server d) (wire [] (js ''GET'') ME Undefined (cl_csrf d)) =
        (rp, cl_server (snd (getMe ?srv [] d)))"
      by (rule getMe_serve)
    from serve_runs [OF this _ assms(1)] show ?thesis by (simp add: ui_path_me)
  qed
  have send: "st_runs (cl_server d') = st_runs (cl_server d) \<and> (\<forall>v. r \<noteq> Inr v)
      \<or> st_runs (cl_server d') = Suc (st_runs (cl_server d)) \<and> \<not> has_code ''csrf'' r"
    if at: "attempt ?srv [] ?m path body d = (r, d')" for d d' r
  proof -
    obtain rp where rp: "?srv (cl_server d) (wire [] ?m path body (cl_csrf d)) = (rp, cl_server d')" "r = answer rp"
      using attempt_serve [OF at] by blast
    from serve_runs [OF rp(1) _ assms(1)] show ?thesis
      using assms(3) write_not_me [OF assms(2)] rp(2) by simp
  qed
  obtain c1 where c1: "(if ?m \<in> set UNSAFE_METHODS \<and> \<not> truthy (cl_csrf c) then snd (getMe ?srv [] c) else c) = c1"
    by blast
  then have runs1: "st_runs (cl_server c1) = st_runs (cl_server c)" using me by (auto split: if_splits)
  obtain r c2 where first: "attempt ?srv [] ?m path body c1 = (r, c2)" by fastforce
  note eq = request_call_eq [OF c1 first]
  show ?thesis
  proof (cases "has_code ''csrf'' r \<and> ?m \<in> set UNSAFE_METHODS")
    case False
    with send [OF first] runs1 show ?thesis unfolding eq by (auto split: sum.split)
  next
    case True
    define c3 where "c3 = snd (getMe ?srv [] (c2\<lparr>cl_csrf := None\<rparr>))"
    have "st_runs (cl_server c3) = st_runs (cl_server c)"
      using send [OF first] True runs1 me [of "c2\<lparr>cl_csrf := None\<rparr>"] by (auto simp add: c3_def)
    moreover obtain r' c4 where second: "attempt ?srv [] ?m path body c3 = (r', c4)" by fastforce
    ultimately show ?thesis
      unfolding eq if_P [OF True] c3_def [symmetric] second prod.case
      using send [OF second] by (auto split: sum.split)
  qed
qed

section \<open>A stale token is replaced\<close>

definition calls_made :: "js_string \<Rightarrow> isolate \<Rightarrow> nat" where
  "calls_made key mem = (case lookup_by bk_key key (is_buckets mem) of None \<Rightarrow> 0 | Some b \<Rightarrow> bk_count b)"

lemma rateLimit_open:
  assumes "rateLimit now key bs = (res, bs')" and "calls_made key (mem\<lparr>is_buckets := bs\<rparr>) < 120"
  shows "res = None \<and> calls_made key (mem'\<lparr>is_buckets := bs'\<rparr>) \<le> Suc (calls_made key (mem\<lparr>is_buckets := bs\<rparr>))"
proof -
  define b where "b = (case lookup_by bk_key key bs of
      None \<Rightarrow> fresh_bucket now key | Some b \<Rightarrow> if bk_reset_at b \<le> now then fresh_bucket now key else b)"
  have key: "bk_key b = key"
    by (auto simp add: b_def fresh_bucket_def split: option.split dest: lookup_by_Some)
  have count: "bk_count b \<le> calls_made key (mem\<lparr>is_buckets := bs\<rparr>)"
    by (auto simp add: b_def fresh_bucket_def calls_made_def split: option.split)
  define b' where "b' = b\<lparr>bk_count := Suc (bk_count b)\<rparr>"
  have "lookup_by bk_key (bk_key b') (upsert_by bk_key (\<lambda>row. b') b' bs) = Some b'"
    by (subst lookup_by_upsert_same) (simp_all split: option.split)
  then have "lookup_by bk_key key (upsert_by bk_key (\<lambda>row. b') b' bs) = Some b'"
    by (simp add: b'_def key)
  moreover have "bs' = upsert_by bk_key (\<lambda>row. b') b' bs"
    "res = (if MAX_PER_WINDOW < bk_count b' then res else None)"
    using assms(1) by (auto simp add: rateLimit_def Let_def b_def b'_def)
  ultimately show ?thesis using count assms(2)
    by (auto simp add: calls_made_def b'_def MAX_PER_WINDOW_def split: if_splits)
qed

text \<open>The session \<open>s\<close> is live for the whole exchange, writes are open and the limiter has room.\<close>

definition live :: "platform \<Rightarrow> (nat \<Rightarrow> instant) \<Rightarrow> js_string option \<Rightarrow> session_record \<Rightarrow> world \<Rightarrow> bool" where
  "live pf clk cookie s w \<longleftrightarrow>
     (\<exists>raw. cookie = Some raw \<and> raw \<noteq> [] \<and> getSession (sha256Hex (pf_sha256 pf) raw) (w_sessions w) = Some s)
     \<and> ss_group_ok s \<and> ss_csrf_token s \<noteq> [] \<and> units16 (ss_csrf_token s) \<and> units16 (ss_actor_upn s)
     \<and> pred_option units16 (ss_display_name s)
     \<and> (\<forall>n. clk n < ss_expires_at s \<and> \<not> isHardExhausted (clk n) (w_config w) (w_budget w))"

definition carries :: "wire_request \<Rightarrow> js_string \<Rightarrow> bool" where
  "carries q tok \<longleftrightarrow> map_of (wq_headers q) (js ''X-CSRF-Token'') = Some tok"

lemma live_resolve:
  assumes "live pf clk cookie s w"
  shows "resolveSession pf (clk n) cookie (w_sessions w) = (Some s, w_sessions w)"
proof -
  have "\<not> ss_expires_at s \<le> clk n" using assms by (simp add: live_def not_le)
  with assms show ?thesis by (auto simp add: live_def resolveSession_def Let_def)
qed

lemma live_refuses:
  assumes "live pf clk cookie s w"
    and "\<not> read_method (browser_request host cookie q)" and "\<not> carries q (ss_csrf_token s)"
  shows "ui_guard pf (clk n) (browser_request host cookie q) mem w =
    (Inl (err Csrf_code ''Invalid or missing CSRF token''), mem, w)"
proof -
  have "\<not> csrf_ok (browser_request host cookie q) s"
    using assms(3) by (auto simp add: carries_def csrf_ok_def browser_request_def truthy_iff)
  moreover have "ss_group_ok s" using assms(1) by (simp add: live_def)
  ultimately have "requireSession pf (clk n) (browser_request host cookie q) (w_sessions w) =
      (Inl (err Csrf_code ''Invalid or missing CSRF token''), w_sessions w)"
    using live_resolve [OF assms(1)] assms(2) by (simp add: requireSession_def browser_request_def)
  then show ?thesis by (simp add: ui_guard_def)
qed

lemma live_admits:
  assumes "live pf clk cookie s w" and "calls_made (ss_id s) mem < 120"
    and "read_method (browser_request host cookie q) \<or> carries q (ss_csrf_token s)"
  shows "\<exists>mem'. ui_guard pf (clk n) (browser_request host cookie q) mem w = (Inr (Engineer s), mem', w)
    \<and> calls_made (ss_id s) mem' \<le> Suc (calls_made (ss_id s) mem)"
proof -
  have "csrf_ok (browser_request host cookie q) s" if "carries q (ss_csrf_token s)"
    using that assms(1) by (simp add: carries_def csrf_ok_def browser_request_def live_def)
  moreover have "ss_group_ok s" using assms(1) by (simp add: live_def)
  ultimately have sess: "requireSession pf (clk n) (browser_request host cookie q) (w_sessions w) = (Inr s, w_sessions w)"
    using live_resolve [OF assms(1)] assms(3) by (auto simp add: requireSession_def browser_request_def)
  have key: "rate_key (Some s) rq = ss_id s" for rq by (simp add: rate_key_def)
  obtain res bs where rl: "rateLimit (clk n) (ss_id s) (is_buckets mem) = (res, bs)" by fastforce
  have same: "mem\<lparr>is_buckets := is_buckets mem\<rparr> = mem" by simp
  from rateLimit_open [OF rl, of mem mem] assms(2) have "res = None"
    "calls_made (ss_id s) (mem\<lparr>is_buckets := bs\<rparr>) \<le> Suc (calls_made (ss_id s) mem)"
    unfolding same by auto
  moreover have "budgetGuard (clk n) rq w = None" for rq
    using assms(1) by (simp add: budgetGuard_def live_def)
  ultimately show ?thesis by (simp add: ui_guard_def sess key rl)
qed

lemma carries_wire:
  assumes "m \<in> set UNSAFE_METHODS" and "tok \<noteq> []"
  shows "carries (wire base m path body csrf) tok \<longleftrightarrow> csrf = Some tok"
  using assms by (cases csrf) (auto simp add: carries_def wire_def request_headers_def)

lemma write_is_no_read:
  assumes "toUpperCase meth \<in> set UNSAFE_METHODS"
  shows "\<not> read_method (browser_request host cookie (wire base (toUpperCase meth) path body csrf))"
proof -
  have "toUpperCase (js ''POST'') = js ''POST''" "toUpperCase (js ''PUT'') = js ''PUT''"
    "toUpperCase (js ''PATCH'') = js ''PATCH''" "toUpperCase (js ''DELETE'') = js ''DELETE''"
    by code_simp+
  with assms have "toUpperCase (toUpperCase meth) = toUpperCase meth"
    by (auto simp add: UNSAFE_METHODS_def)
  with assms show ?thesis
    by (auto simp add: read_method_def browser_request_def wire_def UNSAFE_METHODS_def)
qed

lemma me_is_read: "read_method (browser_request host cookie (wire [] (js ''GET'') ME Undefined csrf))"
proof -
  have "toUpperCase (js ''GET'') = js ''GET''" by code_simp
  then show ?thesis by (simp add: read_method_def browser_request_def wire_def)
qed

lemma me_json:
  "live pf clk cookie s w \<Longrightarrow> json_value (me_value (get_me s))"
  by (cases "ss_display_name s")
    (simp_all add: live_def me_value_def get_me_def units16_js)

text \<open>Asking \<open>/api/me\<close> brings the session's token.\<close>

lemma getMe_live:
  assumes "live pf clk cookie s (st_world (cl_server c))" and "calls_made (ss_id s) (st_mem (cl_server c)) < 120"
    and d_def: "d = snd (getMe (serve pf ev clk host cookie handler) [] c)"
  shows "st_world (cl_server d) = st_world (cl_server c) \<and> st_runs (cl_server d) = st_runs (cl_server c)
    \<and> calls_made (ss_id s) (st_mem (cl_server d)) \<le> Suc (calls_made (ss_id s) (st_mem (cl_server c)))
    \<and> cl_csrf d = Some (ss_csrf_token s)"
proof -
  let ?srv = "serve pf ev clk host cookie handler" and ?q = "wire [] (js ''GET'') ME Undefined (cl_csrf c)"
  obtain rp where rp: "?srv (cl_server c) ?q = (rp, cl_server d)"
    "cl_csrf d = cl_csrf (keep_token (answer rp) c)" unfolding d_def by (rule getMe_serve)
  obtain mem' where g: "ui_guard pf (clk (st_tick (cl_server c))) (browser_request host cookie ?q)
      (st_mem (cl_server c)) (st_world (cl_server c)) = (Inr (Engineer s), mem', st_world (cl_server c))"
    and calls: "calls_made (ss_id s) mem' \<le> Suc (calls_made (ss_id s) (st_mem (cl_server c)))"
    using live_admits [OF assms(1,2)] me_is_read by blast
  have ui: "ui_path (wq_url ?q)" by (simp add: ui_path_me)
  obtain t where t: "stringify (me_value (get_me s)) = Some t"
    by (auto simp add: stringify_def me_value_def)
  have "t \<noteq> [] \<and> safeJson t = me_value (get_me s)"
    by (rule safe_json_stringify [OF me_json [OF assms(1)] t])
  then have read: "answer (Reply 200 [] (stringify (me_value (get_me s)))) = Inr (me_value (get_me s))"
    by (simp add: t Let_def)
  have "ss_csrf_token s \<noteq> []" using assms(1) by (simp add: live_def)
  then have token: "cl_csrf (keep_token (Inr (me_value (get_me s))) c) = Some (ss_csrf_token s)"
    by (simp add: keep_token_def me_value_def get_me_def)
  have "rp = Reply 200 [] (stringify (me_value (get_me s)))"
    "cl_server d = (cl_server c)\<lparr>st_mem := mem', st_tick := Suc (st_tick (cl_server c))\<rparr>"
    using rp(1) by (simp_all add: serve_def ui_guard_only [OF ui] g)
  with rp(2) calls read token show ?thesis by simp
qed

text \<open>The handler ran on the world \<open>w\<close> for this write, with the session's token: it left the
  world \<open>w'\<close> and \<open>r\<close> is what the client reads of its answer.\<close>

definition handled ::
    "handler \<Rightarrow> session_record \<Rightarrow> js_string \<Rightarrow> js_string \<Rightarrow> js_value \<Rightarrow> world \<Rightarrow>
     client_exn + js_value \<Rightarrow> world \<Rightarrow> bool"
where
  "handled handler s method path body w r w' \<longleftrightarrow>
     (\<exists>now q res. carries q (ss_csrf_token s) \<and> wq_url q = path \<and> wq_method q = method
        \<and> wq_body q = stringify body \<and> handler now s q w = (res, w')
        \<and> r = answer (case res of Inl e \<Rightarrow> error_reply e | Inr v \<Rightarrow> Reply 200 [] (stringify v)))"

text \<open>A write with the right token reaches the handler, one with another token is refused
  and changes nothing.\<close>

lemma write_live:
  assumes "live pf clk cookie s (st_world (cl_server c))" and "calls_made (ss_id s) (st_mem (cl_server c)) < 120"
    and "toUpperCase meth \<in> set UNSAFE_METHODS" and "ui_path path"
    and "attempt (serve pf ev clk host cookie handler) [] (toUpperCase meth) path body c = (r, d)"
  shows "if cl_csrf c = Some (ss_csrf_token s)
    then handled handler s (toUpperCase meth) path body (st_world (cl_server c)) r (st_world (cl_server d))
         \<and> st_runs (cl_server d) = Suc (st_runs (cl_server c)) \<and> cl_csrf d = cl_csrf c
    else has_code ''csrf'' r \<and> st_world (cl_server d) = st_world (cl_server c)
         \<and> st_mem (cl_server d) = st_mem (cl_server c) \<and> st_runs (cl_server d) = st_runs (cl_server c)"
proof -
  let ?srv = "serve pf ev clk host cookie handler"
  let ?q = "wire [] (toUpperCase meth) path body (cl_csrf c)"
  have tok: "ss_csrf_token s \<noteq> []" using assms(1) by (simp add: live_def)
  have ui: "ui_path (wq_url ?q)" using assms(4) by simp
  obtain rp where rp: "?srv (cl_server c) ?q = (rp, cl_server d)" "r = answer rp" "cl_csrf d = cl_csrf c"
    using attempt_serve [OF assms(5)] by blast
  show ?thesis
  proof (cases "cl_csrf c = Some (ss_csrf_token s)")
    case True
    then have carries: "carries ?q (ss_csrf_token s)" using carries_wire [OF assms(3) tok] by simp
    then obtain mem' where g: "ui_guard pf (clk (st_tick (cl_server c))) (browser_request host cookie ?q)
        (st_mem (cl_server c)) (st_world (cl_server c)) = (Inr (Engineer s), mem', st_world (cl_server c))"
      using live_admits [OF assms(1,2)] by blast
    obtain res w' where h: "handler (clk (st_tick (cl_server c))) s ?q (st_world (cl_server c)) = (res, w')"
      by fastforce
    have sent: "rp = (case res of Inl e \<Rightarrow> error_reply e | Inr v \<Rightarrow> Reply 200 [] (stringify v))"
      "cl_server d = (cl_server c)\<lparr>st_mem := mem', st_tick := Suc (st_tick (cl_server c)), st_world := w',
         st_runs := Suc (st_runs (cl_server c))\<rparr>"
      using rp(1) write_not_me [OF assms(3)] by (simp_all add: serve_def ui_guard_only [OF ui] g h)
    moreover have "wq_url ?q = path" "wq_method ?q = toUpperCase meth" "wq_body ?q = stringify body"
      by (simp_all add: wire_def url_def)
    ultimately have "handled handler s (toUpperCase meth) path body (st_world (cl_server c)) r w'"
      unfolding handled_def using carries h rp(2) by blast
    with sent rp(3) True show ?thesis by simp
  next
    case False
    then have "\<not> carries ?q (ss_csrf_token s)" using carries_wire [OF assms(3) tok] by simp
    note g = live_refuses [OF assms(1) write_is_no_read [OF assms(3)] this]
    have "has_code ''csrf'' (answer (error_reply (err Csrf_code ''Invalid or missing CSRF token'')))"
      using error_reply_code [of "err Csrf_code ''Invalid or missing CSRF token''"]
      by (auto simp add: throw_api_def to_envelope_def units16_js code_text_def)
    moreover have "rp = error_reply (err Csrf_code ''Invalid or missing CSRF token'')"
      "cl_server d = (cl_server c)\<lparr>st_tick := Suc (st_tick (cl_server c))\<rparr>"
      using rp(1) by (simp_all add: serve_def ui_guard_only [OF ui] g)
    ultimately show ?thesis using rp(2) False by simp
  qed
qed

text \<open>
  C8. A lost or stale CSRF token costs nothing: as long as the engineer's session is live,
  writes are open and the rate limiter has room for three calls, a write of the client runs
  its handler exactly once, on the stored world and with the session's token, whatever
  token the client started with; the call ends with the handler's own answer and the client
  holds the session's token.
\<close>

theorem csrf_recovers:
  assumes "live pf clk cookie s (st_world (cl_server c))"
    and "calls_made (ss_id s) (st_mem (cl_server c)) \<le> 117"
    and "\<forall>now s q w. proper (fst (handler now s q w))"
    and "toUpperCase meth \<in> set UNSAFE_METHODS" and "ui_path path"
  shows "case request_call (serve pf ev clk host cookie handler) [] meth path body c of (r, c') \<Rightarrow>
    st_runs (cl_server c') = Suc (st_runs (cl_server c)) \<and> cl_csrf c' = Some (ss_csrf_token s)
    \<and> handled handler s (toUpperCase meth) path body (st_world (cl_server c)) r (st_world (cl_server c'))"
proof -
  let ?srv = "serve pf ev clk host cookie handler" and ?m = "toUpperCase meth"
  define c1 where "c1 = (if ?m \<in> set UNSAFE_METHODS \<and> \<not> truthy (cl_csrf c) then snd (getMe ?srv [] c) else c)"
  note me = getMe_live [OF _ _ refl, where pf = pf and clk = clk and cookie = cookie and s = s
      and ev = ev and host = host and handler = handler]
  have c1: "st_world (cl_server c1) = st_world (cl_server c)" "st_runs (cl_server c1) = st_runs (cl_server c)"
    "calls_made (ss_id s) (st_mem (cl_server c1)) \<le> 118"
    using me [of c] assms(1,2) by (auto simp add: c1_def)
  then have live1: "live pf clk cookie s (st_world (cl_server c1))" using assms(1) by simp
  obtain r c2 where first: "attempt ?srv [] ?m path body c1 = (r, c2)" by fastforce
  note step = write_live [OF live1 _ assms(4,5) first]
  note eq = request_call_eq [OF c1_def [symmetric] first]
  show ?thesis
  proof (cases "cl_csrf c1 = Some (ss_csrf_token s)")
    case True
    with step c1(3) have out: "handled handler s ?m path body (st_world (cl_server c1)) r (st_world (cl_server c2))"
      "st_runs (cl_server c2) = Suc (st_runs (cl_server c1))" "cl_csrf c2 = cl_csrf c1"
      by auto
    then have "\<not> has_code ''csrf'' r"
      using assms(3) proper_reply unfolding handled_def by (metis fst_conv)
    then show ?thesis unfolding eq using out c1(1,2) True by simp
  next
    case False
    with step c1(3) have refused: "has_code ''csrf'' r" "st_world (cl_server c2) = st_world (cl_server c1)"
      "st_mem (cl_server c2) = st_mem (cl_server c1)" "st_runs (cl_server c2) = st_runs (cl_server c1)"
      by auto
    define c3 where "c3 = snd (getMe ?srv [] (c2\<lparr>cl_csrf := None\<rparr>))"
    have c3: "st_world (cl_server c3) = st_world (cl_server c)" "st_runs (cl_server c3) = st_runs (cl_server c)"
      "calls_made (ss_id s) (st_mem (cl_server c3)) < 120" "cl_csrf c3 = Some (ss_csrf_token s)"
      using me [of "c2\<lparr>cl_csrf := None\<rparr>"] refused c1 assms(1) by (auto simp add: c3_def)
    then have live3: "live pf clk cookie s (st_world (cl_server c3))" using assms(1) by simp
    obtain r' c4 where second: "attempt ?srv [] ?m path body c3 = (r', c4)" by fastforce
    have "has_code ''csrf'' r \<and> ?m \<in> set UNSAFE_METHODS" using refused(1) assms(4) by simp
    then show ?thesis
      unfolding eq if_P [OF \<open>has_code ''csrf'' r \<and> ?m \<in> set UNSAFE_METHODS\<close>] c3_def [symmetric] second prod.case
      using write_live [OF live3 c3(3) assms(4,5) second] c3 by auto
  qed
qed

section \<open>A route of the Worker\<close>

text \<open>\<open>DELETE /api/tenants/:id\<close> as the handler, with the id \<open>tid\<close> the router read.\<close>

definition disconnect_route :: "js_string \<Rightarrow> handler" where
  "disconnect_route tid now s q w =
     (case delete_tenant \<lparr>cx_now = now, cx_actor = ss_actor_upn s, cx_uuid = (\<lambda>n. js ''id'' @ digits n),
         cx_send = (\<lambda>m. True)\<rparr> tid w of
        (Inl e, w') \<Rightarrow> (Inl e, w')
      | (Inr u, w') \<Rightarrow> (Inr (JObj [(js ''ok'', JBool True)]), w'))"

lemma disconnect_proper: "\<forall>now s q w. proper (fst (disconnect_route tid now s q w))"
  by (simp add: disconnect_route_def delete_tenant_def tenant_not_found_def throw_api_def to_envelope_def
      units16_js Let_def split: option.split)

definition demo_site :: site where
  "demo_site =
     \<lparr>st_mem = \<lparr>is_jwks = [], is_buckets = []\<rparr>, st_world = empty_world\<lparr>w_sessions := [demo_session]\<rparr>,
      st_tick = 0, st_runs = 0\<rparr>"

definition demo_client :: "js_string option \<Rightarrow> site client" where
  "demo_client tok = \<lparr>cl_csrf = tok, cl_bounces = 0, cl_server = demo_site, cl_log = []\<rparr>"

definition demo_server :: "site server" where
  "demo_server =
     serve demo_platform demo_env (\<lambda>n. 2000 + int n) [] (Some (opaqueToken [1, 2, 3])) (disconnect_route (js ''t''))"

lemma demo_path: "ui_path (js ''/api/tenants/t'')" "toUpperCase (js ''delete'') \<in> set UNSAFE_METHODS"
  by code_simp+

theorem write_runs_once_witness:
  "case request_call demo_server [] (js ''delete'') (js ''/api/tenants/t'') Undefined (demo_client None) of (r, c') \<Rightarrow>
     st_runs (cl_server c') \<le> 1"
proof -
  obtain r c' where rc: "request_call demo_server [] (js ''delete'') (js ''/api/tenants/t'') Undefined
      (demo_client None) = (r, c')" by (rule prod.exhaust)
  have "st_runs (cl_server (demo_client None)) = 0" by (simp add: demo_client_def demo_site_def)
  with write_runs_once [OF disconnect_proper [of "js ''t''"] demo_path(2,1), where pf = demo_platform
      and ev = demo_env and clk = "\<lambda>n. 2000 + int n" and host = "[]"
      and cookie = "Some (opaqueToken [1, 2, 3])" and body = Undefined and c = "demo_client None",
      folded demo_server_def, unfolded rc]
  show ?thesis unfolding rc by simp
qed

lemma demo_live:
  "live demo_platform (\<lambda>n. 2000 + int (min n 100)) (Some (opaqueToken [1, 2, 3])) demo_session
     (empty_world\<lparr>w_sessions := [demo_session]\<rparr>)"
proof -
  have "units16 (opaqueToken [1, 2, 3])"
    using opaque_chars [of "[1, 2, 3]"] by (auto simp add: opaqueToken_def units16_def list_all_iff url_safe_def)
  moreover have "\<not> isHardExhausted now [] []" for now
    by (simp add: isHardExhausted_def getToday_def lookup_by_def limits_of_def num_def getAllConfig_def
        zero_row_def Let_def)
  ultimately show ?thesis
    using demo_token_nonempty
    by (auto simp add: live_def lookup_by_def getSession_def demo_session_def demo_platform_def units16_js empty_world_def)
qed

theorem csrf_recovers_witness:
  "case request_call (serve demo_platform demo_env (\<lambda>n. 2000 + int (min n 100)) [] (Some (opaqueToken [1, 2, 3]))
        (disconnect_route (js ''t''))) [] (js ''delete'') (js ''/api/tenants/t'') Undefined
        (demo_client (Some (js ''stale''))) of (r, c') \<Rightarrow>
     st_runs (cl_server c') = 1 \<and> cl_csrf c' = Some (opaqueToken [1, 2, 3])"
proof -
  have live: "live demo_platform (\<lambda>n. 2000 + int (min n 100)) (Some (opaqueToken [1, 2, 3])) demo_session
      (st_world (cl_server (demo_client (Some (js ''stale'')))))"
    using demo_live by (simp add: demo_client_def demo_site_def)
  have calls: "calls_made (ss_id demo_session) (st_mem (cl_server (demo_client (Some (js ''stale''))))) \<le> 117"
    by (simp add: calls_made_def demo_client_def demo_site_def lookup_by_def)
  have start: "st_runs (cl_server (demo_client (Some (js ''stale'')))) = 0"
    "ss_csrf_token demo_session = opaqueToken [1, 2, 3]"
    by (simp_all add: demo_client_def demo_site_def demo_session_def)
  obtain r c' where rc: "request_call (serve demo_platform demo_env (\<lambda>n. 2000 + int (min n 100)) []
        (Some (opaqueToken [1, 2, 3])) (disconnect_route (js ''t''))) [] (js ''delete'') (js ''/api/tenants/t'')
        Undefined (demo_client (Some (js ''stale''))) = (r, c')" by (rule prod.exhaust)
  note csrf_recovers [OF live calls disconnect_proper [of "js ''t''"] demo_path(2,1), where ev = demo_env
      and host = "[]" and body = Undefined, unfolded rc start prod.case]
  then show ?thesis unfolding rc prod.case by simp
qed

end
