(* ===== verification/Session.thy ===== *)
theory Session
  imports ClientServer
begin

text \<open>
  The session context of the browser (\<open>web/src/lib/session.tsx\<close>) and the gate in front of
  the console (\<open>web/src/App.tsx\<close>), over the client and against the Worker.
\<close>

datatype auth_state = Loading | Authenticated js_value | Unauthenticated

text \<open>The body of \<open>reload\<close> once \<open>getMe\<close> has settled.\<close>

definition after_me :: "client_exn + js_value \<Rightarrow> auth_state" where
  "after_me r = (case r of Inr me \<Rightarrow> Authenticated me | Inl e \<Rightarrow> Unauthenticated)"

definition session_reload ::
    "'s server \<Rightarrow> js_string \<Rightarrow> 's client \<Rightarrow> auth_state \<times> 's client"
where
  "session_reload srv base c = (let (r, c') = getMe srv base c in (after_me r, c'))"

text \<open>A call of a mounted screen: every \<open>entrashift:unauthorized\<close> event it dispatches reaches
  the listener of the provider.\<close>

definition session_call ::
    "'s server \<Rightarrow> js_string \<Rightarrow> js_string \<Rightarrow> js_string \<Rightarrow> js_value \<Rightarrow> auth_state \<Rightarrow> 's client \<Rightarrow>
     (client_exn + js_value) \<times> auth_state \<times> 's client"
where
  "session_call srv base meth path body auth c =
     (let (r, c') = request_call srv base meth path body c
      in (r, if cl_bounces c < cl_bounces c' then Unauthenticated else auth, c'))"

text \<open>What the gate renders; reading \<open>groupOk\<close> of an undefined or null \<open>me\<close> throws.\<close>

datatype gate_view = Splash | Sign_in bool | Console | Broken

fun gate :: "auth_state \<Rightarrow> gate_view" where
  "gate Loading = Splash"
| "gate Unauthenticated = Sign_in False"
| "gate (Authenticated me) =
     (if nullish me then Broken
      else if \<not> js_truthy (get_key me (js ''groupOk'')) then Sign_in True
      else Console)"

section \<open>The console is vouched for\<close>

text \<open>The session the Worker finds for a cookie at a time.\<close>

definition vouched :: "platform \<Rightarrow> instant \<Rightarrow> js_string option \<Rightarrow> world \<Rightarrow> bool" where
  "vouched pf now cookie w \<longleftrightarrow>
     (\<exists>s \<in> set (w_sessions w). \<exists>tok. cookie = Some tok \<and> ss_id s = sha256Hex (pf_sha256 pf) tok
        \<and> now < ss_expires_at s \<and> ss_group_ok s)"

lemma ui_guard_vouched:
  assumes "ui_guard pf now (browser_request host cookie q) mem w = (Inr p, mem', w')"
  shows "vouched pf now cookie w"
proof -
  obtain res t where rs: "requireSession pf now (browser_request host cookie q) (w_sessions w) = (res, t)"
    by fastforce
  with assms obtain s where "res = Inr s" by (cases res) (simp_all add: ui_guard_def)
  from requireSession_Inr [OF rs [unfolded this]] show ?thesis
    by (auto simp add: vouched_def browser_request_def)
qed

lemma refused_reply:
  assumes "ui_guard pf now rq mem w = (Inl e, mem', w')"
  shows "\<exists>ce. answer (error_reply e) = Inl (Client_error ce)
    \<and> ce_code ce = JStr (code_text (env_code (snd (on_error e))))"
  using error_reply_code [of e] ui_error_text [OF assms] by blast

text \<open>
  C3. The console is vouched for: when the session context has loaded against the Worker, the
  gate shows the sign-in, or the Worker has a stored session for the browser's cookie that
  has not expired and whose engineer is in the group.
\<close>

theorem console_vouched:
  "case session_reload (serve pf ev clk host cookie handler) [] c of (auth, c') \<Rightarrow>
     gate auth = Sign_in False
     \<or> vouched pf (clk (st_tick (cl_server c))) cookie (st_world (cl_server c))"
proof -
  let ?q = "wire [] (js ''GET'') ME Undefined (cl_csrf c)"
  obtain rp c2 where at: "transmit (serve pf ev clk host cookie handler) ?q c = (rp, c2)"
    by (rule prod.exhaust)
  then have r: "session_reload (serve pf ev clk host cookie handler) [] c
      = (after_me (answer rp), keep_token (answer rp) c2)"
    by (simp add: session_reload_def getMe_def attempt_def)
  obtain g mem w where g: "ui_guard pf (clk (st_tick (cl_server c))) (browser_request host cookie ?q)
      (st_mem (cl_server c)) (st_world (cl_server c)) = (g, mem, w)" by (metis prod_cases3)
  have ui: "ui_path (wq_url ?q)" by (simp add: ui_path_me)
  show ?thesis
  proof (cases g)
    case (Inl e)
    then have "rp = error_reply e"
      using at by (auto simp add: transmit_def serve_def ui_guard_only [OF ui] g split: prod.splits)
    then have "gate (after_me (answer rp)) = Sign_in False"
      using refused_reply [OF g [unfolded Inl]] by (auto simp add: after_me_def)
    then show ?thesis unfolding r by simp
  next
    case (Inr p)
    from ui_guard_vouched [OF g [unfolded Inr]] show ?thesis unfolding r prod.case by (rule disjI2)
  qed
qed

text \<open>No browser with this cookie has a session from now on.\<close>

definition signed_out :: "platform \<Rightarrow> (nat \<Rightarrow> instant) \<Rightarrow> js_string option \<Rightarrow> world \<Rightarrow> bool" where
  "signed_out pf clk cookie w \<longleftrightarrow>
     (\<forall>s \<in> set (w_sessions w). \<forall>tok. cookie = Some tok \<and> ss_id s = sha256Hex (pf_sha256 pf) tok \<longrightarrow>
        (\<forall>n. ss_expires_at s \<le> clk n))"

lemma signed_out_guard:
  assumes "signed_out pf clk cookie w"
  shows "\<exists>w'. ui_guard pf (clk n) (browser_request host cookie q) mem w =
      (Inl (err Unauthorized ''No valid session''), mem, w') \<and> signed_out pf clk cookie w'"
proof -
  obtain x t where x: "resolveSession pf (clk n) cookie (w_sessions w) = (x, t)" by fastforce
  have "x = None"
  proof (cases x)
    case (Some s)
    from resolve_live [OF x [unfolded Some]] assms show ?thesis
      by (auto simp add: signed_out_def not_less [symmetric])
  qed
  then have rs: "requireSession pf (clk n) (browser_request host cookie q) (w_sessions w)
      = (Inl (err Unauthorized ''No valid session''), t)"
    using x by (simp add: requireSession_def browser_request_def)
  with requireSession_subset [OF rs] assms show ?thesis
    by (auto simp add: ui_guard_def signed_out_def)
qed

lemma signed_out_attempt:
  assumes "attempt (serve pf ev clk host cookie handler) [] m path body c = (r, c')"
    and "signed_out pf clk cookie (st_world (cl_server c))" and "ui_path path"
  shows "has_code ''unauthorized'' r \<and> \<not> has_code ''csrf'' r \<and> cl_bounces c' = cl_bounces c
    \<and> signed_out pf clk cookie (st_world (cl_server c')) \<and> st_runs (cl_server c') = st_runs (cl_server c)"
proof -
  let ?q = "wire [] m path body (cl_csrf c)"
  obtain w' where g: "ui_guard pf (clk (st_tick (cl_server c))) (browser_request host cookie ?q)
      (st_mem (cl_server c)) (st_world (cl_server c)) =
      (Inl (err Unauthorized ''No valid session''), st_mem (cl_server c), w')"
    and out: "signed_out pf clk cookie w'"
    using signed_out_guard [OF assms(2)] by blast
  have ui: "ui_path (wq_url ?q)" using assms(3) by simp
  have r: "r = answer (error_reply (err Unauthorized ''No valid session''))"
    "cl_bounces c' = cl_bounces c"
    "cl_server c' = (cl_server c)\<lparr>st_world := w', st_tick := Suc (st_tick (cl_server c))\<rparr>"
    using assms(1) by (auto simp add: attempt_def transmit_def serve_def ui_guard_only [OF ui] g split: prod.splits)
  obtain ce where ce: "r = Inl (Client_error ce)"
    "ce_code ce = JStr (code_text (env_code (snd (on_error (err Unauthorized ''No valid session'')))))"
    using refused_reply [OF g] r by blast
  then have "ce_code ce = JStr (js ''unauthorized'')"
    by (simp add: throw_api_def to_envelope_def code_text_def)
  with ce(1) r out show ?thesis by simp
qed


lemma demo_signed_out: "signed_out demo_platform clk None w"
  by (simp add: signed_out_def)

lemma demo_no_me: "\<not> startsWith (js ''/api/tenants/t'') (js ''/api/me'')"
  by code_simp


end
