(* ===== verification/Hooks.thy ===== *)
theory Hooks
  imports Client Transitions
begin

text \<open>
  The stateful helpers of the browser client as state machines: \<open>useAsync\<close>
  (\<open>web/src/lib/useAsync.ts\<close>), \<open>poll\<close> (\<open>web/src/lib/api.ts\<close>), the toasts
  (\<open>web/src/components/Toast.tsx\<close>) and the session with its gate
  (\<open>web/src/lib/session.tsx\<close>, \<open>web/src/App.tsx\<close>). A step is one callback of the event loop;
  answers of overlapping loads arrive in any order.
\<close>

section \<open>useAsync\<close>

text \<open>
  \<open>as_shown\<close> are the dependencies of the last render, \<open>as_deps\<close> those of the last effect and
  \<open>as_gen\<close> its number: the effect with this number has \<open>active = true\<close>, the clean-ups of all
  earlier ones have run. \<open>as_flying\<close> are the loads that have not settled. A loaded value keeps
  the dependencies it was loaded for, which the program does not store.
\<close>

record ('d, 'a) async =
  as_data :: "('d \<times> 'a) option"
  as_loading :: bool
  as_error :: "client_exn option"
  as_shown :: 'd
  as_deps :: 'd
  as_gen :: nat
  as_flying :: "(nat \<times> 'd) list"

text \<open>The effect: it starts a load and supersedes the one before.\<close>

definition run_effect :: "('d, 'a) async \<Rightarrow> ('d, 'a) async" where
  "run_effect s =
     s\<lparr>as_loading := True, as_error := None, as_deps := as_shown s, as_gen := Suc (as_gen s),
       as_flying := as_flying s @ [(Suc (as_gen s), as_shown s)]\<rparr>"

text \<open>The \<open>then\<close> and the \<open>catch\<close> of the load number \<open>g\<close>.\<close>

definition loaded :: "nat \<Rightarrow> 'd \<Rightarrow> 'a \<Rightarrow> ('d, 'a) async \<Rightarrow> ('d, 'a) async" where
  "loaded g d v s = (if g = as_gen s then s\<lparr>as_data := Some (d, v), as_loading := False\<rparr> else s)"

definition load_failed :: "nat \<Rightarrow> client_exn \<Rightarrow> ('d, 'a) async \<Rightarrow> ('d, 'a) async" where
  "load_failed g e s =
     (if g \<noteq> as_gen s \<or> e = Abort_error then s
      else s\<lparr>as_error := Some e, as_loading := False\<rparr>)"

inductive async_step :: "('d, 'a) async \<Rightarrow> ('d, 'a) async \<Rightarrow> bool" where
  render: "async_step s (s\<lparr>as_shown := d\<rparr>)"
| effect: "as_shown s \<noteq> as_deps s \<Longrightarrow> async_step s (run_effect s)"
| reload: "async_step s (run_effect s)"
| arrive: "as_flying s = xs @ (g, d) # ys \<Longrightarrow>
    async_step s (loaded g d v (s\<lparr>as_flying := xs @ ys\<rparr>))"
| break: "as_flying s = xs @ (g, d) # ys \<Longrightarrow>
    async_step s (load_failed g e (s\<lparr>as_flying := xs @ ys\<rparr>))"

text \<open>After the first render and its effect.\<close>

definition mounted :: "'d \<Rightarrow> ('d, 'a) async" where
  "mounted d =
     run_effect \<lparr>as_data = None, as_loading = True, as_error = None, as_shown = d, as_deps = d,
       as_gen = 0, as_flying = []\<rparr>"

definition async_ok :: "('d, 'a) async \<Rightarrow> bool" where
  "async_ok s \<longleftrightarrow>
     (\<forall>(g, d) \<in> set (as_flying s). g \<le> as_gen s \<and> (g = as_gen s \<longrightarrow> d = as_deps s))
     \<and> (\<not> as_loading s \<and> as_error s = None \<longrightarrow> (\<exists>v. as_data s = Some (as_deps s, v)))"

lemma async_ok_mounted: "async_ok (mounted d)"
  by (simp add: mounted_def run_effect_def async_ok_def)

lemma async_ok_step: "async_step s s' \<Longrightarrow> async_ok s \<Longrightarrow> async_ok s'"
proof (induction rule: async_step.induct)
  case (arrive s xs g d ys v)
  then show ?case by (auto simp add: async_ok_def loaded_def)
next
  case (break s xs g d ys e)
  then show ?case by (auto simp add: async_ok_def load_failed_def)
qed (auto simp add: async_ok_def run_effect_def)

interpretation async: stepping "async_step :: ('d, 'a) async \<Rightarrow> ('d, 'a) async \<Rightarrow> bool" async_ok
  by unfold_locales (rule async_ok_step)

text \<open>
  C14. No stale data: whatever is rendered, reloaded and superseded, and in whatever order the
  loads settle, a component that is neither loading nor in error shows a value, and the value
  was loaded for the dependencies of the last effect; once that effect has run after the
  last render, for the dependencies the component renders.
\<close>

theorem async_shows_current:
  assumes "async_step\<^sup>*\<^sup>* (mounted d) s" and "\<not> as_loading s" and "as_error s = None"
  shows "\<exists>v. as_data s = Some (as_deps s, v) \<and> (as_shown s = as_deps s \<longrightarrow> as_data s = Some (as_shown s, v))"
  using async.inv_steps [OF assms(1) async_ok_mounted] assms(2,3) by (auto simp add: async_ok_def)

theorem async_shows_current_witness:
  "\<exists>v. as_data (loaded 2 (2 :: nat) (20 :: nat) (run_effect (mounted 1\<lparr>as_shown := 2\<rparr>)\<lparr>as_flying := [(1, 1)]\<rparr>)) = Some (2, v)"
proof -
  let ?s = "run_effect (mounted 1\<lparr>as_shown := 2\<rparr>) :: (nat, nat) async"
  have "async_step (mounted 1) ((mounted 1)\<lparr>as_shown := (2 :: nat)\<rparr>)" by (rule async_step.render)
  then have "async_step\<^sup>*\<^sup>* (mounted 1) ((mounted 1)\<lparr>as_shown := (2 :: nat)\<rparr>)" by (rule r_into_rtranclp)
  then have to_s: "async_step\<^sup>*\<^sup>* (mounted 1) ?s"
    by (rule rtranclp.rtrancl_into_rtrancl) (rule async_step.reload)
  have "async_step ?s (loaded 2 2 20 (?s\<lparr>as_flying := [(1, 1)] @ []\<rparr>))"
    by (rule async_step.arrive) (simp add: mounted_def run_effect_def)
  with to_s have "async_step\<^sup>*\<^sup>* (mounted 1) (loaded 2 2 20 (?s\<lparr>as_flying := [(1, 1)] @ []\<rparr>))"
    by (rule rtranclp.rtrancl_into_rtrancl)
  from async_shows_current [OF this] show ?thesis
    by (simp add: loaded_def mounted_def run_effect_def)
qed

section \<open>poll\<close>

text \<open>
  The closure of one \<open>poll\<close> call. \<open>po_timer\<close> is the time at which the pending timer may fire
  (a timer fires at that time or later), \<open>po_flying\<close> says that \<open>fn\<close> has not settled,
  \<open>po_starts\<close> are the times \<open>fn\<close> was called, the last first, and \<open>po_heard\<close> what
  \<open>onResult\<close> and \<open>onError\<close> were called with. Times are milliseconds.
\<close>

datatype 'a heard = Heard_result 'a | Heard_error client_exn

record 'a polling =
  po_now :: int
  po_stopped :: bool
  po_timer :: "int option"
  po_flying :: bool
  po_starts :: "int list"
  po_heard :: "'a heard list"

definition poll_interval :: "int \<Rightarrow> int" where
  "poll_interval intervalMs = max 30000 intervalMs"

definition tick :: "'a polling \<Rightarrow> 'a polling" where
  "tick s = (if po_stopped s then s else s\<lparr>po_flying := True, po_starts := po_now s # po_starts s\<rparr>)"

definition stop :: "'a polling \<Rightarrow> 'a polling" where
  "stop s = s\<lparr>po_stopped := True, po_timer := None\<rparr>"

text \<open>
  What a callback does: it returns, it stops the polling, or it throws; what \<open>onResult\<close> throws
  is caught and given to \<open>onError\<close>, what \<open>onError\<close> throws is not, after the \<open>finally\<close>.
\<close>

datatype callback = Returns | Stops | Throws client_exn

fun call_back :: "callback \<Rightarrow> 'a heard \<Rightarrow> 'a polling \<Rightarrow> 'a polling" where
  "call_back Stops h s = stop (s\<lparr>po_heard := po_heard s @ [h]\<rparr>)"
| "call_back cb h s = s\<lparr>po_heard := po_heard s @ [h]\<rparr>"

definition poll_catch :: "client_exn \<Rightarrow> callback \<Rightarrow> 'a polling \<Rightarrow> 'a polling" where
  "poll_catch e cb s =
     (if \<not> po_stopped s \<and> e \<noteq> Abort_error then call_back cb (Heard_error e) s else s)"

definition poll_finally :: "int \<Rightarrow> 'a polling \<Rightarrow> 'a polling" where
  "poll_finally interval s =
     (if po_stopped s then s else s\<lparr>po_timer := Some (po_now s + interval)\<rparr>)"

definition poll_settle ::
    "int \<Rightarrow> client_exn + 'a \<Rightarrow> callback \<Rightarrow> callback \<Rightarrow> 'a polling \<Rightarrow> 'a polling"
where
  "poll_settle interval r on_result on_failure s =
     poll_finally interval
       (case r of
          Inl e \<Rightarrow> poll_catch e on_failure (s\<lparr>po_flying := False\<rparr>)
        | Inr x \<Rightarrow>
            (let s1 = (if po_stopped s then s\<lparr>po_flying := False\<rparr>
                       else call_back on_result (Heard_result x) (s\<lparr>po_flying := False\<rparr>))
             in case on_result of
                  Throws e \<Rightarrow> if po_stopped s then s1 else poll_catch e on_failure s1
                | _ \<Rightarrow> s1))"

inductive poll_step :: "int \<Rightarrow> 'a polling \<Rightarrow> 'a polling \<Rightarrow> bool" for interval where
  wait: "po_now s \<le> t \<Longrightarrow> poll_step interval s (s\<lparr>po_now := t\<rparr>)"
| fire: "po_timer s = Some t \<Longrightarrow> t \<le> po_now s \<Longrightarrow>
    poll_step interval s (tick (s\<lparr>po_timer := None\<rparr>))"
| settle: "po_flying s \<Longrightarrow> poll_step interval s (poll_settle interval r cb ce s)"
| stopped: "poll_step interval s (stop s)"

definition poll_start :: "int \<Rightarrow> 'a polling" where
  "poll_start now =
     tick \<lparr>po_now = now, po_stopped = False, po_timer = None, po_flying = False, po_starts = [],
       po_heard = []\<rparr>"

text \<open>
  At most one of a running \<open>fn\<close> and a pending timer; the timer is not due before the interval
  since the last start, and the starts so far are paced by it.
\<close>

definition paced :: "int \<Rightarrow> int \<Rightarrow> 'a polling \<Rightarrow> bool" where
  "paced interval t0 s \<longleftrightarrow>
     t0 + interval * (int (length (po_starts s)) - 1) \<le> hd (po_starts s)
     \<and> po_starts s \<noteq> [] \<and> hd (po_starts s) \<le> po_now s
     \<and> sorted_wrt (\<lambda>b a. a + interval \<le> b) (po_starts s)
     \<and> (\<forall>t. po_timer s = Some t \<longrightarrow> \<not> po_flying s \<and> hd (po_starts s) + interval \<le> t)"

lemmas poll_defs = poll_settle_def poll_finally_def poll_catch_def stop_def tick_def

lemma call_back_frame [simp]:
  "po_starts (call_back cb h s) = po_starts s" "po_now (call_back cb h s) = po_now s"
  "po_flying (call_back cb h s) = po_flying s"
  "po_stopped (call_back cb h s) \<longleftrightarrow> po_stopped s \<or> cb = Stops"
  "po_timer (call_back cb h s) = (if cb = Stops then None else po_timer s)"
  by (cases cb; simp add: stop_def)+

lemma poll_settle_frame:
  "po_starts (poll_settle interval r cb ce s) = po_starts s"
  "po_now (poll_settle interval r cb ce s) = po_now s"
  "po_flying (poll_settle interval r cb ce s) = False"
  "po_timer (poll_settle interval r cb ce s) \<in> {None, po_timer s, Some (po_now s + interval)}"
  "po_stopped s \<Longrightarrow> poll_settle interval r cb ce s = s\<lparr>po_flying := False\<rparr>"
  by (auto simp add: poll_settle_def poll_finally_def poll_catch_def stop_def Let_def split: sum.split callback.split)

lemma paced_start: "0 < interval \<Longrightarrow> paced interval now (poll_start now)"
  by (simp add: paced_def poll_start_def tick_def)

lemma paced_step:
  assumes "0 < interval" and "poll_step interval s s'" and "paced interval t0 s"
  shows "paced interval t0 s'"
  using assms(2,3)
proof (induction rule: poll_step.induct)
  case (fire s t)
  then obtain x xs where xs: "po_starts s = x # xs" by (cases "po_starts s") (auto simp add: paced_def)
  with fire have *: "t0 + interval * int (length xs) \<le> x" "x + interval \<le> po_now s"
    "\<forall>a \<in> set xs. a + interval \<le> x" "sorted_wrt (\<lambda>b a. a + interval \<le> b) xs"
    by (auto simp add: paced_def)
  then have "\<forall>a \<in> set xs. a + interval \<le> po_now s" using assms(1) by force
  with * fire xs show ?case by (auto simp add: paced_def tick_def algebra_simps)
next
  case (settle s r cb ce)
  show ?case
    using settle poll_settle_frame [where interval = interval and r = r and cb = cb and ce = ce and s = s] by (auto simp add: paced_def)
qed (auto simp add: paced_def stop_def)

lemma stopped_step:
  "poll_step interval s s' \<Longrightarrow> po_stopped s \<Longrightarrow>
   po_stopped s' \<and> po_starts s' = po_starts s \<and> po_heard s' = po_heard s"
  by (induction rule: poll_step.induct) (simp_all add: stop_def tick_def poll_settle_frame)

interpretation polling_paced: stepping "poll_step (poll_interval ms) :: 'a polling \<Rightarrow> 'a polling \<Rightarrow> bool"
    "paced (poll_interval ms) t0"
  by unfold_locales (simp add: poll_interval_def paced_step)

interpretation polling_stopped: stepping "poll_step interval :: 'a polling \<Rightarrow> 'a polling \<Rightarrow> bool"
    po_stopped
  by unfold_locales (simp add: stopped_step)

text \<open>
  C16. The 30-second floor: whatever interval the caller asks for, however late timers fire,
  however long a poll takes and whatever the callbacks do, two polls never run at once, any two
  starts are 30 seconds apart or more, and n polls take at least 30 (n - 1) seconds.
\<close>

theorem poll_floor:
  assumes "(poll_step (poll_interval ms))\<^sup>*\<^sup>* (poll_start now) s"
  shows "sorted_wrt (\<lambda>b a. a + 30000 \<le> b) (po_starts s) \<and> (po_timer s \<noteq> None \<longrightarrow> \<not> po_flying s)
    \<and> now + 30000 * (int (length (po_starts s)) - 1) \<le> po_now s"
proof -
  have i: "30000 \<le> poll_interval ms" by (simp add: poll_interval_def)
  then have p: "paced (poll_interval ms) now s"
    by (intro polling_paced.inv_steps [OF assms] paced_start) simp
  then have len: "0 \<le> int (length (po_starts s)) - 1" by (cases "po_starts s") (auto simp add: paced_def)
  have "30000 * (int (length (po_starts s)) - 1) \<le> poll_interval ms * (int (length (po_starts s)) - 1)"
    by (rule mult_right_mono [OF i len])
  moreover have "sorted_wrt (\<lambda>b a. a + 30000 \<le> b) (po_starts s)"
    using p i by (auto simp add: paced_def elim!: sorted_wrt_mono_rel [rotated])
  ultimately show ?thesis using p by (auto simp add: paced_def)
qed

theorem poll_floor_witness:
  "5 + 30000 * (int (length (po_starts (poll_start 5 :: nat polling))) - 1) \<le> po_now (poll_start 5 :: nat polling)"
  using poll_floor [where ms = 1000, OF rtranclp.rtrancl_refl] by blast

text \<open>
  A disposed poll is silent: after \<open>stop\<close>, whatever is still in flight or pending, \<open>fn\<close>
  is never called again and neither callback hears anything more.
\<close>

theorem poll_stop_silent:
  assumes "(poll_step interval)\<^sup>*\<^sup>* (stop s) s'"
  shows "po_starts s' = po_starts s \<and> po_heard s' = po_heard s"
  using polling_stopped.reach_frame [where P = "\<lambda>t. (po_starts t, po_heard t)", OF _ assms]
  by (simp add: stop_def) (metis stopped_step)

theorem poll_stop_silent_witness:
  "po_heard (poll_settle 30000 (Inr 7) Returns Returns (stop (poll_start 0))) = ([] :: nat heard list)"
proof -
  have "poll_step 30000 (stop (poll_start 0)) (poll_settle 30000 (Inr (7 :: nat)) Returns Returns (stop (poll_start 0)))"
    by (rule poll_step.settle) (simp add: stop_def poll_start_def tick_def)
  from poll_stop_silent [OF r_into_rtranclp, OF this] show ?thesis
    by (simp add: poll_start_def tick_def)
qed

section \<open>Toasts\<close>

datatype tone = Success | Info | Error_tone

record toast =
  to_id :: nat
  to_tone :: tone
  to_title :: "js_string option"
  to_message :: js_string

text \<open>\<open>ts_timers\<close> are the pending time-outs, each with the id its closure removes.\<close>

record toasts =
  ts_items :: "toast list"
  ts_next :: nat
  ts_timers :: "(int \<times> nat) list"
  ts_now :: int

definition AUTO_DISMISS_MS :: int where
  "AUTO_DISMISS_MS = 5000"

definition remove_toast :: "nat \<Rightarrow> toasts \<Rightarrow> toasts" where
  "remove_toast i s = s\<lparr>ts_items := filter (\<lambda>t. to_id t \<noteq> i) (ts_items s)\<rparr>"

definition push :: "tone \<Rightarrow> js_string \<Rightarrow> js_string option \<Rightarrow> toasts \<Rightarrow> toasts" where
  "push tone message title s =
     (let i = ts_next s;
          s1 = s\<lparr>ts_next := Suc i,
                 ts_items := ts_items s
                   @ [\<lparr>to_id = i, to_tone = tone, to_title = title, to_message = message\<rparr>]\<rparr>
      in if tone \<noteq> Error_tone then s1\<lparr>ts_timers := ts_timers s @ [(ts_now s + AUTO_DISMISS_MS, i)]\<rparr>
         else s1)"

text \<open>What happens: a screen pushes a toast, the engineer dismisses one, the clock runs to a
  time, and the time-outs due by then have run.\<close>

datatype toast_input = Push tone js_string "js_string option" | Dismiss nat | Clock_to int

fun toast_event :: "toast_input \<Rightarrow> toasts \<Rightarrow> toasts" where
  "toast_event (Push tone message title) s = push tone message title s"
| "toast_event (Dismiss i) s = remove_toast i s"
| "toast_event (Clock_to t) s =
     (let due = filter (\<lambda>(d, i). d \<le> t) (ts_timers s)
      in fold (\<lambda>(d, i). remove_toast i) due
           (s\<lparr>ts_now := max t (ts_now s), ts_timers := filter (\<lambda>(d, i). t < d) (ts_timers s)\<rparr>))"

definition no_toasts :: toasts where
  "no_toasts = \<lparr>ts_items = [], ts_next = 1, ts_timers = [], ts_now = 0\<rparr>"

definition toasts_ok :: "toasts \<Rightarrow> bool" where
  "toasts_ok s \<longleftrightarrow>
     distinct (map to_id (ts_items s)) \<and> (\<forall>t \<in> set (ts_items s). to_id t < ts_next s)
     \<and> (\<forall>i \<in> snd ` set (ts_timers s). i < ts_next s)
     \<and> (\<forall>d \<in> fst ` set (ts_timers s). ts_now s < d \<and> d \<le> ts_now s + AUTO_DISMISS_MS)
     \<and> (\<forall>t \<in> set (ts_items s). to_tone t = Error_tone \<longleftrightarrow> to_id t \<notin> snd ` set (ts_timers s))"

lemma remove_toasts:
  "fold (\<lambda>(d, i). remove_toast i) xs s =
     s\<lparr>ts_items := filter (\<lambda>t. to_id t \<notin> snd ` set xs) (ts_items s)\<rparr>"
  by (induction xs arbitrary: s) (auto simp add: remove_toast_def intro!: arg_cong [of _ _ "\<lambda>f. s\<lparr>ts_items := filter f (ts_items s)\<rparr>" for s])

lemma toasts_ok_push: "toasts_ok s \<Longrightarrow> toasts_ok (push tone message title s)"
  by (cases "tone = Error_tone")
    (auto simp add: toasts_ok_def push_def Let_def AUTO_DISMISS_MS_def less_Suc_eq
      dest: bspec simp del: image_iff)

lemma toasts_ok_remove: "toasts_ok s \<Longrightarrow> toasts_ok (remove_toast i s)"
  by (auto simp add: toasts_ok_def remove_toast_def distinct_map_filter)

lemma still_pending:
  fixes timers :: "(int \<times> nat) list"
  assumes "i \<in> snd ` set timers" and "i \<notin> snd ` set (filter (\<lambda>(d, i). d \<le> t) timers)"
  shows "i \<in> snd ` set (filter (\<lambda>(d, i). t < d) timers)"
proof -
  obtain d where "(d, i) \<in> set timers" using assms(1) by auto
  moreover have "\<not> d \<le> t"
  proof
    assume "d \<le> t"
    with \<open>(d, i) \<in> set timers\<close> have "(d, i) \<in> set (filter (\<lambda>(d, i). d \<le> t) timers)" by simp
    then have "i \<in> snd ` set (filter (\<lambda>(d, i). d \<le> t) timers)" by (rule image_eqI [rotated]) simp
    with assms(2) show False ..
  qed
  ultimately have "(d, i) \<in> set (filter (\<lambda>(d, i). t < d) timers)" by (simp add: not_le)
  then show ?thesis by (rule image_eqI [rotated]) simp
qed

lemma toasts_ok_clock:
  assumes "toasts_ok s"
  shows "toasts_ok (toast_event (Clock_to t) s)"
  unfolding toasts_ok_def
proof (intro conjI ballI)
  show "distinct (map to_id (ts_items (toast_event (Clock_to t) s)))"
    using assms by (simp add: toasts_ok_def remove_toasts Let_def distinct_map_filter)
next
  fix x
  assume "x \<in> set (ts_items (toast_event (Clock_to t) s))"
  then have x: "x \<in> set (ts_items s)"
    and left: "to_id x \<notin> snd ` set (filter (\<lambda>(d, i). d \<le> t) (ts_timers s))"
    by (simp_all add: remove_toasts Let_def)
  with assms show "to_id x < ts_next (toast_event (Clock_to t) s)"
    by (simp add: toasts_ok_def remove_toasts Let_def)
  show "to_tone x = Error_tone \<longleftrightarrow> to_id x \<notin> snd ` set (ts_timers (toast_event (Clock_to t) s))"
  proof (cases "to_tone x = Error_tone")
    case True
    with assms x have "to_id x \<notin> snd ` set (ts_timers s)" by (simp add: toasts_ok_def)
    then have "to_id x \<notin> snd ` set (filter (\<lambda>(d, i). t < d) (ts_timers s))" by auto
    with True show ?thesis by (simp add: remove_toasts Let_def)
  next
    case False
    with assms x have "to_id x \<in> snd ` set (ts_timers s)" by (simp add: toasts_ok_def)
    from still_pending [OF this left] False show ?thesis by (simp add: remove_toasts Let_def)
  qed
next
  fix i
  assume "i \<in> snd ` set (ts_timers (toast_event (Clock_to t) s))"
  then have "i \<in> snd ` set (ts_timers s)" by (auto simp add: remove_toasts Let_def)
  then have "i < ts_next s" using assms unfolding toasts_ok_def by blast
  then show "i < ts_next (toast_event (Clock_to t) s)" by (simp add: remove_toasts Let_def)
next
  fix d
  assume "d \<in> fst ` set (ts_timers (toast_event (Clock_to t) s))"
  then have d: "d \<in> fst ` set (ts_timers s)" "t < d" by (auto simp add: remove_toasts Let_def)
  then have "ts_now s < d \<and> d \<le> ts_now s + AUTO_DISMISS_MS"
    using assms unfolding toasts_ok_def by blast
  with d(2) show "ts_now (toast_event (Clock_to t) s) < d"
      "d \<le> ts_now (toast_event (Clock_to t) s) + AUTO_DISMISS_MS"
    by (auto simp add: remove_toasts Let_def)
qed

lemma toasts_ok_event: "toasts_ok s \<Longrightarrow> toasts_ok (toast_event e s)"
  by (cases e) (simp_all only: toast_event.simps(1,2) toasts_ok_push toasts_ok_remove toasts_ok_clock)

lemma toasts_ok_events: "toasts_ok s \<Longrightarrow> toasts_ok (fold toast_event es s)"
  by (induction es arbitrary: s) (simp_all add: toasts_ok_event)

lemma error_stays:
  assumes "toasts_ok s" and "t \<in> set (ts_items s)" and "to_tone t = Error_tone" and "e \<noteq> Dismiss (to_id t)"
  shows "t \<in> set (ts_items (toast_event e s))"
proof (cases e)
  case (Clock_to u)
  have "to_id t \<notin> snd ` set (ts_timers s)" using assms by (simp add: toasts_ok_def)
  then have "to_id t \<notin> snd ` set (filter (\<lambda>(d, i). d \<le> u) (ts_timers s))" by auto
  with Clock_to assms(2) show ?thesis by (simp add: remove_toasts Let_def)
qed (use assms in \<open>auto simp add: push_def remove_toast_def Let_def\<close>)

lemma errors_stay:
  "toasts_ok s \<Longrightarrow> t \<in> set (ts_items s) \<Longrightarrow> to_tone t = Error_tone \<Longrightarrow>
   Dismiss (to_id t) \<notin> set es \<Longrightarrow> t \<in> set (ts_items (fold toast_event es s))"
proof (induction es arbitrary: s)
  case (Cons e es)
  then have "e \<noteq> Dismiss (to_id t)" "Dismiss (to_id t) \<notin> set es" by auto
  with Cons error_stays [of s t e] show ?case by (simp add: toasts_ok_event)
qed simp

definition gone :: "nat \<Rightarrow> toasts \<Rightarrow> bool" where
  "gone i s \<longleftrightarrow> i < ts_next s \<and> i \<notin> to_id ` set (ts_items s)"

lemma gone_event: "gone i s \<Longrightarrow> gone i (toast_event e s)"
  by (cases e) (auto simp add: gone_def push_def remove_toast_def remove_toasts Let_def)

lemma gone_events: "gone i s \<Longrightarrow> gone i (fold toast_event es s)"
  by (induction es arbitrary: s) (simp_all add: gone_event)

text \<open>The time-out of the toast \<open>i\<close> is pending and due by \<open>u\<close>, or the toast is gone.\<close>

definition fading :: "nat \<Rightarrow> int \<Rightarrow> toasts \<Rightarrow> bool" where
  "fading i u s \<longleftrightarrow> gone i s \<or> i < ts_next s \<and> (\<exists>d \<le> u. (d, i) \<in> set (ts_timers s))"

lemma runs_out:
  assumes "i < ts_next s" and "(d, i) \<in> set (ts_timers s)" and "d \<le> t"
  shows "gone i (toast_event (Clock_to t) s)"
proof -
  define D where "D = snd ` set (filter (\<lambda>(d, i). d \<le> t) (ts_timers s))"
  have "(d, i) \<in> set (filter (\<lambda>(d, i). d \<le> t) (ts_timers s))" using assms by simp
  then have "i \<in> D" unfolding D_def by (rule image_eqI [rotated]) simp
  moreover have "ts_items (toast_event (Clock_to t) s) = filter (\<lambda>x. to_id x \<notin> D) (ts_items s)"
    "ts_next (toast_event (Clock_to t) s) = ts_next s"
    by (simp_all add: D_def remove_toasts Let_def)
  ultimately show ?thesis using assms(1) by (auto simp add: gone_def)
qed

lemma fading_event: "fading i u s \<Longrightarrow> fading i u (toast_event e s)"
proof (cases "gone i s")
  case False
  assume "fading i u s"
  with False obtain d where d: "i < ts_next s" "d \<le> u" "(d, i) \<in> set (ts_timers s)"
    by (auto simp add: fading_def)
  show ?thesis
  proof (cases e)
    case (Clock_to t)
    show ?thesis
    proof (cases "d \<le> t")
      case True
      with Clock_to runs_out [OF d(1,3)] show ?thesis by (simp add: fading_def)
    next
      case False
      with Clock_to d show ?thesis by (auto simp add: fading_def remove_toasts Let_def)
    qed
  qed (use d in \<open>auto simp add: fading_def push_def remove_toast_def Let_def\<close>)
qed (simp add: fading_def gone_event)

lemma fading_events: "fading i u s \<Longrightarrow> fading i u (fold toast_event es s)"
  by (induction es arbitrary: s) (simp_all add: fading_event)

lemma faded: "fading i u s \<Longrightarrow> u \<le> t \<Longrightarrow> gone i (toast_event (Clock_to t) s)"
proof (cases "gone i s")
  case False
  assume "fading i u s" and t: "u \<le> t"
  with False obtain d where d: "i < ts_next s" "d \<le> u" "(d, i) \<in> set (ts_timers s)"
    by (auto simp add: fading_def)
  with t show ?thesis by (intro runs_out [OF d(1,3)]) simp
qed (simp only: gone_event)

lemma toasts_fade:
  assumes "toasts_ok s" and "t \<in> set (ts_items s)" and "to_tone t \<noteq> Error_tone"
    and "Clock_to u \<in> set es" and "ts_now s + AUTO_DISMISS_MS \<le> u"
  shows "t \<notin> set (ts_items (fold toast_event es s))"
proof -
  from assms(1-3) have "to_id t \<in> snd ` set (ts_timers s)" by (simp add: toasts_ok_def)
  then obtain d where "(d, to_id t) \<in> set (ts_timers s)" by auto
  moreover from this have "d \<in> fst ` set (ts_timers s)" by (rule image_eqI [rotated]) simp
  with assms(1,5) have "d \<le> u" unfolding toasts_ok_def by fastforce
  moreover have "to_id t < ts_next s" using assms(1,2) by (simp add: toasts_ok_def)
  ultimately have f: "fading (to_id t) u s" by (auto simp add: fading_def)
  obtain xs ys where es: "es = xs @ Clock_to u # ys" using assms(4) by (meson split_list)
  from gone_events [OF faded [OF fading_events [OF f] order_refl]] have "gone (to_id t) (fold toast_event es s)"
    by (simp add: es)
  then show ?thesis by (auto simp add: gone_def)
qed

text \<open>
  Toasts: after any pushes, dismissals and passing of time, an error stays on the screen
  until the engineer dismisses that very toast, and every other toast is gone once five
  seconds have passed, and does not come back.
\<close>

theorem toast_lifetimes:
  assumes "s = fold toast_event es no_toasts" and "t \<in> set (ts_items s)"
  shows "if to_tone t = Error_tone
    then \<forall>es'. Dismiss (to_id t) \<notin> set es' \<longrightarrow> t \<in> set (ts_items (fold toast_event es' s))
    else \<forall>es' u. Clock_to u \<in> set es' \<and> ts_now s + 5000 \<le> u \<longrightarrow> t \<notin> set (ts_items (fold toast_event es' s))"
proof -
  have "toasts_ok no_toasts" by (simp add: toasts_ok_def no_toasts_def)
  then have "toasts_ok s" by (simp add: assms(1) toasts_ok_events)
  with assms(2) show ?thesis using errors_stay [of s t] toasts_fade [of s t] by (auto simp add: AUTO_DISMISS_MS_def)
qed

theorem toast_lifetimes_witness:
  "let s = fold toast_event [Push Info (js ''saved'') None] no_toasts
   in hd (ts_items s) \<notin> set (ts_items (fold toast_event [Clock_to 5000] s))"
proof -
  define t where "t = \<lparr>to_id = 1, to_tone = Info, to_title = None, to_message = js ''saved''\<rparr>"
  define s where "s = fold toast_event [Push Info (js ''saved'') None] no_toasts"
  have s: "ts_items s = [t]" "ts_now s = 0"
    by (simp_all add: s_def t_def push_def no_toasts_def Let_def)
  then have "t \<in> set (ts_items s)" "to_tone t \<noteq> Error_tone" by (simp_all add: t_def)
  with toast_lifetimes [OF s_def] have "t \<notin> set (ts_items (fold toast_event [Clock_to 5000] s))"
    by (metis add_0 list.set_intros(1) order_refl s(2))
  with s show ?thesis unfolding s_def [symmetric] Let_def by simp
qed

end
