(* ===== verification/Format.thy ===== *)
theory Format
  imports Clock
begin

text \<open>
  What the console prints (\<open>web/src/lib/format.ts\<close>). A date is the instant its text denotes,
  \<open>None\<close> when the text is missing, empty or no date; counts, bytes and seconds are whole
  numbers, quotients are exact. \<open>formatBytes\<close> reads the exponent off the powers of 1024 the
  logarithm stands for.
\<close>

definition DASH :: js_string where
  "DASH = [8212]"

definition js_round :: "rat \<Rightarrow> int" where
  "js_round q = \<lfloor>q + 1 / 2\<rfloor>"

section \<open>Bytes\<close>

definition byte_units :: "js_string list" where
  "byte_units = [js ''B'', js ''KB'', js ''MB'', js ''GB'', js ''TB'', js ''PB'']"

text \<open>\<open>Math.min(Math.floor(Math.log(b) / Math.log(1024)), 5)\<close>.\<close>

fun unit_index :: "nat \<Rightarrow> nat \<Rightarrow> nat" where
  "unit_index 0 b = 0"
| "unit_index (Suc n) b = (if b < 1024 then 0 else Suc (unit_index n (b div 1024)))"

text \<open>\<open>toFixed(0)\<close> and \<open>toFixed(1)\<close> of a value that is not negative.\<close>

definition to_fixed0 :: "rat \<Rightarrow> js_string" where
  "to_fixed0 q = digits (nat (js_round q))"

definition to_fixed1 :: "rat \<Rightarrow> js_string" where
  "to_fixed1 q = (let n = nat (js_round (q * 10)) in digits (n div 10) @ 46 # digits (n mod 10))"

definition formatBytes :: "int option \<Rightarrow> js_string" where
  "formatBytes bytes =
     (case bytes of
        None \<Rightarrow> DASH
      | Some b \<Rightarrow>
          if b = 0 then js ''0 B''
          else
            (let i = unit_index 5 (nat \<bar>b\<bar>);
                 q = of_nat (nat \<bar>b\<bar>) / 1024 ^ i
             in (if b < 0 then [45] else []) @ (if i = 0 then to_fixed0 q else to_fixed1 q)
                @ 32 # byte_units ! i))"

section \<open>Dates\<close>

definition formatDateTimeUtc :: "instant option \<Rightarrow> js_string" where
  "formatDateTimeUtc date =
     (case date of
        None \<Rightarrow> DASH
      | Some t \<Rightarrow>
          (let (y, m, d) = civil (t div 86400000);
               ms = t mod 86400000
           in int_text y @ 45 # pad 2 m @ 45 # pad 2 d @ 32 # pad 2 (ms div 3600000) @ 58 #
              pad 2 (ms div 60000 mod 60) @ 58 # pad 2 (ms div 1000 mod 60) @ js '' UTC''))"

definition formatDateUtc :: "instant option \<Rightarrow> js_string" where
  "formatDateUtc date = (case date of None \<Rightarrow> DASH | Some t \<Rightarrow> take 10 (toISOString t))"

definition formatRelative :: "instant \<Rightarrow> instant option \<Rightarrow> js_string" where
  "formatRelative now date =
     (case date of
        None \<Rightarrow> DASH
      | Some t \<Rightarrow>
          (let sec = js_round (of_int (now - t) / 1000)
           in if sec < 45 then js ''just now''
              else
                (let mins = js_round (of_int sec / 60)
                 in if mins < 60 then int_text mins @ js ''m ago''
                    else
                      (let hr = js_round (of_int mins / 60)
                       in if hr < 24 then int_text hr @ js ''h ago''
                          else
                            (let day = js_round (of_int hr / 24)
                             in if day \<le> 30 then int_text day @ js ''d ago''
                                else formatDateUtc date)))))"

section \<open>Durations, counts, percentages and secrets\<close>

definition pad2 :: "nat \<Rightarrow> js_string" where
  "pad2 n = (if n < 10 then 48 # digits n else digits n)"

definition formatDuration :: "int option \<Rightarrow> js_string" where
  "formatDuration seconds =
     (case seconds of
        None \<Rightarrow> DASH
      | Some n \<Rightarrow>
          if n < 0 then DASH
          else
            (let s = nat n mod 60; m = nat n div 60 mod 60; h = nat n div 3600
             in if 0 < h then digits h @ js ''h '' @ pad2 m @ js ''m '' @ pad2 s @ js ''s''
                else if 0 < m then digits m @ js ''m '' @ pad2 s @ js ''s''
                else digits s @ js ''s''))"

text \<open>\<open>toLocaleString('en-US')\<close> of an integer.\<close>

fun grouped :: "nat \<Rightarrow> js_string" where
  "grouped n =
     (if n < 1000 then digits n
      else grouped (n div 1000) @ 44 # [48 + n div 100 mod 10, 48 + n div 10 mod 10, 48 + n mod 10])"

declare grouped.simps [simp del]

definition formatCount :: "int option \<Rightarrow> js_string" where
  "formatCount count =
     (case count of
        None \<Rightarrow> DASH
      | Some n \<Rightarrow> (if n < 0 then [45] else []) @ grouped (nat \<bar>n\<bar>))"

definition toPercent :: "int \<Rightarrow> int option \<Rightarrow> int option" where
  "toPercent current tot =
     (case tot of
        None \<Rightarrow> None
      | Some t \<Rightarrow>
          if t \<le> 0 then None
          else Some (min 100 (max 0 (js_round (of_int current / of_int t * 100)))))"

definition maskSecret :: "js_string option \<Rightarrow> js_string" where
  "maskSecret v =
     (if truthy v then replicate 8 8226 @ drop (length (the v) - 4) (the v) else replicate 4 8226)"

section \<open>What is printed can be read back\<close>

text \<open>A reader of durations: a number, then the letter of its unit.\<close>

fun read_duration :: "js_string \<Rightarrow> nat \<Rightarrow> nat \<Rightarrow> nat" where
  "read_duration [] n t = t"
| "read_duration (c # cs) n t =
     (if c = 104 then read_duration cs 0 (t + n * 3600)
      else if c = 109 then read_duration cs 0 (t + n * 60)
      else if c = 115 then read_duration cs 0 (t + n)
      else if c = 32 then read_duration cs n t
      else read_duration cs (n * 10 + (c - 48)) t)"

lemma read_digits:
  "read_duration (digits k @ cs) 0 t = read_duration cs k t"
proof (induction k arbitrary: cs rule: digits.induct)
  case (1 k)
  show ?case
  proof (cases "k < 10")
    case True
    then show ?thesis by (subst digits.simps) simp
  next
    case False
    have "k mod 10 < 10" by simp
    with False "1.IH" [of "(48 + k mod 10) # cs"] show ?thesis by (subst digits.simps) simp
  qed
qed

lemma read_pad2: "read_duration (pad2 k @ cs) 0 t = read_duration cs k t"
  by (simp add: pad2_def read_digits)

lemma hms: "n div 3600 * 3600 + n div 60 mod 60 * 60 + n mod 60 = (n :: nat)"
proof -
  have "n div 3600 = n div 60 div 60" by (simp add: div_mult2_eq)
  then show ?thesis using div_mult_mod_eq [of n 60] div_mult_mod_eq [of "n div 60" 60] by linarith
qed

text \<open>
  No duration is lost in print: the hours, minutes and seconds the report shows add up to
  exactly the recorded seconds, for every duration that is not negative.
\<close>

theorem duration_round_trip:
  "read_duration (formatDuration (Some (int n))) 0 0 = n"
proof -
  define h m k where "h = n div 3600" and "m = n div 60 mod 60" and "k = n mod 60"
  have n: "h * 3600 + m * 60 + k = n" unfolding h_def m_def k_def by (rule hms)
  have printed: "formatDuration (Some (int n)) =
      (if 0 < h then digits h @ js ''h '' @ pad2 m @ js ''m '' @ pad2 k @ js ''s''
       else if 0 < m then digits m @ js ''m '' @ pad2 k @ js ''s'' else digits k @ js ''s'')"
    by (simp add: formatDuration_def Let_def h_def m_def k_def)
  show ?thesis
    unfolding printed by (cases "0 < h"; cases "0 < m") (simp_all add: js_def read_digits read_pad2 n [symmetric])
qed

lemma remove_commas: "filter (\<lambda>c. c \<noteq> 44) (grouped n) = digits n"
proof (induction n rule: grouped.induct)
  case (1 n)
  have d: "filter (\<lambda>c. c \<noteq> 44) (digits k) = digits k" for k
    using digits_range [of k] by (intro filter_True) fastforce
  show ?case
  proof (cases "n < 1000")
    case True
    then show ?thesis by (subst grouped.simps) (simp add: d)
  next
    case False
    have step: "digits m = digits (m div 10) @ [48 + m mod 10]" if "10 \<le> m" for m
      using that by (subst digits.simps) simp
    have "digits n = digits (n div 1000) @ [48 + n div 100 mod 10, 48 + n div 10 mod 10, 48 + n mod 10]"
      using False step [of n] step [of "n div 10"] step [of "n div 100"] by (simp add: div_mult2_eq [symmetric])
    moreover have "filter (\<lambda>c. c \<noteq> 44) (grouped (n div 1000)) = digits (n div 1000)"
      using "1.IH" False by simp
    moreover have "48 + k mod 10 \<noteq> 44" for k :: nat by simp
    ultimately show ?thesis using False by (subst grouped.simps) simp
  qed
qed

lemma count_round_trip: "filter (\<lambda>c. c \<noteq> 44) (formatCount (Some n)) = int_text n"
  by (simp add: formatCount_def int_text_def remove_commas)

lemma unit_index_scale:
  "0 < b \<Longrightarrow> 1024 ^ unit_index n b \<le> b \<and> (unit_index n b < n \<longrightarrow> b < 1024 ^ Suc (unit_index n b))
    \<and> unit_index n b \<le> n"
proof (induction n b rule: unit_index.induct)
  case (2 n b)
  show ?case
  proof (cases "b < 1024")
    case False
    then have "0 < b div 1024" by simp
    with False "2.IH" have ih: "1024 ^ unit_index n (b div 1024) \<le> b div 1024"
      "unit_index n (b div 1024) < n \<longrightarrow> b div 1024 < 1024 ^ Suc (unit_index n (b div 1024))"
      "unit_index n (b div 1024) \<le> n" by simp_all
    have "1024 * 1024 ^ unit_index n (b div 1024) \<le> b"
      using ih(1) by (metis div_times_less_eq_dividend mult.commute mult_le_mono2 order_trans)
    moreover have "b < 1024 * 1024 ^ Suc (unit_index n (b div 1024))"
      if "b div 1024 < 1024 ^ Suc (unit_index n (b div 1024))"
      using that by (metis less_mult_imp_div_less mult.commute div_less_iff_less_mult zero_less_numeral)
    ultimately show ?thesis using False ih(2,3) by simp
  qed (use 2 in simp)
qed simp

section \<open>Percentages\<close>

lemma js_round_mono: "p \<le> q \<Longrightarrow> js_round p \<le> js_round q"
  by (simp add: js_round_def floor_mono)

lemma js_round_int [simp]: "js_round (of_int k) = k"
  unfolding js_round_def by (rule floor_unique) simp_all

text \<open>
  The progress bar never lies about the end: a percentage is shown exactly when the total
  is known and positive; it is between 0 and 100, does not fall when the count grows,
  is 100 once the count has reached the total and 0 for a count that is not positive.
\<close>

theorem percent_bounds:
  assumes "toPercent current (Some tot) = Some p"
  shows "0 < tot \<and> 0 \<le> p \<and> p \<le> 100 \<and> (tot \<le> current \<longrightarrow> p = 100) \<and> (current \<le> 0 \<longrightarrow> p = 0)
    \<and> (\<forall>more \<ge> current. \<exists>p' \<ge> p. toPercent more (Some tot) = Some p')"
proof -
  define f where "f c = js_round (of_int c / of_int tot * 100)" for c
  have t: "0 < tot" using assms by (simp add: toPercent_def split: if_splits)
  then have percent: "toPercent c (Some tot) = Some (min 100 (max 0 (f c)))" for c
    by (simp add: toPercent_def f_def)
  then have p: "p = min 100 (max 0 (f current))" using assms by simp
  have mono: "f a \<le> f b" if "a \<le> b" for a b
    unfolding f_def using that t by (intro js_round_mono mult_right_mono divide_right_mono) simp_all
  have ends: "f tot = 100" "f 0 = 0"
    using t js_round_int [of 100] js_round_int [of 0] by (simp_all add: f_def)
  have "\<exists>p' \<ge> p. toPercent more (Some tot) = Some p'" if "current \<le> more" for more
    using mono [OF that] percent [of more] p by (intro exI [of _ "min 100 (max 0 (f more))"]) linarith
  then show ?thesis using t p ends mono [of tot current] mono [of current 0] by auto
qed

theorem percent_bounds_witness: "(50 :: int) \<le> 100 \<and> (\<exists>p' \<ge> 50. toPercent 7 (Some 10) = Some p')"
proof -
  have "toPercent 5 (Some 10) = Some 50" by code_simp
  from percent_bounds [OF this] show ?thesis by simp
qed

lemma format_examples:
  "formatDateTimeUtc (Some 1783607525000) = js ''2026-07-09 14:32:05 UTC''"
  "maskSecret (Some (js ''abcdefgh'')) = replicate 8 8226 @ js ''efgh''"
  by code_simp+

lemma print_examples:
  "formatDuration (Some 4325) = js ''1h 12m 05s''" "formatCount (Some 1242) = js ''1,242''"
  by (simp_all add: formatDuration_def pad2_def formatCount_def grouped.simps digits.simps js_def)

end
