(* ===== verification/Discovery.thy ===== *)
theory Discovery
  imports Hooks UsersRoute Transitions
begin

text \<open>
  User discovery and selection (\<open>web/src/screens/UserDiscovery.tsx\<close>): the selection map, the
  search, the paging and the two ways into the migration queue. A handler that awaits a call
  is two definitions: what the click does up to the call, and what happens when the call
  settles. What the screen shows in toasts is the list \<open>ds_notices\<close>.
\<close>

section \<open>What the screens share\<close>

type_synonym notice = "tone \<times> js_string \<times> js_string option"

text \<open>\<open>toast.error(e instanceof ApiError ? e.message : fallback)\<close>.\<close>

definition failure :: "client_exn \<Rightarrow> string \<Rightarrow> notice" where
  "failure e fallback =
     (Error_tone, case e of Client_error c \<Rightarrow> ce_message c | _ \<Rightarrow> js fallback, None)"

section \<open>State\<close>

record discovered =
  du_id :: js_string
  du_display_name :: js_string
  du_upn :: js_string
  du_enabled :: bool

record selection =
  se_exchange :: bool
  se_onedrive :: bool
  se_archive :: bool

definition no_selection :: selection where
  "no_selection = \<lparr>se_exchange = False, se_onedrive = False, se_archive = False\<rparr>"

record disco =
  ds_debounced :: js_string
  ds_users :: "discovered list"
  ds_cursor :: "js_string option"
  ds_loading :: bool
  ds_error :: "js_string option"
  ds_selection :: "(js_string \<times> selection) list"
  ds_adding :: bool
  ds_import_open :: bool
  ds_queue_count :: "nat option"
  ds_notices :: "notice list"

definition disco_init :: disco where
  "disco_init =
     \<lparr>ds_debounced = [], ds_users = [], ds_cursor = None, ds_loading = True, ds_error = None,
      ds_selection = [], ds_adding = False, ds_import_open = False, ds_queue_count = None, ds_notices = []\<rparr>"

definition notify :: "notice \<Rightarrow> disco \<Rightarrow> disco" where
  "notify n s = s\<lparr>ds_notices := ds_notices s @ [n]\<rparr>"

section \<open>Searching and paging\<close>

definition search_changed :: "js_string \<Rightarrow> disco \<Rightarrow> disco" where
  "search_changed search s = s\<lparr>ds_debounced := trim search, ds_loading := True, ds_error := None\<rparr>"

definition search_call :: "disco \<Rightarrow> call" where
  "search_call s = discovery_call (if ds_debounced s = [] then None else Some (ds_debounced s)) None"

definition search_error :: "client_exn \<Rightarrow> js_string" where
  "search_error e =
     (case e of
        Client_error c \<Rightarrow>
          if ce_code c = JStr (js ''not_found'')
          then js ''Connect and verify a source tenant before discovering users.''
          else js ''Could not reach the directory. Verify the source tenant connection.''
      | _ \<Rightarrow> js ''Could not reach the directory. Verify the source tenant connection.'')"

definition search_settled ::
    "client_exn + (discovered list \<times> js_string option) \<Rightarrow> disco \<Rightarrow> disco"
where
  "search_settled r s =
     (case r of
        Inr (items, cursor) \<Rightarrow> s\<lparr>ds_users := items, ds_cursor := cursor, ds_loading := False\<rparr>
      | Inl e \<Rightarrow>
          if e = Abort_error then s
          else s\<lparr>ds_error := Some (search_error e), ds_users := [], ds_loading := False\<rparr>)"

definition more_call :: "disco \<Rightarrow> call option" where
  "more_call s =
     (if truthy (ds_cursor s)
      then Some (discovery_call (if ds_debounced s = [] then None else Some (ds_debounced s)) (ds_cursor s))
      else None)"

definition more_settled ::
    "client_exn + (discovered list \<times> js_string option) \<Rightarrow> disco \<Rightarrow> disco"
where
  "more_settled r s =
     (case r of
        Inr (items, cursor) \<Rightarrow> s\<lparr>ds_users := ds_users s @ items, ds_cursor := cursor\<rparr>
      | Inl e \<Rightarrow> notify (Error_tone, js ''Could not load more users.'', None) s)"

text \<open>The chip with the size of the queue, loaded whenever \<open>adding\<close> changes.\<close>

definition queue_settled :: "client_exn + migration_user list \<Rightarrow> disco \<Rightarrow> disco" where
  "queue_settled r s = s\<lparr>ds_queue_count := (case r of Inr q \<Rightarrow> Some (length q) | Inl e \<Rightarrow> None)\<rparr>"

section \<open>Selecting\<close>

text \<open>An object of selections: writing an existing key keeps its place.\<close>

fun put_key :: "js_string \<Rightarrow> 'a \<Rightarrow> (js_string \<times> 'a) list \<Rightarrow> (js_string \<times> 'a) list" where
  "put_key k v [] = [(k, v)]"
| "put_key k v ((k', v') # ps) = (if k' = k then (k, v) # ps else (k', v') # put_key k v ps)"

datatype selection_key = Key_exchange | Key_onedrive | Key_archive

fun flip :: "selection_key \<Rightarrow> selection \<Rightarrow> selection" where
  "flip Key_exchange s = s\<lparr>se_exchange := \<not> se_exchange s\<rparr>"
| "flip Key_onedrive s = s\<lparr>se_onedrive := \<not> se_onedrive s\<rparr>"
| "flip Key_archive s = s\<lparr>se_archive := \<not> se_archive s\<rparr>"

definition toggle :: "js_string \<Rightarrow> selection_key \<Rightarrow> disco \<Rightarrow> disco" where
  "toggle i key s =
     (let cur = (case map_of (ds_selection s) i of None \<Rightarrow> no_selection | Some c \<Rightarrow> c);
          next1 = flip key cur;
          next2 = (if key = Key_exchange \<and> \<not> se_exchange next1 then next1\<lparr>se_archive := False\<rparr> else next1)
      in s\<lparr>ds_selection := put_key i next2 (ds_selection s)\<rparr>)"

definition row_active :: "selection \<Rightarrow> bool" where
  "row_active c \<longleftrightarrow> se_exchange c \<or> se_onedrive c"

definition row_checkbox :: "js_string \<Rightarrow> disco \<Rightarrow> disco" where
  "row_checkbox i s =
     (let on = \<not> (case map_of (ds_selection s) i of None \<Rightarrow> False | Some c \<Rightarrow> row_active c)
      in s\<lparr>ds_selection :=
             put_key i \<lparr>se_exchange = on, se_onedrive = on, se_archive = False\<rparr> (ds_selection s)\<rparr>)"

text \<open>The archive box of a row is disabled unless Exchange is on.\<close>

definition archive_enabled :: "js_string \<Rightarrow> disco \<Rightarrow> bool" where
  "archive_enabled i s =
     (case map_of (ds_selection s) i of None \<Rightarrow> False | Some c \<Rightarrow> se_exchange c)"

section \<open>Adding to the queue\<close>

definition selectedRows :: "disco \<Rightarrow> (js_string \<times> selection) list" where
  "selectedRows s = filter (\<lambda>(i, c). row_active c) (ds_selection s)"

definition payload_user :: "discovered \<Rightarrow> selection \<Rightarrow> partial_user" where
  "payload_user u c =
     \<lparr>pu_id = None, pu_source_email = Some (du_upn u), pu_target_email = None, pu_target_upn = None,
      pu_exchange = se_exchange c, pu_onedrive = se_onedrive c, pu_auto_create = False,
      pu_archive = se_archive c, pu_mapping_status = Some Unmapped\<rparr>"

text \<open>The payload; \<open>None\<close> when a selected id is not among the users, whose property is then
  read of \<open>undefined\<close> and throws.\<close>

fun payload_of :: "discovered list \<Rightarrow> (js_string \<times> selection) list \<Rightarrow> partial_user list option" where
  "payload_of users [] = Some []"
| "payload_of users ((i, c) # rows) =
     (case find (\<lambda>u. du_id u = i) users of
        None \<Rightarrow> None
      | Some u \<Rightarrow> map_option ((#) (payload_user u c)) (payload_of users rows))"

text \<open>\<open>addSelected\<close> up to the call: \<open>setAdding(true)\<close> and the payload come before the \<open>try\<close>.\<close>

datatype add_outcome = Nothing_selected | Add_throws | Add_calls "partial_user list"

definition addSelected :: "disco \<Rightarrow> add_outcome \<times> disco" where
  "addSelected s =
     (if selectedRows s = [] then (Nothing_selected, s)
      else
        (case payload_of (ds_users s) (selectedRows s) of
           None \<Rightarrow> (Add_throws, s\<lparr>ds_adding := True\<rparr>)
         | Some payload \<Rightarrow> (Add_calls payload, s\<lparr>ds_adding := True\<rparr>)))"

definition add_settled :: "nat \<Rightarrow> client_exn + migration_user list \<Rightarrow> disco \<Rightarrow> disco" where
  "add_settled n r s =
     (case r of
        Inr us \<Rightarrow>
          notify (Success, digits n @ js '' user'' @ (if n = 1 then [] else js ''s'')
                    @ js '' added to the migration queue.'', None) s\<lparr>ds_selection := [], ds_adding := False\<rparr>
      | Inl e \<Rightarrow> notify (failure e ''Could not add users.'') s\<lparr>ds_adding := False\<rparr>)"

section \<open>Importing\<close>

record import_modal =
  im_csv :: js_string
  im_result :: "(nat \<times> (nat \<times> js_string) list) option"
  im_submitting :: bool
  im_notices :: "notice list"

definition CSV_TEMPLATE :: js_string where
  "CSV_TEMPLATE =
     js ''SourceEmail,TargetEmail,MigrateExchange,MigrateOneDrive,AutoCreateTarget'' @ 10 #
     js ''userA@source.com,userA@dest.com,true,true,false'' @ 10 #
     js ''userB@source.com,,true,false,true''"

definition import_submit :: "import_modal \<Rightarrow> call option \<times> import_modal" where
  "import_submit m =
     (if trim (im_csv m) = [] then
        (None, m\<lparr>im_notices := im_notices m @ [(Error_tone, js ''Paste or choose a CSV first.'', None)]\<rparr>)
      else (Some (users_call (Users_import (im_csv m))), m\<lparr>im_submitting := True, im_result := None\<rparr>))"

text \<open>The flag says that \<open>onDone\<close> is called.\<close>

definition import_settled ::
    "client_exn + (nat \<times> (nat \<times> js_string) list) \<Rightarrow> import_modal \<Rightarrow> bool \<times> import_modal"
where
  "import_settled r m =
     (case r of
        Inl e \<Rightarrow> (False, m\<lparr>im_notices := im_notices m @ [failure e ''Import failed.''], im_submitting := False\<rparr>)
      | Inr (accepted, rejected) \<Rightarrow>
          (let m1 = m\<lparr>im_result := Some (accepted, rejected), im_submitting := False\<rparr>
           in if rejected = [] then
                (True, m1\<lparr>im_notices := im_notices m
                   @ [(Success, digits accepted @ js '' row(s) imported to the migration queue.'', None)]\<rparr>)
              else
                (False, m1\<lparr>im_notices := im_notices m
                   @ [(Error_tone, digits (length rejected)
                         @ js '' row(s) rejected. Fix the flagged lines and re-import.'',
                       Some (js ''Import completed with errors''))]\<rparr>)))"

definition import_done :: "disco \<Rightarrow> disco" where
  "import_done s = s\<lparr>ds_import_open := False, ds_adding := \<not> ds_adding s\<rparr>"


section \<open>What can be queued\<close>

text \<open>The screen with the call of \<open>addSelected\<close> that is under way.\<close>

inductive disco_step ::
    "disco \<times> partial_user list option \<Rightarrow> disco \<times> partial_user list option \<Rightarrow> bool"
where
  search: "disco_step (s, p) (search_changed t s, p)"
| searched: "disco_step (s, p) (search_settled r s, p)"
| more: "more_call s \<noteq> None \<Longrightarrow> disco_step (s, p) (more_settled r s, p)"
| counted: "disco_step (s, p) (queue_settled r s, p)"
| row: "u \<in> set (ds_users s) \<Longrightarrow> disco_step (s, p) (row_checkbox (du_id u) s, p)"
| pill: "u \<in> set (ds_users s) \<Longrightarrow> key \<noteq> Key_archive \<Longrightarrow> disco_step (s, p) (toggle (du_id u) key s, p)"
| archive: "u \<in> set (ds_users s) \<Longrightarrow> archive_enabled (du_id u) s \<Longrightarrow>
    disco_step (s, p) (toggle (du_id u) Key_archive s, p)"
| add: "\<not> ds_adding s \<Longrightarrow> addSelected s = (out, s') \<Longrightarrow>
    disco_step (s, p) (s', case out of Add_calls payload \<Rightarrow> Some payload | _ \<Rightarrow> p)"
| added: "disco_step (s, Some payload) (add_settled (length payload) r s, None)"

definition queueable :: "partial_user \<Rightarrow> bool" where
  "queueable u \<longleftrightarrow> (pu_exchange u \<or> pu_onedrive u) \<and> (pu_archive u \<longrightarrow> pu_exchange u)
     \<and> \<not> pu_auto_create u \<and> pu_mapping_status u = Some Unmapped"

definition selection_ok :: "selection \<Rightarrow> bool" where
  "selection_ok c \<longleftrightarrow> (se_archive c \<longrightarrow> se_exchange c)"

definition disco_ok :: "disco \<times> partial_user list option \<Rightarrow> bool" where
  "disco_ok = (\<lambda>(s, p).
     distinct (map fst (ds_selection s)) \<and> (\<forall>(i, c) \<in> set (ds_selection s). selection_ok c)
     \<and> (case p of None \<Rightarrow> True | Some us \<Rightarrow> us \<noteq> [] \<and> (\<forall>u \<in> set us. queueable u)))"

lemma put_key_keys:
  "map fst (put_key k v ps) = map fst ps @ (if k \<in> set (map fst ps) then [] else [k])"
  by (induction ps) force+

lemma put_key_distinct: "distinct (map fst ps) \<Longrightarrow> distinct (map fst (put_key k v ps))"
  by (simp only: put_key_keys) simp

lemma put_key_ok:
  "\<forall>(i, c) \<in> set ps. P c \<Longrightarrow> P v \<Longrightarrow> \<forall>(i, c) \<in> set (put_key k v ps). P c"
  by (induction ps) (auto split: if_splits)

lemma payload_queueable:
  "payload_of users rows = Some us \<Longrightarrow> \<forall>(i, c) \<in> set rows. row_active c \<and> selection_ok c \<Longrightarrow>
   length us = length rows \<and> (\<forall>u \<in> set us. queueable u)"
proof (induction rows arbitrary: us)
  case (Cons r rows)
  then show ?case
    by (cases r) (auto simp add: queueable_def payload_user_def row_active_def selection_ok_def split: option.splits)
qed simp

lemma toggle_ok:
  assumes "disco_ok (s, p)" and "key = Key_archive \<longrightarrow> archive_enabled i s"
  shows "disco_ok (toggle i key s, p)"
proof -
  define cur where "cur = (case map_of (ds_selection s) i of None \<Rightarrow> no_selection | Some c \<Rightarrow> c)"
  have "selection_ok cur"
  proof (cases "map_of (ds_selection s) i")
    case None
    then show ?thesis by (simp add: cur_def no_selection_def selection_ok_def)
  next
    case (Some c)
    then have "(i, c) \<in> set (ds_selection s)" by (rule map_of_SomeD)
    with Some assms(1) show ?thesis by (auto simp add: cur_def disco_ok_def)
  qed
  then have "selection_ok (let n = flip key cur
      in if key = Key_exchange \<and> \<not> se_exchange n then n\<lparr>se_archive := False\<rparr> else n)"
    using assms(2)
    by (cases key) (auto simp add: selection_ok_def archive_enabled_def cur_def Let_def split: option.splits)
  moreover have "ds_selection (toggle i key s) = put_key i (let n = flip key cur
      in if key = Key_exchange \<and> \<not> se_exchange n then n\<lparr>se_archive := False\<rparr> else n) (ds_selection s)"
    unfolding toggle_def cur_def [symmetric] Let_def by simp
  moreover have "\<forall>(j, c) \<in> set (ds_selection s). selection_ok c" using assms(1) by (simp add: disco_ok_def)
  ultimately have "\<forall>(j, c) \<in> set (ds_selection (toggle i key s)). selection_ok c"
    using put_key_ok [where P = selection_ok] by simp
  moreover have "distinct (map fst (ds_selection (toggle i key s)))"
    using assms(1) put_key_distinct by (auto simp add: disco_ok_def toggle_def Let_def)
  ultimately show ?thesis using assms(1) by (simp add: disco_ok_def)
qed

lemma disco_ok_step: "disco_step x y \<Longrightarrow> disco_ok x \<Longrightarrow> disco_ok y"
proof (induction rule: disco_step.induct)
  case (row u s p)
  obtain c where "selection_ok c" "ds_selection (row_checkbox (du_id u) s) = put_key (du_id u) c (ds_selection s)"
    by (rule that [of "\<lparr>se_exchange = on, se_onedrive = on, se_archive = False\<rparr>" for on])
      (simp_all add: selection_ok_def row_checkbox_def Let_def)
  moreover have "\<forall>(i, c) \<in> set (ds_selection s). selection_ok c" using row by (simp add: disco_ok_def)
  ultimately have "\<forall>(i, c) \<in> set (ds_selection (row_checkbox (du_id u) s)). selection_ok c"
    by (simp only:) (rule put_key_ok [where P = selection_ok])
  moreover have "distinct (map fst (ds_selection (row_checkbox (du_id u) s)))"
    using row put_key_distinct by (auto simp add: disco_ok_def row_checkbox_def Let_def)
  ultimately show ?case using row by (simp add: disco_ok_def)
next
  case (pill u s key p)
  then show ?case by (intro toggle_ok) simp_all
next
  case (archive u s p)
  then show ?case by (intro toggle_ok) simp_all
next
  case (add s out s' p)
  show ?case
  proof (cases out)
    case (Add_calls payload)
    with add have pl: "payload_of (ds_users s) (selectedRows s) = Some payload" "selectedRows s \<noteq> []"
      and s': "s' = s\<lparr>ds_adding := True\<rparr>"
      by (auto simp add: addSelected_def split: if_splits option.splits)
    have "\<forall>(i, c) \<in> set (selectedRows s). row_active c \<and> selection_ok c"
      using add(3) by (force simp add: disco_ok_def selectedRows_def)
    from payload_queueable [OF pl(1) this] pl(2) have "payload \<noteq> [] \<and> (\<forall>u \<in> set payload. queueable u)" by auto
    with add(3) s' Add_calls show ?thesis by (auto simp add: disco_ok_def)
  qed (use add in \<open>auto simp add: disco_ok_def addSelected_def split: if_splits option.splits\<close>)
qed (auto simp add: disco_ok_def search_changed_def search_settled_def more_settled_def queue_settled_def
      add_settled_def notify_def split: sum.splits option.splits)

interpretation disco: stepping disco_step disco_ok
  by unfold_locales (rule disco_ok_step)

text \<open>
  C28. What the discovery screen can queue: after any searches, pages, clicks and settled
  calls, a request it has under way names at least one user, each with a workload, none
  with the archive but not the mailbox, none marked for auto-creation, all unmapped.
\<close>

theorem queued_users_sound:
  assumes "disco_step\<^sup>*\<^sup>* (disco_init, None) (s, Some payload)"
  shows "payload \<noteq> [] \<and> (\<forall>u \<in> set payload. queueable u)"
proof -
  have "disco_ok (disco_init, None)" by (simp add: disco_ok_def disco_init_def)
  from disco.inv_steps [OF assms this] show ?thesis by (simp add: disco_ok_def)
qed

theorem queued_users_sound_witness:
  "queueable (payload_user \<lparr>du_id = [1], du_display_name = [], du_upn = [2], du_enabled = True\<rparr>
     \<lparr>se_exchange = True, se_onedrive = True, se_archive = False\<rparr>)"
proof -
  define u where "u = \<lparr>du_id = [1], du_display_name = [], du_upn = [2], du_enabled = True\<rparr>"
  define c where "c = \<lparr>se_exchange = True, se_onedrive = True, se_archive = False\<rparr>"
  define s1 where "s1 = search_settled (Inr ([u], None)) disco_init"
  define s2 where "s2 = row_checkbox (du_id u) s1"
  have s1: "ds_users s1 = [u]" "ds_selection s1 = []" "ds_adding s1 = False"
    by (simp_all add: s1_def search_settled_def disco_init_def)
  then have s2: "ds_users s2 = [u]" "ds_selection s2 = [([1], c)]" "\<not> ds_adding s2"
    by (simp_all add: s2_def row_checkbox_def u_def c_def)
  then have add: "addSelected s2 = (Add_calls [payload_user u c], s2\<lparr>ds_adding := True\<rparr>)"
    by (simp add: addSelected_def selectedRows_def c_def row_active_def u_def)
  have "disco_step (disco_init, None) (s1, None)" unfolding s1_def by (rule disco_step.searched)
  moreover have "disco_step (s1, None) (s2, None)"
    unfolding s2_def by (rule disco_step.row) (simp add: s1)
  moreover have "disco_step (s2, None) (s2\<lparr>ds_adding := True\<rparr>, Some [payload_user u c])"
    using disco_step.add [OF s2(3) add, of None] by simp
  ultimately have "disco_step\<^sup>*\<^sup>* (disco_init, None) (s2\<lparr>ds_adding := True\<rparr>, Some [payload_user u c])"
    by (metis rtranclp.simps)
  from queued_users_sound [OF this] show ?thesis by (simp add: u_def c_def)
qed

section \<open>A selection that is no longer listed\<close>

lemma payload_missing:
  "(i, c) \<in> set rows \<Longrightarrow> i \<notin> du_id ` set users \<Longrightarrow> payload_of users rows = None"
proof (induction rows)
  case (Cons r rows)
  then show ?case
    by (cases r) (auto simp add: find_Some_iff split: option.splits)
qed simp

lemma adding_stays: "disco_step x y \<Longrightarrow> snd x = None \<and> ds_adding (fst x) \<Longrightarrow> snd y = None \<and> ds_adding (fst y)"
  by (induction rule: disco_step.induct)
    (auto simp add: search_changed_def search_settled_def more_settled_def queue_settled_def notify_def
      row_checkbox_def toggle_def Let_def split: sum.splits)

interpretation stuck: stepping disco_step "\<lambda>x. snd x = None \<and> ds_adding (fst x)"
  by unfold_locales (rule adding_stays)

text \<open>
  A selection that a later search no longer lists jams the screen: \<open>addSelected\<close> throws
  before its \<open>try\<close>, nothing is sent, and the button is busy in every state the page can
  reach from there.
\<close>

theorem add_jams:
  assumes "(i, c) \<in> set (selectedRows s)" and "i \<notin> du_id ` set (ds_users s)"
    and "disco_step\<^sup>*\<^sup>* (snd (addSelected s), None) (s', p)"
  shows "fst (addSelected s) = Add_throws \<and> p = None \<and> ds_adding s'"
proof -
  have "payload_of (ds_users s) (selectedRows s) = None" by (rule payload_missing [OF assms(1,2)])
  moreover have "selectedRows s \<noteq> []" using assms(1) by auto
  ultimately have "addSelected s = (Add_throws, s\<lparr>ds_adding := True\<rparr>)" by (simp add: addSelected_def)
  with stuck.inv_steps [OF assms(3)] show ?thesis by simp
qed

theorem add_jams_witness:
  "let u = \<lparr>du_id = [1], du_display_name = [], du_upn = [2], du_enabled = True\<rparr>;
       s = search_settled (Inr ([], None)) (row_checkbox [1] (search_settled (Inr ([u], None)) disco_init))
   in disco_step\<^sup>*\<^sup>* (disco_init, None) (s, None) \<and> fst (addSelected s) = Add_throws"
proof -
  define u where "u = \<lparr>du_id = [1], du_display_name = [], du_upn = [2], du_enabled = True\<rparr>"
  define s1 where "s1 = search_settled (Inr ([u], None)) disco_init"
  define s2 where "s2 = row_checkbox [1] s1"
  define s3 where "s3 = search_settled (Inr ([], None)) s2"
  have "disco_step (disco_init, None) (s1, None)" unfolding s1_def by (rule disco_step.searched)
  moreover have "disco_step (s1, None) (s2, None)"
    unfolding s2_def using disco_step.row [of u s1 None]
    by (simp add: s1_def search_settled_def u_def)
  moreover have "disco_step (s2, None) (s3, None)" unfolding s3_def by (rule disco_step.searched)
  ultimately have run: "disco_step\<^sup>*\<^sup>* (disco_init, None) (s3, None)" by (metis rtranclp.simps)
  have "([1], \<lparr>se_exchange = True, se_onedrive = True, se_archive = False\<rparr>) \<in> set (selectedRows s3)"
    "[1] \<notin> du_id ` set (ds_users s3)"
    by (simp_all add: s3_def s2_def s1_def search_settled_def row_checkbox_def disco_init_def selectedRows_def
        row_active_def)
  from add_jams [OF this rtranclp.rtrancl_refl] run show ?thesis
    unfolding Let_def u_def [symmetric] s1_def [symmetric] s2_def [symmetric] s3_def [symmetric] by simp
qed

section \<open>The import of the screen\<close>

definition header_refusal :: "nat \<times> (nat \<times> js_string) list" where
  "header_refusal = (0, [(1, js ''Header must be: '' @ join [44] EXPECTED_HEADERS)])"

lemma screen_import_body:
  obtains body where "stringify (ca_body (users_call (Users_import csv))) = Some (123 # body)"
  by (auto simp add: stringify_def send_call_def body_fields_def)

lemma brace_import:
  "fst (import_users cx (123 # body) w) = Inr header_refusal
   \<and> w_users (snd (import_users cx (123 # body) w)) = w_users w"
proof -
  have "trim (123 # body) \<noteq> []" using trim_opens [of "123 # body"] by auto
  then show ?thesis by (simp add: import_users_def json_body_rejected header_refusal_def Let_def)
qed

text \<open>
  The screen can import nothing: whatever is pasted, the request body is a JSON object,
  the Worker reads it as CSV, accepts no row, leaves the queue as it is and reports the
  header, and the modal shows the import as failed and stays open.
\<close>

theorem screen_imports_nothing:
  "case stringify (ca_body (users_call (Users_import csv))) of
     None \<Rightarrow> False
   | Some body \<Rightarrow>
       fst (import_users cx body w) = Inr header_refusal
       \<and> w_users (snd (import_users cx body w)) = w_users w
       \<and> \<not> fst (import_settled (Inr header_refusal) m)
       \<and> im_result (snd (import_settled (Inr header_refusal) m)) = Some header_refusal"
proof -
  obtain body where body: "stringify (ca_body (users_call (Users_import csv))) = Some (123 # body)"
    by (rule screen_import_body)
  show ?thesis
    unfolding body option.case using brace_import [of cx body w]
    by (simp add: header_refusal_def import_settled_def Let_def)
qed

end
