(* ===== verification/MappingScreen.thy ===== *)
theory MappingScreen
  imports Discovery Provision AuthLaws
begin

text \<open>
  Mapping and provisioning (\<open>web/src/screens/MappingProvisioning.tsx\<close>): the rows the screen
  shows, its calls, and the Worker's queue under everything the console can send. A handler
  that awaits a call is two definitions, up to the call and after it settled.
\<close>

section \<open>Rows\<close>

definition autoCreateCount :: "migration_user list \<Rightarrow> nat" where
  "autoCreateCount rows = length (filter auto_create_target rows)"

definition readyToRun :: "migration_user list \<Rightarrow> migration_user list" where
  "readyToRun rows =
     filter (\<lambda>r. (mapping_status r = Mapped \<or> mapping_status r = Provisioned)
                \<and> (migrate_exchange r \<or> migrate_onedrive r)) rows"

definition provision_ids :: "migration_user list \<Rightarrow> js_string list" where
  "provision_ids rows =
     map mu_id (filter (\<lambda>r. auto_create_target r \<and> mapping_status r \<noteq> Provisioned) rows)"

text \<open>The target column, \<open>None\<close> for the text that it is not resolved.\<close>

definition shown_target :: "migration_user \<Rightarrow> js_string option" where
  "shown_target r = (if truthy (target_upn r) then target_upn r else None)"

definition status_label :: "mapping_status \<Rightarrow> js_string" where
  "status_label m =
     (case m of
        Unmapped \<Rightarrow> js ''Unmapped'' | Mapped \<Rightarrow> js ''Mapped'' | Auto_create \<Rightarrow> js ''Auto-create''
      | Provisioned \<Rightarrow> js ''Provisioned'' | Invalid \<Rightarrow> js ''Invalid target'')"

section \<open>Screen\<close>

record map_screen =
  ms_editing :: "migration_user option"
  ms_provisioning :: bool
  ms_pw_open :: bool
  ms_creds_pending :: bool
  ms_starting :: bool
  ms_reloads :: nat
  ms_notices :: "notice list"

definition map_init :: map_screen where
  "map_init =
     \<lparr>ms_editing = None, ms_provisioning = False, ms_pw_open = False, ms_creds_pending = False,
      ms_starting = False, ms_reloads = 0, ms_notices = []\<rparr>"

definition say :: "notice \<Rightarrow> map_screen \<Rightarrow> map_screen" where
  "say n s = s\<lparr>ms_notices := ms_notices s @ [n]\<rparr>"

text \<open>The switch of a row.\<close>

definition setAutoCreate :: "migration_user \<Rightarrow> bool \<Rightarrow> users_api" where
  "setAutoCreate u next =
     Users_mapping (mu_id u) (target_email u) (target_upn u)
       (if next then Auto_create else if truthy (target_upn u) then Mapped else Unmapped)"

definition set_auto_settled :: "client_exn + 'a \<Rightarrow> map_screen \<Rightarrow> map_screen" where
  "set_auto_settled r s =
     (case r of
        Inr v \<Rightarrow> s\<lparr>ms_reloads := Suc (ms_reloads s)\<rparr>
      | Inl e \<Rightarrow> say (failure e ''Could not update mapping.'') s)"

definition provisionAutoCreate :: "migration_user list \<Rightarrow> map_screen \<Rightarrow> call option \<times> map_screen" where
  "provisionAutoCreate rows s =
     (let ids = provision_ids rows
      in if ids = [] then (None, say (Info, js ''No users are marked for auto-create.'', None) s)
         else (Some (provision_call ids), s\<lparr>ms_provisioning := True\<rparr>))"

definition provision_settled :: "client_exn + provision_reply \<Rightarrow> map_screen \<Rightarrow> map_screen" where
  "provision_settled r s =
     (case r of
        Inr res \<Rightarrow>
          (let n = (if pp_failed res \<noteq> [] then
                      (Error_tone, digits (length (pp_failed res)) @ js '' user(s) failed to provision.'',
                       Some (js ''Provisioning partial''))
                    else
                      (Success, digits (length (pp_provisioned res))
                         @ js '' user(s) provisioned in the destination tenant.'', None));
               s1 = say n s;
               s2 = (if pp_credentials_pending res then s1\<lparr>ms_creds_pending := True\<rparr> else s1)
           in s2\<lparr>ms_reloads := Suc (ms_reloads s2), ms_provisioning := False\<rparr>)
      | Inl e \<Rightarrow> say (failure e ''Provisioning failed.'') s\<lparr>ms_provisioning := False\<rparr>)"

definition startMigration :: "migration_user list \<Rightarrow> map_screen \<Rightarrow> call option \<times> map_screen" where
  "startMigration rows s =
     (if readyToRun rows = [] then (None, s)
      else (Some (jobs_call (Jobs_create (map mu_id (readyToRun rows)))), s\<lparr>ms_starting := True\<rparr>))"

definition start_settled :: "client_exn + job list \<Rightarrow> map_screen \<Rightarrow> map_screen" where
  "start_settled r s =
     (case r of
        Inr created \<Rightarrow>
          say (Success, digits (length created)
                 @ js '' job(s) queued. Track them in the Migration Monitor.'', None) s\<lparr>ms_starting := False\<rparr>
      | Inl e \<Rightarrow> say (failure e ''Could not queue jobs.'') s\<lparr>ms_starting := False\<rparr>)"

section \<open>The dialog that maps one user\<close>

record map_modal =
  mm_user :: migration_user
  mm_target_email :: js_string
  mm_saving :: bool

definition map_modal_open :: "migration_user \<Rightarrow> map_modal" where
  "map_modal_open u =
     \<lparr>mm_user = u, mm_target_email = default_to (target_email u) [], mm_saving = False\<rparr>"

definition previewUpn :: "map_modal \<Rightarrow> js_string" where
  "previewUpn m =
     (if trim (mm_target_email m) \<noteq> [] then trim (mm_target_email m)
      else default_to (target_upn (mm_user m)) [])"

definition save :: "bool \<Rightarrow> map_modal \<Rightarrow> users_api" where
  "save autoCreate m =
     (let t = (if trim (mm_target_email m) = [] then None else Some (trim (mm_target_email m)))
      in Users_mapping (mu_id (mm_user m))
           (if autoCreate then None else t) (if autoCreate then None else t)
           (if autoCreate then Auto_create else if t \<noteq> None then Mapped else Unmapped))"

section \<open>The one-time download\<close>

text \<open>\<open>PasswordDownloadModal\<close> stays mounted; \<open>pw_files\<close> are the files saved.\<close>

record pw_modal =
  pw_open :: bool
  pw_ack :: bool
  pw_downloading :: bool
  pw_pending :: bool
  pw_files :: "js_string list"
  pw_notices :: "notice list"

definition pw_cancel :: "pw_modal \<Rightarrow> pw_modal" where
  "pw_cancel m = (if pw_downloading m then m else m\<lparr>pw_open := False\<rparr>)"

definition pw_dismiss :: "pw_modal \<Rightarrow> pw_modal" where
  "pw_dismiss m = m\<lparr>pw_ack := False, pw_open := False\<rparr>"

definition pw_tick :: "bool \<Rightarrow> pw_modal \<Rightarrow> pw_modal" where
  "pw_tick on m = (if pw_open m then m\<lparr>pw_ack := on\<rparr> else m)"

definition pw_show :: "pw_modal \<Rightarrow> pw_modal" where
  "pw_show m = (if pw_pending m then m\<lparr>pw_open := True\<rparr> else m)"

text \<open>\<open>doDownload\<close> up to the call; the flag says that it is made.\<close>

definition doDownload :: "pw_modal \<Rightarrow> bool \<times> pw_modal" where
  "doDownload m =
     (if \<not> pw_open m \<or> \<not> pw_ack m \<or> pw_downloading m then (False, m)
      else (True, m\<lparr>pw_downloading := True\<rparr>))"

definition download_settled :: "client_exn + js_string \<Rightarrow> pw_modal \<Rightarrow> pw_modal" where
  "download_settled r m =
     (case r of
        Inr csv \<Rightarrow>
          m\<lparr>pw_files := pw_files m @ [csv], pw_ack := False, pw_open := False, pw_pending := False,
            pw_downloading := False,
            pw_notices := pw_notices m
              @ [(Success, js ''Credentials downloaded. Plaintext has been purged from D1.'',
                  Some (js ''One-time download complete''))]\<rparr>
      | Inl e \<Rightarrow>
          m\<lparr>pw_downloading := False,
            pw_notices := pw_notices m @ [failure e ''Download failed. Credentials remain pending.'']\<rparr>)"

section \<open>What the Worker makes of a saved mapping\<close>

definition field_of :: "js_string option \<Rightarrow> js_string field" where
  "field_of v = (case v of None \<Rightarrow> Null | Some t \<Rightarrow> Given t)"

text \<open>The body the route reads of a call of \<open>updateMapping\<close>, with the id of its path.\<close>

fun sent_mapping :: "users_api \<Rightarrow> (js_string \<times> mapping_body) option" where
  "sent_mapping (Users_mapping i email upn status) =
     Some (i, \<lparr>mb_target_email = field_of email, mb_target_upn = field_of upn,
               mb_mapping_status = Some status\<rparr>)"
| "sent_mapping _ = None"

lemma user_by_id_mapping:
  "user_by_id uid (updateMapping uid email upn status t) =
     map_option (\<lambda>r. r\<lparr>target_email := email, target_upn := upn, mapping_status := status\<rparr>) (user_by_id uid t)"
  by (simp add: user_by_id_def updateMapping_def lookup_by_update_same [where key = mu_id and k = uid])

lemma patch_mapping_row:
  assumes "user_by_id uid (w_users w) = Some r"
    and "decide_mapping (resolveDestinationUpn pf ev (cx_now cx) (w_tenants w)) r b = (email, upn, status)"
    and "patch_mapping pf ev cx uid (Some b) w = (out, w')"
  shows "out = Inr (Some (r\<lparr>target_email := email, target_upn := upn, mapping_status := status\<rparr>))
    \<and> w_users w' = updateMapping uid email upn status (w_users w)"
  using assms(3) unfolding patch_mapping_def assms(1) option.case assms(2) prod.case Let_def
  by (auto simp add: user_by_id_mapping assms(1))

lemma patch_mapping_frame:
  "patch_mapping pf ev cx uid b w = (out, w') \<Longrightarrow> w_jobs w' = w_jobs w \<and> w_queue w' = w_queue w"
  by (auto simp add: patch_mapping_def Let_def split: option.splits prod.splits)

text \<open>
  What the mapping dialog stores: saving a typed target stores that very text as the
  resolved destination UPN with the status \<open>mapped\<close>, whatever the destination tenant is
  and whether it has such a user, so that the row counts as ready when a workload is
  selected; saving an empty one unmaps the row; and \<open>Auto-create instead\<close> always clears
  the target and stores \<open>invalid\<close>.
\<close>

theorem dialog_stores_unresolved:
  assumes "user_by_id (mu_id (mm_user m)) (w_users w) = Some r"
    and "sent_mapping (save auto m) = Some (uid, b)"
    and "patch_mapping pf ev cx uid (Some b) w = (out, w')"
  shows "out = Inr (Some
    (if auto then r\<lparr>target_email := None, target_upn := None, mapping_status := Invalid\<rparr>
     else if trim (mm_target_email m) = []
     then r\<lparr>target_email := None, target_upn := None, mapping_status := Unmapped\<rparr>
     else r\<lparr>target_email := Some (trim (mm_target_email m)), target_upn := Some (trim (mm_target_email m)),
            mapping_status := Mapped\<rparr>))"
proof -
  have uid: "uid = mu_id (mm_user m)" using assms(2) by (simp add: save_def Let_def)
  obtain email upn status where d: "decide_mapping (resolveDestinationUpn pf ev (cx_now cx) (w_tenants w)) r b
      = (email, upn, status)" by (rule prod_cases3)
  have "(email, upn, status) =
      (if auto then (None, None, Invalid)
       else if trim (mm_target_email m) = [] then (None, None, Unmapped)
       else (Some (trim (mm_target_email m)), Some (trim (mm_target_email m)), Mapped))"
    using d assms(2)
    by (auto simp add: save_def decide_mapping_def field_of_def Let_def split: if_splits)
  with patch_mapping_row [OF _ d assms(3)] assms(1) uid show ?thesis by (auto split: if_splits)
qed

section \<open>The console and the queue\<close>

text \<open>Everything the console sends that can touch the queue of users, and anything else,
  by the console or the engine, that does not.\<close>

inductive console_step :: "platform \<Rightarrow> env \<Rightarrow> world \<Rightarrow> world \<Rightarrow> bool" for pf ev where
  add: "\<forall>u \<in> set us. queueable u \<Longrightarrow> post_users cx (Some (Items us)) w = (r, w') \<Longrightarrow>
    console_step pf ev w w'"
| import: "stringify (ca_body (users_call (Users_import csv))) = Some body \<Longrightarrow>
    import_users cx body w = (ri, w') \<Longrightarrow> console_step pf ev w w'"
| map: "sent_mapping (save auto m) = Some (uid, b) \<Longrightarrow>
    patch_mapping pf ev cx uid (Some b) w = (rm, w') \<Longrightarrow> console_step pf ev w w'"
| switch: "sent_mapping (setAutoCreate u on) = Some (uid, b) \<Longrightarrow>
    patch_mapping pf ev cx uid (Some b) w = (rm, w') \<Longrightarrow> console_step pf ev w w'"
| remove: "delete_user cx uid w = (rd, w') \<Longrightarrow> console_step pf ev w w'"
| provision: "post_provision pf ev cx rnd iv ids w = Some (rp, w') \<Longrightarrow> console_step pf ev w w'"
| other: "w_users w' = w_users w \<Longrightarrow> console_step pf ev w w'"

definition none_auto :: "users_table \<Rightarrow> bool" where
  "none_auto t \<longleftrightarrow> (\<forall>r \<in> set t. \<not> auto_create_target r)"

lemma none_auto_batch:
  "batch_users rows t = Inr t' \<Longrightarrow> none_auto rows \<Longrightarrow> none_auto t \<Longrightarrow> none_auto t'"
proof (induction rows arbitrary: t)
  case (Cons u rows)
  then obtain t1 where t1: "upsertStmt u t = Inr t1" "batch_users rows t1 = Inr t'"
    by (auto split: sum.splits)
  have "none_auto t1"
    using t1(1) Cons.prems(2,3)
    by (auto simp add: upsertStmt_def upsert_by_def none_auto_def user_excluded_def update_where_def split: if_splits)
  with Cons t1(2) show ?case by (simp add: none_auto_def)
qed simp

lemma user_stmts_auto:
  "user_stmts cx n us = Inr (rows, n') \<Longrightarrow> \<forall>u \<in> set us. queueable u \<Longrightarrow> none_auto rows"
  by (induction us arbitrary: n rows n')
    (auto simp add: none_auto_def user_stmt_def queueable_def split: if_splits sum.splits)

lemma none_auto_update: "none_auto t \<Longrightarrow> none_auto (updateMapping i e v st t)"
  by (auto simp add: none_auto_def updateMapping_def update_where_def)

lemma none_auto_patch:
  "patch_mapping pf ev cx uid (Some b) w = (r, w') \<Longrightarrow> none_auto (w_users w) \<Longrightarrow> none_auto (w_users w')"
  by (auto simp add: patch_mapping_def none_auto_update Let_def split: option.splits prod.splits)

lemma provision_users_none_auto:
  "provision_users pf ev cx rnd iv dest src k uids results w = Some (out, w') \<Longrightarrow>
   none_auto (w_users w) \<Longrightarrow> w' = w"
proof (induction uids arbitrary: k results)
  case (Cons uid uids)
  show ?case
  proof (cases "user_by_id uid (w_users w)")
    case None
    with Cons show ?thesis by simp
  next
    case (Some u)
    then have "u \<in> set (w_users w)" by (auto simp add: user_by_id_def dest: lookup_by_Some)
    with Cons.prems(2) have "\<not> auto_create_target u" by (simp add: none_auto_def)
    with Cons Some show ?thesis by simp
  qed
qed simp

lemma none_auto_step: "console_step pf ev w w' \<Longrightarrow> none_auto (w_users w) \<Longrightarrow> none_auto (w_users w')"
proof (induction rule: console_step.induct)
  case (add us cx w r w')
  show ?case
  proof (cases us)
    case Nil
    with add show ?thesis by (simp add: post_users_def)
  next
    case (Cons u us')
    with add show ?thesis
      using none_auto_batch user_stmts_auto [of cx "w_seed w" us]
      by (auto simp add: post_users_def Let_def split: sum.splits simp del: user_stmts.simps)
  qed
next
  case (import csv body cx w ri w')
  obtain rest where "stringify (ca_body (users_call (Users_import csv))) = Some (123 # rest)"
    by (rule screen_import_body)
  with import(1) have body: "body = 123 # rest" by simp
  have "w_users w' = w_users w"
    using brace_import [of cx rest w] import(2) unfolding body by simp
  with import(3) show ?case by simp
next
  case (remove cx uid w rd w')
  then show ?case
    by (auto simp add: delete_user_def cascade_user_def remove_user_def none_auto_def Let_def split: option.splits)
next
  case (provision cx rnd iv ids w rp w')
  then show ?case
    by (auto simp add: post_provision_def simp del: provision_users.simps dest: provision_users_none_auto
        split: option.splits array_field.splits list.splits sum.splits)
qed (simp_all add: none_auto_patch)

interpretation console: stepping "console_step pf ev" "\<lambda>w. none_auto (w_users w)"
  by unfold_locales (rule none_auto_step)

text \<open>
  C29. The console cannot provision: from an empty queue, whatever is discovered, imported,
  mapped, switched to auto-create, removed or provisioned from the console, in any order
  and mixed with everything the engine does, no user of the queue is marked for
  auto-creation, so the screen counts none, its provisioning button is off, and
  provisioning by it makes no call.
\<close>

theorem console_cannot_provision:
  assumes "w_users w = []" and "(console_step pf ev)\<^sup>*\<^sup>* w w'"
  shows "autoCreateCount (get_users w') = 0 \<and> provision_ids (get_users w') = []
    \<and> fst (provisionAutoCreate (get_users w') s) = None"
proof -
  have "none_auto (w_users w')"
    using console.inv_steps [OF assms(2)] assms(1) by (simp add: none_auto_def)
  then have "\<forall>r \<in> set (get_users w'). \<not> auto_create_target r"
    by (simp add: get_users_def list_users_def none_auto_def)
  then show ?thesis
    by (auto simp add: autoCreateCount_def provision_ids_def provisionAutoCreate_def filter_empty_conv Let_def)
qed

definition demo_user :: migration_user where
  "demo_user =
     \<lparr>mu_id = [7], source_email = js ''a@s'', target_email = None, target_upn = None,
      migrate_exchange = True, migrate_onedrive = False, auto_create_target = False,
      include_archive = False, mapping_status = Unmapped, mu_created_at = 0\<rparr>"

definition demo_add :: partial_user where
  "demo_add =
     \<lparr>pu_id = None, pu_source_email = Some (js ''a@s''), pu_target_email = None, pu_target_upn = None,
      pu_exchange = True, pu_onedrive = False, pu_auto_create = False, pu_archive = False,
      pu_mapping_status = Some Unmapped\<rparr>"

definition console_request :: request where
  "console_request = \<lparr>cx_now = 0, cx_actor = js ''e'', cx_uuid = (\<lambda>n. [n]), cx_send = (\<lambda>m. True)\<rparr>"

lemma demo_added:
  obtains r w' where "post_users console_request (Some (Items [demo_add])) empty_world = (r, w')"
    and "map source_email (w_users w') = [js ''a@s'']"
  by (rule that [OF surjective_pairing])
    (simp add: post_users_def demo_add_def empty_world_def upsertStmt_def upsert_by_def user_stmt_def Let_def)

theorem console_cannot_provision_witness:
  "\<exists>w'. map source_email (w_users w') = [js ''a@s''] \<and> autoCreateCount (get_users w') = 0"
proof -
  obtain r w' where w': "post_users console_request (Some (Items [demo_add])) empty_world = (r, w')"
    "map source_email (w_users w') = [js ''a@s'']" by (rule demo_added)
  have "console_step demo_platform demo_env empty_world w'"
    by (rule console_step.add [OF _ w'(1)]) (simp add: queueable_def demo_add_def)
  from console_cannot_provision [OF _ r_into_rtranclp, OF _ this] w'(2) show ?thesis
    by (intro exI [of _ w']) (simp add: empty_world_def)
qed

theorem dialog_stores_unresolved_witness:
  "let m = map_modal_open demo_user\<lparr>mm_target_email := js ''nobody''\<rparr>;
       b = \<lparr>mb_target_email = Given (js ''nobody''), mb_target_upn = Given (js ''nobody''),
            mb_mapping_status = Some Mapped\<rparr>
   in fst (patch_mapping demo_platform demo_env console_request [7] (Some b) (empty_world\<lparr>w_users := [demo_user]\<rparr>))
      = Inr (Some (demo_user\<lparr>target_email := Some (js ''nobody''), target_upn := Some (js ''nobody''),
               mapping_status := Mapped\<rparr>))"
proof -
  define m where "m = map_modal_open demo_user\<lparr>mm_target_email := js ''nobody''\<rparr>"
  define b where "b = \<lparr>mb_target_email = Given (js ''nobody''), mb_target_upn = Given (js ''nobody''),
    mb_mapping_status = Some Mapped\<rparr>"
  have tr: "trim (js ''nobody'') = js ''nobody''" by (simp add: trim_def js_def js_space_def)
  have user: "user_by_id (mu_id (mm_user m)) (w_users (empty_world\<lparr>w_users := [demo_user]\<rparr>)) = Some demo_user"
    by (simp add: m_def map_modal_open_def user_by_id_def lookup_by_def)
  have sent: "sent_mapping (save False m) = Some ([7], b)"
    by (simp add: m_def map_modal_open_def save_def tr field_of_def b_def demo_user_def Let_def)
  from dialog_stores_unresolved [OF user sent surjective_pairing] show ?thesis
    unfolding Let_def m_def [symmetric] b_def [symmetric]
    by (simp add: m_def map_modal_open_def tr)
qed

end
