(* ===== verification/MappingLaws.thy ===== *)
theory MappingLaws
  imports MappingScreen DispatchLaws
begin

text \<open>
  Starting a migration from the console: the rows the mapping screen counts as ready are the
  ones the Worker creates jobs and messages for.
\<close>

section \<open>The queue a console builds\<close>

definition has_target :: "migration_user \<Rightarrow> bool" where
  "has_target r \<longleftrightarrow>
     (mapping_status r \<in> {Mapped, Provisioned} \<longrightarrow> truthy (coalesce (target_upn r) (target_email r)))"

definition queue_ok :: "users_table \<Rightarrow> bool" where
  "queue_ok t \<longleftrightarrow> none_auto t \<and> unique_by mu_id t \<and> (\<forall>r \<in> set t. has_target r)"

lemma upsert_queue_ok:
  assumes "upsertStmt u t = Inr t'" and "queue_ok t" and "mapping_status u = Unmapped" and "\<not> auto_create_target u"
  shows "queue_ok t'"
proof -
  have excluded: "mu_id (user_excluded u r) = mu_id r" "has_target (user_excluded u r)"
    "\<not> auto_create_target (user_excluded u r)" "has_target u" for r
    using assms(3,4) by (simp_all add: user_excluded_def has_target_def)
  show ?thesis
  proof (cases "source_email u \<in> set (map source_email t)")
    case True
    with assms(1) have t': "t' = update_where (\<lambda>x. source_email x = source_email u) (user_excluded u) t"
      by (auto simp add: upsertStmt_def upsert_by_def split: if_splits)
    have "unique_by mu_id t'"
      unfolding t' using assms(2) by (intro unique_by_update) (simp_all add: excluded queue_ok_def)
    with assms(2) show ?thesis
      unfolding queue_ok_def none_auto_def t' by (auto simp add: excluded)
  next
    case False
    with assms(1) have "t' = t @ [u]" "mu_id u \<notin> mu_id ` set t"
      by (auto simp add: upsertStmt_def upsert_by_def split: if_splits)
    with assms(2,4) show ?thesis
      unfolding queue_ok_def none_auto_def by (auto simp add: unique_by_snoc excluded)
  qed
qed

lemma batch_queue_ok:
  "batch_users rows t = Inr t' \<Longrightarrow> \<forall>r \<in> set rows. mapping_status r = Unmapped \<and> \<not> auto_create_target r \<Longrightarrow>
   queue_ok t \<Longrightarrow> queue_ok t'"
proof (induction rows arbitrary: t)
  case (Cons u rows)
  then obtain t1 where "upsertStmt u t = Inr t1" "batch_users rows t1 = Inr t'" by (auto split: sum.splits)
  with Cons upsert_queue_ok [of u t t1] show ?case by simp
qed simp

lemma user_stmts_unmapped:
  "user_stmts cx n us = Inr (rows, n') \<Longrightarrow> \<forall>u \<in> set us. queueable u \<Longrightarrow>
   \<forall>r \<in> set rows. mapping_status r = Unmapped \<and> \<not> auto_create_target r"
  by (induction us arbitrary: n rows n')
    (auto simp add: user_stmt_def queueable_def split: if_splits sum.splits)

lemma decided_target:
  assumes "decide_mapping f r b = (email, upn, status)" and "mb_mapping_status b = Some st" and "st \<noteq> Provisioned"
  shows "has_target (x\<lparr>target_email := email, target_upn := upn, mapping_status := status\<rparr>)"
proof -
  have "status \<in> {Mapped, Provisioned} \<longrightarrow> truthy upn"
    using assms by (cases st) (simp_all add: decide_mapping_def Let_def split: if_splits)
  moreover have "truthy upn \<Longrightarrow> truthy (coalesce upn email)" by (cases upn) simp_all
  ultimately show ?thesis by (simp add: has_target_def)
qed

lemma patch_queue_ok:
  assumes "patch_mapping pf ev cx uid (Some b) w = (out, w')" and "mb_mapping_status b = Some st"
    and "st \<noteq> Provisioned" and ok: "queue_ok (w_users w)"
  shows "queue_ok (w_users w')"
proof (cases "user_by_id uid (w_users w)")
  case None
  with assms(1) ok show ?thesis by (auto simp add: patch_mapping_def)
next
  case (Some r)
  obtain email upn status where d: "decide_mapping (resolveDestinationUpn pf ev (cx_now cx) (w_tenants w)) r b
      = (email, upn, status)" by (rule prod_cases3)
  have t': "w_users w' = updateMapping uid email upn status (w_users w)"
    using patch_mapping_row [OF Some d assms(1)] by simp
  have "unique_by mu_id (w_users w')"
    unfolding t' updateMapping_def using ok by (intro unique_by_update) (simp_all add: queue_ok_def)
  moreover have "none_auto (w_users w')"
    unfolding t' using ok by (simp add: queue_ok_def none_auto_update)
  moreover have "\<forall>x \<in> set (w_users w'). has_target x"
    unfolding t' updateMapping_def using ok decided_target [OF d assms(2,3)] by (auto simp add: queue_ok_def)
  ultimately show ?thesis by (simp add: queue_ok_def)
qed

lemma sent_status:
  "sent_mapping (save auto m) = Some (uid, b) \<Longrightarrow> \<exists>st. mb_mapping_status b = Some st \<and> st \<noteq> Provisioned"
  "sent_mapping (setAutoCreate u on) = Some (uid, b) \<Longrightarrow> \<exists>st. mb_mapping_status b = Some st \<and> st \<noteq> Provisioned"
  by (auto simp add: save_def setAutoCreate_def Let_def split: if_splits)

lemma queue_ok_step: "console_step pf ev w w' \<Longrightarrow> queue_ok (w_users w) \<Longrightarrow> queue_ok (w_users w')"
proof (induction rule: console_step.induct)
  case (add us cx w r w')
  show ?case
  proof (cases us)
    case Nil
    with add show ?thesis by (simp add: post_users_def)
  next
    case (Cons u us')
    show ?thesis
    proof (cases "user_stmts cx (w_seed w) us")
      case (Inl e)
      with add Cons show ?thesis by (simp add: post_users_def del: user_stmts.simps)
    next
      case (Inr p)
      then obtain rows n where rows: "user_stmts cx (w_seed w) us = Inr (rows, n)" by (cases p) simp
      note unmapped = user_stmts_unmapped [OF rows add(1)]
      show ?thesis
      proof (cases "batch_users rows (w_users w)")
        case (Inl e)
        with add Cons rows show ?thesis by (auto simp add: post_users_def simp del: user_stmts.simps)
      next
        case (Inr t)
        with add(2) Cons rows have "w_users w' = t"
          by (auto simp add: post_users_def Let_def simp del: user_stmts.simps)
        with batch_queue_ok [OF Inr unmapped add(3)] show ?thesis by simp
      qed
    qed
  qed
next
  case (import csv body cx w ri w')
  obtain rest where "stringify (ca_body (users_call (Users_import csv))) = Some (123 # rest)"
    by (rule screen_import_body)
  with import(1) have body: "body = 123 # rest" by simp
  have "w_users w' = w_users w"
    using brace_import [of cx rest w] import(2) unfolding body by simp
  with import(3) show ?case by simp
next
  case (map auto m uid b cx w rm w')
  then show ?case using sent_status(1) [of auto m uid b] patch_queue_ok by blast
next
  case (switch u on uid b cx w rm w')
  then show ?case using sent_status(2) [of u on uid b] patch_queue_ok by blast
next
  case (remove cx uid w rd w')
  then show ?case
    by (auto simp add: delete_user_def cascade_user_def remove_user_def queue_ok_def none_auto_def Let_def
        intro: unique_by_delete split: option.splits)
next
  case (provision cx rnd iv ids w rp w')
  then have "none_auto (w_users w)" by (simp add: queue_ok_def)
  with provision show ?case
    by (auto simp add: post_provision_def simp del: provision_users.simps dest: provision_users_none_auto
        split: option.splits array_field.splits list.splits sum.splits)
next
  case (other w' w)
  then show ?case by simp
qed

interpretation console_queue: stepping "console_step pf ev" "\<lambda>w. queue_ok (w_users w)"
  by unfold_locales (rule queue_ok_step)

section \<open>The jobs of the ready rows\<close>

definition job_brief :: "job \<Rightarrow> js_string \<times> workload" where
  "job_brief j = (job_user j, job_workload j)"

definition message_brief :: "dispatch_message \<Rightarrow> js_string \<times> workload \<times> js_string \<times> pass_kind" where
  "message_brief m = (msg_user m, msg_workload m, msg_target_upn m, msg_pass m)"

definition row_jobs :: "migration_user \<Rightarrow> (js_string \<times> workload) list" where
  "row_jobs r = map (Pair (mu_id r)) (selected_workloads r)"

definition row_messages :: "migration_user \<Rightarrow> (js_string \<times> workload \<times> js_string \<times> pass_kind) list" where
  "row_messages r =
     map (\<lambda>wl. (mu_id r, wl, the (coalesce (target_upn r) (target_email r)), Full)) (selected_workloads r)"

lemma created_row:
  assumes "dispatch_ok uuid (t, q, n)" and "create_job (uuid n) uid wl 1 now t = ((jid, seq), t')"
    and "user_by_id uid us = Some u"
  shows "\<exists>j. job_by_id jid us t' = Some j \<and> job_brief j = (uid, wl)"
proof -
  note D = dispatch_okD [OF assms(1)]
  have ok': "unique_by jr_id t'"
    using dispatch_okD(3) [OF create_ok [OF assms(1,2)]] by (auto simp add: sent_def)
  obtain x where x: "x \<in> set t'" "jr_id x = jid" "job_key x = (uid, wl)"
    using assms(2) D(2)
  proof (cases rule: create_job_cases)
    case new
    then show thesis
      by (intro that [of "new_job (uuid n) uid wl 1 now"]) (simp_all add: new_job_def job_key_def)
  next
    case (old r)
    then have "r \<in> set t" "job_key r = (uid, wl)" by (auto dest: lookup_by_Some)
    with old show thesis
      by (intro that [of "reissue now r"]) (force, simp_all add: reissue_def job_key_def)
  qed
  have "lookup_by jr_id jid t' = Some x"
    using lookup_by_unique [OF ok' x(1)] x(2) by simp
  with x(3) assms(3) show ?thesis
    by (simp add: job_by_id_def join_job_def job_key_def job_of_row_def job_brief_def)
qed

lemma create_workloads_all:
  "dispatch_ok (cx_uuid cx) (core_of w) \<Longrightarrow> \<forall>m. cx_send cx m \<Longrightarrow> user_by_id uid (w_users w) = Some user \<Longrightarrow>
   \<exists>jbs ms w'. create_workloads cx uid user upn wls created w = (Inr (created @ jbs), w')
     \<and> map job_brief jbs = map (Pair uid) wls
     \<and> w_queue w' = w_queue w @ ms \<and> map message_brief ms = map (\<lambda>wl. (uid, wl, upn, Full)) wls
     \<and> w_users w' = w_users w \<and> dispatch_ok (cx_uuid cx) (core_of w')"
proof (induction wls arbitrary: created w)
  case Nil
  then show ?case by simp
next
  case (Cons wl wls)
  obtain jid seq jobs' where create:
    "create_job (cx_uuid cx (w_seed w)) uid wl 1 (cx_now cx) (w_jobs w) = ((jid, seq), jobs')"
    by (metis surj_pair)
  define msg where "msg = \<lparr>msg_job = jid, msg_user = uid, msg_workload = wl,
      msg_source_email = source_email user, msg_target_upn = upn,
      msg_include_archive = include_archive user, msg_pass = Full, msg_seq = seq\<rparr>"
  define w2 where "w2 = billUsage 1 0 (w\<lparr>w_seed := Suc (w_seed w), w_jobs := jobs'\<rparr>)"
  define w3 where "w3 = billUsage 0 1 (w2\<lparr>w_queue := w_queue w2 @ [msg]\<rparr>)"
  have enq: "enqueueDispatch cx msg w2 = (Inr (), w3)"
    using Cons.prems(2) by (simp add: enqueueDispatch_def w3_def)
  have core: "core_of w = (w_jobs w, w_queue w, w_seed w)" by (simp add: core_of_def)
  obtain j where j: "job_by_id jid (w_users w) jobs' = Some j" "job_brief j = (uid, wl)"
    using created_row [OF Cons.prems(1) [unfolded core] create Cons.prems(3)] by blast
  have w3: "w_users w3 = w_users w" "w_jobs w3 = jobs'" "w_queue w3 = w_queue w @ [msg]"
    by (simp_all add: w3_def w2_def)
  have "sent jid seq (w_queue w) (w_queue w @ [msg])" by (auto simp add: sent_def msg_def)
  from create_ok [OF Cons.prems(1) [unfolded core] create this]
  have "dispatch_ok (cx_uuid cx) (core_of w3)" by (simp add: core_of_def w3_def w2_def)
  from Cons.IH [OF this Cons.prems(2), of "created @ [j]"] obtain jbs ms w' where
    rest: "create_workloads cx uid user upn wls (created @ [j]) w3 = (Inr ((created @ [j]) @ jbs), w')"
    "map job_brief jbs = map (Pair uid) wls" "w_queue w' = w_queue w3 @ ms"
    "map message_brief ms = map (\<lambda>wl. (uid, wl, upn, Full)) wls"
    "w_users w' = w_users w3" "dispatch_ok (cx_uuid cx) (core_of w')"
    using Cons.prems(3) w3 by auto
  have "create_workloads cx uid user upn (wl # wls) created w
      = create_workloads cx uid user upn wls (created @ [j]) w3"
    using create enq j(1) w3 by (simp add: draw_uuid_def msg_def w2_def Let_def)
  moreover have "message_brief msg = (uid, wl, upn, Full)" by (simp add: message_brief_def msg_def)
  ultimately show ?case
    using rest j(2) w3 by (intro exI [of _ "j # jbs"] exI [of _ "msg # ms"] exI [of _ w']) simp
qed

lemma create_users_all:
  "dispatch_ok (cx_uuid cx) (core_of w) \<Longrightarrow> \<forall>m. cx_send cx m \<Longrightarrow>
   \<forall>r \<in> set rows. user_by_id (mu_id r) (w_users w) = Some r \<and> truthy (coalesce (target_upn r) (target_email r))
      \<and> mapping_status r \<noteq> Invalid \<and> selected_workloads r \<noteq> [] \<Longrightarrow>
   \<exists>jbs ms w'. create_users cx (map mu_id rows) created w = (Inr (created @ jbs), w')
     \<and> map job_brief jbs = concat (map row_jobs rows)
     \<and> w_queue w' = w_queue w @ ms \<and> map message_brief ms = concat (map row_messages rows)"
proof (induction rows arbitrary: created w)
  case Nil
  then show ?case by simp
next
  case (Cons r rows)
  let ?upn = "coalesce (target_upn r) (target_email r)"
  from Cons.prems(3) have r: "user_by_id (mu_id r) (w_users w) = Some r"
    "\<not> (\<not> truthy ?upn \<or> mapping_status r = Invalid \<or> selected_workloads r = [])" by auto
  from create_workloads_all [OF Cons.prems(1,2) r(1), of "the ?upn" "selected_workloads r" created]
  obtain jbs ms w1 where
    one: "create_workloads cx (mu_id r) r (the ?upn) (selected_workloads r) created w = (Inr (created @ jbs), w1)"
    "map job_brief jbs = row_jobs r" "w_queue w1 = w_queue w @ ms" "map message_brief ms = row_messages r"
    "w_users w1 = w_users w" "dispatch_ok (cx_uuid cx) (core_of w1)"
    unfolding row_jobs_def row_messages_def by blast
  define w2 where "w2 = audited cx Job_start (Some (source_email r))
      (Some (js ''workloads: '' @ join (js '', '') (map workload_text (selected_workloads r)))) w1"
  have "move (cx_uuid cx) (core_of w1) (core_of w2)"
    unfolding w2_def by (simp add: core_of_def tick)
  then have "dispatch_ok (cx_uuid cx) (core_of w2)"
    using moves.inv_step one(6) by blast
  from Cons.IH [OF this Cons.prems(2), of "created @ jbs"] obtain jbs' ms' w' where
    rest: "create_users cx (map mu_id rows) (created @ jbs) w2 = (Inr ((created @ jbs) @ jbs'), w')"
    "map job_brief jbs' = concat (map row_jobs rows)" "w_queue w' = w_queue w2 @ ms'"
    "map message_brief ms' = concat (map row_messages rows)"
    using Cons.prems(3) one(5) unfolding w2_def by auto
  have "create_users cx (map mu_id (r # rows)) created w = create_users cx (map mu_id rows) (created @ jbs) w2"
    using r one(1) unfolding w2_def by (simp add: Let_def)
  with rest one show ?case
    by (intro exI [of _ "jbs @ jbs'"] exI [of _ "ms @ ms'"] exI [of _ w']) (simp add: w2_def)
qed

text \<open>
  C27. \<open>Start migration\<close> starts what the screen counts: on a queue built by the console, and
  with a queue service that accepts, the request for the ready rows creates, in their
  order, one job per selected workload of each, sends one message for each with the row's
  target, and nothing else; no row the screen counts as ready is skipped by the Worker.
\<close>

theorem start_runs_ready_rows:
  assumes "w_users w0 = []" and "(console_step pf ev)\<^sup>*\<^sup>* w0 w"
    and "dispatch_ok (cx_uuid cx) (core_of w)" and "\<forall>m. cx_send cx m"
    and "readyToRun (get_users w) \<noteq> []"
  shows "\<exists>created ms w'. post_jobs cx (Some (Items (map mu_id (readyToRun (get_users w))))) w = (Inr created, w')
     \<and> map job_brief created = concat (map row_jobs (readyToRun (get_users w)))
     \<and> w_queue w' = w_queue w @ ms
     \<and> map message_brief ms = concat (map row_messages (readyToRun (get_users w)))"
proof -
  have ok: "queue_ok (w_users w)"
    using console_queue.inv_steps [OF assms(2)] assms(1) by (simp add: queue_ok_def none_auto_def)
  have "\<forall>r \<in> set (readyToRun (get_users w)).
      user_by_id (mu_id r) (w_users w) = Some r \<and> truthy (coalesce (target_upn r) (target_email r))
      \<and> mapping_status r \<noteq> Invalid \<and> selected_workloads r \<noteq> []"
    using ok by (auto simp add: readyToRun_def get_users_def list_users_def queue_ok_def has_target_def
        user_by_id_def selected_workloads_def lookup_by_unique)
  from create_users_all [OF assms(3,4) this, of "[]"] obtain jbs ms w' where
    "create_users cx (map mu_id (readyToRun (get_users w))) [] w = (Inr jbs, w')"
    "map job_brief jbs = concat (map row_jobs (readyToRun (get_users w)))" "w_queue w' = w_queue w @ ms"
    "map message_brief ms = concat (map row_messages (readyToRun (get_users w)))" by auto
  moreover obtain r rows where "readyToRun (get_users w) = r # rows" using assms(5) by (auto simp add: neq_Nil_conv)
  ultimately show ?thesis by (auto simp add: post_jobs_def simp del: create_users.simps)
qed

definition demo_row :: migration_user where
  "demo_row = user_stmt console_request 0 demo_add"

lemma demo_row_simps:
  "mu_id demo_row = [0]" "source_email demo_row = js ''a@s''" "selected_workloads demo_row = [Exchange]"
  "mapping_status demo_row = Unmapped" "migrate_exchange demo_row" "\<not> migrate_onedrive demo_row"
  by (simp_all add: demo_row_def user_stmt_def demo_add_def console_request_def selected_workloads_def)

theorem start_runs_ready_rows_witness:
  "\<exists>w created w'. (console_step demo_platform demo_env)\<^sup>*\<^sup>* empty_world w
     \<and> post_jobs console_request (Some (Items [[0]])) w = (Inr created, w')
     \<and> map job_brief created = [([0], Exchange)]"
proof -
  obtain r w1 where add: "post_users console_request (Some (Items [demo_add])) empty_world = (r, w1)"
    by (rule prod.exhaust)
  then have w1: "w_users w1 = [demo_row]" "w_jobs w1 = []" "w_queue w1 = []"
    by (auto simp add: post_users_def demo_row_def demo_add_def empty_world_def upsertStmt_def upsert_by_def
        user_stmt_def Let_def)
  define m where "m = map_modal_open demo_row\<lparr>mm_target_email := js ''b@d''\<rparr>"
  define b where "b = \<lparr>mb_target_email = Given (js ''b@d''), mb_target_upn = Given (js ''b@d''),
    mb_mapping_status = Some Mapped\<rparr>"
  have tr: "trim (js ''b@d'') = js ''b@d''" by (simp add: trim_def js_def js_space_def)
  have sent: "sent_mapping (save False m) = Some ([0], b)"
    by (simp add: m_def map_modal_open_def save_def tr field_of_def b_def demo_row_simps Let_def)
  obtain rm w2 where patch: "patch_mapping demo_platform demo_env console_request [0] (Some b) w1 = (rm, w2)"
    by (rule prod.exhaust)
  have found: "user_by_id [0] (w_users w1) = Some demo_row"
    by (simp add: w1 user_by_id_def lookup_by_def demo_row_simps)
  have d: "decide_mapping f demo_row b = (Some (js ''b@d''), Some (js ''b@d''), Mapped)" for f
    by (simp add: decide_mapping_def b_def)
  define row where "row = demo_row\<lparr>target_email := Some (js ''b@d''), target_upn := Some (js ''b@d''),
    mapping_status := Mapped\<rparr>"
  have w2: "w_users w2 = [row]" "w_jobs w2 = []" "w_queue w2 = []"
    using patch_mapping_row [OF found d patch] patch_mapping_frame [OF patch]
    by (auto simp add: w1 updateMapping_def update_where_def row_def demo_row_simps)
  have run: "(console_step demo_platform demo_env)\<^sup>*\<^sup>* empty_world w2"
    using console_step.add [OF _ add, of demo_platform demo_env] console_step.map [OF sent patch]
    by (auto simp add: queueable_def demo_add_def intro: converse_rtranclp_into_rtranclp)
  have row: "mu_id row = [0]" "selected_workloads row = [Exchange]" "readyToRun [row] = [row]"
    by (simp_all add: row_def demo_row_simps selected_workloads_def readyToRun_def)
  have ready: "readyToRun (get_users w2) = [row]" by (simp add: get_users_def list_users_def w2 row)
  have "dispatch_ok (cx_uuid console_request) (core_of w2)"
    by (simp add: dispatch_ok_def core_of_def w2 console_request_def inj_def)
  from start_runs_ready_rows [OF _ run this] ready show ?thesis
    using run by (force simp add: empty_world_def console_request_def row row_jobs_def)
qed

end
