(* ===== verification/Monitor.thy ===== *)
theory Monitor
  imports Discovery Format Dispatch
begin

text \<open>
  The migration monitor (\<open>web/src/screens/MigrationMonitor.tsx\<close>) with the badges and the
  progress bar it is built of (\<open>web/src/components/Badge.tsx\<close>, \<open>ProgressBar.tsx\<close>), and the
  figures of the dashboard (\<open>web/src/screens/Dashboard.tsx\<close>). What a component renders is a
  record of its texts, badges and buttons; the markup around them is left out.
\<close>

section \<open>Statuses\<close>

datatype badge_variant = Neutral | Success_badge | Warning_badge | Error_badge | Info_badge | Indigo_badge

fun STATUS_META :: "job_status \<Rightarrow> (js_string \<times> badge_variant) option" where
  "STATUS_META Queued = Some (js ''Queued'', Neutral)"
| "STATUS_META Provisioning = Some (js ''Provisioning'', Info_badge)"
| "STATUS_META Running = Some (js ''Running'', Info_badge)"
| "STATUS_META Backing_off = Some (js ''Backing off'', Warning_badge)"
| "STATUS_META Delta_pending = Some (js ''Delta pending'', Neutral)"
| "STATUS_META Delta_running = Some (js ''Delta running'', Info_badge)"
| "STATUS_META Completed = Some (js ''Completed'', Success_badge)"
| "STATUS_META Cancelled = Some (js ''Cancelled'', Neutral)"
| "STATUS_META Paused = Some (js ''Paused (budget)'', Warning_badge)"
| "STATUS_META Auth_expired = Some (js ''Auth expired'', Error_badge)"
| "STATUS_META Permission_revoked = Some (js ''Permission revoked'', Error_badge)"
| "STATUS_META Quota_exceeded = Some (js ''Quota exceeded'', Error_badge)"
| "STATUS_META Failed = Some (js ''Failed'', Error_badge)"
| "STATUS_META (Other_status t) = None"

definition StatusBadge :: "job_status \<Rightarrow> js_string \<times> badge_variant" where
  "StatusBadge s = (case STATUS_META s of Some m \<Rightarrow> m | None \<Rightarrow> (js ''Failed'', Error_badge))"

fun statusRemediation :: "job_status \<Rightarrow> js_string option" where
  "statusRemediation Auth_expired =
     Some (js ''The tenant client secret has expired. Rotate it in Tenant Connections, then retry.'')"
| "statusRemediation Permission_revoked =
     Some (js ''Admin consent for a required Graph scope was revoked. Re-run the connection test and re-consent.'')"
| "statusRemediation Quota_exceeded =
     Some (js ''The destination mailbox or OneDrive quota was exceeded. Increase quota, then retry.'')"
| "statusRemediation s = None"

fun statusPhase :: "job_status \<Rightarrow> js_string" where
  "statusPhase Queued = js ''Queued '' @ 8212 # js '' awaiting engine pickup''"
| "statusPhase Provisioning = js ''Provisioning target / OneDrive site'' @ [8230]"
| "statusPhase Running = js ''Full pass in progress'' @ [8230]"
| "statusPhase Backing_off = js ''Backing off (Graph throttling)'' @ [8230]"
| "statusPhase Delta_pending = js ''Full pass complete '' @ 8212 # js '' awaiting delta''"
| "statusPhase Delta_running = js ''Delta pass in progress'' @ [8230]"
| "statusPhase Completed = js ''Migration complete''"
| "statusPhase Paused = js ''Paused by budget governor''"
| "statusPhase s = []"

definition TERMINAL :: "job_status list" where
  "TERMINAL = [Completed, Cancelled, Auth_expired, Permission_revoked, Quota_exceeded, Failed]"

definition UI_RETRYABLE :: "job_status list" where
  "UI_RETRYABLE = [Auth_expired, Permission_revoked, Quota_exceeded, Failed, Cancelled]"

definition DELTA_ELIGIBLE :: "job_status list" where
  "DELTA_ELIGIBLE = [Completed, Delta_pending]"

definition canCancel :: "job_status \<Rightarrow> bool" where
  "canCancel s \<longleftrightarrow> s \<notin> set TERMINAL"

definition canRetry :: "job_status \<Rightarrow> bool" where
  "canRetry s \<longleftrightarrow> s \<in> set UI_RETRYABLE"

definition canDelta :: "job_status \<Rightarrow> bool" where
  "canDelta s \<longleftrightarrow> s \<in> set DELTA_ELIGIBLE"

section \<open>The progress bar\<close>

record progress_bar =
  pb_indeterminate :: bool
  pb_clamped :: int
  pb_valuenow :: "int option"
  pb_width :: "int option"
  pb_phase :: "js_string option"
  pb_right :: js_string

text \<open>Every use gives the bytes done; \<open>phase ?? ' '\<close> is a no-break space.\<close>

definition ProgressBar ::
    "int option \<Rightarrow> int option \<Rightarrow> js_string option \<Rightarrow> int \<Rightarrow> int option \<Rightarrow> progress_bar"
where
  "ProgressBar pct tot phaseText bytesDone bytesTotal =
     (let indeterminate = (pct = None \<or> tot = None);
          clamped = (case pct of None \<Rightarrow> 0 | Some p \<Rightarrow> min 100 (max 0 p))
      in \<lparr>pb_indeterminate = indeterminate, pb_clamped = clamped,
          pb_valuenow = (if indeterminate then None else Some clamped),
          pb_width = (if indeterminate then None else Some clamped),
          pb_phase = phaseText,
          pb_right = formatBytes (Some bytesDone)
            @ (if bytesTotal \<noteq> None then js '' / '' @ formatBytes bytesTotal else [])\<rparr>)"

section \<open>A row of the monitor\<close>

record job_row_view =
  jv_workload :: workload
  jv_source :: js_string
  jv_target :: js_string
  jv_throttled :: bool
  jv_delta_ready :: bool
  jv_status :: "js_string \<times> badge_variant"
  jv_progress :: progress_bar
  jv_note :: js_string
  jv_error_class :: "js_string option"
  jv_delta_button :: bool
  jv_retry_button :: bool
  jv_cancel_button :: bool
  jv_no_actions :: bool
  jv_busy :: bool

definition JobRow :: "instant \<Rightarrow> job \<Rightarrow> bool \<Rightarrow> job_row_view" where
  "JobRow now j busy =
     \<lparr>jv_workload = job_workload j, jv_source = job_source_email j, jv_target = job_target_upn j,
      jv_throttled = (job_status j = Backing_off), jv_delta_ready = truthy (job_delta_token j),
      jv_status = StatusBadge (job_status j),
      jv_progress =
        ProgressBar (toPercent (job_progress_current j) (job_progress_total j)) (job_progress_total j)
          (coalesce (job_phase_text j) (Some (statusPhase (job_status j)))) (job_bytes_done j)
          (job_bytes_total j),
      jv_note =
        (if 0 < job_attempts j then js ''Attempt '' @ int_text (job_attempts j) @ js '' '' @ 183 # js '' '' else [])
          @ js ''Updated '' @ formatRelative now (Some (job_updated_at j)),
      jv_error_class = (if truthy (job_error_class j) then job_error_class j else None),
      jv_delta_button = canDelta (job_status j), jv_retry_button = canRetry (job_status j),
      jv_cancel_button = canCancel (job_status j),
      jv_no_actions =
        (job_status j \<in> set TERMINAL \<and> \<not> canRetry (job_status j) \<and> \<not> canDelta (job_status j)),
      jv_busy = busy\<rparr>"

section \<open>The screen\<close>

record monitor =
  mo_jobs :: "job list"
  mo_loading :: bool
  mo_unreachable :: bool
  mo_cancel_target :: "job option"
  mo_busy :: "js_string option"
  mo_notices :: "notice list"

definition monitor_init :: monitor where
  "monitor_init =
     \<lparr>mo_jobs = [], mo_loading = True, mo_unreachable = False, mo_cancel_target = None, mo_busy = None,
      mo_notices = []\<rparr>"

definition monitor_polled :: "job list heard \<Rightarrow> monitor \<Rightarrow> monitor" where
  "monitor_polled h s =
     (case h of
        Heard_result jobs \<Rightarrow> s\<lparr>mo_jobs := jobs, mo_loading := False, mo_unreachable := False\<rparr>
      | Heard_error e \<Rightarrow> s\<lparr>mo_loading := False, mo_unreachable := True\<rparr>)"

definition throttled :: "monitor \<Rightarrow> job list" where
  "throttled s = filter (\<lambda>j. job_status j = Backing_off) (mo_jobs s)"

definition failing :: "monitor \<Rightarrow> job list" where
  "failing s = filter (\<lambda>j. statusRemediation (job_status j) \<noteq> None) (mo_jobs s)"

datatype monitor_action = Do_cancel | Do_retry | Do_delta

fun action_call :: "monitor_action \<Rightarrow> js_string \<Rightarrow> call" where
  "action_call Do_cancel i = jobs_call (Jobs_cancel i)"
| "action_call Do_retry i = jobs_call (Jobs_retry i)"
| "action_call Do_delta i = jobs_call (Jobs_delta i)"

fun action_texts :: "monitor_action \<Rightarrow> string \<times> string" where
  "action_texts Do_cancel = (''Job cancellation requested.'', ''Cancel failed.'')"
| "action_texts Do_retry = (''Job re-dispatched.'', ''Retry failed.'')"
| "action_texts Do_delta = (''Delta pass queued.'', ''Could not queue delta pass.'')"

text \<open>\<open>doCancel\<close>, \<open>doRetry\<close> and \<open>doDelta\<close> up to the call, and once it has settled.\<close>

definition action_start :: "monitor_action \<Rightarrow> js_string \<Rightarrow> monitor \<Rightarrow> call \<times> monitor" where
  "action_start a i s = (action_call a i, s\<lparr>mo_busy := Some i\<rparr>)"

definition action_settled :: "monitor_action \<Rightarrow> client_exn + 'a \<Rightarrow> monitor \<Rightarrow> monitor" where
  "action_settled a r s =
     (case r of
        Inr v \<Rightarrow>
          s\<lparr>mo_busy := None, mo_notices := mo_notices s @ [(Success, js (fst (action_texts a)), None)],
            mo_cancel_target := (if a = Do_cancel then None else mo_cancel_target s)\<rparr>
      | Inl e \<Rightarrow>
          s\<lparr>mo_busy := None, mo_notices := mo_notices s @ [failure e (snd (action_texts a))]\<rparr>)"

datatype monitor_body = Skeletons nat | Empty_monitor | Rows "job_row_view list"

definition monitor_view :: "instant \<Rightarrow> monitor \<Rightarrow> monitor_body" where
  "monitor_view now s =
     (if mo_loading s then Skeletons 4
      else if mo_jobs s = [] then Empty_monitor
      else Rows (map (\<lambda>j. JobRow now j (mo_busy s = Some (job_id j))) (mo_jobs s)))"

section \<open>The dashboard\<close>

definition ACTIVE_STATUSES :: "job_status list" where
  "ACTIVE_STATUSES = [Queued, Provisioning, Running, Backing_off, Delta_pending, Delta_running]"

definition FAILURE_STATUSES :: "job_status list" where
  "FAILURE_STATUSES = [Auth_expired, Permission_revoked, Quota_exceeded, Failed]"

definition activeCount :: "job list \<Rightarrow> nat" where
  "activeCount jobs = length (filter (\<lambda>j. job_status j \<in> set ACTIVE_STATUSES) jobs)"

definition recentErrors :: "job list \<Rightarrow> job list" where
  "recentErrors jobs = filter (\<lambda>j. job_status j \<in> set FAILURE_STATUSES) jobs"

definition throttling :: "job list \<Rightarrow> bool" where
  "throttling jobs \<longleftrightarrow> (\<exists>j \<in> set jobs. job_status j = Backing_off)"

datatype error_list = Unreachable_banner | All_clean | Failures "(workload \<times> js_string \<times> js_string option \<times> (js_string \<times> badge_variant)) list"

definition error_view :: "client_exn option \<Rightarrow> job list \<Rightarrow> error_list" where
  "error_view e jobs =
     (if e \<noteq> None \<and> jobs = [] then Unreachable_banner
      else if recentErrors jobs = [] then All_clean
      else Failures (map (\<lambda>j. (job_workload j, job_source_email j,
              if truthy (job_error_class j) then job_error_class j else None, StatusBadge (job_status j)))
             (take 6 (recentErrors jobs))))"

datatype meter_tone = Calm | Warn | Danger

record budget_meter =
  bm_percent :: int
  bm_tone :: meter_tone
  bm_text :: js_string
  bm_warning :: bool

definition meter_percent :: "int \<Rightarrow> rat \<Rightarrow> int" where
  "meter_percent used cap = (if 0 < cap then min 100 (js_round (of_int used / cap * 100)) else 0)"

definition BudgetMeter :: "int \<Rightarrow> int \<Rightarrow> budget_meter" where
  "BudgetMeter used cap =
     (let pct = meter_percent used (of_int cap)
      in \<lparr>bm_percent = pct, bm_tone = (if 85 \<le> pct then Danger else if 70 \<le> pct then Warn else Calm),
          bm_text = formatCount (Some used) @ js '' / '' @ formatCount (Some cap) @ js '' ('' @ int_text pct @ js ''%)'',
          bm_warning = (85 \<le> pct)\<rparr>)"

section \<open>The monitor and the Worker\<close>

definition accepted :: "'a outcome \<Rightarrow> bool" where
  "accepted r \<longleftrightarrow> (\<exists>v. fst r = Inr v)"

lemma accepted_simps [simp]: "accepted (Inr v, w) = True" "accepted (Inl e, w) = False"
  by (simp_all add: accepted_def)

lemma retryable_ui: "canRetry s \<longleftrightarrow> s \<in> set RETRYABLE \<or> s = Cancelled"
  by (auto simp add: canRetry_def UI_RETRYABLE_def RETRYABLE_def)

text \<open>
  C26. The buttons and the Worker: for a job the Worker knows, and a queue that accepts, every
  cancellation and every delta pass a row offers is accepted, and so is every retry, but
  for the jobs that were cancelled: to those the row offers a retry that the Worker
  always refuses as a conflict, changing nothing, which the screen shows as its text; a
  retry the row does not offer would be refused as well.
\<close>

theorem monitor_buttons:
  assumes "job_by_id jid (w_users w) (w_jobs w) = Some j" and "\<forall>m. cx_send cx m"
  shows "let v = JobRow now j busy
    in (jv_cancel_button v \<longrightarrow> accepted (cancel_job cx jid w))
       \<and> (jv_delta_button v \<longrightarrow> accepted (delta_job cx jid w))
       \<and> (accepted (retry_job cx jid w) \<longleftrightarrow> jv_retry_button v \<and> job_status j \<noteq> Cancelled)
       \<and> (job_status j = Cancelled \<longrightarrow> jv_retry_button v
            \<and> retry_job cx jid w =
                (Inl (throw_text Conflict (js ''Job in status '' @ 39 # js ''cancelled'' @ 39 # js '' is not retryable'')), w))
       \<and> \<not> jv_no_actions v"
proof -
  have cancel: "accepted (cancel_job cx jid w)" using assms(1) by (simp add: cancel_job_def Let_def)
  have delta: "accepted (delta_job cx jid w)"
    using assms by (simp add: delta_job_def enqueueDispatch_def Let_def split_beta)
  have retry: "accepted (retry_job cx jid w) \<longleftrightarrow> job_status j \<in> set RETRYABLE"
    using assms by (simp add: retry_job_def enqueueDispatch_def Let_def split_beta)
  have conflict: "job_status j = Cancelled \<Longrightarrow> retry_job cx jid w =
      (Inl (throw_text Conflict (js ''Job in status '' @ 39 # js ''cancelled'' @ 39 # js '' is not retryable'')), w)"
    using assms(1) by (simp add: retry_job_def RETRYABLE_def)
  have not_both: "Cancelled \<notin> set RETRYABLE" by (simp add: RETRYABLE_def)
  have action: "job_status j \<in> set TERMINAL \<Longrightarrow> canRetry (job_status j) \<or> canDelta (job_status j)"
    by (auto simp add: TERMINAL_def canRetry_def UI_RETRYABLE_def canDelta_def DELTA_ELIGIBLE_def)
  show ?thesis
    unfolding Let_def JobRow_def job_row_view.simps
    using cancel delta retry conflict not_both action by (auto simp add: retryable_ui)
qed

definition cancelled_world :: world where
  "cancelled_world =
     empty_world
       \<lparr>w_users := [\<lparr>mu_id = [1], source_email = js ''a@s'', target_email = None, target_upn = Some (js ''a@d''),
          migrate_exchange = True, migrate_onedrive = False, auto_create_target = False,
          include_archive = False, mapping_status = Mapped, mu_created_at = 0\<rparr>],
        w_jobs := [(new_job [2] [1] Exchange 1 0)\<lparr>jr_status := Cancelled\<rparr>]\<rparr>"

definition any_request :: request where
  "any_request = \<lparr>cx_now = 0, cx_actor = js ''e'', cx_uuid = (\<lambda>n. [n]), cx_send = (\<lambda>m. True)\<rparr>"

theorem monitor_buttons_witness:
  "\<exists>j. job_by_id [2] (w_users cancelled_world) (w_jobs cancelled_world) = Some j
     \<and> jv_retry_button (JobRow 0 j False) \<and> \<not> accepted (retry_job any_request [2] cancelled_world)"
proof -
  obtain j where j: "job_by_id [2] (w_users cancelled_world) (w_jobs cancelled_world) = Some j"
    "job_status j = Cancelled"
    by (simp add: cancelled_world_def job_by_id_def lookup_by_def new_job_def join_job_def user_by_id_def
        job_of_row_def)
  from monitor_buttons [OF j(1), of any_request] j show ?thesis
    unfolding Let_def by (auto simp add: any_request_def)
qed

end
