(* ===== verification/TenantScreen.thy ===== *)
theory TenantScreen
  imports Discovery Format TenancyLaws
begin

text \<open>
  Tenant connections (\<open>web/src/screens/TenantConnections.tsx\<close>) with the status card
  (\<open>web/src/components/StatusCard.tsx\<close>) and the typed confirmation of a disconnect
  (\<open>web/src/components/Modal.tsx\<close>). The tenants of the list are the Worker's records.
\<close>

section \<open>The status card\<close>

datatype expiry_badge = Secret_expired | Expires_in int

text \<open>\<open>expiry\<close> is the instant its text denotes; a text that is no date gives no badge.\<close>

definition expiry_badge :: "instant \<Rightarrow> instant option \<Rightarrow> expiry_badge option" where
  "expiry_badge now expiry =
     (case expiry of
        None \<Rightarrow> None
      | Some t \<Rightarrow>
          (let days = (t - now) div 86400000
           in if days < 0 then Some Secret_expired else if days \<le> 30 then Some (Expires_in days) else None))"

definition HANDSHAKE :: js_string where
  "HANDSHAKE =
     js ''Trigger an OAuth Enterprise Application handshake to link an App Registration.''"

datatype status_card =
    Empty_card js_string
  | Meta_card bool js_string js_string js_string "expiry_badge option"

definition StatusCard ::
    "instant \<Rightarrow> (js_string \<Rightarrow> instant option) \<Rightarrow> tenant_role \<Rightarrow> tenant_record option \<Rightarrow> status_card"
where
  "StatusCard now date role t =
     (case t of
        None \<Rightarrow> Empty_card (js ''No '' @ role_text role @ js '' tenant connected. '' @ HANDSHAKE)
      | Some x \<Rightarrow>
          if tr_status x = Disconnected then Empty_card (js ''No '' @ role_text role @ js '' tenant connected. '' @ HANDSHAKE)
          else
            (let expiry = Option.bind (if truthy (tr_secret_expiry x) then tr_secret_expiry x else None) date
             in Meta_card (tr_status x = Connected) (tr_tenant_id x) (tr_client_id x) (formatDateUtc expiry)
                  (expiry_badge now expiry)))"

definition byRole :: "tenant_role \<Rightarrow> tenant_record list \<Rightarrow> tenant_record option" where
  "byRole role ts = find (\<lambda>t. tr_role t = role) ts"

section \<open>The screen\<close>

fun ROLE_TITLE :: "tenant_role \<Rightarrow> js_string" where
  "ROLE_TITLE Source = js ''Source Tenant''"
| "ROLE_TITLE Destination = js ''Destination Tenant''"

record tenant_screen =
  tv_results :: "(js_string \<times> connection_test) list"
  tv_testing :: "js_string option"
  tv_disconnect :: "tenant_record option"
  tv_busy :: "js_string option"
  tv_reloads :: nat
  tv_notices :: "notice list"

definition test_passed :: "connection_test \<Rightarrow> bool" where
  "test_passed r \<longleftrightarrow> ct_token_acquired r \<and> ct_missing r = []"

definition test_notice :: "tenant_role \<Rightarrow> connection_test \<Rightarrow> notice" where
  "test_notice role r =
     (if test_passed r then
        (Success, ROLE_TITLE role @ js '' connection verified.'', Some (js ''Connection test passed''))
      else
        (Error_tone,
         if ct_missing r \<noteq> [] then digits (length (ct_missing r)) @ js '' required consent(s) missing.''
         else js ''Token acquisition failed. Check tenant/client IDs and secret.'',
         Some (js ''Connection test found issues'')))"

definition runTest :: "tenant_record \<Rightarrow> tenant_screen \<Rightarrow> call \<times> tenant_screen" where
  "runTest t s = (tenants_call (Tenants_test (tr_id t)), s\<lparr>tv_testing := Some (tr_id t)\<rparr>)"

definition test_settled :: "tenant_record \<Rightarrow> client_exn + connection_test \<Rightarrow> tenant_screen \<Rightarrow> tenant_screen" where
  "test_settled t r s =
     (case r of
        Inr result \<Rightarrow>
          s\<lparr>tv_results := put_key (tr_id t) result (tv_results s),
            tv_notices := tv_notices s @ [test_notice (tr_role t) result],
            tv_reloads := Suc (tv_reloads s), tv_testing := None\<rparr>
      | Inl e \<Rightarrow>
          (let (tone, m, ttl) = failure e ''Connection test could not run.''
           in s\<lparr>tv_notices := tv_notices s @ [(tone, m, Some (js ''Test failed''))], tv_testing := None\<rparr>))"

definition doDisconnect :: "tenant_screen \<Rightarrow> call option \<times> tenant_screen" where
  "doDisconnect s =
     (case tv_disconnect s of
        None \<Rightarrow> (None, s)
      | Some t \<Rightarrow> (Some (tenants_call (Tenants_disconnect (tr_id t))), s\<lparr>tv_busy := Some (tr_id t)\<rparr>))"

definition disconnect_settled :: "tenant_record \<Rightarrow> client_exn + 'a \<Rightarrow> tenant_screen \<Rightarrow> tenant_screen" where
  "disconnect_settled t r s =
     (case r of
        Inr v \<Rightarrow>
          s\<lparr>tv_disconnect := None, tv_results := filter (\<lambda>(i, x). i \<noteq> tr_id t) (tv_results s),
            tv_notices := tv_notices s @ [(Success, ROLE_TITLE (tr_role t) @ js '' disconnected.'', None)],
            tv_reloads := Suc (tv_reloads s), tv_busy := None\<rparr>
      | Inl e \<Rightarrow>
          s\<lparr>tv_notices := tv_notices s @ [failure e ''Disconnect failed.''], tv_busy := None\<rparr>)"

section \<open>The forms\<close>

text \<open>\<open>/^[0-9a-fA-F-]{36}$/\<close>.\<close>

definition guid :: "js_string \<Rightarrow> bool" where
  "guid s \<longleftrightarrow> length s = 36
     \<and> list_all (\<lambda>c. 48 \<le> c \<and> c \<le> 57 \<or> 97 \<le> c \<and> c \<le> 102 \<or> 65 \<le> c \<and> c \<le> 70 \<or> c = 45) s"

record connect_form =
  cf_tenant_id :: js_string
  cf_client_id :: js_string
  cf_secret :: js_string
  cf_submitting :: bool
  cf_errors :: "(js_string \<times> js_string) list"

definition connect_errors :: "connect_form \<Rightarrow> (js_string \<times> js_string) list" where
  "connect_errors f =
     (if \<not> guid (trim (cf_tenant_id f)) then [(js ''tenantId'', js ''Enter a valid tenant GUID.'')] else [])
     @ (if \<not> guid (trim (cf_client_id f))
        then [(js ''clientId'', js ''Enter a valid client (application) GUID.'')] else [])
     @ (if length (trim (cf_secret f)) < 8 then [(js ''clientSecret'', js ''Enter the client secret value.'')] else [])"

definition connect_submit :: "tenant_role \<Rightarrow> connect_form \<Rightarrow> tenants_api option \<times> connect_form" where
  "connect_submit role f =
     (let f1 = f\<lparr>cf_errors := connect_errors f\<rparr>
      in if connect_errors f \<noteq> [] then (None, f1)
         else (Some (Tenants_create role (trim (cf_tenant_id f)) (trim (cf_client_id f)) (cf_secret f)),
               f1\<lparr>cf_submitting := True\<rparr>))"

definition connect_settled :: "client_exn + 'a \<Rightarrow> connect_form \<Rightarrow> connect_form" where
  "connect_settled r f =
     (case r of Inr v \<Rightarrow> f\<lparr>cf_secret := [], cf_submitting := False\<rparr> | Inl e \<Rightarrow> f\<lparr>cf_submitting := False\<rparr>)"

record rotate_form =
  rf_secret :: js_string
  rf_expiry :: js_string
  rf_error :: "js_string option"
  rf_submitting :: bool

definition rotate_submit :: "tenant_record \<Rightarrow> rotate_form \<Rightarrow> tenants_api option \<times> rotate_form" where
  "rotate_submit t f =
     (if length (trim (rf_secret f)) < 8 then
        (None, f\<lparr>rf_error := Some (js ''Enter the new client secret value.'')\<rparr>)
      else
        (Some (Tenants_rotate (tr_id t) (rf_secret f) (if rf_expiry f = [] then None else Some (rf_expiry f))),
         f\<lparr>rf_submitting := True\<rparr>))"

definition rotate_settled :: "client_exn + 'a \<Rightarrow> rotate_form \<Rightarrow> rotate_form" where
  "rotate_settled r f =
     (case r of Inr v \<Rightarrow> f\<lparr>rf_secret := [], rf_submitting := False\<rparr> | Inl e \<Rightarrow> f\<lparr>rf_submitting := False\<rparr>)"

section \<open>Typed confirmation\<close>

text \<open>\<open>ConfirmModal\<close> around a tenant; \<open>cm_calls\<close> are the disconnects it let through, each with
  the text in the field.\<close>

record confirm_modal =
  cm_target :: "tenant_record option"
  cm_typed :: js_string
  cm_calls :: "(tenant_record \<times> js_string) list"

definition canConfirm :: "js_string option \<Rightarrow> js_string \<Rightarrow> bool" where
  "canConfirm typedConfirmation typed \<longleftrightarrow>
     (if truthy typedConfirmation then Some (trim typed) = typedConfirmation else True)"

definition handleConfirm :: "confirm_modal \<Rightarrow> confirm_modal" where
  "handleConfirm m =
     (case cm_target m of
        None \<Rightarrow> m
      | Some t \<Rightarrow>
          if canConfirm (Some (tr_tenant_id t)) (cm_typed m)
          then m\<lparr>cm_calls := cm_calls m @ [(t, cm_typed m)]\<rparr> else m)"

text \<open>Closing runs the effect that clears the field.\<close>

definition confirm_close :: "confirm_modal \<Rightarrow> confirm_modal" where
  "confirm_close m = m\<lparr>cm_target := None, cm_typed := []\<rparr>"

inductive confirm_step :: "confirm_modal \<Rightarrow> confirm_modal \<Rightarrow> bool" where
  ask: "cm_target m = None \<Longrightarrow> confirm_step m (m\<lparr>cm_target := Some t\<rparr>)"
| typing: "cm_target m = Some t \<Longrightarrow> confirm_step m (m\<lparr>cm_typed := s\<rparr>)"
| confirm: "confirm_step m (handleConfirm m)"
| close: "confirm_step m (confirm_close m)"

definition confirm_ok :: "confirm_modal \<Rightarrow> bool" where
  "confirm_ok m \<longleftrightarrow> (cm_target m = None \<longrightarrow> cm_typed m = [])
     \<and> (\<forall>(t, s) \<in> set (cm_calls m). tr_tenant_id t = [] \<or> trim s = tr_tenant_id t)"

lemma confirm_ok_step: "confirm_step m m' \<Longrightarrow> confirm_ok m \<Longrightarrow> confirm_ok m'"
  by (induction rule: confirm_step.induct)
    (auto simp add: confirm_ok_def handleConfirm_def confirm_close_def canConfirm_def split: option.splits)

interpretation confirming: stepping confirm_step confirm_ok
  by unfold_locales (rule confirm_ok_step)

text \<open>
  Typed confirmation: however the dialog is opened, typed into, confirmed and closed, a
  disconnect goes out only for a tenant whose identifier was in the field at that moment,
  and a dialog that opens never holds what was typed for another tenant.
\<close>

theorem disconnect_needs_typing:
  assumes "confirm_step\<^sup>*\<^sup>* \<lparr>cm_target = None, cm_typed = [], cm_calls = []\<rparr> m"
  shows "(\<forall>(t, s) \<in> set (cm_calls m). tr_tenant_id t = [] \<or> trim s = tr_tenant_id t)
    \<and> (cm_target m \<noteq> None \<or> cm_typed m = [])"
  using confirming.inv_steps [OF assms] by (auto simp add: confirm_ok_def)

theorem disconnect_needs_typing_witness:
  "cm_typed (confirm_close \<lparr>cm_target = None, cm_typed = [], cm_calls = []\<rparr>) = []"
proof -
  have "confirm_step\<^sup>*\<^sup>* \<lparr>cm_target = None, cm_typed = [], cm_calls = []\<rparr>
      (confirm_close \<lparr>cm_target = None, cm_typed = [], cm_calls = []\<rparr>)"
    by (rule r_into_rtranclp) (rule confirm_step.close)
  from disconnect_needs_typing [OF this] show ?thesis by (simp add: confirm_close_def)
qed

section \<open>The form and the Worker\<close>

fun sent_connect :: "tenants_api \<Rightarrow> connect_body option" where
  "sent_connect (Tenants_create role tid cid secret) =
     Some \<lparr>cb_role = Some (role_text role), cb_tenant_id = Some tid, cb_client_id = Some cid,
           cb_client_secret = Some secret, cb_secret_expiry = None, cb_display_name = None\<rparr>"
| "sent_connect _ = None"

lemma guid_nonempty: "guid s \<Longrightarrow> s \<noteq> []"
  by (auto simp add: guid_def)

lemma trim_longer: "0 < length (trim s) \<Longrightarrow> s \<noteq> []"
  by auto


text \<open>
  The toast and the stored status agree: a test the Worker ran passed on the screen
  exactly when the Worker stored the tenant as connected, and then the card of the
  reloaded list shows it as connected.
\<close>

theorem test_toast_agrees:
  assumes "test_tenant pf ev cx tid w = (Inr result, w')"
  shows "\<exists>x. tenant_by_id tid (w_tenants w') = Some x
    \<and> (fst (test_notice (tr_role x) result) = Success \<longleftrightarrow> tr_status x = Connected)
    \<and> (fst (test_notice (tr_role x) result) = Error_tone \<longleftrightarrow> tr_status x = Tenant_error)
    \<and> (\<exists>connected. \<exists>tenantId clientId expiry badge.
         StatusCard now date (tr_role x) (Some x) = Meta_card connected tenantId clientId expiry badge
         \<and> (connected \<longleftrightarrow> test_passed result))"
proof -
  obtain row where row: "lookup_by tn_id tid (w_tenants w) = Some row"
    using assms by (auto simp add: test_tenant_def tenant_by_id_def split: option.splits)
  then have "lookup_by tn_id tid (w_tenants w') =
      Some (row\<lparr>tn_status := test_status result, tn_last_tested_at := Some (cx_now cx)\<rparr>)"
    using assms
    by (auto simp add: test_tenant_def tenant_by_id_def setStatus_def lookup_by_update_same Let_def
        split: option.splits sum.splits)
  then show ?thesis
    by (auto simp add: tenant_by_id_def mapPublic_def test_notice_def test_passed_def test_status_def
        StatusCard_def Let_def)
qed

text \<open>
  A secret the tenant's token endpoint refuses is reported as missing consents: the Worker
  lists every required scope as missing then, and the screen counts those first.
\<close>

lemma token_failure_shown_as_consent:
  assumes "\<not> ct_token_acquired (testConnection http now tenantId clientId secret role)"
  shows "fst (snd (test_notice role (testConnection http now tenantId clientId secret role))) =
    digits 5 @ js '' required consent(s) missing.''"
  using assms
  by (cases role) (auto simp add: testConnection_def test_notice_def test_passed_def Let_def numeral_eq_Suc
      split: sum.splits)

definition demo_form :: connect_form where
  "demo_form =
     \<lparr>cf_tenant_id = replicate 36 48, cf_client_id = replicate 36 48, cf_secret = js ''s3cret-value'',
      cf_submitting = False, cf_errors = []\<rparr>"


theorem test_toast_agrees_witness:
  "\<exists>w result w' x. test_tenant demo_platform demo_env (demo_request 0) [1] w = (Inr result, w')
     \<and> tenant_by_id [1] (w_tenants w') = Some x
     \<and> (fst (test_notice (tr_role x) result) = Success \<longleftrightarrow> tr_status x = Connected)"
proof -
  obtain enc where enc: "encryptSecret (pf_aes_enc demo_platform) (replicate 12 1) (ev_master_key demo_env)
      (js ''s3cret'') = Inr enc"
    by (simp add: encryptSecret_def demo_platform_def demo_env_def demo_key_valid Let_def)
  define row where "row =
     \<lparr>tn_id = [1], tn_role = Source, tn_tenant_id = js ''t'', tn_client_id = js ''c'',
      tn_ciphertext = ec_ciphertext enc, tn_iv = ec_iv enc, tn_secret_expiry = None,
      tn_display_name = None, tn_status = Disconnected, tn_last_tested_at = None, tn_created_at = 0\<rparr>"
  define w where "w = empty_world\<lparr>w_tenants := [row]\<rparr>"
  have aead: "aead (pf_aes_enc demo_platform) (pf_aes_dec demo_platform)"
    by (simp add: demo_platform_def xor_cipher_aead)
  have "text_ok (js ''s3cret'')" by (simp add: ascii_text_ok js_def)
  then have secret: "decrypt_material demo_platform demo_env (material_of row) = Inr (js ''s3cret'')"
    using secret_back [OF aead enc] by (cases enc) (simp add: decrypt_material_def material_of_def row_def)
  have "lookup_by tn_id [1] (w_tenants w) = Some row" by (simp add: w_def lookup_by_def row_def)
  then obtain result w' where run: "test_tenant demo_platform demo_env (demo_request 0) [1] w = (Inr result, w')"
    by (simp add: test_tenant_def tenant_by_id_def getSecretMaterialById_def secret Let_def)
  from test_toast_agrees [OF run] run show ?thesis by blast
qed

end
