(* ===== verification/UsersLaws.thy ===== *)
theory UsersLaws
  imports UsersRoute AuthLaws
begin

text \<open>
  The migration queue under \<open>POST\<close> and \<open>DELETE /api/migration-users\<close>: what an accepted body
  makes of the table, whatever addresses it repeats, and what a removal takes with it.
\<close>

lemma excluded_twice: "user_excluded v (user_excluded u r) = user_excluded v r"
  by (simp add: user_excluded_def)

lemma excluded_self: "user_excluded u u = u"
  by (cases u) (simp add: user_excluded_def)

lemma upsertStmt_lookup:
  assumes "upsertStmt u t = Inr t'"
  shows "lookup_by source_email a t' =
    (if a = source_email u
     then Some (user_excluded u (case lookup_by source_email a t of Some old \<Rightarrow> old | None \<Rightarrow> u))
     else lookup_by source_email a t)"
proof -
  have t': "t' = upsert_by source_email (user_excluded u) u t"
    using assms by (simp add: upsertStmt_def split: if_splits)
  have key: "source_email (user_excluded u x) = source_email x" for x by (simp add: user_excluded_def)
  show ?thesis
    using lookup_by_upsert_same [of source_email u "user_excluded u" t]
      lookup_by_upsert_other [of a source_email u "user_excluded u" t] key
    by (auto simp add: t' excluded_self split: option.splits)
qed

lemma upsertStmt_unique:
  assumes "upsertStmt u t = Inr t'" and "unique_by source_email t"
  shows "unique_by source_email t'"
  using assms unique_by_upsert [of source_email u "user_excluded u" t]
  by (auto simp add: upsertStmt_def user_excluded_def split: if_splits)

lemma batch_lookup:
  assumes "batch_users rows t = Inr t'"
  shows "lookup_by source_email a t' =
    (case lookup_by source_email a (rev rows) of
       None \<Rightarrow> lookup_by source_email a t
     | Some u \<Rightarrow> Some (user_excluded u
         (case lookup_by source_email a t of Some old \<Rightarrow> old
          | None \<Rightarrow> the (lookup_by source_email a rows))))"
  using assms
proof (induction rows arbitrary: t)
  case Nil
  then show ?case by (simp add: lookup_by_def)
next
  case (Cons u rows)
  then obtain t1 where t1: "upsertStmt u t = Inr t1" and rest: "batch_users rows t1 = Inr t'"
    by (auto split: sum.splits)
  have head: "lookup_by source_email a (u # rows) =
      (if source_email u = a then Some u else lookup_by source_email a rows)" by (simp add: lookup_by_def)
  have last: "lookup_by source_email a (rev (u # rows)) =
      (case lookup_by source_email a (rev rows) of None \<Rightarrow> if source_email u = a then Some u else None
       | Some v \<Rightarrow> Some v)" by (simp add: lookup_by_append lookup_by_single split: option.split)
  show ?case
    unfolding Cons.IH [OF rest] upsertStmt_lookup [OF t1] last head
    by (auto simp add: excluded_twice excluded_self split: option.split)
qed

lemma batch_unique:
  "batch_users rows t = Inr t' \<Longrightarrow> unique_by source_email t \<Longrightarrow> unique_by source_email t'"
  by (induction rows arbitrary: t) (auto split: sum.splits dest: upsertStmt_unique)

lemma user_stmts_rows:
  "user_stmts cx n us = Inr (rows, n') \<Longrightarrow> list_all2 (\<lambda>u r. \<exists>k. r = user_stmt cx k u) us rows"
  by (induction us arbitrary: n rows) (auto split: if_splits sum.splits)


text \<open>
  A user that is added again from the discovery screen loses the mapping it had.
\<close>

lemma readd_unmaps:
  assumes "unique_by source_email (w_users w)" and "post_users cx (Some (Items [u])) w = (Inr listed, w')"
    and "pu_source_email u = Some a" and "lookup_by source_email a (w_users w) = Some old"
    and "pu_target_upn u = None" and "pu_mapping_status u = Some Unmapped"
  shows "\<exists>r. lookup_by source_email a (w_users w') = Some r \<and> mu_id r = mu_id old
    \<and> target_upn r = None \<and> mapping_status r = Unmapped"
proof -
  have "truthy (pu_source_email u)" using assms(2) by (auto simp add: post_users_def split: if_splits)
  then obtain k where "\<exists>rows. user_stmts cx (w_seed w) [u] = Inr (rows, k) \<and> rows = [user_stmt cx (w_seed w) u]"
    by simp
  moreover obtain t where "upsertStmt (user_stmt cx (w_seed w) u) (w_users w) = Inr t" "w_users w' = t"
    using assms(2) \<open>truthy (pu_source_email u)\<close> by (auto simp add: post_users_def Let_def split: sum.splits)
  ultimately show ?thesis
    using upsertStmt_lookup [of "user_stmt cx (w_seed w) u" "w_users w" t a] assms(3-6)
    by (simp add: user_stmt_def user_excluded_def)
qed

text \<open>
  A removed user leaves nothing behind: the row, its jobs, their item log and its
  credentials are gone, every other row of these tables is as it was, and a removal of an
  unknown id is a not-found error that changes nothing.
\<close>

theorem removal_is_complete:
  "case delete_user cx uid w of
     (Inl e, w') \<Rightarrow> user_by_id uid (w_users w) = None \<and> e = user_not_found \<and> w' = w
   | (Inr u, w') \<Rightarrow>
       user_by_id uid (w_users w') = None
       \<and> w_users w' = filter (\<lambda>r. mu_id r \<noteq> uid) (w_users w)
       \<and> w_jobs w' = filter (\<lambda>j. jr_user j \<noteq> uid) (w_jobs w)
       \<and> w_creds w' = filter (\<lambda>c. cr_user c \<noteq> uid) (w_creds w)
       \<and> w_items w' = filter (\<lambda>i. \<not> (\<exists>j \<in> set (w_jobs w). jr_user j = uid \<and> item_job i = jr_id j)) (w_items w)"
proof (cases "user_by_id uid (w_users w)")
  case None
  then show ?thesis by (simp add: delete_user_def)
next
  case (Some u)
  show ?thesis
    unfolding delete_user_def Some option.case prod.case sum.case
    by (simp add: cascade_user_def remove_user_def user_by_id_def delete_where_def lookup_by_None Let_def)
      (auto simp add: image_iff intro!: filter_cong)
qed


end
