(* ===== verification/SettingsScreen.thy ===== *)
theory SettingsScreen
  imports Discovery SettingsLaws
begin

text \<open>
  The settings screen (\<open>web/src/screens/Settings.tsx\<close>): the form is the object the Worker
  sent, a field writes the number of its text into it, and saving sends it back as a whole.
\<close>

section \<open>The screen\<close>

text \<open>\<open>c.json({ ...engine, auditRetentionDays })\<close>.\<close>

definition settings_value :: "settings \<Rightarrow> js_value" where
  "settings_value st =
     (let e = st_engine st
      in JObj [(js ''minPollIntervalSec'', JNum (Fin (min_poll_interval_sec e))),
               (js ''perMailboxConcurrency'', JNum (Fin (per_mailbox_concurrency e))),
               (js ''perTenantConcurrency'', JNum (Fin (per_tenant_concurrency e))),
               (js ''exchangeExportBatchSize'', JNum (Fin (exchange_export_batch_size e))),
               (js ''onedriveUploadSessionThresholdBytes'',
                JNum (Fin (onedrive_upload_session_threshold_bytes e))),
               (js ''itemMaxRetries'', JNum (Fin (item_max_retries e))),
               (js ''paused'', JBool (paused e)),
               (js ''auditRetentionDays'', JNum (st_audit_retention_days st))])"

record settings_screen =
  sv_form :: "js_value option"
  sv_saving :: bool
  sv_notices :: "notice list"

definition settings_init :: settings_screen where
  "settings_init = \<lparr>sv_form = None, sv_saving = False, sv_notices = []\<rparr>"

text \<open>\<open>{ auditRetentionDays: 90, ...data }\<close>.\<close>

definition loaded_form :: "js_value \<Rightarrow> js_value" where
  "loaded_form v =
     JObj (fold (\<lambda>(k, x). put_key k x) (case v of JObj ps \<Rightarrow> ps | _ \<Rightarrow> [])
       [(js ''auditRetentionDays'', JNum (Fin 90))])"

definition settings_loaded :: "js_value \<Rightarrow> settings_screen \<Rightarrow> settings_screen" where
  "settings_loaded v s = (if js_truthy v then s\<lparr>sv_form := Some (loaded_form v)\<rparr> else s)"

fun setNum :: "js_string \<Rightarrow> js_string \<Rightarrow> js_value \<Rightarrow> js_value" where
  "setNum key typed (JObj ps) = JObj (put_key key (JNum (parse_number typed)) ps)"
| "setNum key typed f = f"

definition num_typed :: "js_string \<Rightarrow> js_string \<Rightarrow> settings_screen \<Rightarrow> settings_screen" where
  "num_typed key typed s = s\<lparr>sv_form := map_option (setNum key typed) (sv_form s)\<rparr>"

definition settings_save :: "settings_screen \<Rightarrow> call option \<times> settings_screen" where
  "settings_save s =
     (case sv_form s of
        None \<Rightarrow> (None, s)
      | Some f \<Rightarrow> (Some (config_update_call f), s\<lparr>sv_saving := True\<rparr>))"

definition save_settled :: "client_exn + 'a \<Rightarrow> settings_screen \<Rightarrow> settings_screen" where
  "save_settled r s =
     s\<lparr>sv_saving := False,
       sv_notices := sv_notices s
         @ [case r of
              Inr v \<Rightarrow> (Success, js ''Engine configuration saved.'', None)
            | Inl e \<Rightarrow> failure e ''Could not save configuration.'']\<rparr>"

section \<open>The form and its keys\<close>

lemma map_of_put_key: "map_of (put_key k v ps) = (map_of ps)(k \<mapsto> v)"
  by (induction ps) (auto simp add: fun_eq_iff)

lemma put_key_set: "set (put_key k v ps) \<subseteq> insert (k, v) (set ps)"
  by (induction ps) (auto split: if_splits)

lemma json_put_key:
  assumes "json_value (JObj ps)" and "json_value v" and "units16 k"
  shows "json_value (JObj (put_key k v ps))"
  using assms put_key_set [of k v ps] put_key_distinct [of ps k v] by fastforce

definition soft_key :: js_string where
  "soft_key = js ''budgetSoftFraction''"

lemma loaded_settings:
  "loaded_form (settings_value st) =
     (let e = st_engine st
      in JObj [(js ''auditRetentionDays'', JNum (st_audit_retention_days st)),
               (js ''minPollIntervalSec'', JNum (Fin (min_poll_interval_sec e))),
               (js ''perMailboxConcurrency'', JNum (Fin (per_mailbox_concurrency e))),
               (js ''perTenantConcurrency'', JNum (Fin (per_tenant_concurrency e))),
               (js ''exchangeExportBatchSize'', JNum (Fin (exchange_export_batch_size e))),
               (js ''onedriveUploadSessionThresholdBytes'',
                JNum (Fin (onedrive_upload_session_threshold_bytes e))),
               (js ''itemMaxRetries'', JNum (Fin (item_max_retries e))),
               (js ''paused'', JBool (paused e))])"
  by (simp add: loaded_form_def settings_value_def Let_def)

lemma ninety: "parse_number (js ''90'') = Fin 90"
  by (simp add: number_eval)

lemma getAll_get: "unique_by fst t \<Longrightarrow> getConfigValue t k fb = (case getAllConfig t k of None \<Rightarrow> fb | Some v \<Rightarrow> v)"
  by (auto simp add: getConfigValue_def getAllConfig_lookup split: option.split)

text \<open>What the form holds under a key that can be set, and that it is within bounds.\<close>

lemma form_value:
  assumes "sane w" and "st_audit_retention_days (get_settings now w) = Fin r"
    and "(k, lo, hi) \<in> set NUMERIC_KEYS" and "k \<noteq> soft_key"
  obtains c where "get_key (loaded_form (settings_value (get_settings now w))) k = JNum (Fin c)"
    and "lo \<le> c" and "c \<le> hi"
proof -
  have uniq: "unique_by fst (w_config w)" using assms(1) by (simp add: sane_def)
  have r: "r = num (getAllConfig (w_config w)) (js ''auditRetentionDays'') 90"
    using assms(2) ninety
    by (auto simp add: get_settings_def getAll_get [OF uniq] num_def split: option.splits)
  note bound = sane_num [OF assms(1)]
  note bounds = bound [of "js ''minPollIntervalSec''" 30 3600 30] bound [of "js ''exchangeExportBatchSize''" 1 20 20]
    bound [of "js ''perMailboxConcurrency''" 1 10 2] bound [of "js ''perTenantConcurrency''" 1 20 4]
    bound [of "js ''itemMaxRetries''" 0 20 5] bound [of "js ''auditRetentionDays''" 1 365 90]
    bound [of "js ''onedriveUploadSessionThresholdBytes''" 1048576 268435456 4194304]
  show ?thesis
    using assms(3,4) bounds that assms(2) r
    unfolding NUMERIC_KEYS_def loaded_settings
    by (auto simp add: soft_key_def get_settings_def getEngineConfig_def Let_def)
qed

text \<open>The Worker's body of a saved form, and what is read after it.\<close>

lemma accepted_body:
  assumes "is_object b" and "list_all (key_ok b) NUMERIC_KEYS" and "has_key b k" and "(k, lo, hi) \<in> set NUMERIC_KEYS"
  obtains st w' where "patch_settings cx (Some b) w = (Inr st, w')"
    and "w_config w' = config.put_all (entries b NUMERIC_KEYS) (w_config w)"
proof -
  have all: "takeWhile (key_ok b) NUMERIC_KEYS = NUMERIC_KEYS" "dropWhile (key_ok b) NUMERIC_KEYS = []"
    using assms(2) by (auto simp add: list_all_iff takeWhile_eq_all_conv)
  have "entries b NUMERIC_KEYS \<noteq> []"
    using assms(3,4) unfolding entries_def all by (force simp add: filter_empty_conv)
  then obtain st w' where "patch_settings cx (Some b) w = (Inr st, w')"
    using assms(1) by (simp add: patch_settings_def patch_keys_eq all Let_def)
  then show ?thesis using that patch_settings_cases(1) [OF assms(1), of cx w] by simp
qed

lemma retention_after:
  assumes "unique_by fst t" and "(k, lo, hi) \<in> set NUMERIC_KEYS" and "list_all (key_ok b) NUMERIC_KEYS"
    and "get_key b k = JNum (Fin q)" and "decimal \<bar>q\<bar>" and "has_key b k"
  shows "parse_number (getConfigValue (config.put_all (entries b NUMERIC_KEYS) t) k fb) = Fin q"
proof -
  have "(k, lo, hi) \<in> set (takeWhile (key_ok b) NUMERIC_KEYS)"
    using assms(2,3) by (simp add: list_all_iff takeWhile_eq_all_conv [THEN iffD2])
  then have "map_option snd (lookup_by fst k (config.put_all (entries b NUMERIC_KEYS) t)) = Some (num_text q)"
    unfolding config.get_put_all [OF assms(1)] entries_lookup [OF assms(2)] using assms(4,6) by simp
  then show ?thesis using parse_num_text [OF assms(5)] by (auto simp add: getConfigValue_def)
qed

lemma after_value:
  assumes "unique_by fst t" and "(k, lo, hi) \<in> set NUMERIC_KEYS" and "list_all (key_ok b) NUMERIC_KEYS"
    and "get_key b k = JNum (Fin c)" and "decimal \<bar>c\<bar>" and "has_key b k" and "k \<noteq> soft_key"
    and "w_config w' = config.put_all (entries b NUMERIC_KEYS) t"
  shows "get_key (settings_value (get_settings now w')) k = JNum (Fin c)"
proof -
  have "(k, lo, hi) \<in> set (takeWhile (key_ok b) NUMERIC_KEYS)"
    using assms(2,3) by (simp add: list_all_iff takeWhile_eq_all_conv [THEN iffD2])
  then have n: "\<forall>fb. num (getAllConfig (w_config w')) k fb = c"
    using num_after [OF assms(1,2), of b] assms(4-6) by (simp add: assms(8))
  have r: "\<forall>fb. parse_number (getConfigValue (w_config w') k fb) = Fin c"
    using retention_after [OF assms(1-6)] by (simp add: assms(8))
  show ?thesis
    using assms(2,7) n r unfolding NUMERIC_KEYS_def
    by (auto simp add: soft_key_def get_settings_def getEngineConfig_def settings_value_def Let_def)
qed

lemma form_keys:
  "get_key (loaded_form (settings_value st)) k = get_key (settings_value st) k"
  "has_key (loaded_form (settings_value st)) k \<longleftrightarrow> has_key (settings_value st) k"
  by (auto simp add: loaded_form_def settings_value_def Let_def)

lemma has_settings_key:
  "has_key (settings_value st) k \<Longrightarrow>
   k = js ''paused'' \<or> k \<in> set (map fst NUMERIC_KEYS) \<and> k \<noteq> soft_key"
  by (simp add: settings_value_def NUMERIC_KEYS_def soft_key_def Let_def) (elim disjE; simp)

lemma no_key_undefined: "\<not> has_key v k \<Longrightarrow> get_key v k = Undefined"
  by (cases v) (auto simp add: map_of_eq_None_iff [THEN iffD2])

lemma no_other_key:
  assumes "k \<noteq> js ''paused''" and "\<not> (\<exists>lo hi. (k, lo, hi) \<in> set NUMERIC_KEYS) \<or> k = soft_key"
  shows "get_key (settings_value st) k = Undefined"
  using assms has_settings_key [of st k] by (intro no_key_undefined) auto

lemma set_num_keys:
  "get_key (setNum key typed (JObj ps)) k =
     (if k = key then JNum (parse_number typed) else get_key (JObj ps) k)"
  "has_key (setNum key typed (JObj ps)) k \<longleftrightarrow> k = key \<or> has_key (JObj ps) k"
  using put_key_keys [of key "JNum (parse_number typed)" ps] by (auto simp add: map_of_put_key)


lemma fresh_settings:
  "get_settings 0 empty_world =
     \<lparr>st_engine =
        \<lparr>min_poll_interval_sec = 30, per_mailbox_concurrency = 2, per_tenant_concurrency = 4,
         exchange_export_batch_size = 20, onedrive_upload_session_threshold_bytes = 4194304,
         item_max_retries = 5, paused = paused (getEngineConfig 0 [] [])\<rparr>,
      st_audit_retention_days = Fin 90\<rparr>"
  by (simp add: get_settings_def getEngineConfig_def empty_world_def num_def getAllConfig_def
      getConfigValue_def lookup_by_def ninety Let_def)


end
