(* ===== verification/AuditScreen.thy ===== *)
theory AuditScreen
  imports Monitor ReportsLaws
begin

text \<open>
  The audit viewer (\<open>web/src/screens/AuditLog.tsx\<close>): its filters, its pages and its rows,
  and the pages it collects from the Worker while the log grows. A handler that awaits a call
  is two definitions, up to the call and after it settled.
\<close>

section \<open>Rows\<close>

definition ACTIONS :: "audit_action list" where
  "ACTIONS =
     [Sign_in, Sign_out, Tenant_connect, Tenant_disconnect, Tenant_test, Secret_rotate, User_select,
      Csv_import, Mapping_change, Provision, Password_csv_download, Job_start, Job_cancel, Job_retry,
      Config_change, Audit_export]"

definition ACTION_VARIANT :: "js_string \<Rightarrow> badge_variant option" where
  "ACTION_VARIANT a =
     map_of [(js ''tenant_disconnect'', Error_badge), (js ''secret_rotate'', Warning_badge),
             (js ''password_csv_download'', Error_badge), (js ''provision'', Info_badge),
             (js ''job_cancel'', Warning_badge)] a"

text \<open>\<open>replace(/_/g, ' ')\<close>.\<close>

definition spaced :: "js_string \<Rightarrow> js_string" where
  "spaced = map (\<lambda>c. if c = 95 then 32 else c)"

record audit_row =
  ar_time :: js_string
  ar_actor :: js_string
  ar_badge :: "js_string \<times> badge_variant"
  ar_target :: js_string
  ar_detail :: js_string

definition audit_row :: "(js_string \<Rightarrow> instant option) \<Rightarrow> audit_entry \<Rightarrow> audit_row" where
  "audit_row date e =
     \<lparr>ar_time = formatDateTimeUtc (if au_created_at e = [] then None else date (au_created_at e)),
      ar_actor = au_actor e,
      ar_badge = (spaced (au_action e), default_to (ACTION_VARIANT (au_action e)) Neutral),
      ar_target = default_to (au_target e) DASH, ar_detail = default_to (au_detail e) DASH\<rparr>"

section \<open>The screen\<close>

record audit_screen =
  av_filters :: audit_params
  av_applied :: audit_params
  av_entries :: "audit_entry list"
  av_cursor :: "js_string option"
  av_loading :: bool
  av_error :: "js_string option"

definition no_filters :: audit_params where
  "no_filters = \<lparr>ap_actor = None, ap_action = None, ap_from = None, ap_to = None, ap_cursor = None\<rparr>"

definition audit_init :: audit_screen where
  "audit_init =
     \<lparr>av_filters = no_filters, av_applied = no_filters, av_entries = [], av_cursor = None,
      av_loading = True, av_error = None\<rparr>"

datatype audit_filter = Actor_filter | Action_filter | From_filter | To_filter

fun set_filter :: "audit_filter \<Rightarrow> js_string \<Rightarrow> audit_screen \<Rightarrow> audit_screen" where
  "set_filter Actor_filter v s = s\<lparr>av_filters := (av_filters s)\<lparr>ap_actor := Some v\<rparr>\<rparr>"
| "set_filter Action_filter v s = s\<lparr>av_filters := (av_filters s)\<lparr>ap_action := Some v\<rparr>\<rparr>"
| "set_filter From_filter v s = s\<lparr>av_filters := (av_filters s)\<lparr>ap_from := Some v\<rparr>\<rparr>"
| "set_filter To_filter v s = s\<lparr>av_filters := (av_filters s)\<lparr>ap_to := Some v\<rparr>\<rparr>"

definition hasFilters :: "audit_screen \<Rightarrow> bool" where
  "hasFilters s \<longleftrightarrow>
     (let f = av_filters s in truthy (ap_actor f) \<or> truthy (ap_action f) \<or> truthy (ap_from f) \<or> truthy (ap_to f))"

text \<open>\<open>Apply\<close> and \<open>Clear\<close> with the effect they trigger: the call it makes and the screen.\<close>

definition apply_filters :: "audit_screen \<Rightarrow> call \<times> audit_screen" where
  "apply_filters s =
     (audit_list_call (av_filters s), s\<lparr>av_applied := av_filters s, av_loading := True, av_error := None\<rparr>)"

definition clear_filters :: "audit_screen \<Rightarrow> call \<times> audit_screen" where
  "clear_filters s = apply_filters (s\<lparr>av_filters := no_filters\<rparr>)"

definition audit_failure :: "client_exn \<Rightarrow> js_string" where
  "audit_failure e =
     (case e of Client_error c \<Rightarrow> ce_message c | _ \<Rightarrow> js ''Could not load the audit log.'')"

definition audit_settled ::
    "client_exn + (audit_entry list \<times> js_string option) \<Rightarrow> audit_screen \<Rightarrow> audit_screen"
where
  "audit_settled r s =
     (case r of
        Inr (items, cursor) \<Rightarrow> s\<lparr>av_entries := items, av_cursor := cursor, av_loading := False\<rparr>
      | Inl e \<Rightarrow>
          if e = Abort_error then s
          else s\<lparr>av_error := Some (audit_failure e), av_entries := [], av_loading := False\<rparr>)"

definition audit_more :: "audit_screen \<Rightarrow> audit_params option" where
  "audit_more s =
     (if truthy (av_cursor s) then Some ((av_applied s)\<lparr>ap_cursor := av_cursor s\<rparr>) else None)"

definition audit_more_settled ::
    "client_exn + (audit_entry list \<times> js_string option) \<Rightarrow> audit_screen \<Rightarrow> audit_screen"
where
  "audit_more_settled r s =
     (case r of
        Inr (items, cursor) \<Rightarrow> s\<lparr>av_entries := av_entries s @ items, av_cursor := cursor\<rparr>
      | Inl e \<Rightarrow> s)"

text \<open>\<open>Load more\<close> is shown when there is a cursor and nothing loads; the export link takes the
  applied filters.\<close>

definition more_shown :: "audit_screen \<Rightarrow> bool" where
  "more_shown s \<longleftrightarrow> truthy (av_cursor s) \<and> \<not> av_loading s"

definition audit_empty_text :: "audit_screen \<Rightarrow> js_string" where
  "audit_empty_text s =
     (if hasFilters s then js ''No audit entries match the current filters.''
      else js ''No audit entries recorded yet.'')"

section \<open>Paging while the log grows\<close>

text \<open>The query the Worker reads of a call of \<open>audit.list\<close>.\<close>

definition sent_query :: "audit_params \<Rightarrow> string \<Rightarrow> js_string option" where
  "sent_query p k =
     map_of (given_params [(''actor'', ap_actor p), (''action'', ap_action p), (''from'', ap_from p),
                           (''to'', ap_to p), (''cursor'', ap_cursor p)]) (js k)"

text \<open>The screen with the Worker's state: anyone appends later entries, the engineer asks for
  more, which succeeds or fails.\<close>

inductive viewing :: "audit_screen \<times> world \<Rightarrow> audit_screen \<times> world \<Rightarrow> bool" where
  grow: "\<forall>x \<in> set (w_audit w). au_created_at x < au_created_at e \<Longrightarrow> w_audit w' = w_audit w @ [e] \<Longrightarrow>
    viewing (s, w) (s, w')"
| other: "w_audit w' = w_audit w \<Longrightarrow> viewing (s, w) (s, w')"
| more: "audit_more s = Some p \<Longrightarrow>
    viewing (s, w) (audit_more_settled (Inr (get_audit (sent_query p) w)) s, w)"
| broken: "audit_more s = Some p \<Longrightarrow> viewing (s, w) (audit_more_settled (Inl x) s, w)"

lemma truthy_given: "truthy x \<Longrightarrow> Some (the x) = x"
  by (cases x) simp_all

lemma sent_query_params:
  "sent_query p ''actor'' = blank_to_none (ap_actor p)" "sent_query p ''action'' = blank_to_none (ap_action p)"
  "sent_query p ''from'' = blank_to_none (ap_from p)" "sent_query p ''to'' = blank_to_none (ap_to p)"
  "sent_query p ''cursor'' = blank_to_none (ap_cursor p)"
  by (auto simp add: sent_query_def given_params_def blank_to_none_def truthy_given split: if_splits)

lemma blank_idem: "blank_to_none (blank_to_none x) = blank_to_none x"
  by (simp add: blank_to_none_def)

lemma get_audit_cursor:
  "get_audit (sent_query (p\<lparr>ap_cursor := c\<rparr>)) w = audit_page (audit_filters (sent_query p) c None) (w_audit w)"
  by (simp add: get_audit_def audit_filters_def sent_query_params blank_idem)

definition matches :: "audit_params \<Rightarrow> audit_entry list \<Rightarrow> audit_entry list" where
  "matches p t = matching (sent_query p) t"

lemma audit_match_limit: "audit_match (audit_filters q c l) = audit_match (audit_filters q c l')"
  by (simp add: fun_eq_iff audit_match_def audit_filters_def)

lemma page_100:
  "audit_page (audit_filters q c None) t =
     (let L = newest_first (filter (audit_match (page_query q c)) t)
      in (take 100 L, if 100 < length L then Some (au_created_at (last (take 100 L))) else None))"
  unfolding audit_page_def audit_match_limit [of q c None "Some 500"]
  by (simp add: audit_filters_def page_limit_def Let_def min_def)

lemma page_end:
  assumes "sorted_wrt newer M" and "0 < n" and "k + n < length M"
  shows "last (take n (drop k M)) = last (take (k + n) M)" and "au_created_at (last (take (k + n) M)) \<noteq> []"
proof -
  have "take (k + n) M = take k M @ take n (drop k M)" by (simp add: take_add)
  moreover have "take n (drop k M) \<noteq> []" using assms(2,3) by simp
  ultimately show "last (take n (drop k M)) = last (take (k + n) M)" by simp
  have "take (k + n) M \<noteq> []" using assms(2,3) by auto
  then have "last (take (k + n) M) = M ! (k + n - 1)" using assms(3) by (simp add: last_conv_nth min_def)
  moreover have "newer (M ! (k + n - 1)) (M ! (k + n))"
    using assms by (simp add: sorted_wrt_iff_nth_less)
  ultimately show "au_created_at (last (take (k + n) M)) \<noteq> []" by (auto simp add: newer_def)
qed

text \<open>The screen has the first entries of the log as it was when it was loaded.\<close>

definition showing :: "audit_params \<Rightarrow> audit_entry list \<Rightarrow> audit_screen \<times> world \<Rightarrow> bool" where
  "showing p t = (\<lambda>(s, w). \<exists>k news.
     w_audit w = t @ news \<and> (\<forall>e \<in> set news. \<forall>x \<in> set t. au_created_at x < au_created_at e)
     \<and> av_applied s = p \<and> av_entries s = take k (matches p t)
     \<and> (case av_cursor s of
          None \<Rightarrow> length (matches p t) \<le> k
        | Some c \<Rightarrow> 0 < k \<and> k < length (matches p t) \<and> c \<noteq> []
            \<and> c = au_created_at (last (take k (matches p t)))))"

lemma showing_page:
  assumes sorted: "sorted_wrt newer (matches p t)" and k: "k \<le> length (matches p t)"
    and news: "w_audit w = t @ news" "\<forall>e \<in> set news. \<forall>x \<in> set t. au_created_at x < au_created_at e"
    and L: "newest_first (filter (audit_match (page_query (sent_query p) c)) (w_audit w)) = drop k (matches p t)"
    and s: "av_applied s = p" "av_entries s = take k (matches p t)"
  shows "showing p t (audit_more_settled (Inr (audit_page (audit_filters (sent_query p) c None) (w_audit w))) s, w)"
proof (cases "100 < length (drop k (matches p t))")
  case True
  then have "k + 100 < length (matches p t)" by simp
  from page_end [OF sorted _ this] have "last (take 100 (drop k (matches p t))) = last (take (k + 100) (matches p t))"
    "au_created_at (last (take (k + 100) (matches p t))) \<noteq> []" by simp_all
  with True s news show ?thesis
    unfolding page_100 L showing_def
    by (auto simp add: audit_more_settled_def Let_def take_add intro!: exI [of _ "k + 100"])
next
  case False
  with s news k show ?thesis
    unfolding page_100 L showing_def
    by (auto simp add: audit_more_settled_def Let_def intro!: exI [of _ "length (matches p t)"])
qed

lemma later_entries:
  assumes "\<forall>e \<in> set news. \<forall>x \<in> set t. au_created_at x < au_created_at e"
    and "k \<le> length (matches p t)" "0 < k" and "c = au_created_at (last (take k (matches p t)))" and "c \<noteq> []"
  shows "filter (audit_match (page_query (sent_query p) (Some c))) (t @ news) =
    filter (audit_match (page_query (sent_query p) (Some c))) t"
proof -
  have "take k (matches p t) \<noteq> []" using assms(2,3) by auto
  then have "last (take k (matches p t)) \<in> set (matches p t)" by (rule in_set_takeD [OF last_in_set])
  then have "last (take k (matches p t)) \<in> set t"
    by (auto simp add: matches_def matching_def newest_first_def)
  then have "\<not> au_created_at e < c" if "e \<in> set news" for e
    using assms(1) that by (auto simp add: assms(4) dest: less_asym)
  then have "\<not> audit_match (page_query (sent_query p) (Some c)) e" if "e \<in> set news" for e
    using that assms(5) by (simp only: audit_match_cursor) simp
  then show ?thesis by (simp add: filter_empty_conv)
qed

lemma showing_step:
  assumes "sorted_wrt newer (matches p t)" and "viewing x y" and "showing p t x"
  shows "showing p t y"
  using assms(2,3)
proof (induction rule: viewing.induct)
  case (grow w e w' s)
  then obtain k news where "w_audit w = t @ news" "\<forall>e \<in> set news. \<forall>x \<in> set t. au_created_at x < au_created_at e"
    "av_applied s = p" "av_entries s = take k (matches p t)"
    "case av_cursor s of None \<Rightarrow> length (matches p t) \<le> k
      | Some c \<Rightarrow> 0 < k \<and> k < length (matches p t) \<and> c \<noteq> [] \<and> c = au_created_at (last (take k (matches p t)))"
    by (auto simp add: showing_def)
  with grow(1,2) show ?case by (auto simp add: showing_def intro!: exI [of _ k] exI [of _ "news @ [e]"])
next
  case (more s q w)
  then have "truthy (av_cursor s)" and q: "q = (av_applied s)\<lparr>ap_cursor := av_cursor s\<rparr>"
    by (auto simp add: audit_more_def split: if_splits)
  then obtain c where c: "av_cursor s = Some c" by (cases "av_cursor s") simp_all
  with more(2) obtain k news where w: "w_audit w = t @ news"
    and news: "\<forall>e \<in> set news. \<forall>x \<in> set t. au_created_at x < au_created_at e"
    and s: "av_applied s = p" "av_entries s = take k (matches p t)"
    and k: "0 < k" "k < length (matches p t)" "c \<noteq> []" "c = au_created_at (last (take k (matches p t)))"
    by (auto simp add: showing_def)
  have "newest_first (filter (audit_match (page_query (sent_query p) (Some c))) (w_audit w)) = drop k (matches p t)"
    using later_entries [OF news _ k(1,4,3)] page_at [of "sent_query p" t k] assms(1) k
    by (simp add: w matches_def)
  from showing_page [OF assms(1) _ w news this s] k show ?case
    by (simp add: q c s get_audit_cursor)
qed (auto simp add: showing_def audit_more_settled_def)

text \<open>The log as it was when the list was loaded, fixed by its timestamps.\<close>

interpretation paging: stepping viewing
  "\<lambda>x. sorted_wrt newer (matches p t) \<and> showing p t x"
  by unfold_locales (use showing_step in blast)


definition entry_at :: "nat \<Rightarrow> audit_entry" where
  "entry_at n = log_entry n [50, n]"


text \<open>The date field of the screen gives a bare date, which is before every time of that day.\<close>

lemma to_day_excluded:
  assumes "aq_to q = Some d" and "d \<noteq> []" and "au_created_at e = d @ c # cs"
  shows "\<not> audit_match q e"
proof -
  have "d < d @ c # cs" by (induction d) (simp_all add: Cons_less_Cons)
  then show ?thesis using assms by (auto simp add: audit_match_def if_given_def)
qed

end
