(* ===== verification/ReportScreen.thy ===== *)
theory ReportScreen
  imports Monitor ReportsLaws
begin

text \<open>
  The migration reports (\<open>web/src/screens/MigrationReports.tsx\<close>): the selected user, and the
  rows and totals shown of the Worker's report.
\<close>

text \<open>The effect that selects the first user, and a click on another.\<close>

definition auto_select :: "migration_user list \<Rightarrow> js_string option \<Rightarrow> js_string option" where
  "auto_select users sel = (if \<not> truthy sel \<and> users \<noteq> [] then Some (mu_id (hd users)) else sel)"

record report_totals =
  rt_succeeded :: int
  rt_skipped :: int
  rt_failed :: int
  rt_bytes :: int

definition totals :: "per_user_report \<Rightarrow> report_totals" where
  "totals r =
     fold (\<lambda>x acc. \<lparr>rt_succeeded = rt_succeeded acc + wr_succeeded x,
                    rt_skipped = rt_skipped acc + wr_skipped x,
                    rt_failed = rt_failed acc + wr_failed x, rt_bytes = rt_bytes acc + wr_bytes x\<rparr>)
       (pr_workloads r) \<lparr>rt_succeeded = 0, rt_skipped = 0, rt_failed = 0, rt_bytes = 0\<rparr>"

record report_row =
  rr_workload :: workload
  rr_status :: "js_string \<times> badge_variant"
  rr_succeeded :: js_string
  rr_skipped :: js_string
  rr_failed :: js_string
  rr_volume :: js_string
  rr_duration :: js_string
  rr_delta :: js_string

definition report_row :: "workload_report \<Rightarrow> report_row" where
  "report_row x =
     \<lparr>rr_workload = wr_workload x, rr_status = StatusBadge (wr_status x),
      rr_succeeded = formatCount (Some (wr_succeeded x)), rr_skipped = formatCount (Some (wr_skipped x)),
      rr_failed = formatCount (Some (wr_failed x)), rr_volume = formatBytes (Some (wr_bytes x)),
      rr_duration = formatDuration (wr_duration_sec x), rr_delta = int_text (wr_delta_passes x)\<rparr>"

datatype report_panel =
    Report_loading
  | Report_unavailable
  | Report_shown js_string js_string report_totals "report_row list"

definition ReportPanel :: "(js_string, per_user_report) async \<Rightarrow> report_panel" where
  "ReportPanel s =
     (if as_loading s then Report_loading
      else
        (case as_data s of
           None \<Rightarrow> Report_unavailable
         | Some (i, r) \<Rightarrow>
             if as_error s \<noteq> None then Report_unavailable
             else Report_shown (pr_source_email r) (pr_target_upn r) (totals r)
                    (map report_row (pr_workloads r))))"

lemma totals_sum:
  "totals r = \<lparr>rt_succeeded = sum_list (map wr_succeeded (pr_workloads r)),
     rt_skipped = sum_list (map wr_skipped (pr_workloads r)),
     rt_failed = sum_list (map wr_failed (pr_workloads r)),
     rt_bytes = sum_list (map wr_bytes (pr_workloads r))\<rparr>"
proof -
  have "fold (\<lambda>x acc. \<lparr>rt_succeeded = rt_succeeded acc + wr_succeeded x,
          rt_skipped = rt_skipped acc + wr_skipped x,
          rt_failed = rt_failed acc + wr_failed x, rt_bytes = rt_bytes acc + wr_bytes x\<rparr>) xs acc =
      \<lparr>rt_succeeded = rt_succeeded acc + sum_list (map wr_succeeded xs),
       rt_skipped = rt_skipped acc + sum_list (map wr_skipped xs),
       rt_failed = rt_failed acc + sum_list (map wr_failed xs),
       rt_bytes = rt_bytes acc + sum_list (map wr_bytes xs)\<rparr>" for xs :: "workload_report list" and acc :: report_totals
    by (induction xs arbitrary: acc) simp_all
  then show ?thesis by (simp add: totals_def)
qed

text \<open>
  The panel shows the report of the selected user only, whatever was selected and loaded
  before, and its totals of skipped and failed items are the entries of the item logs of
  that user's jobs.
\<close>

theorem panel_of_selected:
  assumes "async_step\<^sup>*\<^sup>* (mounted u0) s" and "as_data s = None \<or> (\<exists>u r. as_data s = Some (u, r)
      \<and> buildReport u w = Some r)"
    and "ReportPanel s = Report_shown email upn t rows"
  shows "\<exists>r. buildReport (as_deps s) w = Some r \<and> email = pr_source_email r
    \<and> rt_skipped t + rt_failed t =
       int (sum_list (map (\<lambda>j. length (listByJob (job_id j) (w_items w)))
         (listByMigrationUser (as_deps s) (w_users w) (w_jobs w))))"
proof -
  have ok: "async_ok s" by (rule async.inv_steps [OF assms(1) async_ok_mounted])
  obtain u r where r: "as_data s = Some (u, r)" "\<not> as_loading s" "as_error s = None" "t = totals r"
    "email = pr_source_email r"
    using assms(3) by (auto simp add: ReportPanel_def split: if_splits option.splits)
  then have u: "u = as_deps s" using ok by (auto simp add: async_ok_def)
  with r assms(2) have built: "buildReport (as_deps s) w = Some r" by auto
  have row: "wr_skipped (workload_row w j) + wr_failed (workload_row w j) =
      int (length (listByJob (job_id j) (w_items w)))" for j
    using filter_two [of "\<lambda>i. item_job i = job_id j" "w_items w"]
    by (simp add: workload_row_def countsByJob_def listByJob_def Let_def)
  have "sum_list (map wr_skipped (map (workload_row w) js)) + sum_list (map wr_failed (map (workload_row w) js)) =
      int (sum_list (map (\<lambda>j. length (listByJob (job_id j) (w_items w))) js))" for js
    using row by (induction js) (simp_all add: algebra_simps)
  with built r show ?thesis
    by (auto simp add: totals_sum buildReport_def split: option.splits)
qed

end
