(* ===== verification/Widgets.thy ===== *)
theory Widgets
  imports Monitor
begin

text \<open>
  The building blocks of the screens (\<open>web/src/components\<close>): buttons, inputs, tables, the
  focus of a dialog and the throughput line. Markup, icons and class names that do not carry
  state are left out.
\<close>

section \<open>Buttons, inputs, tables and pills\<close>

record button_view =
  bt_disabled :: bool
  bt_spinner :: bool
  bt_text :: js_string

definition Button :: "bool \<Rightarrow> bool \<Rightarrow> js_string option \<Rightarrow> js_string \<Rightarrow> button_view" where
  "Button disabled loading loadingLabel children =
     \<lparr>bt_disabled = (disabled \<or> loading), bt_spinner = loading,
      bt_text = (if loading then default_to loadingLabel children else children)\<rparr>"

record input_view =
  in_type :: js_string
  in_toggle :: bool
  in_described_by :: "js_string option"
  in_classes :: js_string
  in_hint :: "js_string option"
  in_error :: "js_string option"

text \<open>The state \<open>peek\<close>, and the view of an \<open>Input\<close> under a given id.\<close>

definition Input ::
    "js_string \<Rightarrow> bool \<Rightarrow> bool \<Rightarrow> js_string option \<Rightarrow> js_string option \<Rightarrow> js_string option \<Rightarrow>
     js_string option \<Rightarrow> bool \<Rightarrow> input_view"
where
  "Input inputId secret allowPeek typ hint failure_text className peek =
     (let showToggle = (secret \<and> allowPeek);
          ids = (if truthy failure_text then [inputId @ js ''-error''] else [])
                @ (if truthy hint then [inputId @ js ''-hint''] else []);
          classes = [js ''input''] @ (if secret then [js ''input--mono''] else [])
                @ (if truthy failure_text then [js ''input--error''] else [])
                @ (if showToggle then [js ''input--has-icon''] else [])
                @ (if truthy className then [the className] else [])
      in \<lparr>in_type = (if secret \<and> \<not> peek then js ''password'' else default_to typ (js ''text'')),
          in_toggle = showToggle,
          in_described_by = (if join [32] ids = [] then None else Some (join [32] ids)),
          in_classes = join [32] classes,
          in_hint = (if truthy hint \<and> \<not> truthy failure_text then hint else None),
          in_error = (if truthy failure_text then failure_text else None)\<rparr>)"

datatype 'r grid_body = Grid_empty | Grid_skeletons nat | Grid_rows "'r list"

definition DataGrid :: "bool \<Rightarrow> bool \<Rightarrow> nat \<Rightarrow> 'r list \<Rightarrow> 'r grid_body" where
  "DataGrid loading emptyState skeletonRows rows =
     (if \<not> loading \<and> rows = [] \<and> emptyState then Grid_empty
      else if loading then Grid_skeletons skeletonRows else Grid_rows rows)"

fun workload_label :: "workload \<Rightarrow> js_string" where
  "workload_label Exchange = js ''Exchange''"
| "workload_label Onedrive = js ''OneDrive''"

datatype pill = Pill_text js_string bool | Pill_switch js_string bool bool

definition WorkloadPill :: "workload \<Rightarrow> bool \<Rightarrow> bool \<Rightarrow> bool \<Rightarrow> pill" where
  "WorkloadPill w active switch disabled =
     (if switch then Pill_switch (workload_label w) active disabled else Pill_text (workload_label w) active)"

lemma secret_hidden: "in_type (Input i True allowPeek typ hint e cls False) = js ''password''"
  by (simp add: Input_def Let_def)

section \<open>The focus of a dialog\<close>

text \<open>\<open>trapFocus\<close> over the \<open>n\<close> focusable elements of the dialog: \<open>active\<close> is the place of the
  focused one, the result the place it moves the focus to, \<open>None\<close> when it leaves the key to
  the browser. \<open>Escape\<close> and a press on the backdrop close a dialog that can be dismissed.\<close>

definition trapFocus :: "bool \<Rightarrow> nat option \<Rightarrow> nat \<Rightarrow> nat option" where
  "trapFocus shiftKey active n =
     (if n = 0 then None
      else if shiftKey \<and> active = Some 0 then Some (n - 1)
      else if \<not> shiftKey \<and> active = Some (n - 1) then Some 0
      else None)"

datatype modal_key = Escape | Tab bool | Other_key

definition onKey :: "bool \<Rightarrow> modal_key \<Rightarrow> nat option \<Rightarrow> nat \<Rightarrow> bool \<times> nat option" where
  "onKey dismissable key active n =
     (key = Escape \<and> dismissable, case key of Tab s \<Rightarrow> trapFocus s active n | _ \<Rightarrow> None)"

definition onMouseDown :: "bool \<Rightarrow> bool \<Rightarrow> bool" where
  "onMouseDown dismissable on_backdrop \<longleftrightarrow> dismissable \<and> on_backdrop"

text \<open>A browser that moves to the next or the previous element in document order.\<close>

definition tab_from :: "bool \<Rightarrow> nat \<Rightarrow> nat \<Rightarrow> nat" where
  "tab_from shiftKey n i =
     (case trapFocus shiftKey (Some i) n of Some j \<Rightarrow> j | None \<Rightarrow> if shiftKey then i - 1 else Suc i)"

lemma focus_stays: "i < n \<Longrightarrow> tab_from s n i < n"
  by (auto simp add: tab_from_def trapFocus_def)

lemma focus_cycles:
  assumes "i < n"
  shows "(tab_from False n ^^ k) i = (i + k) mod n"
proof (induction k)
  case (Suc k)
  have lt: "(i + k) mod n < n" using assms by simp
  then have "tab_from False n ((i + k) mod n) = Suc ((i + k) mod n) mod n"
    by (auto simp add: tab_from_def trapFocus_def)
  with Suc show ?case by (simp add: mod_Suc_eq)
qed (use assms in simp)

section \<open>The throughput line\<close>

definition SPARK_WIDTH :: rat where
  "SPARK_WIDTH = 240"

text \<open>The points of the line, \<open>None\<close> for fewer than two samples; exact quotients.\<close>

definition Sparkline :: "rat list \<Rightarrow> rat \<Rightarrow> (rat \<times> rat) list option" where
  "Sparkline samples height =
     (if length samples < 2 then None
      else
        (let hi = foldr max samples 1; lo = foldr min samples 0;
             range = (if hi - lo = 0 then 1 else hi - lo);
             stepX = SPARK_WIDTH / of_nat (length samples - 1)
         in Some (map (\<lambda>i. (of_nat i * stepX, height - 2 - (samples ! i - lo) / range * (height - 4)))
                    [0..<length samples])))"

lemma foldr_bounds:
  fixes xs :: "rat list"
  shows "1 \<le> foldr max xs 1" "foldr min xs 0 \<le> 0"
    "x \<in> set xs \<Longrightarrow> x \<le> foldr max xs 1" "x \<in> set xs \<Longrightarrow> foldr min xs 0 \<le> x"
  by (induction xs) (auto simp add: max_def min_def)

text \<open>
  The line stays inside its box, whatever the samples are: its points run from the left to
  the right edge and keep two units off the top and the bottom.
\<close>

theorem spark_in_box:
  assumes "Sparkline samples height = Some ps" and "4 \<le> height" and "(x, y) \<in> set ps"
  shows "0 \<le> x \<and> x \<le> SPARK_WIDTH \<and> 2 \<le> y \<and> y \<le> height - 2"
proof -
  define hi lo where "hi = foldr max samples 1" and "lo = foldr min samples 0"
  have gap: "0 < hi - lo" using foldr_bounds(1,2) [of samples] by (simp add: hi_def lo_def)
  have two: "2 \<le> length samples" using assms(1) by (simp add: Sparkline_def split: if_splits)
  from assms(1,3) gap obtain i where i: "i < length samples"
    and x: "x = of_nat i * (SPARK_WIDTH / of_nat (length samples - 1))"
    and y: "y = height - 2 - (samples ! i - lo) / (hi - lo) * (height - 4)"
    by (auto simp add: Sparkline_def hi_def lo_def Let_def split: if_splits)
  define f where "f = (samples ! i - lo) / (hi - lo)"
  have "lo \<le> samples ! i" "samples ! i \<le> hi"
    using foldr_bounds(3,4) [of "samples ! i" samples] i by (simp_all add: hi_def lo_def)
  with gap have f: "0 \<le> f" "f \<le> 1" by (simp_all add: f_def)
  have "0 \<le> f * (height - 4)" "f * (height - 4) \<le> height - 4"
    using f assms(2) by (simp_all add: mult_left_le_one_le)
  then have "2 \<le> y" "y \<le> height - 2" by (simp_all add: y f_def)
  moreover have "(of_nat i :: rat) \<le> of_nat (length samples - 1)" using i by simp
  then have "0 \<le> x" "x \<le> SPARK_WIDTH"
    using two by (simp_all add: x SPARK_WIDTH_def field_simps)
  ultimately show ?thesis by simp
qed

end
