(* ===== verification/Shell.thy ===== *)
theory Shell
  imports Session
begin

text \<open>
  The frame of the console: the theme (\<open>web/src/lib/theme.ts\<close>), the branding of the
  deployment (\<open>web/src/lib/appInfo.ts\<close>) and the shell (\<open>web/src/AppShell.tsx\<close>).
\<close>

section \<open>Theme\<close>

datatype theme = Light | Dark

fun theme_text :: "theme \<Rightarrow> js_string" where
  "theme_text Light = js ''light''"
| "theme_text Dark = js ''dark''"

definition read_theme :: "js_string option \<Rightarrow> theme option" where
  "read_theme v =
     (if v = Some (js ''light'') then Some Light else if v = Some (js ''dark'') then Some Dark else None)"

text \<open>The attribute of the document, the local storage, which may be blocked, what the system
  prefers, and the number of times the listeners were called.\<close>

record appearance =
  ap_attr :: "js_string option"
  ap_stored :: "js_string option"
  ap_blocked :: bool
  ap_system_dark :: bool
  ap_emits :: nat

definition readStored :: "appearance \<Rightarrow> theme option" where
  "readStored a = (if ap_blocked a then None else read_theme (ap_stored a))"

definition currentTheme :: "appearance \<Rightarrow> theme" where
  "currentTheme a =
     (case read_theme (ap_attr a) of
        Some t \<Rightarrow> t
      | None \<Rightarrow>
          (case readStored a of Some t \<Rightarrow> t | None \<Rightarrow> if ap_system_dark a then Dark else Light))"

definition setTheme :: "theme \<Rightarrow> appearance \<Rightarrow> appearance" where
  "setTheme t a =
     a\<lparr>ap_attr := Some (theme_text t),
       ap_stored := (if ap_blocked a then ap_stored a else Some (theme_text t)),
       ap_emits := Suc (ap_emits a)\<rparr>"

definition toggleTheme :: "appearance \<Rightarrow> appearance" where
  "toggleTheme a = setTheme (if currentTheme a = Dark then Light else Dark) a"

text \<open>A fresh document with the same storage.\<close>

definition reload_page :: "appearance \<Rightarrow> appearance" where
  "reload_page a = a\<lparr>ap_attr := None, ap_emits := 0\<rparr>"

lemma read_theme_None [simp]: "read_theme None = None"
  by (simp add: read_theme_def)

lemma read_theme_text [simp]: "read_theme (Some (theme_text t)) = Some t"
  by (cases t) (simp_all add: read_theme_def)

text \<open>
  A chosen theme is shown at once, even when the storage is blocked, and is the theme of the
  next visit when it is not; toggling twice comes back to the theme shown.
\<close>

theorem theme_kept:
  "currentTheme (setTheme t a) = t
   \<and> (\<not> ap_blocked a \<longrightarrow> currentTheme (reload_page (setTheme t a)) = t)
   \<and> currentTheme (toggleTheme a) \<noteq> currentTheme a
   \<and> currentTheme (toggleTheme (toggleTheme a)) = currentTheme a"
proof -
  have set: "currentTheme (setTheme u b) = u" for u b by (simp add: currentTheme_def setTheme_def)
  have "currentTheme (toggleTheme b) = (if currentTheme b = Dark then Light else Dark)" for b
    by (simp add: toggleTheme_def set)
  moreover have visit: "\<not> ap_blocked a \<Longrightarrow> currentTheme (reload_page (setTheme t a)) = t"
    by (simp add: currentTheme_def reload_page_def setTheme_def readStored_def)
  moreover have "currentTheme a = Dark \<or> currentTheme a = Light" by (cases "currentTheme a") simp_all
  ultimately show ?thesis
    using set visit by auto
qed

section \<open>Branding\<close>

record app_info =
  ai_project :: js_string
  ai_product :: js_string

definition DEFAULT :: app_info where
  "DEFAULT = \<lparr>ai_project = js ''EntraShift'', ai_product = js ''EntraShift''\<rparr>"

definition applyTitle :: "app_info \<Rightarrow> js_string" where
  "applyTitle i =
     (if ai_project i \<noteq> [] \<and> ai_project i \<noteq> ai_product i
      then ai_project i @ [32, 183, 32] @ ai_product i else ai_product i)"

text \<open>The module's cache, the document title, and one component that uses the hook.\<close>

record branding =
  br_cached :: "app_info option"
  br_title :: js_string
  br_shown :: app_info
  br_alive :: bool
  br_asking :: bool

definition useAppInfo :: "branding \<Rightarrow> branding" where
  "useAppInfo b =
     (case br_cached b of
        Some i \<Rightarrow> b\<lparr>br_shown := i, br_title := applyTitle i, br_alive := True, br_asking := False\<rparr>
      | None \<Rightarrow> b\<lparr>br_shown := DEFAULT, br_alive := True, br_asking := True\<rparr>)"

definition app_info_settled :: "client_exn + app_info \<Rightarrow> branding \<Rightarrow> branding" where
  "app_info_settled r b =
     (case r of
        Inl e \<Rightarrow> b\<lparr>br_asking := False\<rparr>
      | Inr i \<Rightarrow>
          (let b1 = b\<lparr>br_cached := Some i, br_asking := False\<rparr>
           in if br_alive b then b1\<lparr>br_shown := i, br_title := applyTitle i\<rparr> else b1))"

definition unmount :: "branding \<Rightarrow> branding" where
  "unmount b = b\<lparr>br_alive := False\<rparr>"

lemma brand_after_unmount:
  "br_cached b = None \<Longrightarrow> br_shown (useAppInfo (app_info_settled (Inr i) (unmount (useAppInfo b)))) = i"
  by (simp add: useAppInfo_def app_info_settled_def unmount_def Let_def)

section \<open>The shell\<close>

definition NAV :: "(js_string \<times> js_string) list" where
  "NAV =
     [(js ''/'', js ''Dashboard''), (js ''/tenants'', js ''Tenant Connections''),
      (js ''/discovery'', js ''User Discovery''), (js ''/mapping'', js ''Mapping & Provisioning''),
      (js ''/monitor'', js ''Migration Monitor''), (js ''/reports'', js ''Reports''),
      (js ''/audit'', js ''Audit Log''), (js ''/settings'', js ''Settings'')]"

datatype screen =
    Dashboard_screen | Tenants_screen | Discovery_screen | Mapping_screen | Monitor_screen
  | Reports_screen | Audit_screen | Settings_screen

definition ROUTES :: "(js_string \<times> screen) list" where
  "ROUTES =
     [(js ''/'', Dashboard_screen), (js ''/tenants'', Tenants_screen), (js ''/discovery'', Discovery_screen),
      (js ''/mapping'', Mapping_screen), (js ''/monitor'', Monitor_screen), (js ''/reports'', Reports_screen),
      (js ''/audit'', Audit_screen), (js ''/settings'', Settings_screen)]"

text \<open>The screen of a path; any other path is replaced by the dashboard's.\<close>

definition screen_at :: "js_string \<Rightarrow> screen" where
  "screen_at path = (case map_of ROUTES path of Some s \<Rightarrow> s | None \<Rightarrow> Dashboard_screen)"

lemma nav_complete: "map fst NAV = map fst ROUTES \<and> distinct (map snd ROUTES)"
  by (simp add: NAV_def ROUTES_def)

text \<open>\<open>split(/\s+/)\<close>.\<close>

function split_spaces :: "js_string \<Rightarrow> js_string list" where
  "split_spaces s =
     (let rest = dropWhile (\<lambda>c. \<not> js_space c) s
      in takeWhile (\<lambda>c. \<not> js_space c) s #
         (if rest = [] then [] else split_spaces (dropWhile js_space rest)))"
  by pat_completeness auto
termination
proof (relation "measure length")
  fix s rest :: js_string
  assume rest: "rest = dropWhile (\<lambda>c. \<not> js_space c) s" "rest \<noteq> []"
  then have "js_space (hd rest)" using hd_dropWhile [of "\<lambda>c. \<not> js_space c" s] by simp
  then have "length (dropWhile js_space rest) < length rest"
    using rest(2) by (cases rest) (simp_all add: le_imp_less_Suc length_dropWhile_le)
  also have "\<dots> \<le> length s" unfolding rest(1) by (rule length_dropWhile_le)
  finally show "(dropWhile js_space rest, s) \<in> measure length" by simp
qed simp

declare split_spaces.simps [simp del]

text \<open>The initials of a display name; \<open>upper\<close> is the platform's upper-casing of a text.\<close>

definition initials :: "(js_string \<Rightarrow> js_string) \<Rightarrow> js_string option \<Rightarrow> js_string" where
  "initials upper name =
     (if truthy name then upper (concat (map (take 1) (take 2 (split_spaces (the name))))) else [183, 183])"

text \<open>The sign-out button: whatever becomes of the call, the page goes back to the root.\<close>

definition sign_out_click :: "'s server \<Rightarrow> js_string \<Rightarrow> 's client \<Rightarrow> js_string \<times> 's client" where
  "sign_out_click srv base c = (js ''/'', snd (signOut srv base c))"

end
